(* ===== verification/A1_Prelude.thy ===== *)
theory A1_Prelude
  imports Main "HOL-Library.Word" "HOL-Library.AList"
begin

text \<open>
  Shared vocabulary of the development: the Go values that every component uses (errors,
  panics, the width of integers), the collections of facts that carry the component proofs,
  and generic lemmas on lists and association lists.

  A Go \<open>string\<close> is a sequence of bytes, and so is a HOL \<open>string\<close>, whose characters are
  8-bit; no conversion stands between the two.
\<close>

section \<open>Collections of facts\<close>

named_theorems go_str \<open>facts about the string functions of the standard library\<close>
named_theorems go_int \<open>facts about decimal integers and their width\<close>
named_theorems go_run \<open>equations that run a handler to its outcome\<close>

section \<open>Integers, errors, panics\<close>

type_synonym int64 = "64 word"

text \<open>
  A Go \<open>error\<close> value. The two sentinels of \<open>pkg/resthooks/resthooks.go\<close> are compared by
  identity there, so they are constructors of their own; \<open>ErrNew\<close> is an error made in place
  by \<open>errors.New\<close>, and \<open>Foreign\<close> one made by a package outside the repository.
\<close>

datatype go_error =
    TypeAlreadyError
  | TypeMismatchError
  | ErrNew string
  | Foreign string

text \<open>\<open>err.Error()\<close>, the text a panic with an error value carries.\<close>

fun Error :: "go_error \<Rightarrow> string" where
  "Error TypeAlreadyError = ''Policy Type already exists''"
| "Error TypeMismatchError = ''Policytype Mismatch''"
| "Error (ErrNew s) = s"
| "Error (Foreign s) = s"

text \<open>
  A call returns a value or panics. A panic carries its message; \<open>nil_deref\<close> and
  \<open>nil_map_write\<close> are the two run-time panics the code can raise.
\<close>

datatype 'a outcome = Return 'a | Panic string

fun bind_outcome :: "'a outcome \<Rightarrow> ('a \<Rightarrow> 'b outcome) \<Rightarrow> 'b outcome" where
  "bind_outcome (Return x) f = f x"
| "bind_outcome (Panic m) f = Panic m"

abbreviation (input) nil_deref :: string where
  "nil_deref \<equiv> ''invalid memory address or nil pointer dereference''"

abbreviation (input) nil_map_write :: string where
  "nil_map_write \<equiv> ''assignment to entry in nil map''"

lemma bind_outcome_Return_iff:
  "bind_outcome m f = Return y \<longleftrightarrow> (\<exists>x. m = Return x \<and> f x = Return y)"
  by (cases m) auto

lemma bind_outcome_assoc [simp]:
  "bind_outcome (bind_outcome m f) g = bind_outcome m (\<lambda>x. bind_outcome (f x) g)"
  by (cases m) auto

section \<open>Lists\<close>

lemma takeWhile_dropWhile_all:
  assumes "\<forall>x \<in> set xs. P x"
  shows "takeWhile P xs = xs" and "dropWhile P xs = []"
  using assms by simp_all

lemma dropWhile_none: "(\<And>x. x \<in> set xs \<Longrightarrow> \<not> P x) \<Longrightarrow> dropWhile P xs = xs"
  by (cases xs) auto

lemma last_in_list [intro]: "xs \<noteq> [] \<Longrightarrow> last xs \<in> set xs"
  by simp

end
