(* ===== verification/GoStrings.thy ===== *)
theory GoStrings
  imports A1_Prelude
begin

text \<open>
  The functions of Go's packages \<open>strings\<close> and \<open>strconv\<close> that the program calls, as they
  behave in Go 1.16 (the version \<open>go.mod\<close> names). They are used by \<open>pkg/resthooks\<close> (keys
  of the storage), by the generated URL builders and by \<open>operations/a1_api.go\<close>.
\<close>

section \<open>Package strings\<close>

definition HasPrefix :: "string \<Rightarrow> string \<Rightarrow> bool" where
  "HasPrefix s pre \<longleftrightarrow> length pre \<le> length s \<and> take (length pre) s = pre"

definition TrimLeft :: "string \<Rightarrow> string \<Rightarrow> string" where
  "TrimLeft s cutset = dropWhile (\<lambda>c. c \<in> set cutset) s"

definition TrimRight :: "string \<Rightarrow> string \<Rightarrow> string" where
  "TrimRight s cutset = rev (dropWhile (\<lambda>c. c \<in> set cutset) (rev s))"

definition Trim :: "string \<Rightarrow> string \<Rightarrow> string" where
  "Trim s cutset = TrimRight (TrimLeft s cutset) cutset"

text \<open>
  \<open>strings.Split\<close> cuts at the non-overlapping occurrences of a separator, from the left.
  The program only calls it with a non-empty separator; the accumulator holds the bytes of
  the piece being read, in reverse.
\<close>

function split_from :: "string \<Rightarrow> string \<Rightarrow> string \<Rightarrow> string list" where
  "split_from sep acc s =
     (if s = [] \<or> sep = [] then [rev acc @ s]
      else if HasPrefix s sep then rev acc # split_from sep [] (drop (length sep) s)
      else split_from sep (hd s # acc) (tl s))"
  by pat_completeness auto
termination
  by (relation "measure (\<lambda>(sep, acc, s). length s)") (auto simp: HasPrefix_def)

declare split_from.simps [simp del]

definition Split :: "string \<Rightarrow> string \<Rightarrow> string list" where
  "Split s sep = split_from sep [] s"

fun Join :: "string list \<Rightarrow> string \<Rightarrow> string" where
  "Join [] sep = []"
| "Join [x] sep = x"
| "Join (x # y # ys) sep = x @ sep @ Join (y # ys) sep"

text \<open>\<open>strings.Replace(s, old, new, -1)\<close> for a non-empty \<open>old\<close>.\<close>

definition Replace :: "string \<Rightarrow> string \<Rightarrow> string \<Rightarrow> string" where
  "Replace s old new = Join (Split s old) new"

text \<open>\<open>strings.ToUpper\<close> on the ASCII bytes an HTTP method consists of.\<close>

definition upper_char :: "char \<Rightarrow> char" where
  "upper_char c = (if 97 \<le> (of_char c :: nat) \<and> (of_char c :: nat) \<le> 122
                   then char_of ((of_char c :: nat) - 32) else c)"

definition ToUpper :: "string \<Rightarrow> string" where
  "ToUpper s = map upper_char s"

section \<open>Package strconv\<close>

definition digit_char :: "int \<Rightarrow> char" where
  "digit_char d = char_of (48 + d)"

definition digit_val :: "char \<Rightarrow> int option" where
  "digit_val c = (let n = (of_char c :: int) in if 48 \<le> n \<and> n \<le> 57 then Some (n - 48) else None)"

function format_uint :: "int \<Rightarrow> string" where
  "format_uint n = (if n < 10 then [digit_char n] else format_uint (n div 10) @ [digit_char (n mod 10)])"
  by pat_completeness auto
termination
  by (relation "measure nat") auto

declare format_uint.simps [simp del]

text \<open>\<open>strconv.FormatInt(i, 10)\<close>.\<close>

definition FormatInt :: "int64 \<Rightarrow> string" where
  "FormatInt i = (if sint i < 0 then CHR ''-'' # format_uint (- sint i) else format_uint (sint i))"

datatype num_error = ErrSyntax | ErrRange

definition maxUint64 :: int where
  "maxUint64 = 2 ^ 64 - 1"

definition cutoff64 :: int where
  "cutoff64 = maxUint64 div 10 + 1"

text \<open>
  The loop of \<open>strconv.ParseUint(s, 10, 64)\<close>: a byte that is no digit is a syntax error, and
  an overflow ends the loop at once, whatever bytes follow.
\<close>

fun parse_digits :: "int \<Rightarrow> string \<Rightarrow> int \<times> num_error option" where
  "parse_digits n [] = (n, None)"
| "parse_digits n (c # cs) =
     (case digit_val c of
        None \<Rightarrow> (0, Some ErrSyntax)
      | Some d \<Rightarrow>
          if cutoff64 \<le> n then (maxUint64, Some ErrRange)
          else if maxUint64 < n * 10 + d then (maxUint64, Some ErrRange)
          else parse_digits (n * 10 + d) cs)"

definition ParseUint :: "string \<Rightarrow> int \<times> num_error option" where
  "ParseUint s = (if s = [] then (0, Some ErrSyntax) else parse_digits 0 s)"

text \<open>
  \<open>strconv.ParseInt(s, 10, 64)\<close>: the value is returned beside the error, 0 after a syntax
  error and the nearest 64-bit value after a range error.
\<close>

definition ParseInt :: "string \<Rightarrow> int64 \<times> num_error option" where
  "ParseInt s =
     (if s = [] then (0, Some ErrSyntax)
      else
        let neg = (hd s = CHR ''-'');
            digits = (if hd s = CHR ''+'' \<or> hd s = CHR ''-'' then tl s else s);
            (un, err) = ParseUint digits
        in if err = Some ErrSyntax then (0, Some ErrSyntax)
           else if \<not> neg \<and> 2 ^ 63 \<le> un then (2 ^ 63 - 1, Some ErrRange)
           else if neg \<and> 2 ^ 63 < un then (- (2 ^ 63), Some ErrRange)
           else (if neg then - word_of_int un else word_of_int un, None))"

section \<open>Facts about package strings\<close>

lemma HasPrefix_append [simp, go_str]: "HasPrefix (pre @ s) pre"
  by (simp add: HasPrefix_def)

lemma HasPrefix_iff [go_str]: "HasPrefix s pre \<longleftrightarrow> (\<exists>t. s = pre @ t)"
  by (auto simp: HasPrefix_def) (metis append_take_drop_id)

lemma HasPrefix_hd: "HasPrefix s pre \<Longrightarrow> pre \<noteq> [] \<Longrightarrow> hd pre \<in> set s"
  by (cases pre) (auto simp: HasPrefix_iff)

lemma TrimLeft_id: "s = [] \<or> hd s \<notin> set cs \<Longrightarrow> TrimLeft s cs = s"
  by (cases s) (auto simp: TrimLeft_def)

lemma TrimRight_id: "s = [] \<or> last s \<notin> set cs \<Longrightarrow> TrimRight s cs = s"
  by (cases s rule: rev_cases) (auto simp: TrimRight_def)

lemma Trim_id:
  assumes "s \<noteq> []" and "hd s \<notin> set cs" and "last s \<notin> set cs"
  shows "Trim s cs = s"
  using assms by (simp add: Trim_def TrimLeft_id TrimRight_id)

text \<open>Spaces around a string disappear, and nothing else does.\<close>

lemma TrimLeft_pad:
  assumes "set pad \<subseteq> set cs"
  shows "TrimLeft (pad @ s) cs = TrimLeft s cs"
  using assms by (simp add: TrimLeft_def subset_iff)

lemma TrimRight_pad:
  assumes "set pad \<subseteq> set cs"
  shows "TrimRight (s @ pad) cs = TrimRight s cs"
proof -
  have "dropWhile (\<lambda>c. c \<in> set cs) (rev pad @ rev s) = dropWhile (\<lambda>c. c \<in> set cs) (rev s)"
    by (rule dropWhile_append2) (use assms in auto)
  then show ?thesis by (simp add: TrimRight_def)
qed

lemma Trim_pad:
  assumes "s \<noteq> []" and "hd s \<notin> set cs" and "last s \<notin> set cs"
    and "set l \<subseteq> set cs" and "set r \<subseteq> set cs"
  shows "Trim (l @ s @ r) cs = s" and "TrimLeft (l @ s @ r) cs = s @ r"
proof -
  show left: "TrimLeft (l @ s @ r) cs = s @ r"
    using assms by (simp add: TrimLeft_pad TrimLeft_id)
  show "Trim (l @ s @ r) cs = s"
    using assms by (simp add: Trim_def left TrimRight_pad TrimRight_id)
qed

lemma split_from_absent:
  assumes "sep \<noteq> []" and "hd sep \<notin> set s"
  shows "split_from sep acc s = [rev acc @ s]"
  using assms
proof (induction s arbitrary: acc)
  case Nil
  then show ?case by (simp add: split_from.simps)
next
  case (Cons c s)
  then have "\<not> HasPrefix (c # s) sep"
    by (auto dest: HasPrefix_hd)
  with Cons show ?case by (simp add: split_from.simps [of sep acc "c # s"])
qed

lemma split_from_prefix:
  assumes "sep \<noteq> []"
  shows "split_from sep acc (sep @ s) = rev acc # split_from sep [] s"
  using assms by (simp add: split_from.simps [of sep acc "sep @ s"])

lemma Split_prefix [go_str]:
  assumes "sep \<noteq> []" and "hd sep \<notin> set s"
  shows "Split (sep @ s) sep = [[], s]"
  using assms by (simp add: Split_def split_from_prefix split_from_absent)

lemma Join_Cons: "xs \<noteq> [] \<Longrightarrow> Join (x # xs) sep = x @ sep @ Join xs sep"
  by (cases xs) auto

lemma split_from_not_Nil [simp]: "split_from sep acc s \<noteq> []"
  by (induction sep acc s rule: split_from.induct) (simp add: split_from.simps)

lemma Join_split_from: "Join (split_from sep acc s) sep = rev acc @ s"
proof (induction sep acc s rule: split_from.induct)
  case (1 sep acc s)
  consider "s = [] \<or> sep = []" | "s \<noteq> []" "sep \<noteq> []" "HasPrefix s sep"
    | "s \<noteq> []" "sep \<noteq> []" "\<not> HasPrefix s sep" by blast
  then show ?case
  proof cases
    case 1
    then show ?thesis by (auto simp: split_from.simps [of sep acc s])
  next
    case 2
    then obtain t where "s = sep @ t" by (auto simp: HasPrefix_iff)
    with 2 "1.IH"(1) show ?thesis by (simp add: split_from_prefix Join_Cons)
  next
    case 3
    with "1.IH"(2) show ?thesis by (simp add: split_from.simps [of sep acc s])
  qed
qed

lemma Join_Split [go_str]: "Join (Split s sep) sep = s"
  by (simp add: Split_def Join_split_from)

text \<open>No piece contains the separator when the separator is one byte.\<close>

lemma split_from_byte:
  "piece \<in> set (split_from [c] acc s) \<Longrightarrow> c \<notin> set acc \<Longrightarrow> c \<notin> set piece"
proof (induction "[c]" acc s rule: split_from.induct)
  case (1 acc s)
  show ?case
  proof (cases s)
    case Nil
    with 1 show ?thesis by (simp add: split_from.simps)
  next
    case (Cons x xs)
    with 1 show ?thesis
      by (auto simp: split_from.simps [of "[c]" acc "x # xs"] HasPrefix_def split: if_splits)
  qed
qed

lemma Split_byte: "piece \<in> set (Split s [c]) \<Longrightarrow> c \<notin> set piece"
  by (auto simp: Split_def dest: split_from_byte)

lemma split_from_byte_append:
  assumes "c \<notin> set x"
  shows "split_from [c] acc (x @ c # s) = (rev acc @ x) # split_from [c] [] s"
  using assms
  by (induction x arbitrary: acc)
     (auto simp: split_from.simps [of "[c]" _ "_ # _"] HasPrefix_def)

lemma Split_Join_byte:
  assumes "xs \<noteq> []" and "\<forall>x \<in> set xs. c \<notin> set x"
  shows "Split (Join xs [c]) [c] = xs"
  using assms
proof (induction xs rule: induct_list012)
  case (2 x)
  then show ?case by (simp add: Split_def split_from_absent)
next
  case (3 x y zs)
  then show ?case by (simp add: Split_def split_from_byte_append)
qed simp

lemma upper_char_idem [simp]: "upper_char (upper_char c) = upper_char c"
  by (auto simp: upper_char_def)

lemma ToUpper_idem [simp, go_str]: "ToUpper (ToUpper s) = ToUpper s"
  by (simp add: ToUpper_def)

section \<open>Facts about package strconv\<close>

lemma digit_val_char [simp]: "0 \<le> d \<Longrightarrow> d < 10 \<Longrightarrow> digit_val (digit_char d) = Some d"
  by (simp add: digit_val_def digit_char_def Let_def)

lemma digit_val_Some: "digit_val c = Some d \<Longrightarrow> 0 \<le> d \<and> d < 10"
  by (auto simp: digit_val_def Let_def split: if_splits)

lemma format_uint_not_Nil [simp]: "format_uint n \<noteq> []"
  by (subst format_uint.simps) simp

lemma format_uint_digits:
  "0 \<le> n \<Longrightarrow> c \<in> set (format_uint n) \<Longrightarrow> digit_val c \<noteq> None"
proof (induction n rule: format_uint.induct)
  case (1 n)
  then show ?case
    by (cases "n < 10") (auto simp: format_uint.simps [of n])
qed

lemma parse_digits_append:
  "parse_digits m xs = (k, None) \<Longrightarrow> parse_digits m (xs @ ys) = parse_digits k ys"
  by (induction m xs rule: parse_digits.induct) (auto split: option.splits if_splits)

lemma parse_digits_format:
  "0 \<le> n \<Longrightarrow> n \<le> maxUint64 \<Longrightarrow> parse_digits 0 (format_uint n) = (n, None)"
proof (induction n rule: format_uint.induct)
  case (1 n)
  show ?case
  proof (cases "n < 10")
    case True
    with 1 show ?thesis
      by (simp add: format_uint.simps [of n] cutoff64_def maxUint64_def)
  next
    case False
    with 1 have "parse_digits 0 (format_uint (n div 10)) = (n div 10, None)"
      by (auto simp: maxUint64_def)
    moreover have "n div 10 < cutoff64"
      using "1.prems" by (auto simp: cutoff64_def maxUint64_def)
    moreover have "n div 10 * 10 + n mod 10 = n" by simp
    ultimately show ?thesis
      using False "1.prems"
      by (simp add: format_uint.simps [of n] parse_digits_append)
  qed
qed

lemma sint_int64_bounds: "- (2 ^ 63) \<le> sint (i :: int64)" "sint (i :: int64) < 2 ^ 63"
  using sint_range_size [of i] by (simp_all add: word_size)

lemma hd_format_uint:
  assumes "0 \<le> n"
  shows "hd (format_uint n) \<noteq> CHR ''-'' \<and> hd (format_uint n) \<noteq> CHR ''+''"
proof -
  have "digit_val (hd (format_uint n)) \<noteq> None"
    using format_uint_digits [OF assms] by simp
  then show ?thesis by (auto simp: digit_val_def)
qed

theorem ParseInt_FormatInt [simp, go_int]: "ParseInt (FormatInt i) = (i, None)"
proof (cases "sint i < 0")
  case True
  have "ParseUint (format_uint (- sint i)) = (- sint i, None)"
    using True sint_int64_bounds [of i]
    by (simp add: ParseUint_def parse_digits_format maxUint64_def)
  moreover have "- word_of_int (- sint i) = i" by simp
  ultimately show ?thesis
    using True sint_int64_bounds [of i]
    by (simp add: ParseInt_def FormatInt_def Let_def)
next
  case False
  then have "0 \<le> sint i" by simp
  then have "ParseUint (format_uint (sint i)) = (sint i, None)"
    using sint_int64_bounds [of i]
    by (simp add: ParseUint_def parse_digits_format maxUint64_def)
  then show ?thesis
    using False hd_format_uint [OF \<open>0 \<le> sint i\<close>] sint_int64_bounds [of i]
    by (simp add: ParseInt_def FormatInt_def Let_def)
qed

lemma FormatInt_inject [simp, go_int]: "FormatInt i = FormatInt j \<longleftrightarrow> i = j"
  using ParseInt_FormatInt by (metis prod.inject)

lemma FormatInt_not_Nil [simp, go_int]: "FormatInt i \<noteq> []"
  by (simp add: FormatInt_def)

lemma FormatInt_chars [go_int]:
  "c \<in> set (FormatInt i) \<Longrightarrow> c = CHR ''-'' \<or> digit_val c \<noteq> None"
  using format_uint_digits [of "sint i"] format_uint_digits [of "- sint i"]
  by (auto simp: FormatInt_def split: if_splits)

text \<open>The bytes a decimal number never contains.\<close>

lemma FormatInt_no_byte [go_int]:
  assumes "digit_val c = None" and "c \<noteq> CHR ''-''"
  shows "c \<notin> set (FormatInt i)"
  using assms FormatInt_chars by blast

end
