(* ===== verification/GoPath.thy ===== *)
theory GoPath
  imports GoStrings
begin

text \<open>
  The parts of Go's packages \<open>path\<close> and \<open>net/url\<close> the URL builders use: \<open>path.Join\<close>, which cleans
  its result, and \<open>url.URL\<close> with its text, as they behave in Go 1.16.
\<close>

section \<open>Package path\<close>

text \<open>
  \<open>path.Clean\<close> works segment by segment: empty segments and \<open>.\<close> vanish, \<open>..\<close> removes the segment
  before it, and is dropped at the root of a rooted path.
\<close>

definition clean_step :: "bool \<Rightarrow> string \<Rightarrow> string list \<Rightarrow> string list" where
  "clean_step rooted seg out =
     (if seg = [] \<or> seg = ''.'' then out
      else if seg = ''..'' then
        (if out \<noteq> [] \<and> last out \<noteq> ''..'' then butlast out
         else if rooted then out else out @ [''..''])
      else out @ [seg])"

definition clean_segments :: "bool \<Rightarrow> string list \<Rightarrow> string list" where
  "clean_segments rooted segs = fold (clean_step rooted) segs []"

definition Clean :: "string \<Rightarrow> string" where
  "Clean s =
     (if s = [] then ''.''
      else let rooted = (hd s = CHR ''/''); body = Join (clean_segments rooted (Split s ''/'')) ''/''
        in if rooted then CHR ''/'' # body
           else if body = [] then ''.'' else body)"

text \<open>\<open>path.Join\<close>: the non-empty elements joined by slashes, cleaned; no element, no path.\<close>

definition path_Join :: "string list \<Rightarrow> string" where
  "path_Join elems =
     (let es = filter (\<lambda>e. e \<noteq> []) elems in if es = [] then [] else Clean (Join es ''/''))"

section \<open>Package net/url\<close>

record url =
  Scheme :: string
  Host :: string
  UPath :: string

definition zero_url :: url where
  "zero_url = \<lparr>Scheme = [], Host = [], UPath = []\<rparr>"

definition alnum :: "char \<Rightarrow> bool" where
  "alnum c \<longleftrightarrow> (let n = (of_char c :: nat) in
     48 \<le> n \<and> n \<le> 57 \<or> 65 \<le> n \<and> n \<le> 90 \<or> 97 \<le> n \<and> n \<le> 122)"

definition path_char :: "char \<Rightarrow> bool" where
  "path_char c \<longleftrightarrow> alnum c \<or> c \<in> set ''-_.~$&+,/:;=@''"

definition host_char :: "char \<Rightarrow> bool" where
  "host_char c \<longleftrightarrow> alnum c \<or> c \<in> set ''-_.~!$&()*+,;=:[]<>'' \<or> c = CHR 0x27 \<or> c = CHR 0x22"

definition hex_char :: "nat \<Rightarrow> char" where
  "hex_char n = (if n < 10 then char_of (48 + n) else char_of (55 + n))"

definition hex_val :: "char \<Rightarrow> nat option" where
  "hex_val c = (let n = of_char c in
     if 48 \<le> n \<and> n \<le> 57 then Some (n - 48)
     else if 65 \<le> n \<and> n \<le> 70 then Some (n - 55)
     else if 97 \<le> n \<and> n \<le> 102 then Some (n - 87) else None)"

definition escape_char :: "(char \<Rightarrow> bool) \<Rightarrow> char \<Rightarrow> string" where
  "escape_char plain c =
     (if plain c then [c] else let n = of_char c in [CHR ''%'', hex_char (n div 16), hex_char (n mod 16)])"

definition url_escape :: "(char \<Rightarrow> bool) \<Rightarrow> string \<Rightarrow> string" where
  "url_escape plain s = concat (map (escape_char plain) s)"

definition EscapedPath :: "url \<Rightarrow> string" where
  "EscapedPath u = (if UPath u = ''*'' then ''*'' else url_escape path_char (UPath u))"

definition url_String :: "url \<Rightarrow> string" where
  "url_String u =
     (let buf1 = (if Scheme u \<noteq> [] then Scheme u @ '':'' else []);
          buf2 = (if Scheme u \<noteq> [] \<or> Host u \<noteq> [] then
                    buf1 @ (if Host u \<noteq> [] \<or> UPath u \<noteq> [] then ''//'' else [])
                    @ (if Host u \<noteq> [] then url_escape host_char (Host u) else [])
                  else buf1);
          path = EscapedPath u;
          buf3 = (if path \<noteq> [] \<and> hd path \<noteq> CHR ''/'' \<and> Host u \<noteq> [] then buf2 @ ''/'' else buf2);
          buf4 = (if buf3 = [] \<and> CHR '':'' \<in> set path \<and> CHR ''/'' \<notin> set (takeWhile (\<lambda>c. c \<noteq> CHR '':'') path)
                  then ''./'' else buf3)
      in buf4 @ path)"

text \<open>\<open>url.PathUnescape\<close>, as far as escaped text needs it.\<close>

fun url_unescape :: "string \<Rightarrow> string option" where
  "url_unescape [] = Some []"
| "url_unescape (c # cs) =
     (if c = CHR ''%'' then
        (case cs of
           h # l # rest \<Rightarrow>
             (case (hex_val h, hex_val l) of
                (Some a, Some b) \<Rightarrow> map_option (\<lambda>t. char_of (16 * a + b) # t) (url_unescape rest)
              | _ \<Rightarrow> None)
         | _ \<Rightarrow> None)
      else map_option (\<lambda>t. c # t) (url_unescape cs))"

section \<open>Clean paths\<close>

definition good_seg :: "string \<Rightarrow> bool" where
  "good_seg s \<longleftrightarrow> s \<noteq> [] \<and> s \<noteq> ''.'' \<and> s \<noteq> ''..'' \<and> CHR ''/'' \<notin> set s"

lemma Split_slash: "Split (CHR ''/'' # t) ''/'' = [] # Split t ''/''"
  using split_from_prefix [of "''/''" "[]" t] by (simp add: Split_def)

lemma clean_segments_Nil [simp]: "clean_segments rooted [] = []"
  by (simp add: clean_segments_def)

lemma clean_segments_good:
  "list_all good_seg segs \<Longrightarrow> clean_segments rooted (segs @ segs2) = fold (clean_step rooted) segs2 segs"
proof -
  have "list_all good_seg segs \<Longrightarrow> fold (clean_step rooted) segs out = out @ segs" for out
    by (induction segs arbitrary: out) (simp_all add: clean_step_def good_seg_def)
  then show "list_all good_seg segs \<Longrightarrow> ?thesis" by (simp add: clean_segments_def)
qed

lemma clean_segments_append: "clean_segments rooted (xs @ ys) = fold (clean_step rooted) ys (clean_segments rooted xs)"
  by (simp add: clean_segments_def)

lemma clean_segments_Nil_head: "clean_segments rooted ([] # segs) = clean_segments rooted segs"
  by (simp add: clean_segments_def clean_step_def)

lemma Clean_rooted: "Clean (CHR ''/'' # t) = CHR ''/'' # Join (clean_segments True (Split t ''/'')) ''/''"
  by (simp add: Clean_def Split_slash clean_segments_Nil_head)

text \<open>A rooted path is cleaned to good segments only.\<close>

lemma clean_step_good:
  assumes "list_all good_seg out" and "CHR ''/'' \<notin> set seg"
  shows "list_all good_seg (clean_step True seg out)"
  using assms
  by (auto simp: clean_step_def good_seg_def list_all_iff dest: in_set_butlastD)

lemma clean_segments_all_good:
  "list_all (\<lambda>s. CHR ''/'' \<notin> set s) segs \<Longrightarrow> list_all good_seg (clean_segments True segs)"
proof -
  have "list_all (\<lambda>s. CHR ''/'' \<notin> set s) segs \<Longrightarrow> list_all good_seg out \<Longrightarrow>
      list_all good_seg (fold (clean_step True) segs out)" for out
    by (induction segs arbitrary: out) (simp_all add: clean_step_good)
  then show "list_all (\<lambda>s. CHR ''/'' \<notin> set s) segs \<Longrightarrow> ?thesis" by (simp add: clean_segments_def)
qed

lemma Clean_rooted_good:
  "\<exists>segs. Clean (CHR ''/'' # t) = CHR ''/'' # Join segs ''/'' \<and> list_all good_seg segs"
proof -
  have "list_all (\<lambda>s. CHR ''/'' \<notin> set s) (Split t ''/'')"
    using Split_byte [of _ t "CHR ''/''"] by (auto simp: list_all_iff)
  then show ?thesis using clean_segments_all_good Clean_rooted by blast
qed

lemma Clean_Join:
  assumes "segs \<noteq> []" and "list_all (\<lambda>s. CHR ''/'' \<notin> set s) segs"
  shows "Clean (CHR ''/'' # Join segs ''/'') = CHR ''/'' # Join (clean_segments True segs) ''/''"
  using Split_Join_byte [of segs "CHR ''/''"] assms by (simp add: Clean_rooted list_all_iff)

lemma clean_segments_id: "list_all good_seg segs \<Longrightarrow> clean_segments True segs = segs"
  using clean_segments_good [of segs True "[]"] by simp

lemma FormatInt_good [simp]: "good_seg (FormatInt i)"
proof -
  have "CHR ''/'' \<notin> set (FormatInt i)" "CHR ''.'' \<notin> set (FormatInt i)"
    by (rule FormatInt_no_byte; simp add: digit_val_def)+
  then show ?thesis by (auto simp: good_seg_def)
qed

section \<open>Substituting into a path\<close>

lemma Replace_absent: "old \<noteq> [] \<Longrightarrow> hd old \<notin> set s \<Longrightarrow> Replace s old new = s"
  by (simp add: Replace_def Split_def split_from_absent)

lemma split_from_upto:
  assumes "old \<noteq> []" and "hd old \<notin> set pre"
  shows "split_from old acc (pre @ old @ t) = (rev acc @ pre) # split_from old [] t"
  using assms(2)
proof (induction pre arbitrary: acc)
  case Nil
  then show ?case using assms(1) by (simp add: split_from_prefix)
next
  case (Cons c pre)
  then have "\<not> HasPrefix (c # pre @ old @ t) old"
    using assms(1) by (cases old) (auto simp: HasPrefix_def)
  with Cons assms(1) show ?case
    by (simp add: split_from.simps [of old acc "c # pre @ old @ t"])
qed

lemma Replace_upto:
  "old \<noteq> [] \<Longrightarrow> hd old \<notin> set pre \<Longrightarrow> Replace (pre @ old @ t) old new = pre @ new @ Replace t old new"
  by (simp add: Replace_def Split_def split_from_upto Join_Cons)

section \<open>Escaped text\<close>

lemma hex_val_char [simp]: "n < 16 \<Longrightarrow> hex_val (hex_char n) = Some n"
  by (auto simp: hex_val_def hex_char_def Let_def)

lemma url_unescape_escape:
  assumes "\<not> plain (CHR ''%'')"
  shows "url_unescape (url_escape plain s) = Some s"
proof (induction s)
  case (Cons c s)
  have lt: "(of_char c :: nat) < 256" by simp
  show ?case
  proof (cases "plain c")
    case True
    then have "c \<noteq> CHR ''%''" using assms by auto
    with Cons True show ?thesis by (simp add: url_escape_def escape_char_def)
  next
    case False
    have "16 * (of_char c div 16) + of_char c mod 16 = (of_char c :: nat)"
      by (rule mult_div_mod_eq)
    with Cons False lt show ?thesis
      by (simp add: url_escape_def escape_char_def Let_def less_mult_imp_div_less)
  qed
qed (simp add: url_escape_def)

lemma percent_escaped: "\<not> path_char (CHR ''%'')" "\<not> host_char (CHR ''%'')"
  by (simp_all add: path_char_def host_char_def alnum_def)

lemma url_escape_rooted:
  "url_escape path_char (CHR ''/'' # s) = CHR ''/'' # url_escape path_char s"
  by (simp add: url_escape_def escape_char_def path_char_def)

end
