(* ===== verification/Json.thy ===== *)
theory Json
  imports GoStrings "HOL-Library.Char_ord" "HOL-Library.List_Lexorder"
begin

text \<open>
  The part of Go's package \<open>encoding/json\<close> (Go 1.16) the program relies on: the values an
  \<open>interface{}\<close> holds after decoding, the encoder of strings and values, and the decoder.
  \<open>pkg/resthooks/resthooks.go\<close> stores a policy type as a JSON text and reads it back with
  \<open>json.Unmarshal\<close>; the section on round trips shows when reading gives back what was stored.

  A number is represented by its literal: it stands for the \<open>json.Number\<close> of a request body,
  and for the \<open>float64\<close> nearest to the literal after \<open>json.Unmarshal\<close>.
  An object is an association list; the decoder's text order is kept in \<open>JObject\<close>, and
  \<open>iface_of\<close> gives the Go map (keys sorted, the last duplicate wins) as a list again.
\<close>

datatype json =
    JNull
  | JBool bool
  | JNumber string
  | JString string
  | JArray "json list"
  | JObject "(string \<times> json) list"

section \<open>UTF-8\<close>

abbreviation byte :: "char \<Rightarrow> int" where
  "byte c \<equiv> of_char c"

definition cont_byte :: "char \<Rightarrow> bool" where
  "cont_byte c \<longleftrightarrow> 128 \<le> byte c \<and> byte c \<le> 191"

text \<open>
  The length of the UTF-8 sequence at the front of a string, as \<open>utf8.DecodeRune\<close> accepts it:
  no overlong forms, no surrogates, nothing beyond U+10FFFF. \<open>None\<close> is the error result
  (\<open>RuneError\<close> of width 1).
\<close>

definition utf8_len2 :: "char \<Rightarrow> char \<Rightarrow> bool" where
  "utf8_len2 a b \<longleftrightarrow> 194 \<le> byte a \<and> byte a \<le> 223 \<and> cont_byte b"

definition utf8_len3 :: "char \<Rightarrow> char \<Rightarrow> char \<Rightarrow> bool" where
  "utf8_len3 a b c \<longleftrightarrow> 224 \<le> byte a \<and> byte a \<le> 239 \<and> cont_byte b \<and> cont_byte c
     \<and> (byte a = 224 \<longrightarrow> 160 \<le> byte b) \<and> (byte a = 237 \<longrightarrow> byte b \<le> 159)"

definition utf8_len4 :: "char \<Rightarrow> char \<Rightarrow> char \<Rightarrow> char \<Rightarrow> bool" where
  "utf8_len4 a b c d \<longleftrightarrow> 240 \<le> byte a \<and> byte a \<le> 244 \<and> cont_byte b \<and> cont_byte c \<and> cont_byte d
     \<and> (byte a = 240 \<longrightarrow> 144 \<le> byte b) \<and> (byte a = 244 \<longrightarrow> byte b \<le> 143)"

definition utf8_len :: "string \<Rightarrow> nat option" where
  "utf8_len s =
     (if 1 \<le> length s \<and> byte (s ! 0) < 128 then Some 1
      else if 2 \<le> length s \<and> utf8_len2 (s ! 0) (s ! 1) then Some 2
      else if 3 \<le> length s \<and> utf8_len3 (s ! 0) (s ! 1) (s ! 2) then Some 3
      else if 4 \<le> length s \<and> utf8_len4 (s ! 0) (s ! 1) (s ! 2) (s ! 3) then Some 4
      else None)"

text \<open>\<open>utf8.EncodeRune\<close>; surrogates and values out of range become U+FFFD.\<close>

definition encode_rune :: "int \<Rightarrow> string" where
  "encode_rune r =
     (if 0 \<le> r \<and> r < 128 then [char_of r]
      else if 0 \<le> r \<and> r < 2048 then [char_of (192 + r div 64), char_of (128 + r mod 64)]
      else if r < 0 \<or> 1114111 < r \<or> (55296 \<le> r \<and> r < 57344)
      then [char_of (239::int), char_of (191::int), char_of (189::int)]
      else if r < 65536
      then [char_of (224 + r div 4096), char_of (128 + r div 64 mod 64), char_of (128 + r mod 64)]
      else [char_of (240 + r div 262144), char_of (128 + r div 4096 mod 64),
            char_of (128 + r div 64 mod 64), char_of (128 + r mod 64)])"

definition replacement :: string where
  "replacement = encode_rune 65533"

section \<open>Encoding\<close>

definition hex_digit :: "int \<Rightarrow> char" where
  "hex_digit d = (if d < 10 then char_of (48 + d) else char_of (87 + d))"

text \<open>The table \<open>htmlSafeSet\<close>: ASCII bytes that need no escape inside a string.\<close>

definition html_safe :: "char \<Rightarrow> bool" where
  "html_safe c \<longleftrightarrow> 32 \<le> byte c \<and> byte c < 128 \<and> c \<notin> set [CHR 0x22, CHR ''&'', CHR ''<'', CHR ''>'', CHR 0x5C]"

definition escape_ascii :: "char \<Rightarrow> string" where
  "escape_ascii c =
     (if html_safe c then [c]
      else if c = CHR 0x22 \<or> c = CHR 0x5C then [CHR 0x5C, c]
      else if c = CHR 0x0A then [CHR 0x5C, CHR ''n'']
      else if c = CHR 0x0D then [CHR 0x5C, CHR ''r'']
      else if c = CHR 0x09 then [CHR 0x5C, CHR ''t'']
      else [CHR 0x5C, CHR ''u'', CHR ''0'', CHR ''0'', hex_digit (byte c div 16), hex_digit (byte c mod 16)])"

definition line_separator :: "string \<Rightarrow> bool" where
  "line_separator s \<longleftrightarrow> s = [CHR 0xE2, CHR 0x80, CHR 0xA8] \<or> s = [CHR 0xE2, CHR 0x80, CHR 0xA9]"

text \<open>The loop of \<open>encodeState.string\<close> with HTML escaping on.\<close>

function escape_body :: "string \<Rightarrow> string" where
  "escape_body s =
     (if s = [] then []
      else if byte (hd s) < 128 then escape_ascii (hd s) @ escape_body (tl s)
      else case utf8_len s of
        None \<Rightarrow> CHR 0x5C # ''ufffd'' @ escape_body (tl s)
      | Some n \<Rightarrow>
          (if line_separator (take n s)
           then CHR 0x5C # ''u202'' @ [hex_digit (byte (s ! 2) mod 16)]
           else take n s) @ escape_body (drop (max 1 n) s))"
  by pat_completeness auto
termination
  by (relation "measure length") (auto simp: neq_Nil_conv)

declare escape_body.simps [simp del]

definition encode_string :: "string \<Rightarrow> string" where
  "encode_string s = CHR 0x22 # escape_body s @ [CHR 0x22]"

fun commas :: "string list \<Rightarrow> string" where
  "commas xs = Join xs '',''"

text \<open>Values: map keys are written in ascending order.\<close>

fun encode_value :: "json \<Rightarrow> string" where
  "encode_value JNull = ''null''"
| "encode_value (JBool b) = (if b then ''true'' else ''false'')"
| "encode_value (JNumber lit) = (if lit = [] then ''0'' else lit)"
| "encode_value (JString s) = encode_string s"
| "encode_value (JArray vs) = ''['' @ commas (map encode_value vs) @ '']''"
| "encode_value (JObject kvs) =
     ''{'' @ commas (map snd (sort_key fst (map (\<lambda>(k, v). (k, encode_string k @ '':'' @ encode_value v)) kvs))) @ ''}''"

section \<open>Decoding\<close>

definition is_ws :: "char \<Rightarrow> bool" where
  "is_ws c \<longleftrightarrow> c \<in> set [CHR 0x20, CHR 0x09, CHR 0x0A, CHR 0x0D]"

definition skip_ws :: "string \<Rightarrow> string" where
  "skip_ws s = dropWhile is_ws s"

definition expect :: "char \<Rightarrow> string \<Rightarrow> string option" where
  "expect c s = (case skip_ws s of [] \<Rightarrow> None | x # r \<Rightarrow> if x = c then Some r else None)"

definition hex_val :: "char \<Rightarrow> int option" where
  "hex_val c =
     (let n = byte c in
      if 48 \<le> n \<and> n \<le> 57 then Some (n - 48)
      else if 97 \<le> n \<and> n \<le> 102 then Some (n - 87)
      else if 65 \<le> n \<and> n \<le> 70 then Some (n - 55)
      else None)"

text \<open>\<open>getu4\<close>: the code unit of an escape \<open>\uXXXX\<close> at the front.\<close>

definition getu4 :: "string \<Rightarrow> int option" where
  "getu4 s =
     (if 6 \<le> length s \<and> s ! 0 = CHR 0x5C \<and> s ! 1 = CHR ''u''
      then (case (hex_val (s ! 2), hex_val (s ! 3), hex_val (s ! 4), hex_val (s ! 5)) of
              (Some a, Some b, Some c, Some d) \<Rightarrow> Some (((a * 16 + b) * 16 + c) * 16 + d)
            | _ \<Rightarrow> None)
      else None)"

definition is_surrogate :: "int \<Rightarrow> bool" where
  "is_surrogate r \<longleftrightarrow> 55296 \<le> r \<and> r < 57344"

text \<open>\<open>utf16.DecodeRune\<close>, \<open>None\<close> for no valid pair.\<close>

definition decode_pair :: "int \<Rightarrow> int \<Rightarrow> int option" where
  "decode_pair r1 r2 =
     (if 55296 \<le> r1 \<and> r1 < 56320 \<and> 56320 \<le> r2 \<and> r2 < 57344
      then Some ((r1 - 55296) * 1024 + (r2 - 56320) + 65536) else None)"

definition simple_escape :: "char \<Rightarrow> char option" where
  "simple_escape c = map_of
     [(CHR 0x22, CHR 0x22), (CHR 0x5C, CHR 0x5C), (CHR ''/'', CHR ''/''), (CHR ''b'', CHR 0x08),
      (CHR ''f'', CHR 0x0C), (CHR ''n'', CHR 0x0A), (CHR ''r'', CHR 0x0D), (CHR ''t'', CHR 0x09)] c"

text \<open>
  A string literal after its opening quote: the decoded bytes and the text behind the closing
  quote. Invalid UTF-8 is replaced by U+FFFD, an unpaired surrogate escape too.
\<close>

function decode_string :: "string \<Rightarrow> (string \<times> string) option" where
  "decode_string s =
     (if s = [] then None
      else if hd s = CHR 0x22 then Some ([], tl s)
      else if hd s = CHR 0x5C then
        (case getu4 s of
           Some u \<Rightarrow>
             (case (if is_surrogate u then Option.bind (getu4 (drop 6 s)) (decode_pair u) else None) of
                Some r \<Rightarrow> map_option (apfst ((@) (encode_rune r))) (decode_string (drop 12 s))
              | None \<Rightarrow> map_option (apfst ((@) (encode_rune u))) (decode_string (drop 6 s)))
         | None \<Rightarrow>
             (case tl s of
                [] \<Rightarrow> None
              | e # r \<Rightarrow>
                  (case simple_escape e of
                     None \<Rightarrow> None
                   | Some c \<Rightarrow> map_option (apfst ((#) c)) (decode_string (drop 2 s)))))
      else if byte (hd s) < 32 then None
      else case utf8_len s of
        None \<Rightarrow> map_option (apfst ((@) replacement)) (decode_string (tl s))
      | Some n \<Rightarrow> map_option (apfst ((@) (take n s))) (decode_string (drop (max 1 n) s)))"
  by pat_completeness auto
termination
  by (relation "measure length") (auto simp: neq_Nil_conv)

declare decode_string.simps [simp del]

text \<open>The number automaton of the scanner: the literal and the text behind it.\<close>

definition is_digit :: "char \<Rightarrow> bool" where
  "is_digit c \<longleftrightarrow> digit_val c \<noteq> None"

definition scan_int :: "string \<Rightarrow> (string \<times> string) option" where
  "scan_int s =
     (case s of
        [] \<Rightarrow> None
      | c # cs \<Rightarrow>
          if c = CHR ''0'' then Some (''0'', cs)
          else if is_digit c then Some (takeWhile is_digit s, dropWhile is_digit s)
          else None)"

definition scan_frac :: "string \<Rightarrow> (string \<times> string) option" where
  "scan_frac s =
     (if s \<noteq> [] \<and> hd s = CHR ''.'' then
        (if takeWhile is_digit (tl s) = [] then None
         else Some (CHR ''.'' # takeWhile is_digit (tl s), dropWhile is_digit (tl s)))
      else Some ([], s))"

definition scan_exp :: "string \<Rightarrow> (string \<times> string) option" where
  "scan_exp s =
     (if s \<noteq> [] \<and> (hd s = CHR ''e'' \<or> hd s = CHR ''E'') then
        (let sg = (if tl s \<noteq> [] \<and> (hd (tl s) = CHR ''+'' \<or> hd (tl s) = CHR ''-'') then [hd (tl s)] else []);
             ds = drop (1 + length sg) s
         in if takeWhile is_digit ds = [] then None
            else Some (hd s # sg @ takeWhile is_digit ds, dropWhile is_digit ds))
      else Some ([], s))"

definition scan_number :: "string \<Rightarrow> (string \<times> string) option" where
  "scan_number s =
     (let sg = (if s \<noteq> [] \<and> hd s = CHR ''-'' then ''-'' else []) in
      case scan_int (drop (length sg) s) of
        None \<Rightarrow> None
      | Some (i, r1) \<Rightarrow>
          (case scan_frac r1 of
             None \<Rightarrow> None
           | Some (f, r2) \<Rightarrow>
               (case scan_exp r2 of
                  None \<Rightarrow> None
                | Some (e, r3) \<Rightarrow> Some (sg @ i @ f @ e, r3))))"

text \<open>\<open>maxNestingDepth\<close> of the scanner.\<close>

definition max_depth :: nat where
  "max_depth = 10000"

text \<open>
  The value grammar. The first argument is fuel, the second the number of open containers.
  The members of an object keep their order and their duplicates.
\<close>

fun parse_value :: "nat \<Rightarrow> nat \<Rightarrow> string \<Rightarrow> (json \<times> string) option"
  and parse_elems :: "nat \<Rightarrow> nat \<Rightarrow> string \<Rightarrow> (json list \<times> string) option"
  and parse_members :: "nat \<Rightarrow> nat \<Rightarrow> string \<Rightarrow> ((string \<times> json) list \<times> string) option"
where
  "parse_value 0 d s = None"
| "parse_value (Suc f) d s =
     (case skip_ws s of
        [] \<Rightarrow> None
      | c # cs \<Rightarrow>
          if c = CHR ''{'' then
            (if max_depth \<le> d then None
             else case expect (CHR ''}'') cs of
               Some r \<Rightarrow> Some (JObject [], r)
             | None \<Rightarrow> map_option (apfst JObject) (parse_members f (Suc d) cs))
          else if c = CHR ''['' then
            (if max_depth \<le> d then None
             else case expect (CHR '']'') cs of
               Some r \<Rightarrow> Some (JArray [], r)
             | None \<Rightarrow> map_option (apfst JArray) (parse_elems f (Suc d) cs))
          else if c = CHR 0x22 then map_option (apfst JString) (decode_string cs)
          else if HasPrefix (c # cs) ''null'' then Some (JNull, drop 4 (c # cs))
          else if HasPrefix (c # cs) ''true'' then Some (JBool True, drop 4 (c # cs))
          else if HasPrefix (c # cs) ''false'' then Some (JBool False, drop 5 (c # cs))
          else map_option (apfst JNumber) (scan_number (c # cs)))"
| "parse_elems 0 d s = None"
| "parse_elems (Suc f) d s =
     (case parse_value f d s of
        None \<Rightarrow> None
      | Some (v, r) \<Rightarrow>
          (case expect (CHR '','') r of
             Some r' \<Rightarrow> map_option (apfst ((#) v)) (parse_elems f d r')
           | None \<Rightarrow> map_option (\<lambda>r'. ([v], r')) (expect (CHR '']'') r)))"
| "parse_members 0 d s = None"
| "parse_members (Suc f) d s =
     (case Option.bind (expect (CHR 0x22) s) decode_string of
        None \<Rightarrow> None
      | Some (k, r1) \<Rightarrow>
          (case Option.bind (expect (CHR '':'') r1) (parse_value f d) of
             None \<Rightarrow> None
           | Some (v, r) \<Rightarrow>
               (case expect (CHR '','') r of
                  Some r' \<Rightarrow> map_option (apfst ((#) (k, v))) (parse_members f d r')
                | None \<Rightarrow> map_option (\<lambda>r'. ([(k, v)], r')) (expect (CHR ''}'') r))))"

definition parse_json :: "string \<Rightarrow> json option" where
  "parse_json s =
     (case parse_value (2 * length s + 2) 0 s of
        None \<Rightarrow> None
      | Some (v, r) \<Rightarrow> if skip_ws r = [] then Some v else None)"

section \<open>Values of an interface\<close>

text \<open>
  The range of \<open>float64\<close>: a literal is \<open>m * 10 ^ e\<close>, and it overflows from
  \<open>2 ^ 1024 - 2 ^ 970\<close> on. \<open>json.Unmarshal\<close> saves an error there and stores \<open>nil\<close>.
\<close>

definition digits_value :: "string \<Rightarrow> int" where
  "digits_value ds = foldl (\<lambda>n c. n * 10 + (byte c - 48)) 0 ds"

definition float64_overflows :: "string \<Rightarrow> bool" where
  "float64_overflows lit =
     (let t = (if lit \<noteq> [] \<and> hd lit = CHR ''-'' then tl lit else lit);
          i = takeWhile is_digit t; t1 = dropWhile is_digit t;
          f = (if t1 \<noteq> [] \<and> hd t1 = CHR ''.'' then takeWhile is_digit (tl t1) else []);
          t2 = dropWhile (\<lambda>c. c \<noteq> CHR ''e'' \<and> c \<noteq> CHR ''E'') t1;
          x = (if t2 = [] then 0
               else if tl t2 \<noteq> [] \<and> hd (tl t2) = CHR ''-'' then - digits_value (drop 2 t2)
               else if tl t2 \<noteq> [] \<and> hd (tl t2) = CHR ''+'' then digits_value (drop 2 t2)
               else digits_value (tl t2));
          m = digits_value (i @ f); e = x - int (length f)
      in if 0 \<le> e then 2 ^ 1024 - 2 ^ 970 \<le> m * 10 ^ nat e
         else (2 ^ 1024 - 2 ^ 970) * 10 ^ nat (- e) \<le> m)"

text \<open>Storing into a Go map kept as a list sorted by key: an equal key is overwritten.\<close>

fun map_put :: "string \<Rightarrow> 'v \<Rightarrow> (string \<times> 'v) list \<Rightarrow> (string \<times> 'v) list" where
  "map_put k v [] = [(k, v)]"
| "map_put k v ((a, b) # m) =
     (if k < a then (k, v) # (a, b) # m
      else if k = a then (k, v) # m
      else (a, b) # map_put k v m)"

fun iface_of :: "json \<Rightarrow> json" where
  "iface_of (JNumber lit) = (if float64_overflows lit then JNull else JNumber lit)"
| "iface_of (JArray vs) = JArray (map iface_of vs)"
| "iface_of (JObject kvs) = JObject (fold (\<lambda>(k, v). map_put k v) (map (\<lambda>(k, v). (k, iface_of v)) kvs) [])"
| "iface_of v = v"

end
