(* ===== verification/Models.thy ===== *)
theory Models
  imports Json
begin

text \<open>
  Package \<open>pkg/models\<close>: the policy type schema, its identifiers, their validation and their
  JSON text; the status body of \<open>a1_controller_get_policy_instance_status.go\<close>; and the
  go-openapi packages (\<open>validate\<close>, \<open>errors\<close>, \<open>swag\<close>) the generated code calls, as a record of
  functions \<open>openapi\<close> that every definition using them takes as an argument.
  The locale \<open>openapi_laws\<close> states what their documentation promises.
\<close>

section \<open>Data\<close>

text \<open>Pointers are options; \<open>interface{}\<close> holds a decoded JSON value, \<open>JNull\<close> for \<open>nil\<close>.\<close>

record policy_type_schema =
  CreateSchema :: json
  Description :: "string option"
  Name :: "string option"
  PolicyTypeID :: "int64 option"

type_synonym policy_type_id = int64
type_synonym policy_instance_id = string

record status_body =
  CreatedAt :: string
  HasBeenDeleted :: bool
  InstanceStatus :: string

definition zero_schema :: policy_type_schema where
  "zero_schema = \<lparr>CreateSchema = JNull, Description = None, Name = None, PolicyTypeID = None\<rparr>"

definition zero_status :: status_body where
  "zero_status = \<lparr>CreatedAt = [], HasBeenDeleted = False, InstanceStatus = []\<rparr>"

text \<open>The values the code hands to a library function as an \<open>interface{}\<close>.\<close>

datatype any =
    AJson json
  | AString string
  | ADateTime string
  | AStringPtr "string option"
  | AInt64Ptr "int64 option"
  | ASchema policy_type_schema
  | AStatus status_body
  | ATypeIDs "policy_type_id list"
  | AInstanceIDs "policy_instance_id list"

text \<open>\<open>reflect.DeepEqual\<close> with the zero value of the dynamic type, or no value at all.\<close>

fun is_zero_value :: "any \<Rightarrow> bool" where
  "is_zero_value (AJson v) = (v = JNull \<or> v = JBool False \<or> v = JString [] \<or> v = JNumber [])"
| "is_zero_value (AString s) = (s = [])"
| "is_zero_value (ADateTime s) = (s = [])"
| "is_zero_value (AStringPtr p) = (p = None)"
| "is_zero_value (AInt64Ptr p) = (p = None)"
| "is_zero_value (ASchema m) = (m = zero_schema)"
| "is_zero_value (AStatus b) = (b = zero_status)"
| "is_zero_value (ATypeIDs xs) = False"
| "is_zero_value (AInstanceIDs xs) = False"

section \<open>JSON text of a policy type\<close>

definition encode_member :: "string \<times> string \<Rightarrow> string" where
  "encode_member kv = encode_string (fst kv) @ '':'' @ snd kv"

definition schema_members :: "policy_type_schema \<Rightarrow> (string \<times> json) list" where
  "schema_members m =
     [(''create_schema'', CreateSchema m),
      (''description'', case Description m of None \<Rightarrow> JNull | Some s \<Rightarrow> JString s),
      (''name'', case Name m of None \<Rightarrow> JNull | Some s \<Rightarrow> JString s),
      (''policy_type_id'', case PolicyTypeID m of None \<Rightarrow> JNull | Some i \<Rightarrow> JNumber (FormatInt i))]"

text \<open>\<open>json.Marshal\<close> of the struct: the fields in the order of their declaration.\<close>

definition encode_schema :: "policy_type_schema \<Rightarrow> string" where
  "encode_schema m =
     ''{'' @ commas (map (\<lambda>(k, v). encode_member (k, encode_value v)) (schema_members m)) @ ''}''"

text \<open>\<open>json.Marshal\<close> refuses a \<open>json.Number\<close> that is no number.\<close>

definition valid_number :: "string \<Rightarrow> bool" where
  "valid_number lit \<longleftrightarrow> (case scan_number lit of Some (n, r) \<Rightarrow> r = [] | None \<Rightarrow> False)"

fun encodable :: "json \<Rightarrow> bool" where
  "encodable (JNumber lit) = (lit = [] \<or> valid_number lit)"
| "encodable (JArray vs) = list_all encodable vs"
| "encodable (JObject kvs) = list_all (\<lambda>(k, v). encodable v) kvs"
| "encodable v = True"

text \<open>
  \<open>json.Unmarshal\<close> into the struct. A member is assigned to the field of the same name, case
  ignored; a value of the wrong type leaves a field that was \<open>nil\<close> pointing at a zero value
  and saves an error (the boolean); decoding goes on.
\<close>

definition lower_char :: "char \<Rightarrow> char" where
  "lower_char c = (if 65 \<le> byte c \<and> byte c \<le> 90 then char_of (byte c + 32) else c)"

text \<open>
  Folding the case of a key also takes the long s (U+017F) for an s and the Kelvin sign (U+212A)
  for a k.
\<close>

definition fold_key :: "string \<Rightarrow> string" where
  "fold_key k = map lower_char (Replace (Replace k [CHR 0xC5, CHR 0xBF] ''s'') [CHR 0xE2, CHR 0x84, CHR 0xAA] ''k'')"

lemma fold_key_fields [simp]:
  "fold_key ''create_schema'' = ''create_schema''" "fold_key ''description'' = ''description''"
  "fold_key ''name'' = ''name''" "fold_key ''policy_type_id'' = ''policy_type_id''"
  by code_simp+

fun assign_string :: "json \<Rightarrow> string option \<Rightarrow> string option \<times> bool" where
  "assign_string JNull p = (None, False)"
| "assign_string (JString s) p = (Some s, False)"
| "assign_string v p = (Some (case p of None \<Rightarrow> [] | Some s \<Rightarrow> s), True)"

fun assign_int64 :: "json \<Rightarrow> int64 option \<Rightarrow> int64 option \<times> bool" where
  "assign_int64 JNull p = (None, False)"
| "assign_int64 (JNumber lit) p =
     (case ParseInt lit of
        (n, None) \<Rightarrow> (Some n, False)
      | (n, Some e) \<Rightarrow> (Some (case p of None \<Rightarrow> 0 | Some i \<Rightarrow> i), True))"
| "assign_int64 v p = (Some (case p of None \<Rightarrow> 0 | Some i \<Rightarrow> i), True)"

fun has_overflow :: "json \<Rightarrow> bool" where
  "has_overflow (JNumber lit) = float64_overflows lit"
| "has_overflow (JArray vs) = list_ex has_overflow vs"
| "has_overflow (JObject kvs) = list_ex (\<lambda>(k, v). has_overflow v) kvs"
| "has_overflow v = False"

definition assign_member :: "string \<times> json \<Rightarrow> policy_type_schema \<times> bool \<Rightarrow> policy_type_schema \<times> bool" where
  "assign_member kv st =
     (let k = fold_key (fst kv); v = snd kv; (m, saved) = st in
      if k = ''create_schema'' then (m\<lparr>CreateSchema := iface_of v\<rparr>, saved \<or> has_overflow v)
      else if k = ''description'' then
        (let (p, e) = assign_string v (Description m) in (m\<lparr>Description := p\<rparr>, saved \<or> e))
      else if k = ''name'' then
        (let (p, e) = assign_string v (Name m) in (m\<lparr>Name := p\<rparr>, saved \<or> e))
      else if k = ''policy_type_id'' then
        (let (p, e) = assign_int64 v (PolicyTypeID m) in (m\<lparr>PolicyTypeID := p\<rparr>, saved \<or> e))
      else (m, saved))"

definition Unmarshal_schema :: "string \<Rightarrow> policy_type_schema \<times> bool" where
  "Unmarshal_schema text =
     (case parse_json text of
        None \<Rightarrow> (zero_schema, True)
      | Some JNull \<Rightarrow> (zero_schema, False)
      | Some (JObject kvs) \<Rightarrow> fold assign_member kvs (zero_schema, False)
      | Some v \<Rightarrow> (zero_schema, True))"

section \<open>The go-openapi packages\<close>

text \<open>
  A library function that returns a Go pair \<open>(value, error)\<close> returns a product here.
  \<open>FormatOf\<close> and \<open>Enum\<close> take the path, the location, and the value; \<open>InvalidType\<close> the name, the
  location, the type and the raw text.
\<close>

record openapi =
  Required :: "string \<Rightarrow> string \<Rightarrow> any \<Rightarrow> go_error option"
  MinimumInt :: "string \<Rightarrow> string \<Rightarrow> int64 \<Rightarrow> int64 \<Rightarrow> bool \<Rightarrow> go_error option"
  MaximumInt :: "string \<Rightarrow> string \<Rightarrow> int64 \<Rightarrow> int64 \<Rightarrow> bool \<Rightarrow> go_error option"
  Enum :: "string \<Rightarrow> string \<Rightarrow> string \<Rightarrow> string list \<Rightarrow> go_error option"
  FormatOf :: "string \<Rightarrow> string \<Rightarrow> string \<Rightarrow> string \<Rightarrow> go_error option"
  IsZero :: "any \<Rightarrow> bool"
  ConvertInt64 :: "string \<Rightarrow> int64 \<times> go_error option"
  FormatInt64 :: "int64 \<Rightarrow> string"
  InvalidType :: "string \<Rightarrow> string \<Rightarrow> string \<Rightarrow> string \<Rightarrow> go_error"
  NewParseError :: "string \<Rightarrow> string \<Rightarrow> string \<Rightarrow> go_error \<Rightarrow> go_error"
  CompositeValidationError :: "go_error list \<Rightarrow> go_error"
  WriteJSON :: "any \<Rightarrow> string \<times> go_error option"
  ReadSchema :: "string \<Rightarrow> policy_type_schema \<times> go_error option"
  ReadStatus :: "string \<Rightarrow> status_body \<times> go_error option"

section \<open>Validation\<close>

text \<open>\<open>if err := f(); err != nil { return err }; return g()\<close>.\<close>

definition first_error :: "go_error option list \<Rightarrow> go_error option" where
  "first_error es = (case List.find (\<lambda>e. e \<noteq> None) es of None \<Rightarrow> None | Some e \<Rightarrow> e)"

text \<open>The error list \<open>res\<close> of the generated validators, and what they return for it.\<close>

definition collect_errors :: "go_error option list \<Rightarrow> go_error list" where
  "collect_errors es = List.map_filter (\<lambda>e. e) es"

definition composite :: "openapi \<Rightarrow> go_error list \<Rightarrow> go_error option" where
  "composite lib res = (if 0 < length res then Some (CompositeValidationError lib res) else None)"

definition PolicyInstanceID_Validate :: "policy_instance_id \<Rightarrow> go_error option" where
  "PolicyInstanceID_Validate m = None"

definition PolicyTypeID_Validate :: "openapi \<Rightarrow> policy_type_id \<Rightarrow> go_error option" where
  "PolicyTypeID_Validate lib m =
     (case MinimumInt lib [] ''body'' m 1 False of
        Some err \<Rightarrow> Some err
      | None \<Rightarrow>
          (case MaximumInt lib [] ''body'' m 2147483647 False of
             Some err \<Rightarrow> Some err
           | None \<Rightarrow> composite lib []))"

definition validateCreateSchema :: "openapi \<Rightarrow> policy_type_schema \<Rightarrow> go_error option" where
  "validateCreateSchema lib m = Required lib ''create_schema'' ''body'' (AJson (CreateSchema m))"

definition validateDescription :: "openapi \<Rightarrow> policy_type_schema \<Rightarrow> go_error option" where
  "validateDescription lib m = Required lib ''description'' ''body'' (AStringPtr (Description m))"

definition validateName :: "openapi \<Rightarrow> policy_type_schema \<Rightarrow> go_error option" where
  "validateName lib m = Required lib ''name'' ''body'' (AStringPtr (Name m))"

definition validateSchemaTypeID :: "openapi \<Rightarrow> policy_type_schema \<Rightarrow> go_error option" where
  "validateSchemaTypeID lib m = Required lib ''policy_type_id'' ''body'' (AInt64Ptr (PolicyTypeID m))"

definition PolicyTypeSchema_Validate :: "openapi \<Rightarrow> policy_type_schema \<Rightarrow> go_error option" where
  "PolicyTypeSchema_Validate lib m =
     composite lib (collect_errors
       [validateCreateSchema lib m, validateDescription lib m, validateName lib m,
        validateSchemaTypeID lib m])"

text \<open>A \<open>nil\<close> receiver marshals to no bytes and no error.\<close>

definition PolicyTypeSchema_MarshalBinary ::
    "openapi \<Rightarrow> policy_type_schema option \<Rightarrow> string \<times> go_error option" where
  "PolicyTypeSchema_MarshalBinary lib m =
     (case m of None \<Rightarrow> ([], None) | Some s \<Rightarrow> WriteJSON lib (ASchema s))"

definition PolicyTypeSchema_UnmarshalBinary ::
    "openapi \<Rightarrow> string \<Rightarrow> policy_type_schema \<Rightarrow> policy_type_schema \<times> go_error option" where
  "PolicyTypeSchema_UnmarshalBinary lib b m =
     (case ReadSchema lib b of
        (res, Some err) \<Rightarrow> (m, Some err)
      | (res, None) \<Rightarrow> (res, None))"

text \<open>The status body; \<open>IN EFFECT\<close> and \<open>NOT IN EFFECT\<close> are the enumerated values.\<close>

definition instance_status_enum :: "string list" where
  "instance_status_enum = [''IN EFFECT'', ''NOT IN EFFECT'']"

definition validateCreatedAt :: "openapi \<Rightarrow> status_body \<Rightarrow> go_error option" where
  "validateCreatedAt lib b =
     (if IsZero lib (ADateTime (CreatedAt b)) then None
      else FormatOf lib ''a1ControllerGetPolicyInstanceStatusOK.created_at'' ''body'' ''date-time'' (CreatedAt b))"

definition validateInstanceStatusEnum :: "openapi \<Rightarrow> string \<Rightarrow> string \<Rightarrow> string \<Rightarrow> go_error option" where
  "validateInstanceStatusEnum lib path location val = Enum lib path location val instance_status_enum"

definition validateInstanceStatus :: "openapi \<Rightarrow> status_body \<Rightarrow> go_error option" where
  "validateInstanceStatus lib b =
     (if IsZero lib (AString (InstanceStatus b)) then None
      else validateInstanceStatusEnum lib ''a1ControllerGetPolicyInstanceStatusOK.instance_status'' ''body'' (InstanceStatus b))"

definition StatusBody_Validate :: "openapi \<Rightarrow> status_body \<Rightarrow> go_error option" where
  "StatusBody_Validate lib b =
     composite lib (collect_errors [validateCreatedAt lib b, validateInstanceStatus lib b])"

definition StatusBody_MarshalBinary :: "openapi \<Rightarrow> status_body option \<Rightarrow> string \<times> go_error option" where
  "StatusBody_MarshalBinary lib b = (case b of None \<Rightarrow> ([], None) | Some s \<Rightarrow> WriteJSON lib (AStatus s))"

definition StatusBody_UnmarshalBinary ::
    "openapi \<Rightarrow> string \<Rightarrow> status_body \<Rightarrow> status_body \<times> go_error option" where
  "StatusBody_UnmarshalBinary lib text b =
     (case ReadStatus lib text of
        (res, Some err) \<Rightarrow> (b, Some err)
      | (res, None) \<Rightarrow> (res, None))"

section \<open>What the documentation of go-openapi promises\<close>

locale openapi_laws =
  fixes lib :: openapi
  assumes required: "Required lib p i v = None \<longleftrightarrow> \<not> is_zero_value v"
    and minimum: "MinimumInt lib p i d m False = None \<longleftrightarrow> sint m \<le> sint d"
    and maximum: "MaximumInt lib p i d m False = None \<longleftrightarrow> sint d \<le> sint m"
    and enum: "Enum lib p i s es = None \<longleftrightarrow> s \<in> set es"
    and is_zero: "IsZero lib v = is_zero_value v"
    and convert_ok: "snd (ParseInt s) = None \<Longrightarrow> ConvertInt64 lib s = (fst (ParseInt s), None)"
    and convert_err: "snd (ParseInt s) \<noteq> None \<Longrightarrow> snd (ConvertInt64 lib s) \<noteq> None"
    and format_int64: "FormatInt64 lib n = FormatInt n"
    and write_schema: "encodable (CreateSchema sch) \<Longrightarrow> WriteJSON lib (ASchema sch) = (encode_schema sch, None)"
    and write_schema_err: "\<not> encodable (CreateSchema sch) \<Longrightarrow> snd (WriteJSON lib (ASchema sch)) \<noteq> None"
    and read_schema: "\<not> snd (Unmarshal_schema b) \<Longrightarrow> ReadSchema lib b = (fst (Unmarshal_schema b), None)"
    and read_schema_err: "snd (Unmarshal_schema b) \<Longrightarrow> snd (ReadSchema lib b) \<noteq> None"
begin

text \<open>A policy type identifier is valid exactly in the range the API documents.\<close>

lemma in_range_checks:
  "MinimumInt lib p i m 1 False = None \<longleftrightarrow> 1 \<le> sint m"
  "MaximumInt lib p i m 2147483647 False = None \<longleftrightarrow> sint m \<le> 2147483647"
  using minimum [of p i m 1] maximum [of p i m 2147483647] by simp_all

lemma PolicyTypeID_Validate_iff:
  "PolicyTypeID_Validate lib m = None \<longleftrightarrow> 1 \<le> sint m \<and> sint m \<le> 2147483647"
  using in_range_checks [of "[]" "''body''" m]
  by (auto simp: PolicyTypeID_Validate_def composite_def split: option.splits)

lemma ConvertInt64_iff: "ConvertInt64 lib s = (v, None) \<longleftrightarrow> ParseInt s = (v, None)"
proof (cases "snd (ParseInt s)")
  case None
  then show ?thesis using convert_ok [of s] by (cases "ParseInt s") simp
next
  case (Some e)
  then show ?thesis using convert_err [of s] by (cases "ParseInt s"; cases "ConvertInt64 lib s") auto
qed

lemma composite_None_iff: "composite lib (collect_errors es) = None \<longleftrightarrow> (\<forall>e \<in> set es. e = None)"
  by (induction es) (auto simp: composite_def collect_errors_def List.map_filter_simps split: option.splits if_splits)

lemma PolicyTypeSchema_Validate_iff:
  "PolicyTypeSchema_Validate lib m = None \<longleftrightarrow>
     CreateSchema m \<notin> {JNull, JBool False, JString [], JNumber []} \<and>
     Description m \<noteq> None \<and> Name m \<noteq> None \<and> PolicyTypeID m \<noteq> None"
  by (auto simp: PolicyTypeSchema_Validate_def composite_None_iff validateCreateSchema_def
      validateDescription_def validateName_def validateSchemaTypeID_def required)

lemma StatusBody_Validate_ok:
  "InstanceStatus b \<in> insert [] (set instance_status_enum) \<Longrightarrow> CreatedAt b = [] \<Longrightarrow>
   StatusBody_Validate lib b = None"
  by (auto simp: StatusBody_Validate_def composite_None_iff validateCreatedAt_def is_zero
      validateInstanceStatus_def validateInstanceStatusEnum_def enum)

end

section \<open>A library that satisfies the documentation\<close>

text \<open>
  The encoding of the other Go values the program marshals, the fields marked
  \<open>omitempty\<close> left out when they are zero.
\<close>

definition encode_status :: "status_body \<Rightarrow> string" where
  "encode_status b =
     ''{'' @ commas (map encode_member
        ((if CreatedAt b = [] then [] else [(''created_at'', encode_string (CreatedAt b))])
         @ (if HasBeenDeleted b then [(''has_been_deleted'', ''true'')] else [])
         @ (if InstanceStatus b = [] then [] else [(''instance_status'', encode_string (InstanceStatus b))])))
     @ ''}''"

fun encode_any :: "any \<Rightarrow> string" where
  "encode_any (AJson v) = encode_value v"
| "encode_any (AString s) = encode_string s"
| "encode_any (ADateTime s) = encode_string s"
| "encode_any (AStringPtr p) = (case p of None \<Rightarrow> ''null'' | Some s \<Rightarrow> encode_string s)"
| "encode_any (AInt64Ptr p) = (case p of None \<Rightarrow> ''null'' | Some i \<Rightarrow> FormatInt i)"
| "encode_any (ASchema m) = encode_schema m"
| "encode_any (AStatus b) = encode_status b"
| "encode_any (ATypeIDs xs) = ''['' @ commas (map FormatInt xs) @ '']''"
| "encode_any (AInstanceIDs xs) = ''['' @ commas (map encode_string xs) @ '']''"

fun any_encodable :: "any \<Rightarrow> bool" where
  "any_encodable (AJson v) = encodable v"
| "any_encodable (ASchema m) = encodable (CreateSchema m)"
| "any_encodable v = True"

definition lib_error :: "string \<Rightarrow> string \<Rightarrow> string \<Rightarrow> go_error" where
  "lib_error p i what = Foreign (p @ '' in '' @ i @ what)"

text \<open>
  An instance of the record, used to show that the laws can hold and to run examples.
\<close>

definition std_openapi :: openapi where
  "std_openapi =
     \<lparr>Required = (\<lambda>p i v. if is_zero_value v then Some (lib_error p i '' is required'') else None),
      MinimumInt = (\<lambda>p i d m ex. if (if ex then sint m < sint d else sint m \<le> sint d) then None
                                 else Some (lib_error p i '' is too small'')),
      MaximumInt = (\<lambda>p i d m ex. if (if ex then sint d < sint m else sint d \<le> sint m) then None
                                 else Some (lib_error p i '' is too large'')),
      Enum = (\<lambda>p i s es. if List.member es s then None else Some (lib_error p i '' should be one of'')),
      FormatOf = (\<lambda>p i f s. None),
      IsZero = is_zero_value,
      ConvertInt64 = (\<lambda>s. case ParseInt s of (v, None) \<Rightarrow> (v, None) | (v, Some e) \<Rightarrow> (v, Some (Foreign ''parsing int''))),
      FormatInt64 = FormatInt,
      InvalidType = (\<lambda>name i ty raw. lib_error name i '' must be of type''),
      NewParseError = (\<lambda>name i raw e. lib_error name i '' parsing failed''),
      CompositeValidationError = (\<lambda>es. Foreign ''validation failure list''),
      WriteJSON = (\<lambda>v. if any_encodable v then (encode_any v, None) else ([], Some (Foreign ''json: invalid number literal''))),
      ReadSchema = (\<lambda>b. case Unmarshal_schema b of (m, saved) \<Rightarrow>
                       (m, if saved then Some (Foreign ''json: cannot unmarshal'') else None)),
      ReadStatus = (\<lambda>b. (zero_status, if parse_json b = None then Some (Foreign ''invalid character'') else None))\<rparr>"

interpretation std: openapi_laws std_openapi
  by unfold_locales
     (auto simp: std_openapi_def split: prod.splits option.splits)

lemmas std_openapi_laws = std.openapi_laws_axioms

end
