(* ===== verification/UrlBuilders.thy ===== *)
theory UrlBuilders
  imports GoPath Models
begin

text \<open>
  The URL builders of the eleven operations: \<open>*_urlbuilder.go\<close>. The builder structs share
  their fields, so they are a hierarchy of records; the prefix \<open>A1Controller\<close> and the suffix
  \<open>URL\<close> of the Go names are left out. \<open>Must\<close>, which the generator repeats word for
  word in every file, is one definition; so is the body of \<open>BuildFull\<close>, \<open>full_url\<close>, with the
  name its messages carry as an argument.
\<close>

section \<open>Builders\<close>

record base_builder =
  basePath :: string

record type_builder = base_builder +
  urlTypeID :: int64

record instance_builder = type_builder +
  urlInstanceID :: string

text \<open>The struct of each operation.\<close>

type_synonym GetHealthcheckURL = base_builder
type_synonym GetAllPolicyTypesURL = base_builder
type_synonym DataDeliveryURL = base_builder
type_synonym GetPolicyTypeURL = type_builder
type_synonym CreatePolicyTypeURL = type_builder
type_synonym DeletePolicyTypeURL = type_builder
type_synonym GetAllInstancesForTypeURL = type_builder
type_synonym GetPolicyInstanceURL = instance_builder
type_synonym CreateOrReplacePolicyInstanceURL = instance_builder
type_synonym DeletePolicyInstanceURL = instance_builder
type_synonym GetPolicyInstanceStatusURL = instance_builder

definition Must :: "url option \<times> go_error option \<Rightarrow> url outcome" where
  "Must ue =
     (case snd ue of
        Some err \<Rightarrow> Panic (Error err)
      | None \<Rightarrow> (case fst ue of None \<Rightarrow> Panic (''url can'' @ CHR 0x27 # ''t be nil'') | Some u \<Rightarrow> Return u))"

definition full_url ::
    "string \<Rightarrow> url option \<times> go_error option \<Rightarrow> string \<Rightarrow> string \<Rightarrow> url option \<times> go_error option" where
  "full_url name built scheme host =
     (if scheme = [] then (None, Some (ErrNew (''scheme is required for a full url on '' @ name)))
      else if host = [] then (None, Some (ErrNew (''host is required for a full url on '' @ name)))
      else
        (case built of
           (base, Some err) \<Rightarrow> (None, Some err)
         | (base, None) \<Rightarrow> (map_option (\<lambda>u. u\<lparr>Scheme := scheme, Host := host\<rparr>) base, None)))"

section \<open>The builder of each operation\<close>

subsection \<open>\<open>A1ControllerGetHealthcheckURL\<close>\<close>

definition GetHealthcheck_SetBasePath :: "GetHealthcheckURL \<Rightarrow> string \<Rightarrow> GetHealthcheckURL" where
  "GetHealthcheck_SetBasePath b bp = b\<lparr>basePath := bp\<rparr>"

definition GetHealthcheck_WithBasePath :: "GetHealthcheckURL \<Rightarrow> string \<Rightarrow> GetHealthcheckURL" where
  "GetHealthcheck_WithBasePath b bp = GetHealthcheck_SetBasePath b bp"

definition GetHealthcheck_Build :: "GetHealthcheckURL \<Rightarrow> url option \<times> go_error option" where
  "GetHealthcheck_Build b =
     (let path = ''/a1-p/healthcheck''
      in (Some (zero_url\<lparr>UPath := path_Join [basePath b, path]\<rparr>), None))"

definition GetHealthcheck_String :: "GetHealthcheckURL \<Rightarrow> string outcome" where
  "GetHealthcheck_String b = bind_outcome (Must (GetHealthcheck_Build b)) (\<lambda>u. Return (url_String u))"

definition GetHealthcheck_BuildFull :: "GetHealthcheckURL \<Rightarrow> string \<Rightarrow> string \<Rightarrow> url option \<times> go_error option" where
  "GetHealthcheck_BuildFull b scheme host =
     full_url ''A1ControllerGetHealthcheckURL'' (GetHealthcheck_Build b) scheme host"

definition GetHealthcheck_StringFull :: "GetHealthcheckURL \<Rightarrow> string \<Rightarrow> string \<Rightarrow> string outcome" where
  "GetHealthcheck_StringFull b scheme host =
     bind_outcome (Must (GetHealthcheck_BuildFull b scheme host)) (\<lambda>u. Return (url_String u))"

subsection \<open>\<open>A1ControllerGetAllPolicyTypesURL\<close>\<close>

definition GetAllPolicyTypes_SetBasePath :: "GetAllPolicyTypesURL \<Rightarrow> string \<Rightarrow> GetAllPolicyTypesURL" where
  "GetAllPolicyTypes_SetBasePath b bp = b\<lparr>basePath := bp\<rparr>"

definition GetAllPolicyTypes_WithBasePath :: "GetAllPolicyTypesURL \<Rightarrow> string \<Rightarrow> GetAllPolicyTypesURL" where
  "GetAllPolicyTypes_WithBasePath b bp = GetAllPolicyTypes_SetBasePath b bp"

definition GetAllPolicyTypes_Build :: "GetAllPolicyTypesURL \<Rightarrow> url option \<times> go_error option" where
  "GetAllPolicyTypes_Build b =
     (let path = ''/a1-p/policytypes''
      in (Some (zero_url\<lparr>UPath := path_Join [basePath b, path]\<rparr>), None))"

definition GetAllPolicyTypes_String :: "GetAllPolicyTypesURL \<Rightarrow> string outcome" where
  "GetAllPolicyTypes_String b = bind_outcome (Must (GetAllPolicyTypes_Build b)) (\<lambda>u. Return (url_String u))"

definition GetAllPolicyTypes_BuildFull :: "GetAllPolicyTypesURL \<Rightarrow> string \<Rightarrow> string \<Rightarrow> url option \<times> go_error option" where
  "GetAllPolicyTypes_BuildFull b scheme host =
     full_url ''A1ControllerGetAllPolicyTypesURL'' (GetAllPolicyTypes_Build b) scheme host"

definition GetAllPolicyTypes_StringFull :: "GetAllPolicyTypesURL \<Rightarrow> string \<Rightarrow> string \<Rightarrow> string outcome" where
  "GetAllPolicyTypes_StringFull b scheme host =
     bind_outcome (Must (GetAllPolicyTypes_BuildFull b scheme host)) (\<lambda>u. Return (url_String u))"

subsection \<open>\<open>A1ControllerDataDeliveryURL\<close>\<close>

definition DataDelivery_SetBasePath :: "DataDeliveryURL \<Rightarrow> string \<Rightarrow> DataDeliveryURL" where
  "DataDelivery_SetBasePath b bp = b\<lparr>basePath := bp\<rparr>"

definition DataDelivery_WithBasePath :: "DataDeliveryURL \<Rightarrow> string \<Rightarrow> DataDeliveryURL" where
  "DataDelivery_WithBasePath b bp = DataDelivery_SetBasePath b bp"

definition DataDelivery_Build :: "DataDeliveryURL \<Rightarrow> url option \<times> go_error option" where
  "DataDelivery_Build b =
     (let path = ''/data-delivery''
      in (Some (zero_url\<lparr>UPath := path_Join [basePath b, path]\<rparr>), None))"

definition DataDelivery_String :: "DataDeliveryURL \<Rightarrow> string outcome" where
  "DataDelivery_String b = bind_outcome (Must (DataDelivery_Build b)) (\<lambda>u. Return (url_String u))"

definition DataDelivery_BuildFull :: "DataDeliveryURL \<Rightarrow> string \<Rightarrow> string \<Rightarrow> url option \<times> go_error option" where
  "DataDelivery_BuildFull b scheme host =
     full_url ''A1ControllerDataDeliveryURL'' (DataDelivery_Build b) scheme host"

definition DataDelivery_StringFull :: "DataDeliveryURL \<Rightarrow> string \<Rightarrow> string \<Rightarrow> string outcome" where
  "DataDelivery_StringFull b scheme host =
     bind_outcome (Must (DataDelivery_BuildFull b scheme host)) (\<lambda>u. Return (url_String u))"

subsection \<open>\<open>A1ControllerGetPolicyTypeURL\<close>\<close>

definition GetPolicyType_SetBasePath :: "GetPolicyTypeURL \<Rightarrow> string \<Rightarrow> GetPolicyTypeURL" where
  "GetPolicyType_SetBasePath b bp = b\<lparr>basePath := bp\<rparr>"

definition GetPolicyType_WithBasePath :: "GetPolicyTypeURL \<Rightarrow> string \<Rightarrow> GetPolicyTypeURL" where
  "GetPolicyType_WithBasePath b bp = GetPolicyType_SetBasePath b bp"

definition GetPolicyType_Build :: "openapi \<Rightarrow> GetPolicyTypeURL \<Rightarrow> url option \<times> go_error option" where
  "GetPolicyType_Build lib b =
     (let path = ''/a1-p/policytypes/{policy_type_id}'';
          policyTypeID = FormatInt64 lib (urlTypeID b)
      in if policyTypeID \<noteq> [] then
           let path = Replace path ''{policy_type_id}'' policyTypeID
           in (Some (zero_url\<lparr>UPath := path_Join [basePath b, path]\<rparr>), None)
         else (None, Some (ErrNew ''policyTypeId is required on A1ControllerGetPolicyTypeURL'')))"

definition GetPolicyType_String :: "openapi \<Rightarrow> GetPolicyTypeURL \<Rightarrow> string outcome" where
  "GetPolicyType_String lib b = bind_outcome (Must (GetPolicyType_Build lib b)) (\<lambda>u. Return (url_String u))"

definition GetPolicyType_BuildFull :: "openapi \<Rightarrow> GetPolicyTypeURL \<Rightarrow> string \<Rightarrow> string \<Rightarrow> url option \<times> go_error option" where
  "GetPolicyType_BuildFull lib b scheme host =
     full_url ''A1ControllerGetPolicyTypeURL'' (GetPolicyType_Build lib b) scheme host"

definition GetPolicyType_StringFull :: "openapi \<Rightarrow> GetPolicyTypeURL \<Rightarrow> string \<Rightarrow> string \<Rightarrow> string outcome" where
  "GetPolicyType_StringFull lib b scheme host =
     bind_outcome (Must (GetPolicyType_BuildFull lib b scheme host)) (\<lambda>u. Return (url_String u))"

subsection \<open>\<open>A1ControllerCreatePolicyTypeURL\<close>\<close>

definition CreatePolicyType_SetBasePath :: "CreatePolicyTypeURL \<Rightarrow> string \<Rightarrow> CreatePolicyTypeURL" where
  "CreatePolicyType_SetBasePath b bp = b\<lparr>basePath := bp\<rparr>"

definition CreatePolicyType_WithBasePath :: "CreatePolicyTypeURL \<Rightarrow> string \<Rightarrow> CreatePolicyTypeURL" where
  "CreatePolicyType_WithBasePath b bp = CreatePolicyType_SetBasePath b bp"

definition CreatePolicyType_Build :: "openapi \<Rightarrow> CreatePolicyTypeURL \<Rightarrow> url option \<times> go_error option" where
  "CreatePolicyType_Build lib b =
     (let path = ''/a1-p/policytypes/{policy_type_id}'';
          policyTypeID = FormatInt64 lib (urlTypeID b)
      in if policyTypeID \<noteq> [] then
           let path = Replace path ''{policy_type_id}'' policyTypeID
           in (Some (zero_url\<lparr>UPath := path_Join [basePath b, path]\<rparr>), None)
         else (None, Some (ErrNew ''policyTypeId is required on A1ControllerCreatePolicyTypeURL'')))"

definition CreatePolicyType_String :: "openapi \<Rightarrow> CreatePolicyTypeURL \<Rightarrow> string outcome" where
  "CreatePolicyType_String lib b = bind_outcome (Must (CreatePolicyType_Build lib b)) (\<lambda>u. Return (url_String u))"

definition CreatePolicyType_BuildFull :: "openapi \<Rightarrow> CreatePolicyTypeURL \<Rightarrow> string \<Rightarrow> string \<Rightarrow> url option \<times> go_error option" where
  "CreatePolicyType_BuildFull lib b scheme host =
     full_url ''A1ControllerCreatePolicyTypeURL'' (CreatePolicyType_Build lib b) scheme host"

definition CreatePolicyType_StringFull :: "openapi \<Rightarrow> CreatePolicyTypeURL \<Rightarrow> string \<Rightarrow> string \<Rightarrow> string outcome" where
  "CreatePolicyType_StringFull lib b scheme host =
     bind_outcome (Must (CreatePolicyType_BuildFull lib b scheme host)) (\<lambda>u. Return (url_String u))"

subsection \<open>\<open>A1ControllerDeletePolicyTypeURL\<close>\<close>

definition DeletePolicyType_SetBasePath :: "DeletePolicyTypeURL \<Rightarrow> string \<Rightarrow> DeletePolicyTypeURL" where
  "DeletePolicyType_SetBasePath b bp = b\<lparr>basePath := bp\<rparr>"

definition DeletePolicyType_WithBasePath :: "DeletePolicyTypeURL \<Rightarrow> string \<Rightarrow> DeletePolicyTypeURL" where
  "DeletePolicyType_WithBasePath b bp = DeletePolicyType_SetBasePath b bp"

definition DeletePolicyType_Build :: "openapi \<Rightarrow> DeletePolicyTypeURL \<Rightarrow> url option \<times> go_error option" where
  "DeletePolicyType_Build lib b =
     (let path = ''/a1-p/policytypes/{policy_type_id}'';
          policyTypeID = FormatInt64 lib (urlTypeID b)
      in if policyTypeID \<noteq> [] then
           let path = Replace path ''{policy_type_id}'' policyTypeID
           in (Some (zero_url\<lparr>UPath := path_Join [basePath b, path]\<rparr>), None)
         else (None, Some (ErrNew ''policyTypeId is required on A1ControllerDeletePolicyTypeURL'')))"

definition DeletePolicyType_String :: "openapi \<Rightarrow> DeletePolicyTypeURL \<Rightarrow> string outcome" where
  "DeletePolicyType_String lib b = bind_outcome (Must (DeletePolicyType_Build lib b)) (\<lambda>u. Return (url_String u))"

definition DeletePolicyType_BuildFull :: "openapi \<Rightarrow> DeletePolicyTypeURL \<Rightarrow> string \<Rightarrow> string \<Rightarrow> url option \<times> go_error option" where
  "DeletePolicyType_BuildFull lib b scheme host =
     full_url ''A1ControllerDeletePolicyTypeURL'' (DeletePolicyType_Build lib b) scheme host"

definition DeletePolicyType_StringFull :: "openapi \<Rightarrow> DeletePolicyTypeURL \<Rightarrow> string \<Rightarrow> string \<Rightarrow> string outcome" where
  "DeletePolicyType_StringFull lib b scheme host =
     bind_outcome (Must (DeletePolicyType_BuildFull lib b scheme host)) (\<lambda>u. Return (url_String u))"

subsection \<open>\<open>A1ControllerGetAllInstancesForTypeURL\<close>\<close>

definition GetAllInstancesForType_SetBasePath :: "GetAllInstancesForTypeURL \<Rightarrow> string \<Rightarrow> GetAllInstancesForTypeURL" where
  "GetAllInstancesForType_SetBasePath b bp = b\<lparr>basePath := bp\<rparr>"

definition GetAllInstancesForType_WithBasePath :: "GetAllInstancesForTypeURL \<Rightarrow> string \<Rightarrow> GetAllInstancesForTypeURL" where
  "GetAllInstancesForType_WithBasePath b bp = GetAllInstancesForType_SetBasePath b bp"

definition GetAllInstancesForType_Build :: "openapi \<Rightarrow> GetAllInstancesForTypeURL \<Rightarrow> url option \<times> go_error option" where
  "GetAllInstancesForType_Build lib b =
     (let path = ''/a1-p/policytypes/{policy_type_id}/policies'';
          policyTypeID = FormatInt64 lib (urlTypeID b)
      in if policyTypeID \<noteq> [] then
           let path = Replace path ''{policy_type_id}'' policyTypeID
           in (Some (zero_url\<lparr>UPath := path_Join [basePath b, path]\<rparr>), None)
         else (None, Some (ErrNew ''policyTypeId is required on A1ControllerGetAllInstancesForTypeURL'')))"

definition GetAllInstancesForType_String :: "openapi \<Rightarrow> GetAllInstancesForTypeURL \<Rightarrow> string outcome" where
  "GetAllInstancesForType_String lib b = bind_outcome (Must (GetAllInstancesForType_Build lib b)) (\<lambda>u. Return (url_String u))"

definition GetAllInstancesForType_BuildFull :: "openapi \<Rightarrow> GetAllInstancesForTypeURL \<Rightarrow> string \<Rightarrow> string \<Rightarrow> url option \<times> go_error option" where
  "GetAllInstancesForType_BuildFull lib b scheme host =
     full_url ''A1ControllerGetAllInstancesForTypeURL'' (GetAllInstancesForType_Build lib b) scheme host"

definition GetAllInstancesForType_StringFull :: "openapi \<Rightarrow> GetAllInstancesForTypeURL \<Rightarrow> string \<Rightarrow> string \<Rightarrow> string outcome" where
  "GetAllInstancesForType_StringFull lib b scheme host =
     bind_outcome (Must (GetAllInstancesForType_BuildFull lib b scheme host)) (\<lambda>u. Return (url_String u))"

subsection \<open>\<open>A1ControllerGetPolicyInstanceURL\<close>\<close>

definition GetPolicyInstance_SetBasePath :: "GetPolicyInstanceURL \<Rightarrow> string \<Rightarrow> GetPolicyInstanceURL" where
  "GetPolicyInstance_SetBasePath b bp = b\<lparr>basePath := bp\<rparr>"

definition GetPolicyInstance_WithBasePath :: "GetPolicyInstanceURL \<Rightarrow> string \<Rightarrow> GetPolicyInstanceURL" where
  "GetPolicyInstance_WithBasePath b bp = GetPolicyInstance_SetBasePath b bp"

definition GetPolicyInstance_Build :: "openapi \<Rightarrow> GetPolicyInstanceURL \<Rightarrow> url option \<times> go_error option" where
  "GetPolicyInstance_Build lib b =
     (let path = ''/a1-p/policytypes/{policy_type_id}/policies/{policy_instance_id}'';
          policyInstanceID = urlInstanceID b
      in if policyInstanceID \<noteq> [] then
           let path = Replace path ''{policy_instance_id}'' policyInstanceID;
               policyTypeID = FormatInt64 lib (urlTypeID b)
           in if policyTypeID \<noteq> [] then
                let path = Replace path ''{policy_type_id}'' policyTypeID
                in (Some (zero_url\<lparr>UPath := path_Join [basePath b, path]\<rparr>), None)
              else (None, Some (ErrNew ''policyTypeId is required on A1ControllerGetPolicyInstanceURL''))
         else (None, Some (ErrNew ''policyInstanceId is required on A1ControllerGetPolicyInstanceURL'')))"

definition GetPolicyInstance_String :: "openapi \<Rightarrow> GetPolicyInstanceURL \<Rightarrow> string outcome" where
  "GetPolicyInstance_String lib b = bind_outcome (Must (GetPolicyInstance_Build lib b)) (\<lambda>u. Return (url_String u))"

definition GetPolicyInstance_BuildFull :: "openapi \<Rightarrow> GetPolicyInstanceURL \<Rightarrow> string \<Rightarrow> string \<Rightarrow> url option \<times> go_error option" where
  "GetPolicyInstance_BuildFull lib b scheme host =
     full_url ''A1ControllerGetPolicyInstanceURL'' (GetPolicyInstance_Build lib b) scheme host"

definition GetPolicyInstance_StringFull :: "openapi \<Rightarrow> GetPolicyInstanceURL \<Rightarrow> string \<Rightarrow> string \<Rightarrow> string outcome" where
  "GetPolicyInstance_StringFull lib b scheme host =
     bind_outcome (Must (GetPolicyInstance_BuildFull lib b scheme host)) (\<lambda>u. Return (url_String u))"

subsection \<open>\<open>A1ControllerCreateOrReplacePolicyInstanceURL\<close>\<close>

definition CreateOrReplacePolicyInstance_SetBasePath :: "CreateOrReplacePolicyInstanceURL \<Rightarrow> string \<Rightarrow> CreateOrReplacePolicyInstanceURL" where
  "CreateOrReplacePolicyInstance_SetBasePath b bp = b\<lparr>basePath := bp\<rparr>"

definition CreateOrReplacePolicyInstance_WithBasePath :: "CreateOrReplacePolicyInstanceURL \<Rightarrow> string \<Rightarrow> CreateOrReplacePolicyInstanceURL" where
  "CreateOrReplacePolicyInstance_WithBasePath b bp = CreateOrReplacePolicyInstance_SetBasePath b bp"

definition CreateOrReplacePolicyInstance_Build :: "openapi \<Rightarrow> CreateOrReplacePolicyInstanceURL \<Rightarrow> url option \<times> go_error option" where
  "CreateOrReplacePolicyInstance_Build lib b =
     (let path = ''/a1-p/policytypes/{policy_type_id}/policies/{policy_instance_id}'';
          policyInstanceID = urlInstanceID b
      in if policyInstanceID \<noteq> [] then
           let path = Replace path ''{policy_instance_id}'' policyInstanceID;
               policyTypeID = FormatInt64 lib (urlTypeID b)
           in if policyTypeID \<noteq> [] then
                let path = Replace path ''{policy_type_id}'' policyTypeID
                in (Some (zero_url\<lparr>UPath := path_Join [basePath b, path]\<rparr>), None)
              else (None, Some (ErrNew ''policyTypeId is required on A1ControllerCreateOrReplacePolicyInstanceURL''))
         else (None, Some (ErrNew ''policyInstanceId is required on A1ControllerCreateOrReplacePolicyInstanceURL'')))"

definition CreateOrReplacePolicyInstance_String :: "openapi \<Rightarrow> CreateOrReplacePolicyInstanceURL \<Rightarrow> string outcome" where
  "CreateOrReplacePolicyInstance_String lib b = bind_outcome (Must (CreateOrReplacePolicyInstance_Build lib b)) (\<lambda>u. Return (url_String u))"

definition CreateOrReplacePolicyInstance_BuildFull :: "openapi \<Rightarrow> CreateOrReplacePolicyInstanceURL \<Rightarrow> string \<Rightarrow> string \<Rightarrow> url option \<times> go_error option" where
  "CreateOrReplacePolicyInstance_BuildFull lib b scheme host =
     full_url ''A1ControllerCreateOrReplacePolicyInstanceURL'' (CreateOrReplacePolicyInstance_Build lib b) scheme host"

definition CreateOrReplacePolicyInstance_StringFull :: "openapi \<Rightarrow> CreateOrReplacePolicyInstanceURL \<Rightarrow> string \<Rightarrow> string \<Rightarrow> string outcome" where
  "CreateOrReplacePolicyInstance_StringFull lib b scheme host =
     bind_outcome (Must (CreateOrReplacePolicyInstance_BuildFull lib b scheme host)) (\<lambda>u. Return (url_String u))"

subsection \<open>\<open>A1ControllerDeletePolicyInstanceURL\<close>\<close>

definition DeletePolicyInstance_SetBasePath :: "DeletePolicyInstanceURL \<Rightarrow> string \<Rightarrow> DeletePolicyInstanceURL" where
  "DeletePolicyInstance_SetBasePath b bp = b\<lparr>basePath := bp\<rparr>"

definition DeletePolicyInstance_WithBasePath :: "DeletePolicyInstanceURL \<Rightarrow> string \<Rightarrow> DeletePolicyInstanceURL" where
  "DeletePolicyInstance_WithBasePath b bp = DeletePolicyInstance_SetBasePath b bp"

definition DeletePolicyInstance_Build :: "openapi \<Rightarrow> DeletePolicyInstanceURL \<Rightarrow> url option \<times> go_error option" where
  "DeletePolicyInstance_Build lib b =
     (let path = ''/a1-p/policytypes/{policy_type_id}/policies/{policy_instance_id}'';
          policyInstanceID = urlInstanceID b
      in if policyInstanceID \<noteq> [] then
           let path = Replace path ''{policy_instance_id}'' policyInstanceID;
               policyTypeID = FormatInt64 lib (urlTypeID b)
           in if policyTypeID \<noteq> [] then
                let path = Replace path ''{policy_type_id}'' policyTypeID
                in (Some (zero_url\<lparr>UPath := path_Join [basePath b, path]\<rparr>), None)
              else (None, Some (ErrNew ''policyTypeId is required on A1ControllerDeletePolicyInstanceURL''))
         else (None, Some (ErrNew ''policyInstanceId is required on A1ControllerDeletePolicyInstanceURL'')))"

definition DeletePolicyInstance_String :: "openapi \<Rightarrow> DeletePolicyInstanceURL \<Rightarrow> string outcome" where
  "DeletePolicyInstance_String lib b = bind_outcome (Must (DeletePolicyInstance_Build lib b)) (\<lambda>u. Return (url_String u))"

definition DeletePolicyInstance_BuildFull :: "openapi \<Rightarrow> DeletePolicyInstanceURL \<Rightarrow> string \<Rightarrow> string \<Rightarrow> url option \<times> go_error option" where
  "DeletePolicyInstance_BuildFull lib b scheme host =
     full_url ''A1ControllerDeletePolicyInstanceURL'' (DeletePolicyInstance_Build lib b) scheme host"

definition DeletePolicyInstance_StringFull :: "openapi \<Rightarrow> DeletePolicyInstanceURL \<Rightarrow> string \<Rightarrow> string \<Rightarrow> string outcome" where
  "DeletePolicyInstance_StringFull lib b scheme host =
     bind_outcome (Must (DeletePolicyInstance_BuildFull lib b scheme host)) (\<lambda>u. Return (url_String u))"

subsection \<open>\<open>A1ControllerGetPolicyInstanceStatusURL\<close>\<close>

definition GetPolicyInstanceStatus_SetBasePath :: "GetPolicyInstanceStatusURL \<Rightarrow> string \<Rightarrow> GetPolicyInstanceStatusURL" where
  "GetPolicyInstanceStatus_SetBasePath b bp = b\<lparr>basePath := bp\<rparr>"

definition GetPolicyInstanceStatus_WithBasePath :: "GetPolicyInstanceStatusURL \<Rightarrow> string \<Rightarrow> GetPolicyInstanceStatusURL" where
  "GetPolicyInstanceStatus_WithBasePath b bp = GetPolicyInstanceStatus_SetBasePath b bp"

definition GetPolicyInstanceStatus_Build :: "openapi \<Rightarrow> GetPolicyInstanceStatusURL \<Rightarrow> url option \<times> go_error option" where
  "GetPolicyInstanceStatus_Build lib b =
     (let path = ''/a1-p/policytypes/{policy_type_id}/policies/{policy_instance_id}/status'';
          policyInstanceID = urlInstanceID b
      in if policyInstanceID \<noteq> [] then
           let path = Replace path ''{policy_instance_id}'' policyInstanceID;
               policyTypeID = FormatInt64 lib (urlTypeID b)
           in if policyTypeID \<noteq> [] then
                let path = Replace path ''{policy_type_id}'' policyTypeID
                in (Some (zero_url\<lparr>UPath := path_Join [basePath b, path]\<rparr>), None)
              else (None, Some (ErrNew ''policyTypeId is required on A1ControllerGetPolicyInstanceStatusURL''))
         else (None, Some (ErrNew ''policyInstanceId is required on A1ControllerGetPolicyInstanceStatusURL'')))"

definition GetPolicyInstanceStatus_String :: "openapi \<Rightarrow> GetPolicyInstanceStatusURL \<Rightarrow> string outcome" where
  "GetPolicyInstanceStatus_String lib b = bind_outcome (Must (GetPolicyInstanceStatus_Build lib b)) (\<lambda>u. Return (url_String u))"

definition GetPolicyInstanceStatus_BuildFull :: "openapi \<Rightarrow> GetPolicyInstanceStatusURL \<Rightarrow> string \<Rightarrow> string \<Rightarrow> url option \<times> go_error option" where
  "GetPolicyInstanceStatus_BuildFull lib b scheme host =
     full_url ''A1ControllerGetPolicyInstanceStatusURL'' (GetPolicyInstanceStatus_Build lib b) scheme host"

definition GetPolicyInstanceStatus_StringFull :: "openapi \<Rightarrow> GetPolicyInstanceStatusURL \<Rightarrow> string \<Rightarrow> string \<Rightarrow> string outcome" where
  "GetPolicyInstanceStatus_StringFull lib b scheme host =
     bind_outcome (Must (GetPolicyInstanceStatus_BuildFull lib b scheme host)) (\<lambda>u. Return (url_String u))"

section \<open>The contract of a builder\<close>

text \<open>
  What a client relies on: a builder makes an URL exactly for the values it requires, of
  nothing but a path; \<open>String\<close>, \<open>BuildFull\<close> and \<open>StringFull\<close> add nothing to that but scheme and
  host, and their errors.
\<close>

locale url_builder =
  fixes build :: "'b \<Rightarrow> url option \<times> go_error option"
    and string_of :: "'b \<Rightarrow> string outcome"
    and build_full :: "'b \<Rightarrow> string \<Rightarrow> string \<Rightarrow> url option \<times> go_error option"
    and string_full :: "'b \<Rightarrow> string \<Rightarrow> string \<Rightarrow> string outcome"
    and ok :: "'b \<Rightarrow> bool" and path_of :: "'b \<Rightarrow> string" and name :: string
  assumes build_ok: "ok b \<Longrightarrow> build b = (Some (zero_url\<lparr>UPath := path_of b\<rparr>), None)"
    and build_err: "\<not> ok b \<Longrightarrow> \<exists>err. build b = (None, Some err)"
    and string_def: "string_of b = bind_outcome (Must (build b)) (\<lambda>u. Return (url_String u))"
    and full_def: "build_full b scheme host = full_url name (build b) scheme host"
    and string_full_def:
      "string_full b scheme host = bind_outcome (Must (build_full b scheme host)) (\<lambda>u. Return (url_String u))"
begin

lemma full_ok_iff:
  "(\<exists>u. build_full b scheme host = (Some u, None)) \<longleftrightarrow> scheme \<noteq> [] \<and> host \<noteq> [] \<and> ok b"
  by (cases "ok b") (use build_ok [of b] build_err [of b] in \<open>auto simp: full_def full_url_def\<close>)

lemma full_url_eq:
  "scheme \<noteq> [] \<Longrightarrow> host \<noteq> [] \<Longrightarrow> ok b \<Longrightarrow>
   build_full b scheme host = (Some \<lparr>Scheme = scheme, Host = host, UPath = path_of b\<rparr>, None)"
  by (simp add: full_def full_url_def build_ok zero_url_def)

lemma string_returns_iff: "(\<exists>s. string_of b = Return s) \<longleftrightarrow> ok b"
  by (cases "ok b") (use build_ok [of b] build_err [of b] in \<open>auto simp: string_def Must_def\<close>)

lemma string_full_returns_iff:
  "(\<exists>s. string_full b scheme host = Return s) \<longleftrightarrow> scheme \<noteq> [] \<and> host \<noteq> [] \<and> ok b"
proof (cases "scheme \<noteq> [] \<and> host \<noteq> [] \<and> ok b")
  case True
  then show ?thesis by (simp add: string_full_def full_url_eq Must_def)
next
  case False
  then have "\<exists>err. build_full b scheme host = (None, Some err)"
    using build_ok [of b] build_err [of b] by (auto simp: full_def full_url_def)
  with False show ?thesis by (auto simp: string_full_def Must_def)
qed

text \<open>The text of a full URL is scheme, host and the escaped path, which decodes to the path.\<close>

lemma string_full_eq:
  assumes "scheme \<noteq> []" and "host \<noteq> []" and "ok b" and "path_of b = CHR ''/'' # rest"
  shows "\<exists>p. string_full b scheme host = Return (scheme @ ''://'' @ url_escape host_char host @ p) \<and>
      url_unescape p = Some (path_of b)"
proof -
  have p: "EscapedPath \<lparr>Scheme = scheme, Host = host, UPath = CHR ''/'' # rest\<rparr> = CHR ''/'' # url_escape path_char rest"
    by (simp add: EscapedPath_def url_escape_rooted)
  have "string_full b scheme host
      = Return (scheme @ ''://'' @ url_escape host_char host @ url_escape path_char (path_of b))"
    using assms by (simp add: string_full_def full_url_eq Must_def url_String_def p url_escape_rooted Let_def)
  then show ?thesis
    using url_unescape_escape [of path_char, OF percent_escaped(1)] by blast
qed

end

text \<open>The paths of the three kinds of builders.\<close>

definition types_segs :: "string list" where
  "types_segs = [''a1-p'', ''policytypes'']"

definition rooted :: "string list \<Rightarrow> string" where
  "rooted segs = CHR ''/'' # Join segs ''/''"

lemma path_Join_default: "path_Join [[], CHR ''/'' # p] = Clean (CHR ''/'' # p)"
  by (simp add: path_Join_def)

text \<open>The templates, with their placeholders filled in.\<close>

lemma template_type:
  "Replace ''/a1-p/policytypes/{policy_type_id}'' ''{policy_type_id}'' v = ''/a1-p/policytypes/'' @ v"
  using Replace_upto [of "''{policy_type_id}''" "''/a1-p/policytypes/''" "[]" v]
  by (simp add: Replace_absent)

lemma template_instances:
  "Replace ''/a1-p/policytypes/{policy_type_id}/policies'' ''{policy_type_id}'' v
   = ''/a1-p/policytypes/'' @ v @ ''/policies''"
  using Replace_upto [of "''{policy_type_id}''" "''/a1-p/policytypes/''" "''/policies''" v]
  by (simp add: Replace_absent)

lemma template_instance_id:
  "Replace ''/a1-p/policytypes/{policy_type_id}/policies/{policy_instance_id}'' ''{policy_instance_id}'' v
   = ''/a1-p/policytypes/{policy_type_id}/policies/'' @ v"
proof -
  have "Split ''/a1-p/policytypes/{policy_type_id}/policies/{policy_instance_id}'' ''{policy_instance_id}'' = [''/a1-p/policytypes/{policy_type_id}/policies/'', '''']"
    by code_simp
  then show ?thesis by (simp add: Replace_def)
qed

lemma template_status_id:
  "Replace ''/a1-p/policytypes/{policy_type_id}/policies/{policy_instance_id}/status'' ''{policy_instance_id}'' v
   = ''/a1-p/policytypes/{policy_type_id}/policies/'' @ v @ ''/status''"
proof -
  have "Split ''/a1-p/policytypes/{policy_type_id}/policies/{policy_instance_id}/status'' ''{policy_instance_id}'' = [''/a1-p/policytypes/{policy_type_id}/policies/'', ''/status'']"
    by code_simp
  then show ?thesis by (simp add: Replace_def)
qed

lemma template_instance_type:
  "Replace (''/a1-p/policytypes/{policy_type_id}/policies/'' @ t) ''{policy_type_id}'' v
   = ''/a1-p/policytypes/'' @ v @ Replace (''/policies/'' @ t) ''{policy_type_id}'' v"
  using Replace_upto [of "''{policy_type_id}''" "''/a1-p/policytypes/''" "''/policies/'' @ t" v] by simp

text \<open>What a builder requires, and the path it makes.\<close>

definition type_ok :: "openapi \<Rightarrow> 'a type_builder_scheme \<Rightarrow> bool" where
  "type_ok lib b \<longleftrightarrow> FormatInt64 lib (urlTypeID b) \<noteq> []"

definition instance_ok :: "openapi \<Rightarrow> 'a instance_builder_scheme \<Rightarrow> bool" where
  "instance_ok lib b \<longleftrightarrow> urlInstanceID b \<noteq> [] \<and> FormatInt64 lib (urlTypeID b) \<noteq> []"

definition base_path :: "string \<Rightarrow> 'a base_builder_scheme \<Rightarrow> string" where
  "base_path template b = path_Join [basePath b, template]"

definition type_path :: "openapi \<Rightarrow> string \<Rightarrow> 'a type_builder_scheme \<Rightarrow> string" where
  "type_path lib template b =
     path_Join [basePath b, Replace template ''{policy_type_id}'' (FormatInt64 lib (urlTypeID b))]"

definition instance_path :: "openapi \<Rightarrow> string \<Rightarrow> 'a instance_builder_scheme \<Rightarrow> string" where
  "instance_path lib template b =
     path_Join [basePath b, Replace (Replace template ''{policy_instance_id}'' (urlInstanceID b))
                  ''{policy_type_id}'' (FormatInt64 lib (urlTypeID b))]"

lemmas path_defs = base_path_def type_path_def instance_path_def type_ok_def instance_ok_def

interpretation u_GetHealthcheck: url_builder GetHealthcheck_Build GetHealthcheck_String GetHealthcheck_BuildFull GetHealthcheck_StringFull
    "\<lambda>b. True" "base_path ''/a1-p/healthcheck''" "''A1ControllerGetHealthcheckURL''"
  by unfold_locales (auto simp: GetHealthcheck_Build_def GetHealthcheck_String_def GetHealthcheck_BuildFull_def GetHealthcheck_StringFull_def path_defs Let_def)

interpretation u_GetAllPolicyTypes: url_builder GetAllPolicyTypes_Build GetAllPolicyTypes_String GetAllPolicyTypes_BuildFull GetAllPolicyTypes_StringFull
    "\<lambda>b. True" "base_path ''/a1-p/policytypes''" "''A1ControllerGetAllPolicyTypesURL''"
  by unfold_locales (auto simp: GetAllPolicyTypes_Build_def GetAllPolicyTypes_String_def GetAllPolicyTypes_BuildFull_def GetAllPolicyTypes_StringFull_def path_defs Let_def)

interpretation u_DataDelivery: url_builder DataDelivery_Build DataDelivery_String DataDelivery_BuildFull DataDelivery_StringFull
    "\<lambda>b. True" "base_path ''/data-delivery''" "''A1ControllerDataDeliveryURL''"
  by unfold_locales (auto simp: DataDelivery_Build_def DataDelivery_String_def DataDelivery_BuildFull_def DataDelivery_StringFull_def path_defs Let_def)

interpretation u_GetPolicyType: url_builder "GetPolicyType_Build lib" "GetPolicyType_String lib" "GetPolicyType_BuildFull lib" "GetPolicyType_StringFull lib"
    "type_ok lib" "type_path lib ''/a1-p/policytypes/{policy_type_id}''" "''A1ControllerGetPolicyTypeURL''" for lib
  by unfold_locales (auto simp: GetPolicyType_Build_def GetPolicyType_String_def GetPolicyType_BuildFull_def GetPolicyType_StringFull_def path_defs Let_def)

interpretation u_CreatePolicyType: url_builder "CreatePolicyType_Build lib" "CreatePolicyType_String lib" "CreatePolicyType_BuildFull lib" "CreatePolicyType_StringFull lib"
    "type_ok lib" "type_path lib ''/a1-p/policytypes/{policy_type_id}''" "''A1ControllerCreatePolicyTypeURL''" for lib
  by unfold_locales (auto simp: CreatePolicyType_Build_def CreatePolicyType_String_def CreatePolicyType_BuildFull_def CreatePolicyType_StringFull_def path_defs Let_def)

interpretation u_DeletePolicyType: url_builder "DeletePolicyType_Build lib" "DeletePolicyType_String lib" "DeletePolicyType_BuildFull lib" "DeletePolicyType_StringFull lib"
    "type_ok lib" "type_path lib ''/a1-p/policytypes/{policy_type_id}''" "''A1ControllerDeletePolicyTypeURL''" for lib
  by unfold_locales (auto simp: DeletePolicyType_Build_def DeletePolicyType_String_def DeletePolicyType_BuildFull_def DeletePolicyType_StringFull_def path_defs Let_def)

interpretation u_GetAllInstancesForType: url_builder "GetAllInstancesForType_Build lib" "GetAllInstancesForType_String lib" "GetAllInstancesForType_BuildFull lib" "GetAllInstancesForType_StringFull lib"
    "type_ok lib" "type_path lib ''/a1-p/policytypes/{policy_type_id}/policies''" "''A1ControllerGetAllInstancesForTypeURL''" for lib
  by unfold_locales (auto simp: GetAllInstancesForType_Build_def GetAllInstancesForType_String_def GetAllInstancesForType_BuildFull_def GetAllInstancesForType_StringFull_def path_defs Let_def)

interpretation u_GetPolicyInstance: url_builder "GetPolicyInstance_Build lib" "GetPolicyInstance_String lib" "GetPolicyInstance_BuildFull lib" "GetPolicyInstance_StringFull lib"
    "instance_ok lib" "instance_path lib ''/a1-p/policytypes/{policy_type_id}/policies/{policy_instance_id}''" "''A1ControllerGetPolicyInstanceURL''" for lib
  by unfold_locales (auto simp: GetPolicyInstance_Build_def GetPolicyInstance_String_def GetPolicyInstance_BuildFull_def GetPolicyInstance_StringFull_def path_defs Let_def)

interpretation u_CreateOrReplacePolicyInstance: url_builder "CreateOrReplacePolicyInstance_Build lib" "CreateOrReplacePolicyInstance_String lib" "CreateOrReplacePolicyInstance_BuildFull lib" "CreateOrReplacePolicyInstance_StringFull lib"
    "instance_ok lib" "instance_path lib ''/a1-p/policytypes/{policy_type_id}/policies/{policy_instance_id}''" "''A1ControllerCreateOrReplacePolicyInstanceURL''" for lib
  by unfold_locales (auto simp: CreateOrReplacePolicyInstance_Build_def CreateOrReplacePolicyInstance_String_def CreateOrReplacePolicyInstance_BuildFull_def CreateOrReplacePolicyInstance_StringFull_def path_defs Let_def)

interpretation u_DeletePolicyInstance: url_builder "DeletePolicyInstance_Build lib" "DeletePolicyInstance_String lib" "DeletePolicyInstance_BuildFull lib" "DeletePolicyInstance_StringFull lib"
    "instance_ok lib" "instance_path lib ''/a1-p/policytypes/{policy_type_id}/policies/{policy_instance_id}''" "''A1ControllerDeletePolicyInstanceURL''" for lib
  by unfold_locales (auto simp: DeletePolicyInstance_Build_def DeletePolicyInstance_String_def DeletePolicyInstance_BuildFull_def DeletePolicyInstance_StringFull_def path_defs Let_def)

interpretation u_GetPolicyInstanceStatus: url_builder "GetPolicyInstanceStatus_Build lib" "GetPolicyInstanceStatus_String lib" "GetPolicyInstanceStatus_BuildFull lib" "GetPolicyInstanceStatus_StringFull lib"
    "instance_ok lib" "instance_path lib ''/a1-p/policytypes/{policy_type_id}/policies/{policy_instance_id}/status''" "''A1ControllerGetPolicyInstanceStatusURL''" for lib
  by unfold_locales (auto simp: GetPolicyInstanceStatus_Build_def GetPolicyInstanceStatus_String_def GetPolicyInstanceStatus_BuildFull_def GetPolicyInstanceStatus_StringFull_def path_defs Let_def)

section \<open>The paths that are built\<close>

definition type_builder_of :: "instance_builder \<Rightarrow> type_builder" where
  "type_builder_of b = \<lparr>basePath = basePath b, urlTypeID = urlTypeID b\<rparr>"

lemma joined_segs:
  assumes "list_all (\<lambda>s. CHR ''/'' \<notin> set s) segs" and "segs \<noteq> []"
  shows "path_Join [[], rooted segs] = rooted (clean_segments True segs)"
  using assms by (simp add: rooted_def path_Join_default Clean_Join)

lemma FormatInt_no_slash [simp]: "CHR ''/'' \<notin> set (FormatInt i)" "CHR ''{'' \<notin> set (FormatInt i)"
  by (rule FormatInt_no_byte; simp add: digit_val_def)+

lemma literal_segs [simp]:
  "good_seg ''a1-p''" "good_seg ''policytypes''" "good_seg ''policies''" "good_seg ''status''"
  by (simp_all add: good_seg_def)

text \<open>The three shapes of a path below a policy type, before cleaning.\<close>

lemma shape_instance:
  assumes "CHR ''{'' \<notin> set iid"
  shows "Replace (Replace ''/a1-p/policytypes/{policy_type_id}/policies/{policy_instance_id}'' ''{policy_instance_id}'' iid)
           ''{policy_type_id}'' (FormatInt i)
       = rooted [''a1-p'', ''policytypes'', FormatInt i, ''policies'', iid]"
  using assms by (simp add: template_instance_id template_instance_type [simplified] Replace_absent rooted_def)

lemma shape_status:
  assumes "CHR ''{'' \<notin> set iid"
  shows "Replace (Replace ''/a1-p/policytypes/{policy_type_id}/policies/{policy_instance_id}/status'' ''{policy_instance_id}'' iid)
           ''{policy_type_id}'' (FormatInt i)
       = rooted [''a1-p'', ''policytypes'', FormatInt i, ''policies'', iid, ''status'']"
  using assms by (simp add: template_status_id template_instance_type [simplified] Replace_absent rooted_def)

lemma shape_type:
  "Replace ''/a1-p/policytypes/{policy_type_id}'' ''{policy_type_id}'' (FormatInt i)
   = rooted [''a1-p'', ''policytypes'', FormatInt i]"
  "Replace ''/a1-p/policytypes/{policy_type_id}/policies'' ''{policy_type_id}'' (FormatInt i)
   = rooted [''a1-p'', ''policytypes'', FormatInt i, ''policies'']"
  by (simp_all add: template_type template_instances rooted_def)

lemma default_paths:
  assumes "openapi_laws lib" and "basePath b = []"
  shows "type_path lib ''/a1-p/policytypes/{policy_type_id}'' b
       = rooted [''a1-p'', ''policytypes'', FormatInt (urlTypeID b)]"
    and "type_path lib ''/a1-p/policytypes/{policy_type_id}/policies'' b
       = rooted [''a1-p'', ''policytypes'', FormatInt (urlTypeID b), ''policies'']"
  using assms
  by (simp_all add: type_path_def shape_type openapi_laws.format_int64 joined_segs clean_segments_id
      good_seg_def [of "FormatInt _"])

text \<open>An instance path with any instance id that has no slash and no brace.\<close>

lemma default_instance_paths:
  assumes "openapi_laws lib" and "basePath b = []" and "CHR ''/'' \<notin> set (urlInstanceID b)"
    and "CHR ''{'' \<notin> set (urlInstanceID b)"
  shows "instance_path lib ''/a1-p/policytypes/{policy_type_id}/policies/{policy_instance_id}'' b
       = rooted (clean_segments True [''a1-p'', ''policytypes'', FormatInt (urlTypeID b), ''policies'', urlInstanceID b])"
    and "instance_path lib ''/a1-p/policytypes/{policy_type_id}/policies/{policy_instance_id}/status'' b
       = rooted (clean_segments True [''a1-p'', ''policytypes'', FormatInt (urlTypeID b), ''policies'', urlInstanceID b, ''status''])"
  using assms
  by (simp_all add: instance_path_def shape_instance shape_status openapi_laws.format_int64 joined_segs)

lemma builder_ok:
  assumes "openapi_laws lib"
  shows "type_ok lib b" and "instance_ok lib b' \<longleftrightarrow> urlInstanceID b' \<noteq> []"
  by (simp_all add: type_ok_def instance_ok_def openapi_laws.format_int64 [OF assms])

lemma rooted_join:
  assumes "bp = [] \<or> hd bp = CHR ''/''"
  shows "\<exists>segs. path_Join [bp, CHR ''/'' # p] = rooted segs \<and> list_all good_seg segs"
proof (cases bp)
  case Nil
  then show ?thesis using Clean_rooted_good [of p] by (simp add: path_Join_default rooted_def)
next
  case (Cons c cs)
  then have "path_Join [bp, CHR ''/'' # p] = Clean (CHR ''/'' # cs @ ''//'' @ p)"
    using assms by (simp add: path_Join_def)
  then show ?thesis using Clean_rooted_good [of "cs @ ''//'' @ p"] by (simp add: rooted_def)
qed

lemma instance_paths_clean:
  assumes "basePath b = [] \<or> hd (basePath b) = CHR ''/''"
  shows "\<exists>segs. instance_path lib ''/a1-p/policytypes/{policy_type_id}/policies/{policy_instance_id}'' b = rooted segs \<and>
      list_all good_seg segs"
    and "\<exists>segs. instance_path lib ''/a1-p/policytypes/{policy_type_id}/policies/{policy_instance_id}/status'' b = rooted segs \<and>
      list_all good_seg segs"
  using rooted_join [OF assms]
  by (simp_all add: instance_path_def template_instance_id template_status_id template_instance_type [simplified])

section \<open>Properties\<close>

text \<open>
  Error paths. The text of a full URL is produced exactly when scheme, host and, where the
  operation has one, the policy instance id are not empty; otherwise the builder panics. The
  policy type id is never missing, whatever its value.
\<close>

theorem full_urls_need_their_parts:
  assumes "openapi_laws lib"
  shows "((\<exists>s. GetPolicyType_StringFull lib tb scheme host = Return s) \<longleftrightarrow> scheme \<noteq> [] \<and> host \<noteq> []) \<and>
    ((\<exists>s. CreatePolicyType_StringFull lib tb scheme host = Return s) \<longleftrightarrow> scheme \<noteq> [] \<and> host \<noteq> []) \<and>
    ((\<exists>s. DeletePolicyType_StringFull lib tb scheme host = Return s) \<longleftrightarrow> scheme \<noteq> [] \<and> host \<noteq> []) \<and>
    ((\<exists>s. GetAllInstancesForType_StringFull lib tb scheme host = Return s) \<longleftrightarrow> scheme \<noteq> [] \<and> host \<noteq> []) \<and>
    ((\<exists>s. GetPolicyInstance_StringFull lib b scheme host = Return s) \<longleftrightarrow> scheme \<noteq> [] \<and> host \<noteq> [] \<and> urlInstanceID b \<noteq> []) \<and>
    ((\<exists>s. CreateOrReplacePolicyInstance_StringFull lib b scheme host = Return s) \<longleftrightarrow> scheme \<noteq> [] \<and> host \<noteq> [] \<and> urlInstanceID b \<noteq> []) \<and>
    ((\<exists>s. DeletePolicyInstance_StringFull lib b scheme host = Return s) \<longleftrightarrow> scheme \<noteq> [] \<and> host \<noteq> [] \<and> urlInstanceID b \<noteq> []) \<and>
    ((\<exists>s. GetPolicyInstanceStatus_StringFull lib b scheme host = Return s) \<longleftrightarrow> scheme \<noteq> [] \<and> host \<noteq> [] \<and> urlInstanceID b \<noteq> [])"
  by (simp_all only: u_GetPolicyType.string_full_returns_iff u_CreatePolicyType.string_full_returns_iff u_DeletePolicyType.string_full_returns_iff u_GetAllInstancesForType.string_full_returns_iff u_GetPolicyInstance.string_full_returns_iff u_CreateOrReplacePolicyInstance.string_full_returns_iff u_DeletePolicyInstance.string_full_returns_iff u_GetPolicyInstanceStatus.string_full_returns_iff builder_ok [OF assms] simp_thms)

theorem full_urls_need_their_parts_witness:
  "\<not> (\<exists>s. GetPolicyInstance_StringFull std_openapi \<lparr>basePath = [], urlTypeID = 20001, urlInstanceID = []\<rparr> ''http'' ''ric'' = Return s)"
  using full_urls_need_their_parts [OF std_openapi_laws] by simp

text \<open>
  Functional correctness. For the default base path, and an instance id that is a plain
  path segment, the built URLs are those of the API: the identifiers stand in their places,
  unchanged, and nothing is cleaned away.
\<close>

theorem built_paths:
  assumes "openapi_laws lib" and "basePath b = []" and "good_seg (urlInstanceID b)"
    and "CHR ''{'' \<notin> set (urlInstanceID b)"
  shows "GetPolicyType_Build lib (type_builder_of b) = (Some (zero_url\<lparr>UPath := rooted [''a1-p'', ''policytypes'', FormatInt (urlTypeID b)]\<rparr>), None) \<and>
    CreatePolicyType_Build lib (type_builder_of b) = (Some (zero_url\<lparr>UPath := rooted [''a1-p'', ''policytypes'', FormatInt (urlTypeID b)]\<rparr>), None) \<and>
    DeletePolicyType_Build lib (type_builder_of b) = (Some (zero_url\<lparr>UPath := rooted [''a1-p'', ''policytypes'', FormatInt (urlTypeID b)]\<rparr>), None) \<and>
    GetAllInstancesForType_Build lib (type_builder_of b) = (Some (zero_url\<lparr>UPath := rooted [''a1-p'', ''policytypes'', FormatInt (urlTypeID b), ''policies'']\<rparr>), None) \<and>
    GetPolicyInstance_Build lib b = (Some (zero_url\<lparr>UPath := rooted [''a1-p'', ''policytypes'', FormatInt (urlTypeID b), ''policies'', urlInstanceID b]\<rparr>), None) \<and>
    CreateOrReplacePolicyInstance_Build lib b = (Some (zero_url\<lparr>UPath := rooted [''a1-p'', ''policytypes'', FormatInt (urlTypeID b), ''policies'', urlInstanceID b]\<rparr>), None) \<and>
    DeletePolicyInstance_Build lib b = (Some (zero_url\<lparr>UPath := rooted [''a1-p'', ''policytypes'', FormatInt (urlTypeID b), ''policies'', urlInstanceID b]\<rparr>), None) \<and>
    GetPolicyInstanceStatus_Build lib b = (Some (zero_url\<lparr>UPath := rooted [''a1-p'', ''policytypes'', FormatInt (urlTypeID b), ''policies'', urlInstanceID b, ''status'']\<rparr>), None)"
proof -
  let ?i = "FormatInt (urlTypeID b)" and ?iid = "urlInstanceID b"
  have tb: "basePath (type_builder_of b) = []" "urlTypeID (type_builder_of b) = urlTypeID b"
    using assms(2) by (simp_all add: type_builder_of_def)
  have "?iid \<noteq> []" "CHR ''/'' \<notin> set ?iid" using assms(3) by (simp_all add: good_seg_def)
  moreover have "clean_segments True [''a1-p'', ''policytypes'', ?i, ''policies'', ?iid]
        = [''a1-p'', ''policytypes'', ?i, ''policies'', ?iid]"
      "clean_segments True [''a1-p'', ''policytypes'', ?i, ''policies'', ?iid, ''status'']
        = [''a1-p'', ''policytypes'', ?i, ''policies'', ?iid, ''status'']"
    using assms(3) by (simp_all add: clean_segments_id)
  ultimately show ?thesis
    using assms(4) tb default_paths [OF assms(1) tb(1)] default_instance_paths [OF assms(1,2)]
    by (simp add: builder_ok [OF assms(1)] u_GetPolicyType.build_ok u_CreatePolicyType.build_ok u_DeletePolicyType.build_ok u_GetAllInstancesForType.build_ok u_GetPolicyInstance.build_ok u_CreateOrReplacePolicyInstance.build_ok u_DeletePolicyInstance.build_ok u_GetPolicyInstanceStatus.build_ok)
qed

theorem built_paths_witness:
  "GetPolicyInstance_Build std_openapi \<lparr>basePath = [], urlTypeID = 20001, urlInstanceID = ''abc''\<rparr>
   = (Some (zero_url\<lparr>UPath := rooted [''a1-p'', ''policytypes'', FormatInt 20001, ''policies'', ''abc'']\<rparr>), None)"
  using built_paths [OF std_openapi_laws, of "\<lparr>basePath = [], urlTypeID = 20001, urlInstanceID = ''abc''\<rparr>"]
  by (simp add: good_seg_def)

text \<open>
  C40. Safety. An instance id is put into the path without escaping. With the id \<open>..\<close> the URL that
  deletes or reads a policy instance is the one that deletes or reads its policy type, and the
  placeholder of the type in an instance id is replaced as if it were the template's.
\<close>

theorem instance_id_is_not_escaped:
  assumes "openapi_laws lib" and "basePath b = []"
  shows "DeletePolicyInstance_Build lib (b\<lparr>urlInstanceID := ''..''\<rparr>) = DeletePolicyType_Build lib (type_builder_of b) \<and>
    GetPolicyInstance_Build lib (b\<lparr>urlInstanceID := ''..''\<rparr>) = GetPolicyType_Build lib (type_builder_of b) \<and>
    GetPolicyInstance_Build lib (b\<lparr>urlInstanceID := ''{policy_type_id}''\<rparr>)
      = GetPolicyInstance_Build lib (b\<lparr>urlInstanceID := FormatInt (urlTypeID b)\<rparr>)"
proof -
  let ?i = "FormatInt (urlTypeID b)" and ?T = "type_builder_of b"
  have tb: "basePath ?T = []" "urlTypeID ?T = urlTypeID b"
    using assms(2) by (simp_all add: type_builder_of_def)
  have "clean_segments True [''a1-p'', ''policytypes'', ?i, ''policies'', ''..''] = [''a1-p'', ''policytypes'', ?i]"
    using clean_segments_good [of "[''a1-p'', ''policytypes'', ?i, ''policies'']" True "[''..'']"]
    by (simp add: clean_step_def)
  moreover have "Replace ''/policies/{policy_type_id}'' ''{policy_type_id}'' ?i = ''/policies/'' @ ?i"
    using Replace_upto [of "''{policy_type_id}''" "''/policies/''" "[]" ?i] by (simp add: Replace_absent)
  then have "Replace (Replace ''/a1-p/policytypes/{policy_type_id}/policies/{policy_instance_id}''
        ''{policy_instance_id}'' ''{policy_type_id}'') ''{policy_type_id}'' ?i
      = rooted [''a1-p'', ''policytypes'', ?i, ''policies'', ?i]"
    using template_instance_type [of "''{policy_type_id}''" ?i]
    by (simp add: template_instance_id rooted_def)
  ultimately show ?thesis
    using tb default_paths(1) [OF assms(1) tb(1)] default_instance_paths(1) [OF assms(1), of "b\<lparr>urlInstanceID := ''..''\<rparr>"] assms(2) shape_instance [of ?i "urlTypeID b"]
    by (simp add: builder_ok [OF assms(1)] u_GetPolicyType.build_ok u_DeletePolicyType.build_ok u_GetPolicyInstance.build_ok u_DeletePolicyInstance.build_ok instance_path_def openapi_laws.format_int64 [OF assms(1)])
qed

theorem instance_id_is_not_escaped_witness:
  "DeletePolicyInstance_Build std_openapi \<lparr>basePath = [], urlTypeID = 20001, urlInstanceID = ''..''\<rparr>
   = DeletePolicyType_Build std_openapi \<lparr>basePath = [], urlTypeID = 20001\<rparr>"
  using instance_id_is_not_escaped [OF std_openapi_laws, of "\<lparr>basePath = [], urlTypeID = 20001, urlInstanceID = []\<rparr>"]
  by (simp add: type_builder_of_def)

text \<open>
  Invariant. Whatever the instance id, and for every base path that is empty or starts with
  a slash, a built path is rooted and clean: it has no empty, \<open>.\<close> or \<open>..\<close> segment.
\<close>

theorem built_paths_are_clean:
  assumes "basePath b = [] \<or> hd (basePath b) = CHR ''/''"
    and "(Some u, None) \<in> {GetPolicyInstance_Build lib b, CreateOrReplacePolicyInstance_Build lib b,
           DeletePolicyInstance_Build lib b, GetPolicyInstanceStatus_Build lib b}"
  shows "\<exists>segs. UPath u = rooted segs \<and> list_all good_seg segs"
proof -
  have ok: "instance_ok lib b"
    using assms(2) u_GetPolicyInstance.build_err [of lib b] u_CreateOrReplacePolicyInstance.build_err [of lib b]
      u_DeletePolicyInstance.build_err [of lib b] u_GetPolicyInstanceStatus.build_err [of lib b]
    by (metis insertE emptyE prod.inject option.distinct(1))
  show ?thesis
    using assms(2) instance_paths_clean [OF assms(1), of lib] u_GetPolicyInstance.build_ok [OF ok]
      u_CreateOrReplacePolicyInstance.build_ok [OF ok] u_DeletePolicyInstance.build_ok [OF ok]
      u_GetPolicyInstanceStatus.build_ok [OF ok]
    by auto
qed

theorem built_paths_are_clean_witness:
  "\<exists>u segs. GetPolicyInstance_Build std_openapi \<lparr>basePath = ''/ric'', urlTypeID = 20001, urlInstanceID = ''a/../../..''\<rparr> = (Some u, None) \<and>
     UPath u = rooted segs \<and> list_all good_seg segs"
proof -
  let ?b = "\<lparr>basePath = ''/ric'', urlTypeID = 20001, urlInstanceID = ''a/../../..''\<rparr>"
  have ok: "instance_ok std_openapi ?b"
    by (simp add: builder_ok(2) [OF std_openapi_laws])
  obtain u where u: "GetPolicyInstance_Build std_openapi ?b = (Some u, None)"
    using u_GetPolicyInstance.build_ok [OF ok] by blast
  then show ?thesis
    using built_paths_are_clean [of ?b u std_openapi] by auto
qed

end
