(* ===== verification/JsonRoundtrip.thy ===== *)
theory JsonRoundtrip
  imports Models "HOL-Library.Multiset"
begin

text \<open>
  Reading back a JSON text that the encoder wrote: strings, numbers, values of an interface,
  and the policy type schema. The last section shows that the fuel of the parser is enough.
\<close>

section \<open>Strings\<close>

text \<open>A string that \<open>utf8.DecodeRune\<close> accepts from end to end.\<close>

function valid_utf8 :: "string \<Rightarrow> bool" where
  "valid_utf8 s =
     (if s = [] then True
      else case utf8_len s of None \<Rightarrow> False | Some n \<Rightarrow> valid_utf8 (drop (max 1 n) s))"
  by pat_completeness auto
termination
  by (relation "measure length") (auto simp: neq_Nil_conv)

declare valid_utf8.simps [simp del]

lemma utf8_len_ascii: "byte c < 128 \<Longrightarrow> utf8_len (c # cs) = Some (Suc 0)"
  by (simp add: utf8_len_def)

lemma utf8_len_le: "utf8_len s = Some n \<Longrightarrow> 1 \<le> n \<and> n \<le> length s"
  by (auto simp: utf8_len_def split: if_splits)

lemma utf8_len_multi: "utf8_len (c # cs) = Some n \<Longrightarrow> \<not> byte c < 128 \<Longrightarrow> 2 \<le> n"
  by (auto simp: utf8_len_def split: if_splits)

text \<open>Only the bytes of the sequence itself decide.\<close>

lemma utf8_len_append:
  assumes "utf8_len s = Some n"
  shows "utf8_len (take n s @ t) = Some n"
proof -
  have nth: "(take n s @ t) ! k = s ! k" if "k < n" for k
    using that utf8_len_le [OF assms] by (simp add: nth_append)
  have len: "length (take n s) = n"
    using utf8_len_le [OF assms] by simp
  consider "n = 1" | "n = 2" | "n = 3" | "n = 4"
    using assms by (auto simp: utf8_len_def split: if_splits)
  then show ?thesis
  proof cases
    case 1
    with assms nth [of 0] len show ?thesis by (simp add: utf8_len_def split: if_splits)
  next
    case 2
    with assms nth [of 0] nth [of 1] len show ?thesis
      by (simp add: utf8_len_def split: if_splits)
  next
    case 3
    with assms nth [of 0] nth [of 1] nth [of 2] len show ?thesis
      by (simp add: utf8_len_def split: if_splits)
  next
    case 4
    with assms nth [of 0] nth [of 1] nth [of 2] nth [of 3] len show ?thesis
      by (simp add: utf8_len_def split: if_splits)
  qed
qed

lemma byte_bounds: "0 \<le> byte c" "byte c < 256"
proof -
  have "byte c = byte c mod 256" by simp
  then show "0 \<le> byte c" "byte c < 256" by presburger+
qed

lemma hex_val_digit [simp]:
  assumes "0 \<le> d" and "d < 16"
  shows "hex_val (hex_digit d) = Some d"
proof (cases "d < 10")
  case True
  then have "byte (hex_digit d) = 48 + d"
    using assms by (simp add: hex_digit_def)
  with True assms show ?thesis by (simp add: hex_val_def Let_def)
next
  case False
  then have "byte (hex_digit d) = 87 + d"
    using assms by (simp add: hex_digit_def)
  with False assms show ?thesis by (simp add: hex_val_def Let_def)
qed

lemma encode_rune_ascii: "byte c < 128 \<Longrightarrow> encode_rune (byte c) = [c]"
  using byte_bounds [of c] by (simp add: encode_rune_def)

lemma getu4_hex:
  assumes "0 \<le> h" "h < 16" "0 \<le> l" "l < 16" "hex_val a = Some u" "hex_val b = Some v"
  shows "getu4 (CHR 0x5C # CHR ''u'' # a # b # hex_digit h # hex_digit l # r)
           = Some (((u * 16 + v) * 16 + h) * 16 + l)"
  using assms by (simp add: getu4_def numeral_nat)

lemma getu4_other: "e \<noteq> CHR ''u'' \<Longrightarrow> getu4 (CHR 0x5C # e # r) = None"
  by (simp add: getu4_def)

lemma append_single: "(@) [c] = (#) c"
  by (simp add: fun_eq_iff)

text \<open>One escaped or plain ASCII byte is read back as itself.\<close>

lemma decode_simple_escape:
  assumes "simple_escape e = Some c" and "e \<noteq> CHR ''u''"
  shows "decode_string (CHR 0x5C # e # r) = map_option (apfst ((#) c)) (decode_string r)"
  using assms by (simp add: decode_string.simps [of "CHR 0x5C # e # r"] getu4_other)

lemma decode_hex_escape:
  assumes "byte c < 128"
  shows "decode_string (CHR 0x5C # CHR ''u'' # CHR ''0'' # CHR ''0'' #
           hex_digit (byte c div 16) # hex_digit (byte c mod 16) # r)
         = map_option (apfst ((#) c)) (decode_string r)"
proof -
  let ?s = "CHR 0x5C # CHR ''u'' # CHR ''0'' # CHR ''0'' # hex_digit (byte c div 16) # hex_digit (byte c mod 16) # r"
  have "getu4 ?s = Some (((0 * 16 + 0) * 16 + byte c div 16) * 16 + byte c mod 16)"
    by (rule getu4_hex) (use assms byte_bounds [of c] in \<open>auto simp: hex_val_def\<close>)
  then have g: "getu4 ?s = Some (byte c)" by simp
  have "\<not> is_surrogate (byte c)"
    using assms by (simp add: is_surrogate_def)
  then show ?thesis
    using assms by (simp add: decode_string.simps [of ?s] g encode_rune_ascii append_single)
qed

lemma decode_plain:
  assumes "html_safe c"
  shows "decode_string (c # r) = map_option (apfst ((#) c)) (decode_string r)"
proof -
  have "utf8_len (c # r) = Some (Suc 0)"
    using assms by (simp add: utf8_len_ascii html_safe_def)
  with assms show ?thesis
    by (simp add: decode_string.simps [of "c # r"] html_safe_def append_single)
qed

lemma decode_escape_ascii:
  assumes "byte c < 128"
  shows "decode_string (escape_ascii c @ r) = map_option (apfst ((#) c)) (decode_string r)"
  using assms
  by (auto simp: escape_ascii_def decode_plain decode_simple_escape simple_escape_def decode_hex_escape)

lemma decode_multi:
  assumes "utf8_len s = Some n" and "\<not> byte (hd s) < 128"
  shows "decode_string (take n s @ r) = map_option (apfst ((@) (take n s))) (decode_string r)"
proof -
  have "s \<noteq> []" "1 \<le> n" "n \<le> length s"
    using utf8_len_le [OF assms(1)] by auto
  then have front: "take n s @ r \<noteq> []" "hd (take n s @ r) = hd s"
    by (cases s; cases n; simp)+
  have "hd s \<noteq> CHR 0x22" "hd s \<noteq> CHR 0x5C" "\<not> byte (hd s) < 32"
    using assms(2) by auto
  then show ?thesis
    using front \<open>s \<noteq> []\<close> \<open>n \<le> length s\<close> \<open>1 \<le> n\<close>
    by (simp add: decode_string.simps [of "take n s @ r"] utf8_len_append [OF assms(1)] max_def)
qed

lemma encode_rune_separators:
  "encode_rune 8232 = [CHR 0xE2, CHR 0x80, CHR 0xA8]"
  "encode_rune 8233 = [CHR 0xE2, CHR 0x80, CHR 0xA9]"
  by code_simp+

lemma decode_line_separator:
  assumes "line_separator t"
  shows "decode_string (CHR 0x5C # ''u202'' @ hex_digit (byte (t ! 2) mod 16) # r)
         = map_option (apfst ((@) t)) (decode_string r)"
proof -
  from assms consider "t = [CHR 0xE2, CHR 0x80, CHR 0xA8]" | "t = [CHR 0xE2, CHR 0x80, CHR 0xA9]"
    by (auto simp: line_separator_def)
  then show ?thesis
  proof cases
    case 1
    then have "t = encode_rune 8232" "byte (t ! 2) mod 16 = 8"
      by (simp_all add: encode_rune_separators)
    then show ?thesis
      by (simp add: decode_string.simps [of "CHR 0x5C # _"] getu4_def hex_val_def hex_digit_def
          is_surrogate_def numeral_nat)
  next
    case 2
    then have "t = encode_rune 8233" "byte (t ! 2) mod 16 = 9"
      by (simp_all add: encode_rune_separators)
    then show ?thesis
      by (simp add: decode_string.simps [of "CHR 0x5C # _"] getu4_def hex_val_def hex_digit_def
          is_surrogate_def numeral_nat)
  qed
qed

lemma line_separator_length: "line_separator t \<Longrightarrow> length t = 3"
  by (auto simp: line_separator_def)

theorem decode_escape_body:
  "valid_utf8 s \<Longrightarrow> decode_string (escape_body s @ CHR 0x22 # r) = Some (s, r)"
proof (induction s rule: escape_body.induct)
  case (1 s)
  consider (nil) "s = []" | (ascii) c t where "s = c # t" "byte c < 128"
    | (multi) n where "s \<noteq> []" "\<not> byte (hd s) < 128" "utf8_len s = Some n" "valid_utf8 (drop (max 1 n) s)"
    using "1.prems" that
    by (cases s; cases "byte (hd s) < 128") (simp_all add: valid_utf8.simps [of "_ # _"] split: option.splits)
  then show ?case
  proof cases
    case nil
    then show ?thesis by (simp add: escape_body.simps decode_string.simps [of "CHR 0x22 # r"])
  next
    case (ascii c t)
    then have "valid_utf8 t"
      using "1.prems" by (simp add: valid_utf8.simps [of "c # t"] utf8_len_ascii)
    with ascii "1.IH"(1) have "decode_string (escape_body t @ CHR 0x22 # r) = Some (t, r)"
      by simp
    with ascii show ?thesis
      by (simp add: escape_body.simps [of "c # t"] decode_escape_ascii)
  next
    case (multi n)
    then have IH: "decode_string (escape_body (drop (max 1 n) s) @ CHR 0x22 # r) = Some (drop (max 1 n) s, r)"
      using "1.IH"(3) by simp
    have "max 1 n = n"
      using utf8_len_le [OF multi(3)] by simp
    moreover have "decode_string (CHR 0x5C # ''u202'' @ hex_digit (byte (s ! 2) mod 16) # x)
        = map_option (apfst ((@) (take n s))) (decode_string x)" if "line_separator (take n s)" for x
    proof -
      have "2 < n" using line_separator_length [OF that] by simp
      then have "take n s ! 2 = s ! 2" by simp
      then show ?thesis using decode_line_separator [OF that, of x] by simp
    qed
    ultimately show ?thesis
      using IH multi by (simp add: escape_body.simps [of s] decode_multi)
  qed
qed

corollary decode_encode_string:
  "valid_utf8 s \<Longrightarrow> decode_string (tl (encode_string s) @ r) = Some (s, r)"
  by (simp add: encode_string_def decode_escape_body)

section \<open>Numbers\<close>

text \<open>What may follow a number so that its literal ends there.\<close>

definition delim :: "string \<Rightarrow> bool" where
  "delim r \<longleftrightarrow> r = [] \<or> (\<not> is_digit (hd r) \<and> hd r \<notin> set [CHR ''.'', CHR ''e'', CHR ''E''])"

lemma is_digit_iff: "is_digit c \<longleftrightarrow> 48 \<le> byte c \<and> byte c \<le> 57"
  by (auto simp: is_digit_def digit_val_def Let_def)

lemma takeWhile_extend:
  assumes "dropWhile P s = [] \<Longrightarrow> r = [] \<or> \<not> P (hd r)"
  shows "takeWhile P (s @ r) = takeWhile P s" and "dropWhile P (s @ r) = dropWhile P s @ r"
proof -
  have "takeWhile P (s @ r) = takeWhile P s \<and> dropWhile P (s @ r) = dropWhile P s @ r"
  proof (cases "dropWhile P s = []")
    case True
    then have all: "\<forall>x \<in> set s. P x" by (simp add: dropWhile_eq_Nil_conv)
    then have "takeWhile P s = s" by (rule takeWhile_dropWhile_all)
    moreover have "takeWhile P r = [] \<and> dropWhile P r = r"
      using assms [OF True] by (cases r) auto
    ultimately have "takeWhile P (s @ r) = s \<and> dropWhile P (s @ r) = r"
      using all by simp
    with True \<open>takeWhile P s = s\<close> show ?thesis by (simp only: append_Nil)
  next
    case False
    then have "\<not> (\<forall>x \<in> set s. P x)" by (simp add: dropWhile_eq_Nil_conv)
    then show ?thesis by (auto simp: takeWhile_append dropWhile_append)
  qed
  then show "takeWhile P (s @ r) = takeWhile P s" and "dropWhile P (s @ r) = dropWhile P s @ r"
    by simp_all
qed

lemma delim_digit: "delim r \<Longrightarrow> r = [] \<or> \<not> is_digit (hd r)"
  by (auto simp: delim_def)

lemma digits_extend [simp]:
  "delim r \<Longrightarrow> takeWhile is_digit (s @ r) = takeWhile is_digit s"
  "delim r \<Longrightarrow> dropWhile is_digit (s @ r) = dropWhile is_digit s @ r"
  using takeWhile_extend [of is_digit s r] delim_digit [of r] by auto

lemma scan_int_parts: "scan_int s = Some (i, t) \<Longrightarrow> s = i @ t \<and> i \<noteq> []"
  by (auto simp: scan_int_def split: list.splits if_splits)

lemma scan_frac_parts: "scan_frac s = Some (f, t) \<Longrightarrow> s = f @ t"
  by (cases s) (auto simp: scan_frac_def split: if_splits)

lemma scan_exp_parts: "scan_exp s = Some (e, t) \<Longrightarrow> s = e @ t"
  by (cases s; cases "tl s") (auto simp: scan_exp_def Let_def split: if_splits)

lemma scan_number_parts: "scan_number s = Some (n, t) \<Longrightarrow> s = n @ t"
  by (cases s)
     (auto simp: scan_number_def Let_def dest!: scan_int_parts scan_frac_parts scan_exp_parts
           split: option.splits if_splits)

lemma valid_number_eq: "valid_number lit \<longleftrightarrow> scan_number lit = Some (lit, [])"
  by (auto simp: valid_number_def dest: scan_number_parts split: option.splits)

lemma scan_int_extend:
  assumes "scan_int s = Some (i, t)" and "delim r"
  shows "scan_int (s @ r) = Some (i, t @ r)"
proof (cases s)
  case Nil
  with assms(1) show ?thesis by (simp add: scan_int_def)
next
  case (Cons c cs)
  then show ?thesis
    using assms digits_extend [OF assms(2), of "c # cs"]
    by (auto simp: scan_int_def split: if_splits)
qed

lemma scan_frac_extend:
  assumes "scan_frac s = Some (f, t)" and "delim r"
  shows "scan_frac (s @ r) = Some (f, t @ r)"
  using assms by (cases s) (auto simp: scan_frac_def delim_def split: if_splits)

lemma scan_exp_extend:
  assumes "scan_exp s = Some (e, t)" and "delim r"
  shows "scan_exp (s @ r) = Some (e, t @ r)"
proof (cases s)
  case Nil
  with assms show ?thesis by (auto simp: scan_exp_def delim_def)
next
  case (Cons c cs)
  then show ?thesis
    using assms by (cases cs) (auto simp: scan_exp_def Let_def split: if_splits)
qed

lemma scan_number_extend:
  assumes "scan_number s = Some (n, t)" and "delim r"
  shows "scan_number (s @ r) = Some (n, t @ r)"
proof -
  let ?sg = "if s \<noteq> [] \<and> hd s = CHR ''-'' then ''-'' else []"
  obtain i r1 f r2 e where
      i: "scan_int (drop (length ?sg) s) = Some (i, r1)" and
      f: "scan_frac r1 = Some (f, r2)" and e: "scan_exp r2 = Some (e, t)" and
      n: "n = ?sg @ i @ f @ e"
    using assms(1) unfolding scan_number_def Let_def by (auto split: option.splits prod.splits)
  have "s \<noteq> []"
    using i by (auto simp: scan_int_def)
  then have "drop (length ?sg) (s @ r) = drop (length ?sg) s @ r"
    by (cases s) auto
  moreover have "(if s @ r \<noteq> [] \<and> hd (s @ r) = CHR ''-'' then ''-'' else []) = ?sg"
    using \<open>s \<noteq> []\<close> by simp
  ultimately show ?thesis
    using scan_int_extend [OF i assms(2)] scan_frac_extend [OF f assms(2)] scan_exp_extend [OF e assms(2)] n
    unfolding scan_number_def Let_def by simp
qed

lemma scan_number_literal:
  "valid_number lit \<Longrightarrow> delim r \<Longrightarrow> scan_number (lit @ r) = Some (lit, r)"
  using scan_number_extend [of lit lit "[]" r] by (simp add: valid_number_eq)

lemma valid_number_hd:
  assumes "valid_number lit"
  shows "lit \<noteq> []" and "hd lit = CHR ''-'' \<or> is_digit (hd lit)"
  using assms
  by (cases lit; auto simp: valid_number_def scan_number_def scan_int_def Let_def is_digit_iff
      split: option.splits list.splits if_splits)+

text \<open>A formatted integer is a number literal.\<close>

lemma format_uint_hd_zero: "0 < n \<Longrightarrow> hd (format_uint n) \<noteq> CHR ''0''"
proof (induction n rule: format_uint.induct)
  case (1 n)
  show ?case
  proof (cases "n < 10")
    case True
    with "1.prems" have "byte (digit_char n) = 48 + n"
      by (simp add: digit_char_def)
    with True "1.prems" show ?thesis
      by (auto simp: format_uint.simps [of n])
  next
    case False
    with "1.IH" show ?thesis by (simp add: format_uint.simps [of n])
  qed
qed

lemma scan_int_format:
  assumes "0 \<le> n"
  shows "scan_int (format_uint n) = Some (format_uint n, [])"
proof (cases "n = 0")
  case True
  moreover have "digit_char 0 = CHR ''0''" by code_simp
  ultimately show ?thesis by (simp add: format_uint.simps scan_int_def)
next
  case False
  with assms have "0 < n" by simp
  have all: "\<forall>c \<in> set (format_uint n). is_digit c"
    using format_uint_digits [OF assms] by (simp add: is_digit_def)
  obtain c cs where f: "format_uint n = c # cs" by (cases "format_uint n") auto
  with all format_uint_hd_zero [OF \<open>0 < n\<close>] have "c \<noteq> CHR ''0''" "is_digit c" by auto
  with all [unfolded f] show ?thesis unfolding f scan_int_def by simp
qed

lemma valid_number_FormatInt: "valid_number (FormatInt i)"
proof -
  have *: "scan_int (format_uint n) = Some (format_uint n, []) \<and> hd (format_uint n) \<noteq> CHR ''-''" if "0 \<le> n" for n
    using scan_int_format [OF that] hd_format_uint [OF that] by simp
  show ?thesis
    using * [of "sint i"] * [of "- sint i"]
    by (simp add: valid_number_def scan_number_def FormatInt_def scan_frac_def scan_exp_def Let_def)
qed

section \<open>Values\<close>

text \<open>
  Values whose text parses back: number literals, well-formed UTF-8, and objects given as Go
  maps (keys distinct and ascending). \<open>depth\<close> counts nested
  containers, \<open>jfuel\<close> the calls the parser makes for the text of a value.
\<close>

fun json_ok :: "json \<Rightarrow> bool" where
  "json_ok (JNumber lit) = valid_number lit"
| "json_ok (JString s) = valid_utf8 s"
| "json_ok (JArray vs) = list_all json_ok vs"
| "json_ok (JObject kvs) =
     (sorted_wrt (<) (map fst kvs) \<and> list_all (\<lambda>(k, v). valid_utf8 k \<and> json_ok v) kvs)"
| "json_ok v = True"

fun depth :: "json \<Rightarrow> nat" where
  "depth (JArray vs) = Suc (foldr max (map depth vs) 0)"
| "depth (JObject kvs) = Suc (foldr max (map (\<lambda>(k, v). depth v) kvs) 0)"
| "depth v = 0"

fun jfuel :: "json \<Rightarrow> nat" where
  "jfuel (JArray vs) = Suc (sum_list (map (\<lambda>v. Suc (jfuel v)) vs))"
| "jfuel (JObject kvs) = Suc (sum_list (map (\<lambda>(k, v). Suc (jfuel v)) kvs))"
| "jfuel v = 1"

lemma foldr_max_ge: "x \<in> set xs \<Longrightarrow> x \<le> foldr max xs (0::nat)"
  by (induction xs) auto

lemma expect_hd: "\<not> is_ws x \<Longrightarrow> expect c (x # r) = (if x = c then Some r else None)"
  by (simp add: expect_def skip_ws_def)

lemma is_ws_simps [simp]:
  "\<not> is_ws (CHR '','')" "\<not> is_ws (CHR '']'')" "\<not> is_ws (CHR ''}'')" "\<not> is_ws (CHR '':'')"
  "\<not> is_ws (CHR 0x22)" "\<not> is_ws (CHR ''['')" "\<not> is_ws (CHR ''{'')"
  "\<not> is_ws (CHR ''n'')" "\<not> is_ws (CHR ''t'')" "\<not> is_ws (CHR ''f'')" "\<not> is_ws (CHR ''-'')"
  by (simp_all add: is_ws_def)

lemma is_ws_digit: "is_digit c \<Longrightarrow> \<not> is_ws c"
  by (auto simp: is_ws_def is_digit_iff)

definition value_start :: "char \<Rightarrow> bool" where
  "value_start c \<longleftrightarrow> c \<in> set [CHR ''n'', CHR ''t'', CHR ''f'', CHR 0x22, CHR ''['', CHR ''{'', CHR ''-''] \<or> is_digit c"

lemma encode_value_start:
  "json_ok v \<Longrightarrow> \<exists>c cs. encode_value v = c # cs \<and> value_start c"
proof (cases v)
  case (JNumber lit)
  moreover assume "json_ok v"
  ultimately show ?thesis
    using valid_number_hd [of lit] by (cases lit) (auto simp: value_start_def)
qed (auto simp: value_start_def encode_string_def)

lemma value_start_not: "value_start c \<Longrightarrow> \<not> is_ws c \<and> c \<noteq> CHR '']'' \<and> c \<noteq> CHR ''}'' \<and> c \<noteq> CHR '',''"
  by (auto simp: value_start_def is_ws_def is_digit_iff)

text \<open>The property of one value that the induction carries through arrays and objects.\<close>

definition parses_back :: "json \<Rightarrow> bool" where
  "parses_back v \<longleftrightarrow> (\<forall>f d r. delim r \<longrightarrow> jfuel v \<le> f \<longrightarrow> d + depth v \<le> max_depth \<longrightarrow>
     parse_value f d (encode_value v @ r) = Some (v, r))"

lemma delim_simps [simp]: "delim (CHR '','' # r)" "delim (CHR '']'' # r)" "delim (CHR ''}'' # r)"
  by (auto simp: delim_def is_digit_iff)

lemma parse_elems_back:
  assumes "vs \<noteq> []" and "\<forall>v \<in> set vs. parses_back v"
    and "sum_list (map (\<lambda>v. Suc (jfuel v)) vs) \<le> f" and "\<forall>v \<in> set vs. d + depth v \<le> max_depth"
  shows "parse_elems f d (commas (map encode_value vs) @ CHR '']'' # r) = Some (vs, r)"
  using assms
proof (induction vs arbitrary: f rule: induct_list012)
  case (2 v)
  then obtain g where "f = Suc g" "jfuel v \<le> g" by (cases f) auto
  with 2 show ?case by (simp add: parses_back_def expect_hd)
next
  case (3 v w vs)
  then obtain g where g: "f = Suc g" "jfuel v \<le> g" "sum_list (map (\<lambda>v. Suc (jfuel v)) (w # vs)) \<le> g"
    by (cases f) auto
  with 3 have "parse_elems g d (commas (map encode_value (w # vs)) @ CHR '']'' # r) = Some (w # vs, r)"
    by simp
  with 3 g show ?case by (simp add: parses_back_def expect_hd)
qed simp

lemma parse_members_back:
  assumes "kvs \<noteq> []" and "\<forall>(k, v) \<in> set kvs. valid_utf8 k \<and> parses_back v"
    and "sum_list (map (\<lambda>(k, v). Suc (jfuel v)) kvs) \<le> f" and "\<forall>(k, v) \<in> set kvs. d + depth v \<le> max_depth"
  shows "parse_members f d (commas (map (\<lambda>(k, v). encode_member (k, encode_value v)) kvs) @ CHR ''}'' # r) = Some (kvs, r)"
  using assms
proof (induction kvs arbitrary: f rule: induct_list012)
  case (2 kv)
  obtain k v where kv: "kv = (k, v)" by (cases kv)
  with 2 obtain g where "f = Suc g" "jfuel v \<le> g" by (cases f) auto
  with 2 kv show ?case
    by (simp add: parses_back_def expect_hd encode_member_def encode_string_def decode_escape_body)
next
  case (3 kv lw kvs)
  obtain k v where kv: "kv = (k, v)" by (cases kv)
  with 3 obtain g where g: "f = Suc g" "jfuel v \<le> g"
      "sum_list (map (\<lambda>(k, v). Suc (jfuel v)) (lw # kvs)) \<le> g"
    by (cases f) auto
  with 3 have "parse_members g d (commas (map (\<lambda>(k, v). encode_member (k, encode_value v)) (lw # kvs)) @ CHR ''}'' # r)
      = Some (lw # kvs, r)"
    by simp
  with 3 g kv show ?case
    by (simp add: parses_back_def expect_hd encode_member_def encode_string_def decode_escape_body)
qed simp

lemma encode_object:
  assumes "sorted_wrt (<) (map fst kvs)"
  shows "encode_value (JObject kvs)
         = ''{'' @ commas (map (\<lambda>(k, v). encode_member (k, encode_value v)) kvs) @ ''}''"
proof -
  let ?g = "\<lambda>(k, v). (k, encode_string k @ '':'' @ encode_value v)"
  have "sorted (map fst (map ?g kvs))"
    using assms by (simp add: comp_def case_prod_beta strict_sorted_imp_sorted)
  then have sort: "sort_key fst (map ?g kvs) = map ?g kvs"
    by (rule sort_key_id_if_sorted)
  have members: "map snd (map ?g kvs) = map (\<lambda>(k, v). encode_member (k, encode_value v)) kvs"
    by (auto simp: encode_member_def)
  show ?thesis
    by (simp only: encode_value.simps sort members)
qed

lemma encode_empty_object [simp]: "encode_value (JObject []) = ''{}''"
  by simp

text \<open>Arrays and objects, whatever separates their parts.\<close>

lemma parse_array_text:
  assumes "jfuel (JArray vs) \<le> f" and "d + depth (JArray vs) \<le> max_depth" and "vs = [] \<Longrightarrow> body = []"
    and "vs \<noteq> [] \<Longrightarrow> expect (CHR '']'') (body @ CHR '']'' # r) = None"
    and "\<And>g. vs \<noteq> [] \<Longrightarrow> sum_list (map (\<lambda>v. Suc (jfuel v)) vs) \<le> g \<Longrightarrow> \<forall>v \<in> set vs. Suc d + depth v \<le> max_depth \<Longrightarrow>
      parse_elems g (Suc d) (body @ CHR '']'' # r) = Some (vs, r)"
  shows "parse_value f d (CHR ''['' # body @ CHR '']'' # r) = Some (JArray vs, r)"
proof -
  obtain g where g: "f = Suc g" "sum_list (map (\<lambda>v. Suc (jfuel v)) vs) \<le> g"
    using assms(1) by (cases f) auto
  have "Suc d + depth v \<le> max_depth" if "v \<in> set vs" for v
  proof -
    from that have "depth v \<le> foldr max (map depth vs) 0" by (auto intro: foldr_max_ge)
    with assms(2) show ?thesis by simp
  qed
  with assms(2-5) g show ?thesis by (cases "vs = []") (simp_all add: skip_ws_def expect_hd)
qed

lemma parse_object_text:
  assumes "jfuel (JObject kvs) \<le> f" and "d + depth (JObject kvs) \<le> max_depth" and "kvs = [] \<Longrightarrow> body = []"
    and "kvs \<noteq> [] \<Longrightarrow> expect (CHR ''}'') (body @ CHR ''}'' # r) = None"
    and "\<And>g. kvs \<noteq> [] \<Longrightarrow> sum_list (map (\<lambda>(k, v). Suc (jfuel v)) kvs) \<le> g \<Longrightarrow> \<forall>(k, v) \<in> set kvs. Suc d + depth v \<le> max_depth \<Longrightarrow>
      parse_members g (Suc d) (body @ CHR ''}'' # r) = Some (kvs, r)"
  shows "parse_value f d (CHR ''{'' # body @ CHR ''}'' # r) = Some (JObject kvs, r)"
proof -
  obtain g where g: "f = Suc g" "sum_list (map (\<lambda>(k, v). Suc (jfuel v)) kvs) \<le> g"
    using assms(1) by (cases f) auto
  have "Suc d + depth v \<le> max_depth" if "(k, v) \<in> set kvs" for k v
  proof -
    from that have "depth v \<le> foldr max (map (\<lambda>(k, v). depth v) kvs) 0" by (intro foldr_max_ge) force
    with assms(2) show ?thesis by simp
  qed
  then have "\<forall>(k, v) \<in> set kvs. Suc d + depth v \<le> max_depth" by blast
  with assms(2-5) g show ?thesis by (cases "kvs = []") (simp_all add: skip_ws_def expect_hd)
qed

lemma parse_number_text:
  assumes "valid_number lit" and "delim r" and "jfuel (JNumber lit) \<le> f"
  shows "parse_value f d (lit @ r) = Some (JNumber lit, r)"
proof -
  obtain g where f: "f = Suc g" using assms(3) by (cases f) auto
  obtain c cs where lit: "lit = c # cs"
    using valid_number_hd(1) [OF assms(1)] by (cases lit) auto
  have "c = CHR ''-'' \<or> is_digit c"
    using valid_number_hd(2) [OF assms(1)] lit by simp
  then have "\<not> is_ws c" "c \<notin> set [CHR ''{'', CHR ''['', CHR 0x22, CHR ''n'', CHR ''t'', CHR ''f'']"
    by (auto simp: is_digit_iff is_ws_def)
  then show ?thesis
    using scan_number_literal [OF assms(1,2)] f lit by (simp add: skip_ws_def HasPrefix_def)
qed

theorem parse_value_encode: "json_ok v \<Longrightarrow> parses_back v"
proof (induction v)
  case JNull
  then show ?case
    by (auto simp: parses_back_def skip_ws_def HasPrefix_def Suc_le_eq gr0_conv_Suc)
next
  case (JBool b)
  then show ?case
    by (auto simp: parses_back_def skip_ws_def HasPrefix_def Suc_le_eq gr0_conv_Suc)
next
  case (JNumber lit)
  then show ?case using parse_number_text [of lit] valid_number_hd(1) [of lit] by (simp add: parses_back_def)
next
  case (JString s)
  then show ?case
    by (auto simp: parses_back_def skip_ws_def encode_string_def decode_escape_body Suc_le_eq gr0_conv_Suc)
next
  case (JArray vs)
  have ok: "\<forall>v \<in> set vs. parses_back v \<and> json_ok v"
    using JArray by (auto simp: list_all_iff)
  let ?body = "commas (map encode_value vs)"
  have "expect (CHR '']'') (?body @ CHR '']'' # r) = None" if some: "vs \<noteq> []" for r
  proof -
    obtain v ws where vs: "vs = v # ws" using some by (cases vs) auto
    then obtain c cs where "encode_value v = c # cs" "value_start c"
      using ok encode_value_start [of v] by auto
    with vs value_start_not [of c] show ?thesis by (cases ws) (simp_all add: expect_hd)
  qed
  moreover have "parse_elems g (Suc d) (?body @ CHR '']'' # r) = Some (vs, r)"
    if "vs \<noteq> []" "sum_list (map (\<lambda>v. Suc (jfuel v)) vs) \<le> g" "\<forall>v \<in> set vs. Suc d + depth v \<le> max_depth" for g d r
    using ok that by (intro parse_elems_back) auto
  ultimately have "parse_value f d (CHR ''['' # ?body @ CHR '']'' # r) = Some (JArray vs, r)"
    if "jfuel (JArray vs) \<le> f" "d + depth (JArray vs) \<le> max_depth" for f d r
    using that by (intro parse_array_text) auto
  then show ?case by (simp add: parses_back_def)
next
  case (JObject kvs)
  have ok: "\<forall>(k, v) \<in> set kvs. valid_utf8 k \<and> parses_back v" and "sorted_wrt (<) (map fst kvs)"
    using JObject by (fastforce simp: list_all_iff, simp)
  note enc = encode_object [OF this(2)]
  let ?body = "commas (map (\<lambda>(k, v). encode_member (k, encode_value v)) kvs)"
  have "expect (CHR ''}'') (?body @ CHR ''}'' # r) = None" if some: "kvs \<noteq> []" for r
  proof -
    obtain k v kws where "kvs = (k, v) # kws" using some by (cases kvs) auto
    then show ?thesis by (cases kws) (simp_all add: expect_hd encode_member_def encode_string_def)
  qed
  moreover have "parse_members g (Suc d) (?body @ CHR ''}'' # r) = Some (kvs, r)"
    if "kvs \<noteq> []" "sum_list (map (\<lambda>(k, v). Suc (jfuel v)) kvs) \<le> g" "\<forall>(k, v) \<in> set kvs. Suc d + depth v \<le> max_depth" for g d r
    using ok that by (intro parse_members_back) auto
  ultimately have "parse_value f d (CHR ''{'' # ?body @ CHR ''}'' # r) = Some (JObject kvs, r)"
    if "jfuel (JObject kvs) \<le> f" "d + depth (JObject kvs) \<le> max_depth" for f d r
    using that by (intro parse_object_text) auto
  then show ?case by (simp add: parses_back_def enc del: encode_value.simps)
qed

text \<open>The fuel \<open>parse_json\<close> gives the parser covers the text of every value.\<close>

lemma length_Join: "length (Join xs sep) + length sep = sum_list (map (\<lambda>x. length x + length sep) xs)"
  if "xs \<noteq> []"
  using that by (induction xs rule: induct_list012) auto

lemma encode_object_length:
  "length (encode_value (JObject kvs)) =
   2 + length (commas (map (\<lambda>(k, v). encode_string k @ '':'' @ encode_value v) kvs))"
proof -
  let ?g = "\<lambda>(k, v). (k, encode_string k @ '':'' @ encode_value v)"
  have "length (commas (map snd (sort_key fst xs))) = length (commas (map snd xs))" for xs :: "(string \<times> string) list"
  proof (cases "xs = []")
    case False
    have "mset (map (\<lambda>x. length x + 1) (map snd (sort_key fst xs))) = mset (map (\<lambda>x. length x + 1) (map snd xs))"
      by (simp only: mset_map mset_sort)
    then have "sum_list (map (\<lambda>x. length x + 1) (map snd (sort_key fst xs))) = sum_list (map (\<lambda>x. length x + 1) (map snd xs))"
      by (metis sum_mset_sum_list)
    moreover have "sort_key fst xs \<noteq> []"
      using False by (metis length_0_conv length_sort)
    ultimately show ?thesis
      using length_Join [of "map snd (sort_key fst xs)" "'',''"] length_Join [of "map snd xs" "'',''"] False
      by simp
  qed simp
  note perm = this [of "map ?g kvs"]
  have members: "map snd (map ?g kvs) = map (\<lambda>(k, v). encode_string k @ '':'' @ encode_value v) kvs"
    by auto
  have "length (encode_value (JObject kvs)) = 2 + length (commas (map snd (sort_key fst (map ?g kvs))))"
    by simp
  then show ?thesis by (simp only: perm members)
qed

lemma sum_list_le:
  "(\<And>x. x \<in> set xs \<Longrightarrow> f x \<le> g x) \<Longrightarrow> sum_list (map f xs) \<le> sum_list (map g xs)" for f g :: "_ \<Rightarrow> nat"
  by (rule sum_list_mono)

lemma jfuel_le: "json_ok v \<Longrightarrow> jfuel v \<le> 2 * length (encode_value v)"
proof (induction v)
  case (JNumber lit)
  then show ?case using valid_number_hd(1) [of lit] by (cases lit) auto
next
  case (JArray vs)
  show ?case
  proof (cases "vs = []")
    case False
    have "sum_list (map (\<lambda>v. Suc (jfuel v)) vs) \<le> sum_list (map (\<lambda>v. 2 * (length (encode_value v) + 1)) vs)"
      using JArray by (intro sum_list_le) (fastforce simp: list_all_iff)
    also have "\<dots> = 2 * sum_list (map (\<lambda>x. length x + 1) (map encode_value vs))"
      by (simp only: sum_list_const_mult map_map comp_def)
    also have "\<dots> = 2 * (length (commas (map encode_value vs)) + 1)"
      using length_Join [of "map encode_value vs" "'',''"] False by simp
    finally show ?thesis by simp
  qed simp
next
  case (JObject kvs)
  show ?case
  proof (cases "kvs = []")
    case False
    let ?t = "\<lambda>(k, v). encode_string k @ '':'' @ encode_value v"
    have "sum_list (map (\<lambda>(k, v). Suc (jfuel v)) kvs) \<le> sum_list (map (\<lambda>kv. 2 * (length (?t kv) + 1)) kvs)"
    proof (rule sum_list_le, clarify)
      fix k v assume "(k, v) \<in> set kvs"
      then have "jfuel v \<le> 2 * length (encode_value v)"
        using JObject by (fastforce simp: list_all_iff)
      then show "Suc (jfuel v) \<le> 2 * (length (encode_string k @ '':'' @ encode_value v) + 1)" by simp
    qed
    also have "\<dots> = 2 * sum_list (map (\<lambda>x. length x + 1) (map ?t kvs))"
      by (simp only: sum_list_const_mult map_map comp_def)
    also have "\<dots> = 2 * (length (commas (map ?t kvs)) + 1)"
      using length_Join [of "map ?t kvs" "'',''"] False by simp
    finally show ?thesis
      unfolding encode_object_length by simp
  qed simp
qed (auto simp: encode_string_def)

theorem parse_json_encode:
  assumes "json_ok v" and "depth v \<le> max_depth"
  shows "parse_json (encode_value v) = Some v"
proof -
  have "jfuel v \<le> 2 * length (encode_value v) + 2" "0 + depth v \<le> max_depth" "delim []"
    using jfuel_le [OF assms(1)] assms(2) by (simp_all add: delim_def)
  then have "parse_value (2 * length (encode_value v) + 2) 0 (encode_value v @ []) = Some (v, [])"
    using parse_value_encode [OF assms(1)] unfolding parses_back_def by blast
  then show ?thesis by (simp add: parse_json_def skip_ws_def)
qed

text \<open>
  \<open>json.Marshal\<close> of a struct writes its fields in the order of their declaration, which need not
  be ascending; its text parses to the fields in that order.
\<close>

definition encode_struct :: "(string \<times> json) list \<Rightarrow> string" where
  "encode_struct kvs = ''{'' @ commas (map (\<lambda>(k, v). encode_member (k, encode_value v)) kvs) @ ''}''"

theorem parse_json_struct:
  assumes "kvs \<noteq> []" and ok: "\<forall>(k, v) \<in> set kvs. valid_utf8 k \<and> json_ok v \<and> depth v < max_depth"
  shows "parse_json (encode_struct kvs) = Some (JObject kvs)"
proof -
  let ?t = "\<lambda>(k, v). encode_member (k, encode_value v)"
  let ?ms = "commas (map ?t kvs) @ ''}''"
  let ?f = "2 * length (encode_struct kvs) + 2"
  have "sum_list (map (\<lambda>(k, v). Suc (jfuel v)) kvs) \<le> sum_list (map (\<lambda>kv. 2 * (length (?t kv) + 1)) kvs)"
  proof (rule sum_list_le, clarify)
    fix k v assume "(k, v) \<in> set kvs"
    then have "jfuel v \<le> 2 * length (encode_value v)" using ok jfuel_le by fastforce
    then show "Suc (jfuel v) \<le> 2 * (length (encode_member (k, encode_value v)) + 1)"
      by (simp add: encode_member_def)
  qed
  also have "\<dots> = 2 * sum_list (map (\<lambda>x. length x + 1) (map ?t kvs))"
    by (simp only: sum_list_const_mult map_map comp_def)
  also have "\<dots> = 2 * (length (commas (map ?t kvs)) + 1)"
    using length_Join [of "map ?t kvs" "'',''"] assms(1) by simp
  finally have fuel: "sum_list (map (\<lambda>(k, v). Suc (jfuel v)) kvs) \<le> ?f - 1"
    by (simp add: encode_struct_def)
  have "\<forall>(k, v) \<in> set kvs. valid_utf8 k \<and> parses_back v" "\<forall>(k, v) \<in> set kvs. 1 + depth v \<le> max_depth"
    using ok parse_value_encode by auto
  from parse_members_back [OF assms(1) this(1) fuel this(2), of "[]"]
  have "parse_members (?f - 1) 1 ?ms = Some (kvs, [])" .
  moreover obtain kv kws where "kvs = kv # kws" using assms(1) by (meson neq_Nil_conv)
  then have "expect (CHR ''}'') ?ms = None"
    by (cases kws; cases kv) (simp_all add: expect_hd encode_member_def encode_string_def)
  ultimately have "parse_value (Suc (?f - 1)) 0 (encode_struct kvs) = Some (JObject kvs, [])"
    using max_depth_def by (simp add: encode_struct_def skip_ws_def del: commas.simps)
  then show ?thesis by (simp add: parse_json_def skip_ws_def)
qed

section \<open>Maps\<close>

lemma map_put_above: "\<forall>a \<in> set (map fst m). a < k \<Longrightarrow> map_put k v m = m @ [(k, v)]"
  by (induction m) auto

lemma fold_map_put_sorted:
  assumes "sorted_wrt (<) (map fst (m @ kvs))"
  shows "fold (\<lambda>(k, v). map_put k v) kvs m = m @ kvs"
  using assms
proof (induction kvs arbitrary: m)
  case (Cons kv kvs)
  obtain k v where kv: "kv = (k, v)" by (cases kv)
  with Cons.prems have "map_put k v m = m @ [(k, v)]"
    by (intro map_put_above) (auto simp: sorted_wrt_append)
  with Cons kv show ?case by simp
qed simp

text \<open>A decoded value without an overflowing number is the Go value as it is.\<close>

lemma iface_of_id: "json_ok v \<Longrightarrow> \<not> has_overflow v \<Longrightarrow> iface_of v = v"
proof (induction v)
  case (JArray vs)
  then show ?case
    by (auto simp: list_all_iff list_ex_iff intro: map_idI)
next
  case (JObject kvs)
  have "map (\<lambda>(k, v). (k, iface_of v)) kvs = kvs"
  proof (rule map_idI)
    fix kv assume "kv \<in> set kvs"
    moreover obtain k v where kv: "kv = (k, v)" by (cases kv)
    moreover have "json_ok v" "\<not> has_overflow v"
      using JObject.prems calculation by (auto simp: list_all_iff list_ex_iff)
    ultimately have "iface_of v = v"
      using JObject.IH by fastforce
    then show "(case kv of (k, v) \<Rightarrow> (k, iface_of v)) = kv" by (simp add: kv)
  qed
  with JObject.prems fold_map_put_sorted [of "[]" kvs] show ?case by simp
qed auto

section \<open>The policy type schema\<close>

text \<open>The policy types that come back from the storage as they were.\<close>

definition schema_ok :: "policy_type_schema \<Rightarrow> bool" where
  "schema_ok m \<longleftrightarrow>
     json_ok (CreateSchema m) \<and> \<not> has_overflow (CreateSchema m) \<and> depth (CreateSchema m) < max_depth \<and>
     (case Description m of None \<Rightarrow> True | Some s \<Rightarrow> valid_utf8 s) \<and>
     (case Name m of None \<Rightarrow> True | Some s \<Rightarrow> valid_utf8 s)"

lemma encode_schema_object: "encode_schema m = encode_value (JObject (schema_members m))"
proof -
  have "sorted_wrt (<) (map fst (schema_members m))"
    by (simp add: schema_members_def)
  from encode_object [OF this] show ?thesis by (simp add: encode_schema_def)
qed

lemma valid_utf8_Nil [simp]: "valid_utf8 []"
  by (simp add: valid_utf8.simps)

lemma valid_utf8_ascii: "byte c < 128 \<Longrightarrow> valid_utf8 (c # s) = valid_utf8 s"
  by (simp add: valid_utf8.simps [of "c # s"] utf8_len_ascii)

lemma schema_members_ok:
  assumes "schema_ok m"
  shows "json_ok (JObject (schema_members m))" and "depth (JObject (schema_members m)) \<le> max_depth"
  using assms
  by (auto simp: schema_members_def schema_ok_def valid_utf8_ascii valid_number_FormatInt Suc_le_eq
      split: option.splits)

theorem Unmarshal_encode_schema:
  assumes "schema_ok m"
  shows "Unmarshal_schema (encode_schema m) = (m, False)"
proof -
  have "parse_json (encode_schema m) = Some (JObject (schema_members m))"
    using parse_json_encode [OF schema_members_ok [OF assms]] by (simp add: encode_schema_object)
  moreover have "iface_of (CreateSchema m) = CreateSchema m" "\<not> has_overflow (CreateSchema m)"
    using assms iface_of_id by (auto simp: schema_ok_def)
  ultimately show ?thesis
    by (cases "Description m"; cases "Name m"; cases "PolicyTypeID m")
       (simp_all add: Unmarshal_schema_def schema_members_def assign_member_def
         zero_schema_def Let_def)
qed

section \<open>Bytes of the text\<close>

text \<open>
  The storage text is put between backquotes and unquoted before it is parsed. What matters
  there is whether a backquote or a carriage return occurs in it: a carriage return never
  does, a backquote exactly when a string or a key of the value has one.
\<close>

abbreviation backquote :: char where
  "backquote \<equiv> CHR 0x60"

fun mentions :: "char \<Rightarrow> json \<Rightarrow> bool" where
  "mentions c (JString s) = (c \<in> set s)"
| "mentions c (JArray vs) = list_ex (mentions c) vs"
| "mentions c (JObject kvs) = list_ex (\<lambda>(k, v). c \<in> set k \<or> mentions c v) kvs"
| "mentions c v = False"

lemma set_commas: "c \<noteq> CHR '','' \<Longrightarrow> c \<in> set (commas xs) \<longleftrightarrow> (\<exists>x \<in> set xs. c \<in> set x)"
  by (induction xs rule: induct_list012) auto

lemma byte_hex_digit: "0 \<le> d \<Longrightarrow> d < 16 \<Longrightarrow> byte (hex_digit d) \<in> {48..57} \<union> {97..102}"
  by (auto simp: hex_digit_def)

lemma hex_digit_printable:
  assumes "0 \<le> d" and "d < 16"
  shows "hex_digit d \<noteq> backquote" and "32 \<le> byte (hex_digit d)"
  using byte_hex_digit [OF assms] by auto

lemma escape_ascii_bytes:
  assumes "byte c < 128"
  shows "backquote \<in> set (escape_ascii c) \<longleftrightarrow> c = backquote"
    and "x \<in> set (escape_ascii c) \<Longrightarrow> 32 \<le> byte x"
proof -
  have d: "0 \<le> byte c div 16" "byte c div 16 < 16" "0 \<le> byte c mod 16" "byte c mod 16 < 16"
    using assms byte_bounds [of c] by auto
  note h = hex_digit_printable [OF d(1,2)] hex_digit_printable [OF d(3,4)]
  have safe: "html_safe backquote" by (simp add: html_safe_def)
  show "backquote \<in> set (escape_ascii c) \<longleftrightarrow> c = backquote"
  proof (cases "html_safe c")
    case False
    then have "c \<noteq> backquote" using safe by auto
    moreover have "backquote \<notin> set (escape_ascii c)"
      using False h(1,3) \<open>c \<noteq> backquote\<close> by (simp add: escape_ascii_def not_sym)
    ultimately show ?thesis by simp
  qed (auto simp: escape_ascii_def)
  show "32 \<le> byte x" if x: "x \<in> set (escape_ascii c)"
  proof (cases "html_safe c")
    case True
    with x show ?thesis by (simp add: escape_ascii_def html_safe_def)
  next
    case False
    then consider "x = CHR 0x5C" | "x = c" "c = CHR 0x22 \<or> c = CHR 0x5C" | "x \<in> set ''nrtu0''"
      | "x = hex_digit (byte c div 16)" | "x = hex_digit (byte c mod 16)"
      using x by (auto simp: escape_ascii_def split: if_splits)
    then show ?thesis using h(2,4) by cases auto
  qed
qed

lemma utf8_len_high:
  assumes "utf8_len s = Some n" and "\<not> byte (hd s) < 128" and "x \<in> set (take n s)"
  shows "128 \<le> byte x"
proof -
  obtain k where k: "k < n" "k < length s" "x = s ! k"
    using assms(3) by (auto simp: in_set_conv_nth)
  have "s \<noteq> []" using k by auto
  then have hd: "hd s = s ! 0" by (simp add: hd_conv_nth)
  have high: "\<not> byte (s ! 0) < 128"
    using assms(2) hd by simp
  have "utf8_len2 a b \<Longrightarrow> 128 \<le> byte b"
    "utf8_len3 a b c \<Longrightarrow> 128 \<le> byte b \<and> 128 \<le> byte c"
    "utf8_len4 a b c d \<Longrightarrow> 128 \<le> byte b \<and> 128 \<le> byte c \<and> 128 \<le> byte d" for a b c d
    by (simp_all add: utf8_len2_def utf8_len3_def utf8_len4_def cont_byte_def)
  note conts = this
  consider "n = 2" "utf8_len2 (s ! 0) (s ! 1)" | "n = 3" "utf8_len3 (s ! 0) (s ! 1) (s ! 2)"
    | "n = 4" "utf8_len4 (s ! 0) (s ! 1) (s ! 2) (s ! 3)"
    using assms(1) high by (auto simp: utf8_len_def split: if_splits)
  then show ?thesis
  proof cases
    case 1
    with k have "k = 0 \<or> k = 1" by auto
    with high conts(1) [OF 1(2)] k(3) show ?thesis by auto
  next
    case 2
    with k have "k = 0 \<or> k = 1 \<or> k = 2" by auto
    with high conts(2) [OF 2(2)] k(3) show ?thesis by auto
  next
    case 3
    with k have "k = 0 \<or> k = 1 \<or> k = 2 \<or> k = 3" by auto
    with high conts(3) [OF 3(2)] k(3) show ?thesis by auto
  qed
qed

lemma escape_body_printable: "x \<in> set (escape_body s) \<Longrightarrow> 32 \<le> byte x"
proof (induction s rule: escape_body.induct)
  case (1 s)
  show ?case
  proof (cases "s = [] \<or> byte (hd s) < 128 \<or> utf8_len s = None")
    case True
    with 1 show ?thesis
      by (auto simp: escape_body.simps [of s] escape_ascii_bytes split: if_splits)
  next
    case False
    then obtain n where n: "utf8_len s = Some n" "\<not> byte (hd s) < 128" "s \<noteq> []" by auto
    have "0 \<le> byte (s ! 2) mod 16" "byte (s ! 2) mod 16 < 16" by simp_all
    note h = hex_digit_printable(2) [OF this]
    show ?thesis
      using 1 n h utf8_len_high [OF n(1,2), of x]
      by (auto simp: escape_body.simps [of s] split: if_splits)
  qed
qed

lemma escape_body_backquote: "valid_utf8 s \<Longrightarrow> backquote \<in> set (escape_body s) \<longleftrightarrow> backquote \<in> set s"
proof (induction s rule: escape_body.induct)
  case (1 s)
  consider (nil) "s = []" | (ascii) c t where "s = c # t" "byte c < 128"
    | (multi) n where "s \<noteq> []" "\<not> byte (hd s) < 128" "utf8_len s = Some n" "valid_utf8 (drop n s)" "max 1 n = n"
    using "1.prems" that utf8_len_le [of s]
    by (cases s; cases "byte (hd s) < 128")
       (auto simp: valid_utf8.simps [of "_ # _"] max_def split: option.splits if_splits)
  then show ?case
  proof cases
    case nil
    then show ?thesis by (simp add: escape_body.simps)
  next
    case (ascii c t)
    with 1 show ?thesis
      by (auto simp: escape_body.simps [of "c # t"] escape_ascii_bytes valid_utf8_ascii)
  next
    case (multi n)
    have "0 \<le> byte (s ! 2) mod 16" "byte (s ! 2) mod 16 < 16" by simp_all
    note h = hex_digit_printable(1) [OF this]
    have front: "backquote \<notin> set (take n s)"
      using utf8_len_high [OF multi(3,2), of backquote] by auto
    have "set s = set (take n s) \<union> set (drop n s)"
      by (metis append_take_drop_id set_append)
    with front have "backquote \<in> set s \<longleftrightarrow> backquote \<in> set (drop n s)" by blast
    with 1 multi h front show ?thesis
      by (auto simp: escape_body.simps [of s])
  qed
qed

lemma encode_string_backquote:
  "valid_utf8 s \<Longrightarrow> backquote \<in> set (encode_string s) \<longleftrightarrow> backquote \<in> set s"
  by (simp add: encode_string_def escape_body_backquote)

lemma scan_number_bytes:
  assumes "valid_number lit" and "c \<in> set lit"
  shows "is_digit c \<or> c \<in> set [CHR ''-'', CHR ''+'', CHR ''.'', CHR ''e'', CHR ''E'']"
proof -
  obtain i r1 f r2 e where
      i: "scan_int (drop (length (if lit \<noteq> [] \<and> hd lit = CHR ''-'' then ''-'' else [])) lit) = Some (i, r1)" and
      f: "scan_frac r1 = Some (f, r2)" and e: "scan_exp r2 = Some (e, [])" and
      n: "lit = (if lit \<noteq> [] \<and> hd lit = CHR ''-'' then ''-'' else []) @ i @ f @ e"
    using assms(1) unfolding valid_number_eq scan_number_def Let_def
    by (auto split: option.splits prod.splits)
  have zero: "is_digit (CHR ''0'')" by (simp add: is_digit_iff)
  have "\<forall>c \<in> set i. is_digit c"
    using i zero by (auto simp: scan_int_def dest: set_takeWhileD split: list.splits if_splits)
  moreover have "\<forall>c \<in> set f. is_digit c \<or> c = CHR ''.''"
    using f by (auto simp: scan_frac_def dest: set_takeWhileD split: if_splits)
  moreover have "\<forall>c \<in> set e. is_digit c \<or> c \<in> set [CHR ''-'', CHR ''+'', CHR ''e'', CHR ''E'']"
    using e by (auto simp: scan_exp_def Let_def dest: set_takeWhileD split: if_splits)
  moreover have "c \<in> set ((if lit \<noteq> [] \<and> hd lit = CHR ''-'' then ''-'' else []) @ i @ f @ e)"
    using assms(2) n by (simp only:)
  ultimately show ?thesis by (auto split: if_splits)
qed

lemma number_bytes_printable:
  "valid_number lit \<Longrightarrow> c \<in> set lit \<Longrightarrow> 32 \<le> byte c \<and> c \<noteq> backquote"
  using scan_number_bytes [of lit c] by (auto simp: is_digit_iff)

lemma encode_string_printable: "x \<in> set (encode_string s) \<Longrightarrow> 32 \<le> byte x"
  by (auto simp: encode_string_def dest: escape_body_printable)

lemma commas_printable:
  "\<forall>t \<in> set xs. \<forall>c \<in> set t. 32 \<le> byte c \<Longrightarrow> c \<in> set (commas xs) \<Longrightarrow> 32 \<le> byte c"
  by (cases "c = CHR '',''") (auto simp: set_commas simp del: commas.simps)

theorem encode_value_bytes:
  assumes "json_ok v"
  shows "(\<forall>c \<in> set (encode_value v). 32 \<le> byte c) \<and>
         (backquote \<in> set (encode_value v) \<longleftrightarrow> mentions backquote v)"
  using assms
proof (induction v)
  case (JNumber lit)
  then show ?case
    using number_bytes_printable [of lit] valid_number_hd(1) [of lit] by auto
next
  case (JString s)
  then show ?case by (auto simp: encode_string_backquote encode_string_printable)
next
  case (JArray vs)
  then have IH: "\<forall>v \<in> set vs. (\<forall>c \<in> set (encode_value v). 32 \<le> byte c) \<and>
         (backquote \<in> set (encode_value v) \<longleftrightarrow> mentions backquote v)"
    by (auto simp: list_all_iff)
  then have "\<forall>c \<in> set (commas (map encode_value vs)). 32 \<le> byte c"
    using commas_printable [of "map encode_value vs"] by (simp del: commas.simps)
  with IH show ?case
    by (auto simp: set_commas list_ex_iff simp del: commas.simps)
next
  case (JObject kvs)
  have IH: "\<forall>(k, v) \<in> set kvs. valid_utf8 k \<and> (\<forall>c \<in> set (encode_value v). 32 \<le> byte c) \<and>
         (backquote \<in> set (encode_value v) \<longleftrightarrow> mentions backquote v)"
  proof clarify
    fix k v assume kv: "(k, v) \<in> set kvs"
    then have "valid_utf8 k" "json_ok v"
      using JObject.prems by (auto simp: list_all_iff)
    with JObject.IH [OF kv, of v]
    show "valid_utf8 k \<and> (\<forall>c \<in> set (encode_value v). 32 \<le> byte c) \<and>
         (backquote \<in> set (encode_value v) \<longleftrightarrow> mentions backquote v)"
      by simp
  qed
  have sorted: "sorted_wrt (<) (map fst kvs)" using JObject.prems by simp
  let ?ms = "map (\<lambda>(k, v). encode_member (k, encode_value v)) kvs"
  have "\<forall>t \<in> set ?ms. \<forall>c \<in> set t. 32 \<le> byte c"
  proof (intro ballI)
    fix t c assume "t \<in> set ?ms" and c: "c \<in> set t"
    then obtain k v where kv: "(k, v) \<in> set kvs" and t: "t = encode_member (k, encode_value v)"
      by auto
    from c t have "c \<in> set (encode_string k) \<or> c = CHR '':'' \<or> c \<in> set (encode_value v)"
      by (auto simp: encode_member_def)
    with IH kv show "32 \<le> byte c" by (auto dest: encode_string_printable)
  qed
  then have "\<forall>c \<in> set (commas ?ms). 32 \<le> byte c"
    using commas_printable [of ?ms] by blast
  moreover have "backquote \<in> set (commas ?ms) \<longleftrightarrow> (\<exists>(k, v) \<in> set kvs. backquote \<in> set k \<or> mentions backquote v)"
  proof -
    have "backquote \<in> set (encode_member (k, encode_value v)) \<longleftrightarrow> backquote \<in> set k \<or> mentions backquote v"
      if "(k, v) \<in> set kvs" for k v
      using IH that by (auto simp: encode_member_def encode_string_backquote)
    then have "(\<exists>kv \<in> set kvs. backquote \<in> set ((\<lambda>(k, v). encode_member (k, encode_value v)) kv)) \<longleftrightarrow>
        (\<exists>(k, v) \<in> set kvs. backquote \<in> set k \<or> mentions backquote v)"
      by (intro bex_cong) auto
    then show ?thesis by (simp add: set_commas del: commas.simps)
  qed
  ultimately show ?case
    unfolding encode_object [OF sorted] by (auto simp: list_ex_iff simp del: commas.simps)
qed auto

definition schema_mentions :: "char \<Rightarrow> policy_type_schema \<Rightarrow> bool" where
  "schema_mentions c m \<longleftrightarrow>
     mentions c (CreateSchema m) \<or> (\<exists>s. Description m = Some s \<and> c \<in> set s) \<or>
     (\<exists>s. Name m = Some s \<and> c \<in> set s)"

lemma schema_mentions_code [code]:
  "schema_mentions c m \<longleftrightarrow>
     mentions c (CreateSchema m) \<or> (case Description m of None \<Rightarrow> False | Some s \<Rightarrow> c \<in> set s) \<or>
     (case Name m of None \<Rightarrow> False | Some s \<Rightarrow> c \<in> set s)"
  by (auto simp: schema_mentions_def split: option.splits)

lemma encode_schema_bytes:
  assumes "schema_ok m"
  shows "backquote \<in> set (encode_schema m) \<longleftrightarrow> schema_mentions backquote m"
    and "CHR 0x0D \<notin> set (encode_schema m)"
proof -
  note ok = encode_value_bytes [OF schema_members_ok(1) [OF assms]]
  show "backquote \<in> set (encode_schema m) \<longleftrightarrow> schema_mentions backquote m"
    unfolding encode_schema_object using ok
    by (auto simp: schema_members_def schema_mentions_def split: option.splits)
  show "CHR 0x0D \<notin> set (encode_schema m)"
    unfolding encode_schema_object using ok by force
qed

lemma schema_ok_encodable: "schema_ok m \<Longrightarrow> encodable (CreateSchema m)"
proof -
  have "json_ok v \<Longrightarrow> encodable v" for v
    by (induction v) (fastforce simp: list_all_iff)+
  then show "schema_ok m \<Longrightarrow> encodable (CreateSchema m)" by (simp add: schema_ok_def)
qed

end
