(* ===== verification/Sdl.thy ===== *)
theory Sdl
  imports A1_Prelude
begin

text \<open>
  The interface \<open>iSdl\<close> of \<open>pkg/resthooks/types.go\<close>: the three operations of the shared data
  layer the hooks call. The storage itself is outside the repository; it is a parameter, a
  record of functions on a state \<open>'w\<close> of the outside world. The locale \<open>sdl_laws\<close> states
  what its documentation promises about the contents of a namespace.
\<close>

text \<open>
  What an \<open>interface{}\<close> read from the storage holds: \<open>nil\<close>, a string, or a value of another
  type, given by its default formatting.
\<close>

datatype sdl_value = SNil | SString string | SOther string

text \<open>\<open>fmt.Sprint\<close> of such a value.\<close>

fun Sprint :: "sdl_value \<Rightarrow> string" where
  "Sprint SNil = ''<nil>''"
| "Sprint (SString s) = s"
| "Sprint (SOther s) = s"

text \<open>
  Errors of the storage are its own; the \<open>string\<close> is the message. A Go map returned by \<open>Get\<close>
  is an association list with distinct keys.
\<close>

record 'w iSdl =
  GetAll :: "string \<Rightarrow> 'w \<Rightarrow> 'w \<times> string list \<times> string option"
  SetIfNotExists :: "string \<Rightarrow> string \<Rightarrow> sdl_value \<Rightarrow> 'w \<Rightarrow> 'w \<times> bool \<times> string option"
  Get :: "string \<Rightarrow> string list \<Rightarrow> 'w \<Rightarrow> 'w \<times> (string \<times> sdl_value) list \<times> string option"

type_synonym contents = "string \<Rightarrow> string \<rightharpoonup> string"

fun stored_value :: "string option \<Rightarrow> sdl_value" where
  "stored_value None = SNil"
| "stored_value (Some d) = SString d"

definition stored_at :: "contents \<Rightarrow> string \<Rightarrow> string \<Rightarrow> string \<Rightarrow> contents" where
  "stored_at c ns k d = c(ns := (c ns)(k \<mapsto> d))"

lemma stored_at_simps [simp]:
  "stored_at c ns k d ns k = Some d"
  "k' \<noteq> k \<Longrightarrow> stored_at c ns k d ns k' = c ns k'"
  "ns' \<noteq> ns \<Longrightarrow> stored_at c ns k d ns' = c ns'"
  by (simp_all add: stored_at_def)

text \<open>
  \<open>GetAll\<close> lists the keys of a namespace, \<open>Get\<close> reads keys (\<open>nil\<close> for a missing one), and
  \<open>SetIfNotExists\<close> writes a key unless it is there, as one atomic step. After an error of
  \<open>SetIfNotExists\<close> it is open whether the write took place.
\<close>

locale sdl_laws =
  fixes db :: "'w iSdl" and view :: "'w \<Rightarrow> contents"
  assumes get_all_view: "GetAll db ns w = (w', ks, e) \<Longrightarrow> view w' = view w"
    and get_all_keys: "GetAll db ns w = (w', ks, None) \<Longrightarrow> set ks = dom (view w ns)"
    and get_all_distinct: "GetAll db ns w = (w', ks, None) \<Longrightarrow> distinct ks"
    and set_new: "SetIfNotExists db ns k (SString d) w = (w', True, None) \<Longrightarrow>
          view w ns k = None \<and> view w' = stored_at (view w) ns k d"
    and set_old: "SetIfNotExists db ns k (SString d) w = (w', False, None) \<Longrightarrow>
          view w ns k \<noteq> None \<and> view w' = view w"
    and set_err: "SetIfNotExists db ns k (SString d) w = (w', ok, Some msg) \<Longrightarrow>
          view w' = view w \<or> view w ns k = None \<and> view w' = stored_at (view w) ns k d"
    and get_view: "Get db ns ks w = (w', m, e) \<Longrightarrow> view w' = view w"
    and get_values: "Get db ns ks w = (w', m, None) \<Longrightarrow> k \<in> set ks \<Longrightarrow>
          map_of m k = Some (stored_value (view w ns k))"
begin

lemma set_cases [consumes 1, case_names new old err]:
  assumes "SetIfNotExists db ns k (SString d) w = (w', ok, e)"
  obtains (new) "ok" "e = None" "view w ns k = None" "view w' = stored_at (view w) ns k d"
    | (old) "\<not> ok" "e = None" "view w ns k \<noteq> None" "view w' = view w"
    | (err) m where "e = Some m"
        "view w' = view w \<or> view w ns k = None \<and> view w' = stored_at (view w) ns k d"
  using assms set_new set_old set_err by (cases e; cases ok) metis+

text \<open>No operation ever changes or removes a value that is there.\<close>

lemma set_keeps:
  assumes "SetIfNotExists db ns k (SString d) w = (w', ok, e)" and "view w ns' k' = Some x"
  shows "view w' ns' k' = Some x"
  using assms(1)
proof (cases rule: set_cases)
  case new
  with assms(2) show ?thesis by (auto simp: stored_at_def)
next
  case old
  with assms(2) show ?thesis by simp
next
  case (err m)
  with assms(2) show ?thesis by (auto simp: stored_at_def)
qed

end

section \<open>A storage in memory\<close>

text \<open>
  A storage that satisfies the laws: an association list of namespace, key and value, and a
  flag that makes every operation fail while it is set (an unreachable database).
\<close>

record mem_world =
  cells :: "((string \<times> string) \<times> string) list"
  down :: bool

definition mem_view :: "mem_world \<Rightarrow> contents" where
  "mem_view w ns k = map_of (cells w) (ns, k)"

definition mem_keys :: "mem_world \<Rightarrow> string \<Rightarrow> string list" where
  "mem_keys w ns = remdups (map (snd \<circ> fst) (filter (\<lambda>c. fst (fst c) = ns) (cells w)))"

definition mem_GetAll :: "string \<Rightarrow> mem_world \<Rightarrow> mem_world \<times> string list \<times> string option" where
  "mem_GetAll ns w = (w, if down w then ([], Some ''no connection'') else (mem_keys w ns, None))"

definition mem_SetIfNotExists ::
    "string \<Rightarrow> string \<Rightarrow> sdl_value \<Rightarrow> mem_world \<Rightarrow> mem_world \<times> bool \<times> string option" where
  "mem_SetIfNotExists ns k v w =
     (if down w then (w, False, Some ''no connection'')
      else case map_of (cells w) (ns, k) of
        Some _ \<Rightarrow> (w, False, None)
      | None \<Rightarrow> (w\<lparr>cells := ((ns, k), Sprint v) # cells w\<rparr>, True, None))"

definition mem_Get ::
    "string \<Rightarrow> string list \<Rightarrow> mem_world \<Rightarrow> mem_world \<times> (string \<times> sdl_value) list \<times> string option" where
  "mem_Get ns ks w =
     (w, if down w then ([], Some ''no connection'')
         else (map (\<lambda>k. (k, stored_value (mem_view w ns k))) (remdups ks), None))"

definition mem_sdl :: "mem_world iSdl" where
  "mem_sdl = \<lparr>GetAll = mem_GetAll, SetIfNotExists = mem_SetIfNotExists, Get = mem_Get\<rparr>"

lemma set_mem_keys: "set (mem_keys w ns) = dom (mem_view w ns)"
  by (force simp: mem_keys_def mem_view_def dom_def map_of_eq_None_iff image_iff)

lemma map_of_graph: "k \<in> set ks \<Longrightarrow> map_of (map (\<lambda>k. (k, f k)) ks) k = Some (f k)"
  by (induction ks) auto

interpretation mem: sdl_laws mem_sdl mem_view
proof unfold_locales
  show "set ks = dom (mem_view w ns)" if "GetAll mem_sdl ns w = (w', ks, None)" for ns w w' ks
    using that by (auto simp: mem_sdl_def mem_GetAll_def set_mem_keys split: if_splits)
  show "map_of m k = Some (stored_value (mem_view w ns k))"
    if "Get mem_sdl ns ks w = (w', m, None)" and "k \<in> set ks" for ns ks w w' m k
    using that by (auto simp: mem_sdl_def mem_Get_def map_of_graph split: if_splits)
qed (auto simp: mem_sdl_def mem_GetAll_def mem_SetIfNotExists_def mem_Get_def mem_keys_def
      mem_view_def stored_at_def fun_eq_iff split: if_splits option.splits)

lemmas mem_sdl_laws = mem.sdl_laws_axioms

end
