(* ===== verification/Resthooks.thy ===== *)
theory Resthooks
  imports JsonRoundtrip Sdl
begin

text \<open>
  Package \<open>pkg/resthooks\<close>: the policy types kept in the shared data layer. Each exported
  function of \<open>resthooks.go\<close> is a definition that takes the hook, its arguments and the state
  of the storage, and returns the new state and an outcome; \<open>Panic\<close> is a Go panic.
  Logging is left out: it changes no state the functions read.
\<close>

section \<open>The code\<close>

definition a1PolicyPrefix :: string where
  "a1PolicyPrefix = ''a1.policy_type.''"

definition a1MediatorNs :: string where
  "a1MediatorNs = ''A1m_ns''"

record 'w Resthook =
  db :: "'w iSdl"

definition IsTypeAlready :: "go_error option \<Rightarrow> bool" where
  "IsTypeAlready err \<longleftrightarrow> err = Some TypeAlreadyError"

definition IsTypeMismatch :: "go_error option \<Rightarrow> bool" where
  "IsTypeMismatch err \<longleftrightarrow> err = Some TypeMismatchError"

definition createResthook :: "'w iSdl \<Rightarrow> 'w Resthook" where
  "createResthook sdlInst = \<lparr>db = sdlInst\<rparr>"

text \<open>The argument stands for the storage \<open>sdlgo.NewSyncStorage()\<close> opens.\<close>

definition NewResthook :: "'w iSdl \<Rightarrow> 'w Resthook" where
  "NewResthook syncStorage = createResthook syncStorage"

text \<open>A slice is \<open>nil\<close> (\<open>None\<close>) until the first \<open>append\<close>.\<close>

definition append_slice :: "'a list option \<Rightarrow> 'a \<Rightarrow> 'a list option" where
  "append_slice s x = Some (case s of None \<Rightarrow> [x] | Some xs \<Rightarrow> xs @ [x])"

text \<open>The body of the loop of \<open>GetAllPolicyType\<close>; the error of \<open>ParseInt\<close> is dropped.\<close>

definition collect_key :: "string \<Rightarrow> policy_type_id list option \<Rightarrow> policy_type_id list option outcome" where
  "collect_key key policyTypeIDs =
     (if HasPrefix (TrimLeft key '' '') a1PolicyPrefix then
        (case Split (Trim key '' '') a1PolicyPrefix of
           _ # pti # _ \<Rightarrow> Return (append_slice policyTypeIDs (fst (ParseInt pti)))
         | _ \<Rightarrow> Panic ''index out of range'')
      else Return policyTypeIDs)"

fun collect_keys :: "string list \<Rightarrow> policy_type_id list option \<Rightarrow> policy_type_id list option outcome" where
  "collect_keys [] ids = Return ids"
| "collect_keys (key # keys) ids = bind_outcome (collect_key key ids) (collect_keys keys)"

definition GetAllPolicyType :: "'w Resthook \<Rightarrow> 'w \<Rightarrow> 'w \<times> policy_type_id list option outcome" where
  "GetAllPolicyType rh w =
     (case GetAll (db rh) ''A1m_ns'' w of
        (w', keys, Some err) \<Rightarrow> (w', Return None)
      | (w', keys, None) \<Rightarrow> (w', collect_keys keys None))"

text \<open>
  \<open>strconv.Unquote\<close> of a text between backquotes: a backquote inside is a syntax error, a
  carriage return is dropped.
\<close>

definition Unquote_raw :: "string \<Rightarrow> string option" where
  "Unquote_raw s =
     (if length s < 2 \<or> hd s \<noteq> backquote \<or> last s \<noteq> backquote then None
      else let body = butlast (tl s) in
        if backquote \<in> set body then None
        else Some (filter (\<lambda>c. c \<noteq> CHR 0x0D) body))"

definition type_key :: "policy_type_id \<Rightarrow> string" where
  "type_key policyTypeId = a1PolicyPrefix @ FormatInt policyTypeId"

text \<open>Reading a Go map: a missing key gives the zero value, \<open>nil\<close>.\<close>

definition map_value :: "(string \<times> sdl_value) list \<Rightarrow> string \<Rightarrow> sdl_value" where
  "map_value m k = (case map_of m k of None \<Rightarrow> SNil | Some v \<Rightarrow> v)"

definition GetPolicyType ::
    "'w Resthook \<Rightarrow> policy_type_id \<Rightarrow> 'w \<Rightarrow> 'w \<times> policy_type_schema option outcome" where
  "GetPolicyType rh policyTypeId w =
     (let key = type_key policyTypeId;
          (w', valmap, err) = Get (db rh) a1MediatorNs [key] w
      in if length valmap = 0 then (w', Return None)
         else if err \<noteq> None then (w', Return None)
         else if map_value valmap key = SNil then (w', Return None)
         else
           let valStr = Sprint (map_value valmap key);
               valkey = [backquote] @ valStr @ [backquote]
           in case Unquote_raw valkey of
                None \<Rightarrow> (w', Panic ''invalid syntax'')
              | Some valToUnmarshall \<Rightarrow> (w', Return (Some (fst (Unmarshal_schema valToUnmarshall)))))"

definition CreatePolicyType ::
    "openapi \<Rightarrow> 'w Resthook \<Rightarrow> policy_type_id \<Rightarrow> policy_type_schema \<Rightarrow> 'w \<Rightarrow> 'w \<times> go_error option outcome" where
  "CreatePolicyType lib rh policyTypeId httprequest w =
     (case PolicyTypeID httprequest of
        None \<Rightarrow> (w, Panic nil_deref)
      | Some bodyId \<Rightarrow>
          if policyTypeId \<noteq> bodyId then (w, Return (Some TypeMismatchError))
          else
            let key = type_key policyTypeId in
            (case PolicyTypeSchema_MarshalBinary lib (Some httprequest) of
              (data, Some err) \<Rightarrow> (w, Return None)
            | (data, None) \<Rightarrow>
               (let (w', success, err1) = SetIfNotExists (db rh) a1MediatorNs key (SString data) w
                in case err1 of
                     Some msg \<Rightarrow> (w', Return (Some (Foreign msg)))
                   | None \<Rightarrow> (w', Return (if success then None else Some TypeAlreadyError)))))"

section \<open>Keys\<close>

lemma prefix_facts [simp]:
  "a1PolicyPrefix \<noteq> []" "hd a1PolicyPrefix = CHR ''a''" "last a1PolicyPrefix = CHR ''.''"
  by (simp_all add: a1PolicyPrefix_def)

lemma type_key_inject [simp]: "type_key i = type_key j \<longleftrightarrow> i = j"
  by (simp add: type_key_def)

lemma FormatInt_no_a [simp]: "CHR ''a'' \<notin> set (FormatInt i)"
  by (rule FormatInt_no_byte) (simp_all add: digit_val_def)

lemma FormatInt_no_space [simp]: "CHR '' '' \<notin> set (FormatInt i)"
  by (rule FormatInt_no_byte) (simp_all add: digit_val_def)

lemma type_key_ends:
  "type_key i \<noteq> []" "hd (type_key i) \<notin> set '' ''" "last (type_key i) \<notin> set '' ''"
proof -
  show "type_key i \<noteq> []" "hd (type_key i) \<notin> set '' ''"
    by (simp_all add: type_key_def)
  have "last (FormatInt i) \<in> set (FormatInt i)" by simp
  then have "last (FormatInt i) \<noteq> CHR '' ''" using FormatInt_no_space by metis
  then show "last (type_key i) \<notin> set '' ''" by (simp add: type_key_def)
qed

lemma Split_type_key [simp]: "Split (type_key i) a1PolicyPrefix = [[], FormatInt i]"
  by (simp add: type_key_def Split_prefix)

text \<open>A key of a policy type is listed as its identifier, with or without spaces around it.\<close>

lemma collect_type_key:
  assumes "set l \<subseteq> set '' ''" and "set r \<subseteq> set '' ''"
  shows "collect_key (l @ type_key i @ r) ids = Return (append_slice ids i)"
proof -
  note trim = Trim_pad [OF type_key_ends assms]
  have "HasPrefix (type_key i @ r) a1PolicyPrefix"
    by (simp add: type_key_def)
  then show ?thesis by (simp add: collect_key_def trim)
qed

lemma TrimRight_keep:
  assumes "p \<noteq> []" and "last p \<notin> set cs"
  shows "TrimRight (p @ t) cs = p @ TrimRight t cs"
proof -
  have "dropWhile (\<lambda>c. c \<in> set cs) (rev p) = rev p"
    using assms by (cases p rule: rev_cases) auto
  then show ?thesis
    by (cases "\<forall>x \<in> set t. x \<in> set cs") (auto simp: TrimRight_def dropWhile_append)
qed

lemma collect_prefixed:
  assumes "HasPrefix (TrimLeft key '' '') a1PolicyPrefix"
  obtains pti rest where "Split (Trim key '' '') a1PolicyPrefix = [] # pti # rest"
proof -
  obtain t where "TrimLeft key '' '' = a1PolicyPrefix @ t"
    using assms by (auto simp: HasPrefix_iff)
  then have "Trim key '' '' = a1PolicyPrefix @ TrimRight t '' ''"
    by (simp add: Trim_def TrimRight_keep)
  then have "Split (Trim key '' '') a1PolicyPrefix = [] # split_from a1PolicyPrefix [] (TrimRight t '' '')"
    by (simp add: Split_def split_from_prefix)
  then show thesis using that by (cases "split_from a1PolicyPrefix [] (TrimRight t '' '')") auto
qed

text \<open>What the loop adds for one key, and what it returns for all of them.\<close>

definition listed :: "string \<Rightarrow> policy_type_id option" where
  "listed key =
     (if HasPrefix (TrimLeft key '' '') a1PolicyPrefix
      then Some (fst (ParseInt (Split (Trim key '' '') a1PolicyPrefix ! 1))) else None)"

definition slice :: "'a list \<Rightarrow> 'a list option" where
  "slice xs = (if xs = [] then None else Some xs)"

lemma append_slice_slice [simp]: "append_slice (slice xs) x = slice (xs @ [x])"
  by (simp add: append_slice_def slice_def)

lemma collect_key_listed:
  "collect_key key (slice ids) = Return (slice (ids @ (case listed key of None \<Rightarrow> [] | Some i \<Rightarrow> [i])))"
proof (cases "HasPrefix (TrimLeft key '' '') a1PolicyPrefix")
  case True
  obtain pti rest where "Split (Trim key '' '') a1PolicyPrefix = [] # pti # rest"
    by (rule collect_prefixed [OF True])
  with True show ?thesis by (simp add: collect_key_def listed_def)
qed (simp add: collect_key_def listed_def)

lemma collect_keys_slice:
  "collect_keys keys (slice ids) = Return (slice (ids @ List.map_filter listed keys))"
  by (induction keys arbitrary: ids)
     (simp_all add: collect_key_listed List.map_filter_simps split: option.splits)

lemma collect_keys_listed: "collect_keys keys None = Return (slice (List.map_filter listed keys))"
  using collect_keys_slice [of keys "[]"] by (simp add: slice_def)

lemma listed_type_key [simp]: "listed (type_key i) = Some i"
  using type_key_ends [of i] by (simp add: listed_def TrimLeft_id Trim_id) (simp add: type_key_def)

section \<open>The registry the storage represents\<close>

text \<open>
  The abstract specification of the hooks is a partial function from identifiers to policy
  types. \<open>registry\<close> reads it off the contents of the storage; \<open>store_ok\<close> is the invariant:
  under the key of an identifier stands the text of a policy type with that identifier, free
  of backquotes, and no other key of the namespace is listed as a policy type.
\<close>

type_synonym registry = "policy_type_id \<rightharpoonup> policy_type_schema"

definition registry :: "contents \<Rightarrow> registry" where
  "registry c i = map_option (\<lambda>t. fst (Unmarshal_schema t)) (c a1MediatorNs (type_key i))"

definition storable :: "policy_type_id \<Rightarrow> policy_type_schema \<Rightarrow> bool" where
  "storable i m \<longleftrightarrow> schema_ok m \<and> \<not> schema_mentions backquote m \<and> PolicyTypeID m = Some i"

definition store_ok :: "contents \<Rightarrow> bool" where
  "store_ok c \<longleftrightarrow>
     (\<forall>k t. c a1MediatorNs k = Some t \<longrightarrow> listed k \<noteq> None \<longrightarrow>
        (\<exists>i m. k = type_key i \<and> storable i m \<and> t = encode_schema m))"

lemma store_okD:
  assumes "store_ok c" and "c a1MediatorNs (type_key i) = Some t"
  obtains m where "storable i m" "t = encode_schema m" "registry c i = Some m"
proof -
  from assms have "\<exists>j m. type_key i = type_key j \<and> storable j m \<and> t = encode_schema m"
    unfolding store_ok_def by (metis listed_type_key option.distinct(1))
  then obtain m where m: "storable i m" "t = encode_schema m" by auto
  moreover from this have "registry c i = Some m"
    using assms(2) by (simp add: registry_def Unmarshal_encode_schema storable_def)
  ultimately show thesis by (rule that)
qed

lemma registry_None_iff: "registry c i = None \<longleftrightarrow> c a1MediatorNs (type_key i) = None"
  by (simp add: registry_def)

lemma registry_stored:
  assumes "schema_ok m"
  shows "registry (stored_at c a1MediatorNs (type_key i) (encode_schema m)) = (registry c)(i \<mapsto> m)"
proof
  fix j
  show "registry (stored_at c a1MediatorNs (type_key i) (encode_schema m)) j = ((registry c)(i \<mapsto> m)) j"
    by (cases "j = i") (simp_all add: registry_def Unmarshal_encode_schema [OF assms])
qed

lemma store_ok_stored:
  assumes "store_ok c" and "storable i m"
  shows "store_ok (stored_at c a1MediatorNs (type_key i) (encode_schema m))"
  unfolding store_ok_def
proof (intro allI impI)
  fix k t
  assume "stored_at c a1MediatorNs (type_key i) (encode_schema m) a1MediatorNs k = Some t" and l: "listed k \<noteq> None"
  then show "\<exists>i m. k = type_key i \<and> storable i m \<and> t = encode_schema m"
    using assms by (cases "k = type_key i") (auto simp: store_ok_def)
qed

lemma store_ok_empty: "c a1MediatorNs = Map.empty \<Longrightarrow> store_ok c"
  by (simp add: store_ok_def)

lemma Unquote_raw_encode:
  assumes "storable i m"
  shows "Unquote_raw ([backquote] @ encode_schema m @ [backquote]) = Some (encode_schema m)"
proof -
  have "backquote \<notin> set (encode_schema m)" "CHR 0x0D \<notin> set (encode_schema m)"
    using assms encode_schema_bytes [of m] by (auto simp: storable_def)
  moreover from this have "filter (\<lambda>c. c \<noteq> CHR 0x0D) (encode_schema m) = encode_schema m"
    by (intro filter_True) auto
  ultimately show ?thesis by (simp add: Unquote_raw_def)
qed

lemma Unquote_raw_backquote:
  "backquote \<in> set t \<Longrightarrow> Unquote_raw ([backquote] @ t @ [backquote]) = None"
  by (simp add: Unquote_raw_def)

section \<open>The hooks over a storage that keeps its promises\<close>

locale hooks = openapi_laws lib + sdl: sdl_laws "db rh" view
  for lib :: openapi and rh :: "'w Resthook" and view :: "'w \<Rightarrow> contents"
begin

lemma create_outcome:
  assumes "CreatePolicyType lib rh i m w = (w', r)" and "schema_ok m" and "PolicyTypeID m = Some i"
  obtains (new) "r = Return None" "registry (view w) i = None"
      "view w' = stored_at (view w) a1MediatorNs (type_key i) (encode_schema m)"
    | (old) "r = Return (Some TypeAlreadyError)" "registry (view w) i \<noteq> None" "view w' = view w"
    | (err) msg where "r = Return (Some (Foreign msg))"
        "view w' = view w \<or> registry (view w) i = None \<and>
           view w' = stored_at (view w) a1MediatorNs (type_key i) (encode_schema m)"
proof -
  obtain ok e where set: "SetIfNotExists (db rh) a1MediatorNs (type_key i) (SString (encode_schema m)) w = (w', ok, e)"
    and r: "r = (case e of Some msg \<Rightarrow> Return (Some (Foreign msg)) | None \<Rightarrow> Return (if ok then None else Some TypeAlreadyError))"
    using assms write_schema [of m]
    by (auto simp: CreatePolicyType_def PolicyTypeSchema_MarshalBinary_def schema_ok_encodable
        split: prod.splits option.splits)
  from set show thesis
    by (cases rule: sdl.set_cases) (use r new old err in \<open>auto simp: registry_None_iff\<close>)
qed

lemma create_mismatch:
  assumes "PolicyTypeID m = Some j" and "i \<noteq> j"
  shows "CreatePolicyType lib rh i m w = (w, Return (Some TypeMismatchError))"
  using assms by (simp add: CreatePolicyType_def)

lemma get_value:
  assumes "Get (db rh) a1MediatorNs [type_key i] w = (w', valmap, None)"
  shows "valmap \<noteq> []" and "map_value valmap (type_key i) = stored_value (view w a1MediatorNs (type_key i))"
  using sdl.get_values [OF assms, of "type_key i"] by (auto simp: map_value_def)

lemma get_outcome:
  assumes "store_ok (view w)" and "GetPolicyType rh i w = (w', r)"
  shows "view w' = view w" and "r = Return None \<or> r = Return (registry (view w) i)"
    and "snd (snd (Get (db rh) a1MediatorNs [type_key i] w)) = None \<Longrightarrow> r = Return (registry (view w) i)"
proof -
  obtain w1 valmap e where get: "Get (db rh) a1MediatorNs [type_key i] w = (w1, valmap, e)"
    by (cases "Get (db rh) a1MediatorNs [type_key i] w") auto
  have "w' = w1"
    using assms(2) get by (auto simp: GetPolicyType_def Let_def split: if_splits option.splits)
  then show "view w' = view w" using sdl.get_view [OF get] by simp
  have ok: "r = Return (registry (view w) i)" if "e = None"
  proof -
    note val = get_value [OF get [unfolded that]]
    show ?thesis
    proof (cases "view w a1MediatorNs (type_key i)")
      case None
      then show ?thesis
        using assms(2) get val that by (auto simp: GetPolicyType_def registry_def)
    next
      case (Some t)
      obtain m where m: "storable i m" "t = encode_schema m" "registry (view w) i = Some m"
        using store_okD [OF assms(1) Some] .
      then show ?thesis
        using assms(2) get val that Some Unquote_raw_encode [OF m(1)]
        by (auto simp: GetPolicyType_def Unmarshal_encode_schema storable_def)
    qed
  qed
  then show "snd (snd (Get (db rh) a1MediatorNs [type_key i] w)) = None \<Longrightarrow> r = Return (registry (view w) i)"
    using get by simp
  show "r = Return None \<or> r = Return (registry (view w) i)"
  proof (cases e)
    case (Some msg)
    then show ?thesis
      using assms(2) get by (auto simp: GetPolicyType_def Let_def split: if_splits)
  qed (use ok in simp)
qed

text \<open>A stored text with a backquote makes the read panic.\<close>

lemma get_backquote:
  assumes "view w a1MediatorNs (type_key i) = Some t" and "backquote \<in> set t"
    and "Get (db rh) a1MediatorNs [type_key i] w = (w', valmap, None)"
  shows "GetPolicyType rh i w = (w', Panic ''invalid syntax'')"
  using assms get_value [OF assms(3)] Unquote_raw_backquote [OF assms(2)]
  by (simp add: GetPolicyType_def)

lemma all_outcome:
  assumes "store_ok (view w)" and "GetAllPolicyType rh w = (w', r)"
  shows "view w' = view w"
    and "r = Return None \<or> (\<exists>ids. r = Return (slice ids) \<and> distinct ids \<and> set ids = dom (registry (view w)))"
    and "snd (snd (GetAll (db rh) a1MediatorNs w)) = None \<Longrightarrow>
         \<exists>ids. r = Return (slice ids) \<and> distinct ids \<and> set ids = dom (registry (view w))"
proof -
  obtain w1 keys e where get: "GetAll (db rh) a1MediatorNs w = (w1, keys, e)"
    by (cases "GetAll (db rh) a1MediatorNs w") auto
  have ns: "a1MediatorNs = ''A1m_ns''" by (simp add: a1MediatorNs_def)
  have "w' = w1"
    using assms(2) get by (auto simp: GetAllPolicyType_def ns split: option.splits)
  then show "view w' = view w" using sdl.get_all_view [OF get] by simp
  have ok: "\<exists>ids. r = Return (slice ids) \<and> distinct ids \<and> set ids = dom (registry (view w))" if "e = None"
  proof -
    let ?ids = "List.map_filter listed keys"
    have keys: "set keys = dom (view w a1MediatorNs)" "distinct keys"
      using sdl.get_all_keys sdl.get_all_distinct get that by blast+
    have key_of: "k = type_key i" if k: "k \<in> set keys" "listed k = Some i" for k i
    proof -
      obtain t where "view w a1MediatorNs k = Some t" using k(1) keys by auto
      with assms(1) k(2) obtain j where "k = type_key j" by (auto simp: store_ok_def)
      with k(2) show ?thesis by simp
    qed
    have inj: "inj_on listed (set (filter (\<lambda>k. listed k \<noteq> None) keys))"
      by (rule inj_onI) (auto dest: key_of)
    have ids: "?ids = map (the \<circ> listed) (filter (\<lambda>k. listed k \<noteq> None) keys)"
      by (simp add: List.map_filter_def)
    have "inj_on (the \<circ> listed) (set (filter (\<lambda>k. listed k \<noteq> None) keys))"
      by (rule inj_onI) (auto dest: key_of)
    then have "distinct ?ids"
      unfolding ids using keys(2) by (simp add: distinct_map)
    moreover have "set ?ids = dom (registry (view w))"
    proof (intro equalityI subsetI)
      fix i assume "i \<in> set ?ids"
      then obtain k where "k \<in> set keys" "listed k = Some i" by (auto simp: ids)
      then have "type_key i \<in> dom (view w a1MediatorNs)" using key_of keys by auto
      then show "i \<in> dom (registry (view w))" by (auto simp: registry_def)
    next
      fix i assume "i \<in> dom (registry (view w))"
      then have "type_key i \<in> set keys" using keys by (auto simp: registry_def)
      then show "i \<in> set ?ids" by (force simp: ids)
    qed
    moreover have "r = Return (slice ?ids)"
      using assms(2) get that by (simp add: GetAllPolicyType_def ns collect_keys_listed)
    ultimately show ?thesis by blast
  qed
  then show "snd (snd (GetAll (db rh) a1MediatorNs w)) = None \<Longrightarrow>
      \<exists>ids. r = Return (slice ids) \<and> distinct ids \<and> set ids = dom (registry (view w))"
    using get by simp
  show "r = Return None \<or> (\<exists>ids. r = Return (slice ids) \<and> distinct ids \<and> set ids = dom (registry (view w)))"
  proof (cases e)
    case (Some msg)
    then show ?thesis
      using assms(2) get by (auto simp: GetAllPolicyType_def ns)
  qed (use ok in blast)
qed

end

section \<open>The contract of the registry\<close>

text \<open>
  What the REST handlers rely on, with the storage hidden: three operations on a state, the
  registry it represents and its invariant. Creating either adds the type under a free
  identifier or changes nothing; reading and listing change nothing and report the registry
  (or nothing at all, when the storage fails).
\<close>

locale type_registry =
  fixes create :: "policy_type_id \<Rightarrow> policy_type_schema \<Rightarrow> 'w \<Rightarrow> 'w \<times> go_error option outcome"
    and fetch :: "policy_type_id \<Rightarrow> 'w \<Rightarrow> 'w \<times> policy_type_schema option outcome"
    and all :: "'w \<Rightarrow> 'w \<times> policy_type_id list option outcome"
    and reg :: "'w \<Rightarrow> registry" and inv :: "'w \<Rightarrow> bool"
  assumes create_cases: "inv w \<Longrightarrow> storable i m \<Longrightarrow> create i m w = (w', r) \<Longrightarrow>
        inv w' \<and>
        (r = Return None \<and> reg w i = None \<and> reg w' = (reg w)(i \<mapsto> m) \<or>
         r = Return (Some TypeAlreadyError) \<and> reg w i \<noteq> None \<and> reg w' = reg w \<or>
         (\<exists>msg. r = Return (Some (Foreign msg))) \<and>
           (reg w' = reg w \<or> reg w i = None \<and> reg w' = (reg w)(i \<mapsto> m)))"
    and fetch_reg: "inv w \<Longrightarrow> fetch i w = (w', s) \<Longrightarrow>
        inv w' \<and> reg w' = reg w \<and> (s = Return None \<or> s = Return (reg w i))"
    and all_reg: "inv w \<Longrightarrow> all w = (w', ids) \<Longrightarrow>
        inv w' \<and> reg w' = reg w \<and>
        (ids = Return None \<or> (\<exists>xs. ids = Return (slice xs) \<and> distinct xs \<and> set xs = dom (reg w)))"

sublocale hooks \<subseteq> type_registry "CreatePolicyType lib rh" "GetPolicyType rh" "GetAllPolicyType rh"
    "\<lambda>w. registry (view w)" "\<lambda>w. store_ok (view w)"
proof unfold_locales
  fix w w' i m r
  assume inv: "store_ok (view w)" and "storable i m" and "CreatePolicyType lib rh i m w = (w', r)"
  from this(3) have "schema_ok m" "PolicyTypeID m = Some i"
    using \<open>storable i m\<close> by (simp_all add: storable_def)
  with \<open>CreatePolicyType lib rh i m w = (w', r)\<close> show "store_ok (view w') \<and>
        (r = Return None \<and> registry (view w) i = None \<and> registry (view w') = (registry (view w))(i \<mapsto> m) \<or>
         r = Return (Some TypeAlreadyError) \<and> registry (view w) i \<noteq> None \<and> registry (view w') = registry (view w) \<or>
         (\<exists>msg. r = Return (Some (Foreign msg))) \<and>
           (registry (view w') = registry (view w) \<or>
            registry (view w) i = None \<and> registry (view w') = (registry (view w))(i \<mapsto> m)))"
  proof (cases rule: create_outcome)
    case new
    with inv \<open>storable i m\<close> show ?thesis
      by (simp add: store_ok_stored registry_stored storable_def)
  next
    case old
    with inv show ?thesis by simp
  next
    case (err msg)
    with inv \<open>storable i m\<close> show ?thesis
      by (auto simp: store_ok_stored registry_stored storable_def)
  qed
next
  fix w w' i r
  assume "store_ok (view w)" and "GetPolicyType rh i w = (w', r)"
  then show "store_ok (view w') \<and> registry (view w') = registry (view w) \<and>
      (r = Return None \<or> r = Return (registry (view w) i))"
    using get_outcome [of w i w' r] by simp
next
  fix w w' ids
  assume "store_ok (view w)" and "GetAllPolicyType rh w = (w', ids)"
  then show "store_ok (view w') \<and> registry (view w') = registry (view w) \<and>
      (ids = Return None \<or> (\<exists>xs. ids = Return (slice xs) \<and> distinct xs \<and> set xs = dom (registry (view w))))"
    using all_outcome [of w w' ids] by simp
qed

section \<open>Sequences of calls\<close>

datatype hook_call =
    CallCreate policy_type_id policy_type_schema
  | CallGet policy_type_id
  | CallAll

fun call_ok :: "hook_call \<Rightarrow> bool" where
  "call_ok (CallCreate i m) = storable i m"
| "call_ok _ = True"

text \<open>The state after one call, and after a sequence of calls, of any three operations.\<close>

fun run_call where
  "run_call create fetch all (CallCreate i m) w = fst (create i m w)"
| "run_call create fetch all (CallGet i) w = fst (fetch i w)"
| "run_call create fetch all CallAll w = fst (all w)"

fun run_calls where
  "run_calls create fetch all [] w = w"
| "run_calls create fetch all (c # cs) w = run_calls create fetch all cs (run_call create fetch all c w)"

context type_registry
begin

lemma run_call_keeps:
  assumes "inv w" and "call_ok c"
  shows "inv (run_call create fetch all c w) \<and> reg w \<subseteq>\<^sub>m reg (run_call create fetch all c w)"
proof (cases c)
  case (CallCreate i m)
  then show ?thesis
    using assms create_cases [of w i m "fst (create i m w)" "snd (create i m w)"]
    by (auto simp: map_le_def)
next
  case (CallGet i)
  then show ?thesis
    using assms fetch_reg [of w i "fst (fetch i w)" "snd (fetch i w)"] by simp
next
  case CallAll
  then show ?thesis
    using assms all_reg [of w "fst (all w)" "snd (all w)"] by simp
qed

lemma run_calls_keep:
  assumes "inv w" and "list_all call_ok cs"
  shows "inv (run_calls create fetch all cs w) \<and> reg w \<subseteq>\<^sub>m reg (run_calls create fetch all cs w)"
  using assms
proof (induction cs arbitrary: w)
  case (Cons c cs)
  then show ?case
    using run_call_keeps [of w c] by (auto intro: map_le_trans)
qed simp

text \<open>A created type stays what it was, whatever is called afterwards.\<close>

lemma created_stays:
  assumes "inv w" and "storable i m" and "create i m w = (w1, Return None)" and "list_all call_ok cs"
  shows "inv (run_calls create fetch all cs w1)" and "reg (run_calls create fetch all cs w1) i = Some m"
proof -
  have w1: "inv w1" "reg w1 i = Some m"
    using create_cases [OF assms(1-3)] by auto
  then show "inv (run_calls create fetch all cs w1)"
    using run_calls_keep [OF w1(1) assms(4)] by simp
  show "reg (run_calls create fetch all cs w1) i = Some m"
    using run_calls_keep [OF w1(1) assms(4)] w1(2) by (auto simp: map_le_def dom_def)
qed

lemma no_second_create:
  assumes "inv w" and "storable i m" and "create i m w = (w1, Return None)" and "list_all call_ok cs"
    and "storable i m'" and "create i m' (run_calls create fetch all cs w1) = (w2, r)"
  shows "r \<noteq> Return None" and "reg w2 i = Some m"
  using create_cases [OF created_stays(1) [OF assms(1-4)] assms(5,6)] created_stays(2) [OF assms(1-4)]
  by auto

end

section \<open>Examples of policy types\<close>

definition sample_schema :: policy_type_schema where
  "sample_schema =
     \<lparr>CreateSchema = JObject [(''minimum'', JNumber ''1''), (''type'', JString ''integer'')],
      Description = Some ''admission control'', Name = Some ''admission'', PolicyTypeID = Some 20001\<rparr>"

definition backquote_schema :: policy_type_schema where
  "backquote_schema = sample_schema\<lparr>Description := Some [backquote]\<rparr>"

definition empty_world :: mem_world where
  "empty_world = \<lparr>cells = [], down = False\<rparr>"

definition mem_hook :: "mem_world Resthook" where
  "mem_hook = NewResthook mem_sdl"

interpretation mem_hooks: hooks std_openapi mem_hook mem_view
proof (rule hooks.intro)
  show "openapi_laws std_openapi" by (rule std_openapi_laws)
  show "sdl_laws (db mem_hook) mem_view"
    using mem_sdl_laws by (simp add: mem_hook_def NewResthook_def createResthook_def)
qed

lemmas mem_hooks_ok = mem_hooks.hooks_axioms

lemma empty_world_ok: "store_ok (mem_view empty_world)"
  by (rule store_ok_empty) (simp add: mem_view_def empty_world_def fun_eq_iff)

lemma sample_storable: "storable 20001 sample_schema"
  by code_simp

abbreviation run_hooks ::
    "openapi \<Rightarrow> 'w Resthook \<Rightarrow> hook_call list \<Rightarrow> 'w \<Rightarrow> 'w" where
  "run_hooks lib rh \<equiv> run_calls (CreatePolicyType lib rh) (GetPolicyType rh) (GetAllPolicyType rh)"

context hooks
begin

lemma registry_laws:
  "type_registry (CreatePolicyType lib rh) (GetPolicyType rh) (GetAllPolicyType rh)
     (\<lambda>w. registry (view w)) (\<lambda>w. store_ok (view w))"
  by unfold_locales

end

section \<open>Properties\<close>

text \<open>
  Round trip. After a policy type has been created, and whatever hooks are called after
  that, reading its identifier (while the storage answers) returns exactly the type that was
  created: every field, through \<open>json.Marshal\<close>, the storage, \<open>strconv.Unquote\<close> and
  \<open>json.Unmarshal\<close>.
\<close>

theorem create_then_get:
  assumes "hooks lib rh view" and "store_ok (view w)" and "storable i m"
    and "CreatePolicyType lib rh i m w = (w1, Return None)"
    and "list_all call_ok cs"
    and "snd (snd (Get (db rh) a1MediatorNs [type_key i] (run_hooks lib rh cs w1))) = None"
  shows "snd (GetPolicyType rh i (run_hooks lib rh cs w1)) = Return (Some m)"
proof -
  let ?w2 = "run_hooks lib rh cs w1"
  note stays = type_registry.created_stays [OF hooks.registry_laws [OF assms(1)] assms(2-5)]
  show ?thesis
    using hooks.get_outcome(3) [OF assms(1), of ?w2 i "fst (GetPolicyType rh i ?w2)" "snd (GetPolicyType rh i ?w2)"]
      stays assms(6) by simp
qed

theorem create_then_get_witness:
  "snd (GetPolicyType mem_hook 20001 (run_hooks std_openapi mem_hook [CallAll, CallGet 5]
     (fst (CreatePolicyType std_openapi mem_hook 20001 sample_schema empty_world)))) = Return (Some sample_schema)"
proof (rule create_then_get [OF mem_hooks_ok])
  show "store_ok (mem_view empty_world)"
    by (rule empty_world_ok)
  show "storable 20001 sample_schema" by (rule sample_storable)
  show "CreatePolicyType std_openapi mem_hook 20001 sample_schema empty_world
      = (fst (CreatePolicyType std_openapi mem_hook 20001 sample_schema empty_world), Return None)"
    by code_simp
  show "list_all call_ok [CallAll, CallGet 5]" by simp
  show "snd (snd (Get (db mem_hook) a1MediatorNs [type_key 20001]
      (run_hooks std_openapi mem_hook [CallAll, CallGet 5]
        (fst (CreatePolicyType std_openapi mem_hook 20001 sample_schema empty_world))))) = None"
    by code_simp
qed

text \<open>
  Refinement. Seen through the registry the storage represents, creating a valid policy
  type either adds it under a free identifier and reports success, or reports that the
  identifier is taken and changes nothing, or reports the storage's error (then it is open
  whether the write took place). It never panics, and the invariant of the storage is kept.
\<close>

theorem create_refines_registry:
  assumes "hooks lib rh view" and "store_ok (view w)" and "storable i m"
    and "CreatePolicyType lib rh i m w = (w', r)"
  shows "store_ok (view w') \<and>
    (r = Return None \<and> registry (view w) i = None \<and> registry (view w') = (registry (view w))(i \<mapsto> m) \<or>
     r = Return (Some TypeAlreadyError) \<and> registry (view w) i \<noteq> None \<and> registry (view w') = registry (view w) \<or>
     (\<exists>msg. r = Return (Some (Foreign msg))) \<and>
       (registry (view w') = registry (view w) \<or>
        registry (view w) i = None \<and> registry (view w') = (registry (view w))(i \<mapsto> m)))"
  using type_registry.create_cases [OF hooks.registry_laws [OF assms(1)] assms(2-4)] .

theorem create_refines_registry_witness:
  "store_ok (mem_view (fst (CreatePolicyType std_openapi mem_hook 20001 sample_schema empty_world)))"
  using create_refines_registry [OF mem_hooks_ok empty_world_ok sample_storable, of _ _ ] prod.collapse
  by metis


definition sample_world :: mem_world where
  "sample_world = fst (CreatePolicyType std_openapi mem_hook 20001 sample_schema empty_world)"

lemma sample_created:
  "CreatePolicyType std_openapi mem_hook 20001 sample_schema empty_world = (sample_world, Return None)"
  by code_simp


text \<open>
  Functional correctness of the listing. While the storage answers, \<open>GetAllPolicyType\<close>
  returns every registered identifier once, and nothing else.
\<close>

theorem get_all_lists_registry:
  assumes "hooks lib rh view" and "store_ok (view w)"
    and "GetAll (db rh) a1MediatorNs w = (w1, keys, None)"
  shows "\<exists>ids. snd (GetAllPolicyType rh w) = Return (slice ids) \<and> distinct ids \<and>
           set ids = dom (registry (view w))"
  using hooks.all_outcome(3) [OF assms(1,2), of "fst (GetAllPolicyType rh w)" "snd (GetAllPolicyType rh w)"] assms(3)
  by simp

theorem get_all_lists_registry_witness:
  "\<exists>ids. snd (GetAllPolicyType mem_hook sample_world) = Return (slice ids) \<and> distinct ids \<and>
     set ids = dom (registry (mem_view sample_world))"
proof (rule get_all_lists_registry [OF mem_hooks_ok])
  show "store_ok (mem_view sample_world)"
    using mem_hooks.create_cases [OF empty_world_ok sample_storable sample_created] by simp
  show "GetAll (db mem_hook) a1MediatorNs sample_world = (sample_world, [type_key 20001], None)"
    by code_simp
qed

text \<open>
  The listing never panics, whatever keys are in the namespace: the index \<open>[1]\<close> into the
  pieces of a key is always in range, and the loop is the list of the identifiers read from
  the keys, in the order of the keys; an error of the storage gives an empty list.
\<close>

theorem get_all_total:
  "GetAllPolicyType rh w =
     (case GetAll (db rh) a1MediatorNs w of
        (w', keys, None) \<Rightarrow> (w', Return (slice (List.map_filter listed keys)))
      | (w', keys, Some e) \<Rightarrow> (w', Return None))"
  by (simp add: GetAllPolicyType_def a1MediatorNs_def collect_keys_listed split: prod.split option.split)

text \<open>
  C37. Error path. A policy type whose text has a backquote can be created, but from then on
  reading it panics: the stored text is put between backquotes for \<open>strconv.Unquote\<close>.
\<close>

theorem backquote_type_panics:
  assumes "hooks lib rh view" and "schema_ok m" and "PolicyTypeID m = Some i"
    and "schema_mentions backquote m"
    and "CreatePolicyType lib rh i m w = (w1, Return None)"
    and "Get (db rh) a1MediatorNs [type_key i] w1 = (w2, valmap, None)"
  shows "GetPolicyType rh i w1 = (w2, Panic ''invalid syntax'')"
proof (rule hooks.get_backquote [OF assms(1) _ _ assms(6)])
  have "view w1 = stored_at (view w) a1MediatorNs (type_key i) (encode_schema m)"
    by (rule hooks.create_outcome [OF assms(1,5,2,3)]) auto
  then show "view w1 a1MediatorNs (type_key i) = Some (encode_schema m)" by simp
  show "backquote \<in> set (encode_schema m)"
    using encode_schema_bytes(1) assms(2,4) by simp
qed

theorem backquote_type_panics_witness:
  "GetPolicyType mem_hook 20001 (fst (CreatePolicyType std_openapi mem_hook 20001 backquote_schema empty_world))
   = (fst (CreatePolicyType std_openapi mem_hook 20001 backquote_schema empty_world), Panic ''invalid syntax'')"
proof (rule backquote_type_panics [OF mem_hooks_ok])
  show "schema_ok backquote_schema" "PolicyTypeID backquote_schema = Some 20001"
      "schema_mentions backquote backquote_schema"
    by code_simp+
  show "CreatePolicyType std_openapi mem_hook 20001 backquote_schema empty_world
      = (fst (CreatePolicyType std_openapi mem_hook 20001 backquote_schema empty_world), Return None)"
    by code_simp
  show "Get (db mem_hook) a1MediatorNs [type_key 20001]
      (fst (CreatePolicyType std_openapi mem_hook 20001 backquote_schema empty_world))
    = (fst (CreatePolicyType std_openapi mem_hook 20001 backquote_schema empty_world),
       [(type_key 20001, SString (encode_schema backquote_schema))], None)"
    by code_simp
qed

text \<open>
  Leniency of the listing. A key with spaces around a policy type key is listed under its
  identifier; a key whose last part is no decimal number is listed as policy type 0, because
  the error of \<open>ParseInt\<close> is dropped. Reading either identifier looks up another key.
\<close>

theorem lenient_listing:
  assumes "set l \<subseteq> {CHR '' ''}" and "set r \<subseteq> {CHR '' ''}"
  shows "collect_key (l @ type_key i @ r) ids = Return (append_slice ids i) \<and>
    (x \<noteq> [] \<and> last x \<noteq> CHR '' '' \<and> CHR ''a'' \<notin> set x \<and> snd (ParseInt x) = Some ErrSyntax \<longrightarrow>
       collect_key (l @ (a1PolicyPrefix @ x) @ r) ids = Return (append_slice ids 0))"
proof -
  have sp: "set l \<subseteq> set '' ''" "set r \<subseteq> set '' ''" using assms by simp_all
  have "collect_key (l @ (a1PolicyPrefix @ x) @ r) ids = Return (append_slice ids 0)"
    if "x \<noteq> []" "last x \<noteq> CHR '' ''" "CHR ''a'' \<notin> set x" "snd (ParseInt x) = Some ErrSyntax"
  proof -
    have ends: "a1PolicyPrefix @ x \<noteq> []" "hd (a1PolicyPrefix @ x) \<notin> set '' ''" "last (a1PolicyPrefix @ x) \<notin> set '' ''"
      using that by simp_all
    have "fst (ParseInt x) = 0"
      using that(4) by (auto simp: ParseInt_def Let_def split: prod.splits if_splits)
    then show ?thesis
      using Trim_pad [OF ends sp] that by (simp add: collect_key_def Split_prefix)
  qed
  with collect_type_key [OF sp] show ?thesis by blast
qed

theorem lenient_listing_witness:
  "collect_key '' a1.policy_type.20001 '' None = Return (Some [20001]) \<and>
   collect_key ''a1.policy_type.x'' None = Return (Some [0])"
proof -
  have "FormatInt 20001 = ''20001''" "snd (ParseInt ''x'') = Some ErrSyntax" by code_simp+
  then show ?thesis
    using lenient_listing [of "'' ''" "'' ''" 20001 None "[]"] lenient_listing [of "[]" "[]" 0 None "''x''"]
    by (simp add: type_key_def a1PolicyPrefix_def append_slice_def)
qed

end
