(* ===== verification/Parameters.thy ===== *)
theory Parameters
  imports Models
begin

text \<open>
  The parameters of the eleven operations: \<open>*_parameters.go\<close>. \<open>BindRequest\<close> reads them from the
  request and the matched route and validates them. The fields the parameter structs share are
  the fields of a hierarchy of records; the methods \<open>bindPolicyInstanceID\<close> (four files),
  \<open>bindPolicyTypeID\<close> and \<open>validatePolicyTypeID\<close> (eight files) are definitions of each operation, and
  one definition of any struct that the proofs use.
\<close>

section \<open>Requests and routes\<close>

text \<open>
  The request of \<open>net/http\<close>; \<open>HasBody\<close> is what \<open>runtime.HasBody\<close> says of it. A
  \<open>middleware.MatchedRoute\<close> is code outside the repository: \<open>GetOK\<close> of its parameters, and its
  consumer, which reads a body into a value of the type the caller asks for.
\<close>

record request =
  Method :: string
  URLPath :: string
  HasBody :: bool
  BodyText :: string

record consumer =
  ConsumeAny :: "string \<Rightarrow> json \<times> go_error option"
  ConsumeSchema :: "string \<Rightarrow> policy_type_schema \<times> go_error option"

record matched_route =
  GetOK :: "string \<Rightarrow> string list \<times> bool \<times> bool"
  Consumer :: consumer

definition zero_request :: request where
  "zero_request = \<lparr>Method = [], URLPath = [], HasBody = False, BodyText = []\<rparr>"

section \<open>The parameter structs\<close>

record http_params =
  HTTPRequest :: request

record type_params = http_params +
  TypeID :: int64

record instance_params = type_params +
  InstanceID :: string

record CreateOrReplacePolicyInstanceParams = instance_params +
  InstanceBody :: json

record CreatePolicyTypeParams = type_params +
  SchemaBody :: "policy_type_schema option"

record DataDeliveryParams = http_params +
  DeliveryBody :: json

text \<open>The structs of the operations without a body have the fields of one of the first three records.\<close>

type_synonym DeletePolicyInstanceParams = instance_params
type_synonym GetPolicyInstanceParams = instance_params
type_synonym GetPolicyInstanceStatusParams = instance_params
type_synonym DeletePolicyTypeParams = type_params
type_synonym GetAllInstancesForTypeParams = type_params
type_synonym GetPolicyTypeParams = type_params
type_synonym GetAllPolicyTypesParams = http_params
type_synonym GetHealthcheckParams = http_params

text \<open>The \<open>New*Params\<close> functions: no default values.\<close>

definition NewDeletePolicyInstanceParams :: DeletePolicyInstanceParams where
  "NewDeletePolicyInstanceParams = \<lparr>HTTPRequest = zero_request, TypeID = 0, InstanceID = []\<rparr>"

definition NewGetPolicyInstanceParams :: GetPolicyInstanceParams where
  "NewGetPolicyInstanceParams = \<lparr>HTTPRequest = zero_request, TypeID = 0, InstanceID = []\<rparr>"

definition NewGetPolicyInstanceStatusParams :: GetPolicyInstanceStatusParams where
  "NewGetPolicyInstanceStatusParams = \<lparr>HTTPRequest = zero_request, TypeID = 0, InstanceID = []\<rparr>"

definition NewDeletePolicyTypeParams :: DeletePolicyTypeParams where
  "NewDeletePolicyTypeParams = \<lparr>HTTPRequest = zero_request, TypeID = 0\<rparr>"

definition NewGetAllInstancesForTypeParams :: GetAllInstancesForTypeParams where
  "NewGetAllInstancesForTypeParams = \<lparr>HTTPRequest = zero_request, TypeID = 0\<rparr>"

definition NewGetPolicyTypeParams :: GetPolicyTypeParams where
  "NewGetPolicyTypeParams = \<lparr>HTTPRequest = zero_request, TypeID = 0\<rparr>"

definition NewGetAllPolicyTypesParams :: GetAllPolicyTypesParams where
  "NewGetAllPolicyTypesParams = \<lparr>HTTPRequest = zero_request\<rparr>"

definition NewGetHealthcheckParams :: GetHealthcheckParams where
  "NewGetHealthcheckParams = \<lparr>HTTPRequest = zero_request\<rparr>"

definition NewCreateOrReplacePolicyInstanceParams :: CreateOrReplacePolicyInstanceParams where
  "NewCreateOrReplacePolicyInstanceParams =
     \<lparr>HTTPRequest = zero_request, TypeID = 0, InstanceID = [], InstanceBody = JNull\<rparr>"

definition NewCreatePolicyTypeParams :: CreatePolicyTypeParams where
  "NewCreatePolicyTypeParams = \<lparr>HTTPRequest = zero_request, TypeID = 0, SchemaBody = None\<rparr>"

definition NewDataDeliveryParams :: DataDeliveryParams where
  "NewDataDeliveryParams = \<lparr>HTTPRequest = zero_request, DeliveryBody = JNull\<rparr>"

section \<open>Binding the identifiers\<close>

definition raw_value :: "string list \<Rightarrow> string" where
  "raw_value rawData = (if 0 < length rawData then rawData ! (length rawData - 1) else [])"

definition validatePolicyTypeID :: "openapi \<Rightarrow> 'a type_params_scheme \<Rightarrow> go_error option" where
  "validatePolicyTypeID lib p =
     (case MinimumInt lib ''policy_type_id'' ''path'' (TypeID p) 1 False of
        Some err \<Rightarrow> Some err
      | None \<Rightarrow>
          (case MaximumInt lib ''policy_type_id'' ''path'' (TypeID p) 2147483647 False of
             Some err \<Rightarrow> Some err
           | None \<Rightarrow> None))"

definition bindPolicyTypeID ::
    "openapi \<Rightarrow> string list \<Rightarrow> 'a type_params_scheme \<Rightarrow> 'a type_params_scheme \<times> go_error option" where
  "bindPolicyTypeID lib rawData p =
     (let raw = raw_value rawData in
      case ConvertInt64 lib raw of
        (v, Some err) \<Rightarrow> (p, Some (InvalidType lib ''policy_type_id'' ''path'' ''int64'' raw))
      | (v, None) \<Rightarrow> (let p1 = p\<lparr>TypeID := v\<rparr> in (p1, validatePolicyTypeID lib p1)))"

definition bindPolicyInstanceID ::
    "string list \<Rightarrow> 'a instance_params_scheme \<Rightarrow> 'a instance_params_scheme \<times> go_error option" where
  "bindPolicyInstanceID rawData p = (p\<lparr>InstanceID := raw_value rawData\<rparr>, None)"

text \<open>
  The methods of each struct. They have the same text in every file; the three definitions above
  say so for any struct with the fields they read, and \<open>bind_methods\<close> collects that each method is
  the common one.
\<close>

subsection \<open>\<open>A1ControllerCreateOrReplacePolicyInstanceParams\<close>\<close>

definition CreateOrReplacePolicyInstance_bindPolicyInstanceID ::
    "string list \<Rightarrow> CreateOrReplacePolicyInstanceParams \<Rightarrow> CreateOrReplacePolicyInstanceParams \<times> go_error option" where
  "CreateOrReplacePolicyInstance_bindPolicyInstanceID rawData p =
     (let raw = raw_value rawData in (p\<lparr>InstanceID := raw\<rparr>, None))"

definition CreateOrReplacePolicyInstance_validatePolicyTypeID :: "openapi \<Rightarrow> CreateOrReplacePolicyInstanceParams \<Rightarrow> go_error option" where
  "CreateOrReplacePolicyInstance_validatePolicyTypeID lib p =
     (case MinimumInt lib ''policy_type_id'' ''path'' (TypeID p) 1 False of
        Some err \<Rightarrow> Some err
      | None \<Rightarrow>
          (case MaximumInt lib ''policy_type_id'' ''path'' (TypeID p) 2147483647 False of
             Some err \<Rightarrow> Some err
           | None \<Rightarrow> None))"

definition CreateOrReplacePolicyInstance_bindPolicyTypeID ::
    "openapi \<Rightarrow> string list \<Rightarrow> CreateOrReplacePolicyInstanceParams \<Rightarrow> CreateOrReplacePolicyInstanceParams \<times> go_error option" where
  "CreateOrReplacePolicyInstance_bindPolicyTypeID lib rawData p =
     (let raw = raw_value rawData in
      case ConvertInt64 lib raw of
        (v, Some err) \<Rightarrow> (p, Some (InvalidType lib ''policy_type_id'' ''path'' ''int64'' raw))
      | (v, None) \<Rightarrow> (let p1 = p\<lparr>TypeID := v\<rparr> in (p1, CreateOrReplacePolicyInstance_validatePolicyTypeID lib p1)))"

subsection \<open>\<open>A1ControllerCreatePolicyTypeParams\<close>\<close>

definition CreatePolicyType_validatePolicyTypeID :: "openapi \<Rightarrow> CreatePolicyTypeParams \<Rightarrow> go_error option" where
  "CreatePolicyType_validatePolicyTypeID lib p =
     (case MinimumInt lib ''policy_type_id'' ''path'' (TypeID p) 1 False of
        Some err \<Rightarrow> Some err
      | None \<Rightarrow>
          (case MaximumInt lib ''policy_type_id'' ''path'' (TypeID p) 2147483647 False of
             Some err \<Rightarrow> Some err
           | None \<Rightarrow> None))"

definition CreatePolicyType_bindPolicyTypeID ::
    "openapi \<Rightarrow> string list \<Rightarrow> CreatePolicyTypeParams \<Rightarrow> CreatePolicyTypeParams \<times> go_error option" where
  "CreatePolicyType_bindPolicyTypeID lib rawData p =
     (let raw = raw_value rawData in
      case ConvertInt64 lib raw of
        (v, Some err) \<Rightarrow> (p, Some (InvalidType lib ''policy_type_id'' ''path'' ''int64'' raw))
      | (v, None) \<Rightarrow> (let p1 = p\<lparr>TypeID := v\<rparr> in (p1, CreatePolicyType_validatePolicyTypeID lib p1)))"

subsection \<open>\<open>A1ControllerDeletePolicyInstanceParams\<close>\<close>

definition DeletePolicyInstance_bindPolicyInstanceID ::
    "string list \<Rightarrow> DeletePolicyInstanceParams \<Rightarrow> DeletePolicyInstanceParams \<times> go_error option" where
  "DeletePolicyInstance_bindPolicyInstanceID rawData p =
     (let raw = raw_value rawData in (p\<lparr>InstanceID := raw\<rparr>, None))"

definition DeletePolicyInstance_validatePolicyTypeID :: "openapi \<Rightarrow> DeletePolicyInstanceParams \<Rightarrow> go_error option" where
  "DeletePolicyInstance_validatePolicyTypeID lib p =
     (case MinimumInt lib ''policy_type_id'' ''path'' (TypeID p) 1 False of
        Some err \<Rightarrow> Some err
      | None \<Rightarrow>
          (case MaximumInt lib ''policy_type_id'' ''path'' (TypeID p) 2147483647 False of
             Some err \<Rightarrow> Some err
           | None \<Rightarrow> None))"

definition DeletePolicyInstance_bindPolicyTypeID ::
    "openapi \<Rightarrow> string list \<Rightarrow> DeletePolicyInstanceParams \<Rightarrow> DeletePolicyInstanceParams \<times> go_error option" where
  "DeletePolicyInstance_bindPolicyTypeID lib rawData p =
     (let raw = raw_value rawData in
      case ConvertInt64 lib raw of
        (v, Some err) \<Rightarrow> (p, Some (InvalidType lib ''policy_type_id'' ''path'' ''int64'' raw))
      | (v, None) \<Rightarrow> (let p1 = p\<lparr>TypeID := v\<rparr> in (p1, DeletePolicyInstance_validatePolicyTypeID lib p1)))"

subsection \<open>\<open>A1ControllerDeletePolicyTypeParams\<close>\<close>

definition DeletePolicyType_validatePolicyTypeID :: "openapi \<Rightarrow> DeletePolicyTypeParams \<Rightarrow> go_error option" where
  "DeletePolicyType_validatePolicyTypeID lib p =
     (case MinimumInt lib ''policy_type_id'' ''path'' (TypeID p) 1 False of
        Some err \<Rightarrow> Some err
      | None \<Rightarrow>
          (case MaximumInt lib ''policy_type_id'' ''path'' (TypeID p) 2147483647 False of
             Some err \<Rightarrow> Some err
           | None \<Rightarrow> None))"

definition DeletePolicyType_bindPolicyTypeID ::
    "openapi \<Rightarrow> string list \<Rightarrow> DeletePolicyTypeParams \<Rightarrow> DeletePolicyTypeParams \<times> go_error option" where
  "DeletePolicyType_bindPolicyTypeID lib rawData p =
     (let raw = raw_value rawData in
      case ConvertInt64 lib raw of
        (v, Some err) \<Rightarrow> (p, Some (InvalidType lib ''policy_type_id'' ''path'' ''int64'' raw))
      | (v, None) \<Rightarrow> (let p1 = p\<lparr>TypeID := v\<rparr> in (p1, DeletePolicyType_validatePolicyTypeID lib p1)))"

subsection \<open>\<open>A1ControllerGetAllInstancesForTypeParams\<close>\<close>

definition GetAllInstancesForType_validatePolicyTypeID :: "openapi \<Rightarrow> GetAllInstancesForTypeParams \<Rightarrow> go_error option" where
  "GetAllInstancesForType_validatePolicyTypeID lib p =
     (case MinimumInt lib ''policy_type_id'' ''path'' (TypeID p) 1 False of
        Some err \<Rightarrow> Some err
      | None \<Rightarrow>
          (case MaximumInt lib ''policy_type_id'' ''path'' (TypeID p) 2147483647 False of
             Some err \<Rightarrow> Some err
           | None \<Rightarrow> None))"

definition GetAllInstancesForType_bindPolicyTypeID ::
    "openapi \<Rightarrow> string list \<Rightarrow> GetAllInstancesForTypeParams \<Rightarrow> GetAllInstancesForTypeParams \<times> go_error option" where
  "GetAllInstancesForType_bindPolicyTypeID lib rawData p =
     (let raw = raw_value rawData in
      case ConvertInt64 lib raw of
        (v, Some err) \<Rightarrow> (p, Some (InvalidType lib ''policy_type_id'' ''path'' ''int64'' raw))
      | (v, None) \<Rightarrow> (let p1 = p\<lparr>TypeID := v\<rparr> in (p1, GetAllInstancesForType_validatePolicyTypeID lib p1)))"

subsection \<open>\<open>A1ControllerGetPolicyInstanceParams\<close>\<close>

definition GetPolicyInstance_bindPolicyInstanceID ::
    "string list \<Rightarrow> GetPolicyInstanceParams \<Rightarrow> GetPolicyInstanceParams \<times> go_error option" where
  "GetPolicyInstance_bindPolicyInstanceID rawData p =
     (let raw = raw_value rawData in (p\<lparr>InstanceID := raw\<rparr>, None))"

definition GetPolicyInstance_validatePolicyTypeID :: "openapi \<Rightarrow> GetPolicyInstanceParams \<Rightarrow> go_error option" where
  "GetPolicyInstance_validatePolicyTypeID lib p =
     (case MinimumInt lib ''policy_type_id'' ''path'' (TypeID p) 1 False of
        Some err \<Rightarrow> Some err
      | None \<Rightarrow>
          (case MaximumInt lib ''policy_type_id'' ''path'' (TypeID p) 2147483647 False of
             Some err \<Rightarrow> Some err
           | None \<Rightarrow> None))"

definition GetPolicyInstance_bindPolicyTypeID ::
    "openapi \<Rightarrow> string list \<Rightarrow> GetPolicyInstanceParams \<Rightarrow> GetPolicyInstanceParams \<times> go_error option" where
  "GetPolicyInstance_bindPolicyTypeID lib rawData p =
     (let raw = raw_value rawData in
      case ConvertInt64 lib raw of
        (v, Some err) \<Rightarrow> (p, Some (InvalidType lib ''policy_type_id'' ''path'' ''int64'' raw))
      | (v, None) \<Rightarrow> (let p1 = p\<lparr>TypeID := v\<rparr> in (p1, GetPolicyInstance_validatePolicyTypeID lib p1)))"

subsection \<open>\<open>A1ControllerGetPolicyInstanceStatusParams\<close>\<close>

definition GetPolicyInstanceStatus_bindPolicyInstanceID ::
    "string list \<Rightarrow> GetPolicyInstanceStatusParams \<Rightarrow> GetPolicyInstanceStatusParams \<times> go_error option" where
  "GetPolicyInstanceStatus_bindPolicyInstanceID rawData p =
     (let raw = raw_value rawData in (p\<lparr>InstanceID := raw\<rparr>, None))"

definition GetPolicyInstanceStatus_validatePolicyTypeID :: "openapi \<Rightarrow> GetPolicyInstanceStatusParams \<Rightarrow> go_error option" where
  "GetPolicyInstanceStatus_validatePolicyTypeID lib p =
     (case MinimumInt lib ''policy_type_id'' ''path'' (TypeID p) 1 False of
        Some err \<Rightarrow> Some err
      | None \<Rightarrow>
          (case MaximumInt lib ''policy_type_id'' ''path'' (TypeID p) 2147483647 False of
             Some err \<Rightarrow> Some err
           | None \<Rightarrow> None))"

definition GetPolicyInstanceStatus_bindPolicyTypeID ::
    "openapi \<Rightarrow> string list \<Rightarrow> GetPolicyInstanceStatusParams \<Rightarrow> GetPolicyInstanceStatusParams \<times> go_error option" where
  "GetPolicyInstanceStatus_bindPolicyTypeID lib rawData p =
     (let raw = raw_value rawData in
      case ConvertInt64 lib raw of
        (v, Some err) \<Rightarrow> (p, Some (InvalidType lib ''policy_type_id'' ''path'' ''int64'' raw))
      | (v, None) \<Rightarrow> (let p1 = p\<lparr>TypeID := v\<rparr> in (p1, GetPolicyInstanceStatus_validatePolicyTypeID lib p1)))"

subsection \<open>\<open>A1ControllerGetPolicyTypeParams\<close>\<close>

definition GetPolicyType_validatePolicyTypeID :: "openapi \<Rightarrow> GetPolicyTypeParams \<Rightarrow> go_error option" where
  "GetPolicyType_validatePolicyTypeID lib p =
     (case MinimumInt lib ''policy_type_id'' ''path'' (TypeID p) 1 False of
        Some err \<Rightarrow> Some err
      | None \<Rightarrow>
          (case MaximumInt lib ''policy_type_id'' ''path'' (TypeID p) 2147483647 False of
             Some err \<Rightarrow> Some err
           | None \<Rightarrow> None))"

definition GetPolicyType_bindPolicyTypeID ::
    "openapi \<Rightarrow> string list \<Rightarrow> GetPolicyTypeParams \<Rightarrow> GetPolicyTypeParams \<times> go_error option" where
  "GetPolicyType_bindPolicyTypeID lib rawData p =
     (let raw = raw_value rawData in
      case ConvertInt64 lib raw of
        (v, Some err) \<Rightarrow> (p, Some (InvalidType lib ''policy_type_id'' ''path'' ''int64'' raw))
      | (v, None) \<Rightarrow> (let p1 = p\<lparr>TypeID := v\<rparr> in (p1, GetPolicyType_validatePolicyTypeID lib p1)))"

lemma bind_methods:
  "CreateOrReplacePolicyInstance_bindPolicyInstanceID = bindPolicyInstanceID"
  "DeletePolicyInstance_bindPolicyInstanceID = bindPolicyInstanceID"
  "GetPolicyInstance_bindPolicyInstanceID = bindPolicyInstanceID"
  "GetPolicyInstanceStatus_bindPolicyInstanceID = bindPolicyInstanceID"
  "CreateOrReplacePolicyInstance_validatePolicyTypeID = validatePolicyTypeID"
  "CreatePolicyType_validatePolicyTypeID = validatePolicyTypeID"
  "DeletePolicyInstance_validatePolicyTypeID = validatePolicyTypeID"
  "DeletePolicyType_validatePolicyTypeID = validatePolicyTypeID"
  "GetAllInstancesForType_validatePolicyTypeID = validatePolicyTypeID"
  "GetPolicyInstance_validatePolicyTypeID = validatePolicyTypeID"
  "GetPolicyInstanceStatus_validatePolicyTypeID = validatePolicyTypeID"
  "GetPolicyType_validatePolicyTypeID = validatePolicyTypeID"
  "CreateOrReplacePolicyInstance_bindPolicyTypeID = bindPolicyTypeID"
  "CreatePolicyType_bindPolicyTypeID = bindPolicyTypeID"
  "DeletePolicyInstance_bindPolicyTypeID = bindPolicyTypeID"
  "DeletePolicyType_bindPolicyTypeID = bindPolicyTypeID"
  "GetAllInstancesForType_bindPolicyTypeID = bindPolicyTypeID"
  "GetPolicyInstance_bindPolicyTypeID = bindPolicyTypeID"
  "GetPolicyInstanceStatus_bindPolicyTypeID = bindPolicyTypeID"
  "GetPolicyType_bindPolicyTypeID = bindPolicyTypeID"
  by (simp_all add: fun_eq_iff bindPolicyInstanceID_def bindPolicyTypeID_def validatePolicyTypeID_def
      CreateOrReplacePolicyInstance_bindPolicyInstanceID_def DeletePolicyInstance_bindPolicyInstanceID_def GetPolicyInstance_bindPolicyInstanceID_def
      GetPolicyInstanceStatus_bindPolicyInstanceID_def CreateOrReplacePolicyInstance_validatePolicyTypeID_def CreateOrReplacePolicyInstance_bindPolicyTypeID_def
      CreatePolicyType_validatePolicyTypeID_def CreatePolicyType_bindPolicyTypeID_def DeletePolicyInstance_validatePolicyTypeID_def
      DeletePolicyInstance_bindPolicyTypeID_def DeletePolicyType_validatePolicyTypeID_def DeletePolicyType_bindPolicyTypeID_def
      GetAllInstancesForType_validatePolicyTypeID_def GetAllInstancesForType_bindPolicyTypeID_def GetPolicyInstance_validatePolicyTypeID_def
      GetPolicyInstance_bindPolicyTypeID_def GetPolicyInstanceStatus_validatePolicyTypeID_def GetPolicyInstanceStatus_bindPolicyTypeID_def
      GetPolicyType_validatePolicyTypeID_def GetPolicyType_bindPolicyTypeID_def)

section \<open>Binding a request\<close>

text \<open>\<open>if err := f(); err != nil { res = append(res, err) }\<close>.\<close>

definition append_error :: "go_error list \<Rightarrow> go_error option \<Rightarrow> go_error list" where
  "append_error res e = (case e of None \<Rightarrow> res | Some err \<Rightarrow> res @ [err])"

definition GetAllPolicyTypes_BindRequest ::
    "openapi \<Rightarrow> request \<Rightarrow> matched_route \<Rightarrow> GetAllPolicyTypesParams \<Rightarrow> GetAllPolicyTypesParams \<times> go_error option" where
  "GetAllPolicyTypes_BindRequest lib r route p = (p\<lparr>HTTPRequest := r\<rparr>, composite lib [])"

definition GetHealthcheck_BindRequest ::
    "openapi \<Rightarrow> request \<Rightarrow> matched_route \<Rightarrow> GetHealthcheckParams \<Rightarrow> GetHealthcheckParams \<times> go_error option" where
  "GetHealthcheck_BindRequest lib r route p = (p\<lparr>HTTPRequest := r\<rparr>, composite lib [])"

definition DeletePolicyType_BindRequest ::
    "openapi \<Rightarrow> request \<Rightarrow> matched_route \<Rightarrow> DeletePolicyTypeParams \<Rightarrow> DeletePolicyTypeParams \<times> go_error option" where
  "DeletePolicyType_BindRequest lib r route p =
     (let p1 = p\<lparr>HTTPRequest := r\<rparr>;
          (p2, e) = DeletePolicyType_bindPolicyTypeID lib (fst (GetOK route ''policy_type_id'')) p1
      in (p2, composite lib (append_error [] e)))"

definition GetAllInstancesForType_BindRequest ::
    "openapi \<Rightarrow> request \<Rightarrow> matched_route \<Rightarrow> GetAllInstancesForTypeParams \<Rightarrow> GetAllInstancesForTypeParams \<times> go_error option" where
  "GetAllInstancesForType_BindRequest lib r route p =
     (let p1 = p\<lparr>HTTPRequest := r\<rparr>;
          (p2, e) = GetAllInstancesForType_bindPolicyTypeID lib (fst (GetOK route ''policy_type_id'')) p1
      in (p2, composite lib (append_error [] e)))"

definition GetPolicyType_BindRequest ::
    "openapi \<Rightarrow> request \<Rightarrow> matched_route \<Rightarrow> GetPolicyTypeParams \<Rightarrow> GetPolicyTypeParams \<times> go_error option" where
  "GetPolicyType_BindRequest lib r route p =
     (let p1 = p\<lparr>HTTPRequest := r\<rparr>;
          (p2, e) = GetPolicyType_bindPolicyTypeID lib (fst (GetOK route ''policy_type_id'')) p1
      in (p2, composite lib (append_error [] e)))"

definition DeletePolicyInstance_BindRequest ::
    "openapi \<Rightarrow> request \<Rightarrow> matched_route \<Rightarrow> DeletePolicyInstanceParams \<Rightarrow> DeletePolicyInstanceParams \<times> go_error option" where
  "DeletePolicyInstance_BindRequest lib r route p =
     (let p1 = p\<lparr>HTTPRequest := r\<rparr>;
          (p2, e1) = DeletePolicyInstance_bindPolicyInstanceID (fst (GetOK route ''policy_instance_id'')) p1;
          (p3, e2) = DeletePolicyInstance_bindPolicyTypeID lib (fst (GetOK route ''policy_type_id'')) p2
      in (p3, composite lib (append_error (append_error [] e1) e2)))"

definition GetPolicyInstance_BindRequest ::
    "openapi \<Rightarrow> request \<Rightarrow> matched_route \<Rightarrow> GetPolicyInstanceParams \<Rightarrow> GetPolicyInstanceParams \<times> go_error option" where
  "GetPolicyInstance_BindRequest lib r route p =
     (let p1 = p\<lparr>HTTPRequest := r\<rparr>;
          (p2, e1) = GetPolicyInstance_bindPolicyInstanceID (fst (GetOK route ''policy_instance_id'')) p1;
          (p3, e2) = GetPolicyInstance_bindPolicyTypeID lib (fst (GetOK route ''policy_type_id'')) p2
      in (p3, composite lib (append_error (append_error [] e1) e2)))"

definition GetPolicyInstanceStatus_BindRequest ::
    "openapi \<Rightarrow> request \<Rightarrow> matched_route \<Rightarrow> GetPolicyInstanceStatusParams \<Rightarrow> GetPolicyInstanceStatusParams \<times> go_error option" where
  "GetPolicyInstanceStatus_BindRequest lib r route p =
     (let p1 = p\<lparr>HTTPRequest := r\<rparr>;
          (p2, e1) = GetPolicyInstanceStatus_bindPolicyInstanceID (fst (GetOK route ''policy_instance_id'')) p1;
          (p3, e2) = GetPolicyInstanceStatus_bindPolicyTypeID lib (fst (GetOK route ''policy_type_id'')) p2
      in (p3, composite lib (append_error (append_error [] e1) e2)))"

definition DataDelivery_BindRequest ::
    "openapi \<Rightarrow> request \<Rightarrow> matched_route \<Rightarrow> DataDeliveryParams \<Rightarrow> DataDeliveryParams \<times> go_error option" where
  "DataDelivery_BindRequest lib r route p =
     (let p1 = p\<lparr>HTTPRequest := r\<rparr>;
          (p2, res) =
            (if HasBody r then
               (case ConsumeAny (Consumer route) (BodyText r) of
                  (body, Some err) \<Rightarrow> (p1, [NewParseError lib ''body'' ''body'' [] err])
                | (body, None) \<Rightarrow> (p1\<lparr>DeliveryBody := body\<rparr>, []))
             else (p1, []))
      in (p2, composite lib res))"

definition CreateOrReplacePolicyInstance_BindRequest ::
    "openapi \<Rightarrow> request \<Rightarrow> matched_route \<Rightarrow> CreateOrReplacePolicyInstanceParams \<Rightarrow>
       CreateOrReplacePolicyInstanceParams \<times> go_error option" where
  "CreateOrReplacePolicyInstance_BindRequest lib r route p =
     (let p1 = p\<lparr>HTTPRequest := r\<rparr>;
          (p2, res) =
            (if HasBody r then
               (case ConsumeAny (Consumer route) (BodyText r) of
                  (body, Some err) \<Rightarrow> (p1, [NewParseError lib ''body'' ''body'' [] err])
                | (body, None) \<Rightarrow> (p1\<lparr>InstanceBody := body\<rparr>, []))
             else (p1, []));
          (p3, e1) = CreateOrReplacePolicyInstance_bindPolicyInstanceID (fst (GetOK route ''policy_instance_id'')) p2;
          (p4, e2) = CreateOrReplacePolicyInstance_bindPolicyTypeID lib (fst (GetOK route ''policy_type_id'')) p3
      in (p4, composite lib (append_error (append_error res e1) e2)))"

definition CreatePolicyType_BindRequest ::
    "openapi \<Rightarrow> request \<Rightarrow> matched_route \<Rightarrow> CreatePolicyTypeParams \<Rightarrow>
       CreatePolicyTypeParams \<times> go_error option" where
  "CreatePolicyType_BindRequest lib r route p =
     (let p1 = p\<lparr>HTTPRequest := r\<rparr>;
          (p2, res) =
            (if HasBody r then
               (case ConsumeSchema (Consumer route) (BodyText r) of
                  (body, Some err) \<Rightarrow> (p1, [NewParseError lib ''body'' ''body'' [] err])
                | (body, None) \<Rightarrow>
                    (let res = append_error [] (PolicyTypeSchema_Validate lib body)
                     in if length res = 0 then (p1\<lparr>SchemaBody := Some body\<rparr>, res) else (p1, res)))
             else (p1, []));
          (p3, e) = CreatePolicyType_bindPolicyTypeID lib (fst (GetOK route ''policy_type_id'')) p2
      in (p3, composite lib (append_error res e)))"

section \<open>The contract of the operations with a policy type in their path\<close>

text \<open>
  Eight operations bind \<open>policy_type_id\<close>. When binding reports no error, the identifier is the
  converted last value of the path parameter and has passed the range check.
\<close>

definition path_type_id :: "openapi \<Rightarrow> matched_route \<Rightarrow> int64 \<Rightarrow> bool" where
  "path_type_id lib route i \<longleftrightarrow>
     ConvertInt64 lib (raw_value (fst (GetOK route ''policy_type_id''))) = (i, None) \<and>
     MinimumInt lib ''policy_type_id'' ''path'' i 1 False = None \<and>
     MaximumInt lib ''policy_type_id'' ''path'' i 2147483647 False = None"

locale type_id_binder =
  fixes lib :: openapi
    and bind :: "request \<Rightarrow> matched_route \<Rightarrow> 'p \<Rightarrow> 'p \<times> go_error option"
    and tid :: "'p \<Rightarrow> int64"
    and body_ok :: "request \<Rightarrow> matched_route \<Rightarrow> bool"
  assumes bound: "bind r route p = (p', None) \<Longrightarrow> path_type_id lib route (tid p')"
    and accepts: "(\<exists>p'. bind r route p = (p', None)) \<longleftrightarrow> body_ok r route \<and> (\<exists>i. path_type_id lib route i)"
begin

text \<open>A bound identifier is in the documented range, and it is the number in the path.\<close>

lemma bound_in_range:
  assumes "openapi_laws lib" and "bind r route p = (p', None)"
  shows "1 \<le> sint (tid p')" and "sint (tid p') \<le> 2147483647"
    and "ParseInt (raw_value (fst (GetOK route ''policy_type_id''))) = (tid p', None)"
proof -
  let ?raw = "raw_value (fst (GetOK route ''policy_type_id''))"
  note b = bound [OF assms(2), unfolded path_type_id_def]
  note laws = openapi_laws.in_range_checks [OF assms(1), of "''policy_type_id''" "''path''" "tid p'"]
  show "1 \<le> sint (tid p')" and "sint (tid p') \<le> 2147483647"
    using b laws by simp_all
  show "ParseInt ?raw = (tid p', None)"
    using b openapi_laws.ConvertInt64_iff [OF assms(1), of ?raw] by simp
qed

text \<open>Which requests are bound: the body is acceptable and the path holds a number in range.\<close>

lemma accepts_iff:
  assumes "openapi_laws lib"
  shows "(\<exists>p'. bind r route p = (p', None)) \<longleftrightarrow> body_ok r route \<and>
     (\<exists>i. ParseInt (raw_value (fst (GetOK route ''policy_type_id''))) = (i, None) \<and> 1 \<le> sint i \<and> sint i \<le> 2147483647)"
proof -
  let ?raw = "raw_value (fst (GetOK route ''policy_type_id''))"
  have "path_type_id lib route i \<longleftrightarrow> ParseInt ?raw = (i, None) \<and> 1 \<le> sint i \<and> sint i \<le> 2147483647" for i
    using openapi_laws.ConvertInt64_iff [OF assms, of ?raw i]
      openapi_laws.in_range_checks [OF assms, of "''policy_type_id''" "''path''" i]
    by (simp add: path_type_id_def)
  then show ?thesis by (simp add: accepts)
qed

text \<open>An identifier printed into the path is bound to itself.\<close>

lemma binds_printed:
  assumes "openapi_laws lib" and "fst (GetOK route ''policy_type_id'') = vs @ [FormatInt i]"
    and "1 \<le> sint i" and "sint i \<le> 2147483647" and "body_ok r route"
  obtains p' where "bind r route p = (p', None)" and "tid p' = i"
proof -
  have raw: "ParseInt (raw_value (fst (GetOK route ''policy_type_id''))) = (i, None)"
    by (simp add: assms(2) raw_value_def)
  then obtain p' where p': "bind r route p = (p', None)"
    using accepts_iff [OF assms(1)] assms(3-5) by blast
  from bound_in_range(3) [OF assms(1) p'] raw have "tid p' = i" by simp
  with p' show thesis by (rule that)
qed

end

text \<open>Facts about the shared helpers, from which each interpretation follows.\<close>

lemma append_error_iff [simp]: "append_error res e = [] \<longleftrightarrow> res = [] \<and> e = None"
  by (simp add: append_error_def split: option.split)

lemma composite_iff [simp]: "composite lib res = None \<longleftrightarrow> res = []"
  by (simp add: composite_def)

lemma validatePolicyTypeID_None_iff:
  "validatePolicyTypeID lib p = None \<longleftrightarrow>
     MinimumInt lib ''policy_type_id'' ''path'' (TypeID p) 1 False = None \<and>
     MaximumInt lib ''policy_type_id'' ''path'' (TypeID p) 2147483647 False = None"
  by (simp add: validatePolicyTypeID_def split: option.split)

lemma bindPolicyTypeID_accepts:
  "snd (bindPolicyTypeID lib (fst (GetOK route ''policy_type_id'')) p) = None \<longleftrightarrow> (\<exists>i. path_type_id lib route i)"
  by (auto simp: bindPolicyTypeID_def path_type_id_def validatePolicyTypeID_None_iff Let_def
      split: prod.split option.split)

lemma bindPolicyTypeID_bound:
  "snd (bindPolicyTypeID lib (fst (GetOK route ''policy_type_id'')) p) = None \<Longrightarrow>
   path_type_id lib route (TypeID (fst (bindPolicyTypeID lib (fst (GetOK route ''policy_type_id'')) p)))"
  by (auto simp: bindPolicyTypeID_def path_type_id_def validatePolicyTypeID_None_iff Let_def
      split: prod.splits option.splits)

definition any_body_ok :: "request \<Rightarrow> matched_route \<Rightarrow> bool" where
  "any_body_ok r route \<longleftrightarrow> (HasBody r \<longrightarrow> snd (ConsumeAny (Consumer route) (BodyText r)) = None)"

definition schema_body_ok :: "openapi \<Rightarrow> request \<Rightarrow> matched_route \<Rightarrow> bool" where
  "schema_body_ok lib r route \<longleftrightarrow>
     (HasBody r \<longrightarrow> snd (ConsumeSchema (Consumer route) (BodyText r)) = None \<and>
        PolicyTypeSchema_Validate lib (fst (ConsumeSchema (Consumer route) (BodyText r))) = None)"

lemmas bind_simps = bind_methods bindPolicyTypeID_accepts bindPolicyInstanceID_def Let_def split_beta

interpretation b_DeletePolicyType: type_id_binder lib "DeletePolicyType_BindRequest lib" TypeID "\<lambda>r route. True" for lib
  by unfold_locales
     (auto simp: DeletePolicyType_BindRequest_def bind_simps intro!: bindPolicyTypeID_bound split: option.splits if_splits)

interpretation b_GetAllInstancesForType: type_id_binder lib "GetAllInstancesForType_BindRequest lib" TypeID "\<lambda>r route. True" for lib
  by unfold_locales
     (auto simp: GetAllInstancesForType_BindRequest_def bind_simps intro!: bindPolicyTypeID_bound split: option.splits if_splits)

interpretation b_GetPolicyType: type_id_binder lib "GetPolicyType_BindRequest lib" TypeID "\<lambda>r route. True" for lib
  by unfold_locales
     (auto simp: GetPolicyType_BindRequest_def bind_simps intro!: bindPolicyTypeID_bound split: option.splits if_splits)

interpretation b_DeletePolicyInstance: type_id_binder lib "DeletePolicyInstance_BindRequest lib" TypeID "\<lambda>r route. True" for lib
  by unfold_locales
     (auto simp: DeletePolicyInstance_BindRequest_def bind_simps intro!: bindPolicyTypeID_bound split: option.splits if_splits)

interpretation b_GetPolicyInstance: type_id_binder lib "GetPolicyInstance_BindRequest lib" TypeID "\<lambda>r route. True" for lib
  by unfold_locales
     (auto simp: GetPolicyInstance_BindRequest_def bind_simps intro!: bindPolicyTypeID_bound split: option.splits if_splits)

interpretation b_GetPolicyInstanceStatus: type_id_binder lib "GetPolicyInstanceStatus_BindRequest lib" TypeID "\<lambda>r route. True" for lib
  by unfold_locales
     (auto simp: GetPolicyInstanceStatus_BindRequest_def bind_simps intro!: bindPolicyTypeID_bound split: option.splits if_splits)

interpretation b_CreateOrReplacePolicyInstance: type_id_binder lib "CreateOrReplacePolicyInstance_BindRequest lib" TypeID any_body_ok for lib
  by unfold_locales
     (auto simp: CreateOrReplacePolicyInstance_BindRequest_def bind_simps any_body_ok_def intro!: bindPolicyTypeID_bound split: option.splits if_splits)

interpretation b_CreatePolicyType: type_id_binder lib "CreatePolicyType_BindRequest lib" TypeID "schema_body_ok lib" for lib
  by unfold_locales
     (auto simp: CreatePolicyType_BindRequest_def bind_simps schema_body_ok_def intro!: bindPolicyTypeID_bound split: option.splits if_splits)

definition sample_route :: "string \<Rightarrow> policy_type_schema option \<Rightarrow> matched_route" where
  "sample_route raw body =
     \<lparr>GetOK = (\<lambda>name. if name = ''policy_type_id'' then ([raw], True, raw \<noteq> []) else ([], False, False)),
      Consumer =
        \<lparr>ConsumeAny = (\<lambda>text. (JNull, None)),
         ConsumeSchema = (\<lambda>text. case body of Some m \<Rightarrow> (m, None)
                                   | None \<Rightarrow> (zero_schema, Some (Foreign ''EOF'')))\<rparr>\<rparr>"

section \<open>Properties\<close>

text \<open>
  Which requests create a policy type: the last value of \<open>policy_type_id\<close> is a decimal
  64-bit number between 1 and 2147483647, and the body, when there is one, decodes to a policy
  type whose four members are present and not zero. A request without a body is accepted too.
\<close>

theorem create_bind_iff:
  assumes "openapi_laws lib"
  shows "(\<exists>p'. CreatePolicyType_BindRequest lib r route p = (p', None)) \<longleftrightarrow>
    (HasBody r \<longrightarrow> (\<exists>m. ConsumeSchema (Consumer route) (BodyText r) = (m, None) \<and>
        CreateSchema m \<notin> {JNull, JBool False, JString [], JNumber []} \<and>
        Description m \<noteq> None \<and> Name m \<noteq> None \<and> PolicyTypeID m \<noteq> None)) \<and>
    (\<exists>i. ParseInt (raw_value (fst (GetOK route ''policy_type_id''))) = (i, None) \<and>
        1 \<le> sint i \<and> sint i \<le> 2147483647)"
  using b_CreatePolicyType.accepts_iff [OF assms, of r route p] openapi_laws.PolicyTypeSchema_Validate_iff [OF assms]
  by (cases "ConsumeSchema (Consumer route) (BodyText r)") (simp add: schema_body_ok_def)

theorem create_bind_iff_witness:
  "\<exists>p'. CreatePolicyType_BindRequest std_openapi zero_request (sample_route ''20001'' None)
     NewCreatePolicyTypeParams = (p', None)"
proof -
  have "ParseInt (raw_value (fst (GetOK (sample_route ''20001'' None) ''policy_type_id''))) = (20001, None)"
    and "1 \<le> sint (20001 :: int64)" "sint (20001 :: int64) \<le> 2147483647" "\<not> HasBody zero_request"
    by code_simp+
  then show ?thesis
    using create_bind_iff [OF std_openapi_laws] by blast
qed

text \<open>
  What an operation does with the identifier in its path: it binds the number that stands
  there, in the documented range; and it binds every identifier in range from its decimal text.
\<close>

definition reads_type_id ::
    "(request \<Rightarrow> matched_route \<Rightarrow> 'p \<Rightarrow> 'p \<times> go_error option) \<Rightarrow> ('p \<Rightarrow> int64) \<Rightarrow> bool" where
  "reads_type_id bind tid \<longleftrightarrow>
     (\<forall>r route p p'. bind r route p = (p', None) \<longrightarrow>
        1 \<le> sint (tid p') \<and> sint (tid p') \<le> 2147483647 \<and>
        ParseInt (raw_value (fst (GetOK route ''policy_type_id''))) = (tid p', None))"

definition accepts_type_id ::
    "(request \<Rightarrow> matched_route \<Rightarrow> 'p \<Rightarrow> 'p \<times> go_error option) \<Rightarrow> ('p \<Rightarrow> int64) \<Rightarrow>
     (request \<Rightarrow> matched_route \<Rightarrow> bool) \<Rightarrow> bool" where
  "accepts_type_id bind tid ok \<longleftrightarrow>
     (\<forall>r route p vs i. fst (GetOK route ''policy_type_id'') = vs @ [FormatInt i] \<longrightarrow>
        1 \<le> sint i \<longrightarrow> sint i \<le> 2147483647 \<longrightarrow> ok r route \<longrightarrow>
        (\<exists>p'. bind r route p = (p', None) \<and> tid p' = i))"

context type_id_binder
begin

lemma reads: "openapi_laws lib \<Longrightarrow> reads_type_id bind tid"
  using bound_in_range unfolding reads_type_id_def by blast

lemma accepts_printed: "openapi_laws lib \<Longrightarrow> accepts_type_id bind tid body_ok"
  unfolding accepts_type_id_def by (metis binds_printed)

end

text \<open>
  C39. Bounds. None of the eight operations with a policy type in their path is ever called with
  an identifier outside 1..2147483647, nor with one that is not the number in the path.
\<close>

theorem bound_type_ids_in_range:
  assumes "openapi_laws lib"
  shows "reads_type_id (GetPolicyType_BindRequest lib) TypeID \<and>
    reads_type_id (CreatePolicyType_BindRequest lib) TypeID \<and>
    reads_type_id (DeletePolicyType_BindRequest lib) TypeID \<and>
    reads_type_id (GetAllInstancesForType_BindRequest lib) TypeID \<and>
    reads_type_id (GetPolicyInstance_BindRequest lib) TypeID \<and>
    reads_type_id (CreateOrReplacePolicyInstance_BindRequest lib) TypeID \<and>
    reads_type_id (DeletePolicyInstance_BindRequest lib) TypeID \<and>
    reads_type_id (GetPolicyInstanceStatus_BindRequest lib) TypeID"
  using b_GetPolicyType.reads [OF assms]
    b_CreatePolicyType.reads [OF assms]
    b_DeletePolicyType.reads [OF assms]
    b_GetAllInstancesForType.reads [OF assms]
    b_GetPolicyInstance.reads [OF assms]
    b_CreateOrReplacePolicyInstance.reads [OF assms]
    b_DeletePolicyInstance.reads [OF assms]
    b_GetPolicyInstanceStatus.reads [OF assms]
  by blast

theorem bound_type_ids_in_range_witness:
  "reads_type_id (GetPolicyType_BindRequest std_openapi) TypeID"
  using bound_type_ids_in_range [OF std_openapi_laws] by blast

text \<open>
  Round trip. Each of the eight operations binds an identifier in range from the decimal
  text the URL builders put into the path, provided the body, if any, is acceptable.
\<close>

theorem printed_type_ids_are_bound:
  assumes "openapi_laws lib"
  shows "accepts_type_id (GetPolicyType_BindRequest lib) TypeID (\<lambda>r route. True) \<and>
    accepts_type_id (CreatePolicyType_BindRequest lib) TypeID (schema_body_ok lib) \<and>
    accepts_type_id (DeletePolicyType_BindRequest lib) TypeID (\<lambda>r route. True) \<and>
    accepts_type_id (GetAllInstancesForType_BindRequest lib) TypeID (\<lambda>r route. True) \<and>
    accepts_type_id (GetPolicyInstance_BindRequest lib) TypeID (\<lambda>r route. True) \<and>
    accepts_type_id (CreateOrReplacePolicyInstance_BindRequest lib) TypeID any_body_ok \<and>
    accepts_type_id (DeletePolicyInstance_BindRequest lib) TypeID (\<lambda>r route. True) \<and>
    accepts_type_id (GetPolicyInstanceStatus_BindRequest lib) TypeID (\<lambda>r route. True)"
  using b_GetPolicyType.accepts_printed [OF assms]
    b_CreatePolicyType.accepts_printed [OF assms]
    b_DeletePolicyType.accepts_printed [OF assms]
    b_GetAllInstancesForType.accepts_printed [OF assms]
    b_GetPolicyInstance.accepts_printed [OF assms]
    b_CreateOrReplacePolicyInstance.accepts_printed [OF assms]
    b_DeletePolicyInstance.accepts_printed [OF assms]
    b_GetPolicyInstanceStatus.accepts_printed [OF assms]
  by blast

theorem printed_type_ids_are_bound_witness:
  "\<exists>p'. GetPolicyType_BindRequest std_openapi zero_request (sample_route (FormatInt 7) None) NewGetPolicyTypeParams = (p', None) \<and>
     TypeID p' = 7"
proof -
  have "accepts_type_id (GetPolicyType_BindRequest std_openapi) TypeID (\<lambda>r route. True)"
    using printed_type_ids_are_bound [OF std_openapi_laws] by blast
  moreover have "fst (GetOK (sample_route (FormatInt 7) None) ''policy_type_id'') = [] @ [FormatInt 7]"
    by (simp add: sample_route_def)
  ultimately show ?thesis
    unfolding accepts_type_id_def by force
qed

end
