(* ===== verification/Responses.thy ===== *)
theory Responses
  imports Models
begin

text \<open>
  The responses of the eleven operations: \<open>*_responses.go\<close> in \<open>restapi/operations/a1_mediator\<close>
  and \<open>restapi/operations/a1_e_i_data_delivery\<close>. The response structs of an operation are the
  constructors of one datatype (the prefix \<open>A1Controller\<close> of the Go names is left out), the
  constants \<open>*Code\<close> its function \<open>_code\<close>, and the \<open>WriteResponse\<close> methods its function
  \<open>_WriteResponse\<close>, on an explicit \<open>http.ResponseWriter\<close>.
\<close>

section \<open>The response writer of \<open>net/http\<close>\<close>

text \<open>
  \<open>Wrote\<close> is the status line and the headers already sent, \<open>Body\<close> the bytes after them. A second
  \<open>WriteHeader\<close> is ignored, and \<open>Write\<close> sends status 200 when none was sent.
\<close>

record rw =
  Header :: "(string \<times> string) list"
  Wrote :: "(nat \<times> (string \<times> string) list) option"
  Body :: string

definition WriteHeader :: "nat \<Rightarrow> rw \<Rightarrow> rw" where
  "WriteHeader code rw = (case Wrote rw of None \<Rightarrow> rw\<lparr>Wrote := Some (code, Header rw)\<rparr> | Some _ \<Rightarrow> rw)"

definition Header_Del :: "string \<Rightarrow> rw \<Rightarrow> rw" where
  "Header_Del k rw = rw\<lparr>Header := filter (\<lambda>h. fst h \<noteq> k) (Header rw)\<rparr>"

definition Header_Set :: "string \<Rightarrow> string \<Rightarrow> rw \<Rightarrow> rw" where
  "Header_Set k v rw = rw\<lparr>Header := (k, v) # filter (\<lambda>h. fst h \<noteq> k) (Header rw)\<rparr>"

definition Write :: "string \<Rightarrow> rw \<Rightarrow> rw" where
  "Write bs rw = (let rw1 = WriteHeader 200 rw in rw1\<lparr>Body := Body rw1 @ bs\<rparr>)"

definition fresh_rw :: rw where
  "fresh_rw = \<lparr>Header = [], Wrote = None, Body = []\<rparr>"

definition sent_status :: "rw \<Rightarrow> nat option" where
  "sent_status rw = map_option fst (Wrote rw)"

text \<open>
  A \<open>runtime.Producer\<close> is code outside the repository: the bytes it writes for a value, and its
  error. The methods panic with the error, for the recovery middleware.
\<close>

type_synonym producer = "any \<Rightarrow> string \<times> go_error option"

definition produce :: "producer \<Rightarrow> any \<Rightarrow> rw \<Rightarrow> rw \<times> unit outcome" where
  "produce producer v rw =
     (case producer v of
        (bs, None) \<Rightarrow> (Write bs rw, Return ())
      | (bs, Some err) \<Rightarrow> (Write bs rw, Panic (Error err)))"

text \<open>The body of every \<open>WriteResponse\<close> without a payload.\<close>

definition empty_response :: "nat \<Rightarrow> rw \<Rightarrow> rw \<times> unit outcome" where
  "empty_response code rw =
     (let rw1 = Header_Del ''Content-Type'' rw;
          rw2 = WriteHeader code rw1
      in (rw2, Return ()))"

section \<open>The responses of each operation\<close>

subsection \<open>\<open>a1_controller_create_or_replace_policy_instance_responses.go\<close>\<close>

datatype CreateOrReplacePolicyInstance_response =
    CreateOrReplacePolicyInstanceAccepted
  | CreateOrReplacePolicyInstanceBadRequest
  | CreateOrReplacePolicyInstanceNotFound
  | CreateOrReplacePolicyInstanceServiceUnavailable

fun CreateOrReplacePolicyInstance_code :: "CreateOrReplacePolicyInstance_response \<Rightarrow> nat" where
  "CreateOrReplacePolicyInstance_code CreateOrReplacePolicyInstanceAccepted = 202"
| "CreateOrReplacePolicyInstance_code CreateOrReplacePolicyInstanceBadRequest = 400"
| "CreateOrReplacePolicyInstance_code CreateOrReplacePolicyInstanceNotFound = 404"
| "CreateOrReplacePolicyInstance_code CreateOrReplacePolicyInstanceServiceUnavailable = 503"

fun CreateOrReplacePolicyInstance_WriteResponse :: "producer \<Rightarrow> CreateOrReplacePolicyInstance_response \<Rightarrow> rw \<Rightarrow> rw \<times> unit outcome" where
  "CreateOrReplacePolicyInstance_WriteResponse producer CreateOrReplacePolicyInstanceAccepted rw = empty_response 202 rw"
| "CreateOrReplacePolicyInstance_WriteResponse producer CreateOrReplacePolicyInstanceBadRequest rw = empty_response 400 rw"
| "CreateOrReplacePolicyInstance_WriteResponse producer CreateOrReplacePolicyInstanceNotFound rw = empty_response 404 rw"
| "CreateOrReplacePolicyInstance_WriteResponse producer CreateOrReplacePolicyInstanceServiceUnavailable rw = empty_response 503 rw"

definition CreateOrReplacePolicyInstance_payload :: "CreateOrReplacePolicyInstance_response \<Rightarrow> any option" where
  "CreateOrReplacePolicyInstance_payload r = None"

subsection \<open>\<open>a1_controller_create_policy_type_responses.go\<close>\<close>

datatype CreatePolicyType_response =
    CreatePolicyTypeCreated
  | CreatePolicyTypeBadRequest
  | CreatePolicyTypeServiceUnavailable

fun CreatePolicyType_code :: "CreatePolicyType_response \<Rightarrow> nat" where
  "CreatePolicyType_code CreatePolicyTypeCreated = 201"
| "CreatePolicyType_code CreatePolicyTypeBadRequest = 400"
| "CreatePolicyType_code CreatePolicyTypeServiceUnavailable = 503"

fun CreatePolicyType_WriteResponse :: "producer \<Rightarrow> CreatePolicyType_response \<Rightarrow> rw \<Rightarrow> rw \<times> unit outcome" where
  "CreatePolicyType_WriteResponse producer CreatePolicyTypeCreated rw = empty_response 201 rw"
| "CreatePolicyType_WriteResponse producer CreatePolicyTypeBadRequest rw = empty_response 400 rw"
| "CreatePolicyType_WriteResponse producer CreatePolicyTypeServiceUnavailable rw = empty_response 503 rw"

definition CreatePolicyType_payload :: "CreatePolicyType_response \<Rightarrow> any option" where
  "CreatePolicyType_payload r = None"

subsection \<open>\<open>a1_controller_data_delivery_responses.go\<close>\<close>

datatype DataDelivery_response =
    DataDeliveryOK
  | DataDeliveryNotFound

fun DataDelivery_code :: "DataDelivery_response \<Rightarrow> nat" where
  "DataDelivery_code DataDeliveryOK = 200"
| "DataDelivery_code DataDeliveryNotFound = 404"

fun DataDelivery_WriteResponse :: "producer \<Rightarrow> DataDelivery_response \<Rightarrow> rw \<Rightarrow> rw \<times> unit outcome" where
  "DataDelivery_WriteResponse producer DataDeliveryOK rw = empty_response 200 rw"
| "DataDelivery_WriteResponse producer DataDeliveryNotFound rw = empty_response 404 rw"

definition DataDelivery_payload :: "DataDelivery_response \<Rightarrow> any option" where
  "DataDelivery_payload r = None"

subsection \<open>\<open>a1_controller_delete_policy_instance_responses.go\<close>\<close>

datatype DeletePolicyInstance_response =
    DeletePolicyInstanceAccepted
  | DeletePolicyInstanceNotFound
  | DeletePolicyInstanceServiceUnavailable

fun DeletePolicyInstance_code :: "DeletePolicyInstance_response \<Rightarrow> nat" where
  "DeletePolicyInstance_code DeletePolicyInstanceAccepted = 202"
| "DeletePolicyInstance_code DeletePolicyInstanceNotFound = 404"
| "DeletePolicyInstance_code DeletePolicyInstanceServiceUnavailable = 503"

fun DeletePolicyInstance_WriteResponse :: "producer \<Rightarrow> DeletePolicyInstance_response \<Rightarrow> rw \<Rightarrow> rw \<times> unit outcome" where
  "DeletePolicyInstance_WriteResponse producer DeletePolicyInstanceAccepted rw = empty_response 202 rw"
| "DeletePolicyInstance_WriteResponse producer DeletePolicyInstanceNotFound rw = empty_response 404 rw"
| "DeletePolicyInstance_WriteResponse producer DeletePolicyInstanceServiceUnavailable rw = empty_response 503 rw"

definition DeletePolicyInstance_payload :: "DeletePolicyInstance_response \<Rightarrow> any option" where
  "DeletePolicyInstance_payload r = None"

subsection \<open>\<open>a1_controller_delete_policy_type_responses.go\<close>\<close>

datatype DeletePolicyType_response =
    DeletePolicyTypeNoContent
  | DeletePolicyTypeBadRequest
  | DeletePolicyTypeNotFound
  | DeletePolicyTypeServiceUnavailable

fun DeletePolicyType_code :: "DeletePolicyType_response \<Rightarrow> nat" where
  "DeletePolicyType_code DeletePolicyTypeNoContent = 204"
| "DeletePolicyType_code DeletePolicyTypeBadRequest = 400"
| "DeletePolicyType_code DeletePolicyTypeNotFound = 404"
| "DeletePolicyType_code DeletePolicyTypeServiceUnavailable = 503"

fun DeletePolicyType_WriteResponse :: "producer \<Rightarrow> DeletePolicyType_response \<Rightarrow> rw \<Rightarrow> rw \<times> unit outcome" where
  "DeletePolicyType_WriteResponse producer DeletePolicyTypeNoContent rw = empty_response 204 rw"
| "DeletePolicyType_WriteResponse producer DeletePolicyTypeBadRequest rw = empty_response 400 rw"
| "DeletePolicyType_WriteResponse producer DeletePolicyTypeNotFound rw = empty_response 404 rw"
| "DeletePolicyType_WriteResponse producer DeletePolicyTypeServiceUnavailable rw = empty_response 503 rw"

definition DeletePolicyType_payload :: "DeletePolicyType_response \<Rightarrow> any option" where
  "DeletePolicyType_payload r = None"

subsection \<open>\<open>a1_controller_get_all_instances_for_type_responses.go\<close>\<close>

datatype GetAllInstancesForType_response =
    GetAllInstancesForTypeOK "policy_instance_id list option"
  | GetAllInstancesForTypeServiceUnavailable

fun GetAllInstancesForType_code :: "GetAllInstancesForType_response \<Rightarrow> nat" where
  "GetAllInstancesForType_code (GetAllInstancesForTypeOK payload) = 200"
| "GetAllInstancesForType_code GetAllInstancesForTypeServiceUnavailable = 503"

fun GetAllInstancesForTypeOK_WithPayload :: "policy_instance_id list option \<Rightarrow> GetAllInstancesForType_response \<Rightarrow> GetAllInstancesForType_response" where
  "GetAllInstancesForTypeOK_WithPayload payload (GetAllInstancesForTypeOK _) = GetAllInstancesForTypeOK payload"
| "GetAllInstancesForTypeOK_WithPayload payload other = other"

fun GetAllInstancesForType_WriteResponse :: "producer \<Rightarrow> GetAllInstancesForType_response \<Rightarrow> rw \<Rightarrow> rw \<times> unit outcome" where
  "GetAllInstancesForType_WriteResponse producer (GetAllInstancesForTypeOK payload) rw = (let rw1 = WriteHeader 200 rw;
          payload1 = (case payload of None \<Rightarrow> [] | Some xs \<Rightarrow> xs)
      in produce producer (AInstanceIDs payload1) rw1)"
| "GetAllInstancesForType_WriteResponse producer GetAllInstancesForTypeServiceUnavailable rw = empty_response 503 rw"

fun GetAllInstancesForType_payload :: "GetAllInstancesForType_response \<Rightarrow> any option" where
  "GetAllInstancesForType_payload (GetAllInstancesForTypeOK payload) = Some (AInstanceIDs (case payload of None \<Rightarrow> [] | Some xs \<Rightarrow> xs))"
| "GetAllInstancesForType_payload _ = None"

subsection \<open>\<open>a1_controller_get_all_policy_types_responses.go\<close>\<close>

datatype GetAllPolicyTypes_response =
    GetAllPolicyTypesOK "policy_type_id list option"
  | GetAllPolicyTypesServiceUnavailable

fun GetAllPolicyTypes_code :: "GetAllPolicyTypes_response \<Rightarrow> nat" where
  "GetAllPolicyTypes_code (GetAllPolicyTypesOK payload) = 200"
| "GetAllPolicyTypes_code GetAllPolicyTypesServiceUnavailable = 503"

fun GetAllPolicyTypesOK_WithPayload :: "policy_type_id list option \<Rightarrow> GetAllPolicyTypes_response \<Rightarrow> GetAllPolicyTypes_response" where
  "GetAllPolicyTypesOK_WithPayload payload (GetAllPolicyTypesOK _) = GetAllPolicyTypesOK payload"
| "GetAllPolicyTypesOK_WithPayload payload other = other"

fun GetAllPolicyTypes_WriteResponse :: "producer \<Rightarrow> GetAllPolicyTypes_response \<Rightarrow> rw \<Rightarrow> rw \<times> unit outcome" where
  "GetAllPolicyTypes_WriteResponse producer (GetAllPolicyTypesOK payload) rw = (let rw1 = WriteHeader 200 rw;
          payload1 = (case payload of None \<Rightarrow> [] | Some xs \<Rightarrow> xs)
      in produce producer (ATypeIDs payload1) rw1)"
| "GetAllPolicyTypes_WriteResponse producer GetAllPolicyTypesServiceUnavailable rw = empty_response 503 rw"

fun GetAllPolicyTypes_payload :: "GetAllPolicyTypes_response \<Rightarrow> any option" where
  "GetAllPolicyTypes_payload (GetAllPolicyTypesOK payload) = Some (ATypeIDs (case payload of None \<Rightarrow> [] | Some xs \<Rightarrow> xs))"
| "GetAllPolicyTypes_payload _ = None"

subsection \<open>\<open>a1_controller_get_healthcheck_responses.go\<close>\<close>

datatype GetHealthcheck_response =
    GetHealthcheckOK

fun GetHealthcheck_code :: "GetHealthcheck_response \<Rightarrow> nat" where
  "GetHealthcheck_code GetHealthcheckOK = 200"

fun GetHealthcheck_WriteResponse :: "producer \<Rightarrow> GetHealthcheck_response \<Rightarrow> rw \<Rightarrow> rw \<times> unit outcome" where
  "GetHealthcheck_WriteResponse producer GetHealthcheckOK rw = empty_response 200 rw"

definition GetHealthcheck_payload :: "GetHealthcheck_response \<Rightarrow> any option" where
  "GetHealthcheck_payload r = None"

subsection \<open>\<open>a1_controller_get_policy_instance_responses.go\<close>\<close>

datatype GetPolicyInstance_response =
    GetPolicyInstanceOK json
  | GetPolicyInstanceNotFound
  | GetPolicyInstanceServiceUnavailable

fun GetPolicyInstance_code :: "GetPolicyInstance_response \<Rightarrow> nat" where
  "GetPolicyInstance_code (GetPolicyInstanceOK payload) = 200"
| "GetPolicyInstance_code GetPolicyInstanceNotFound = 404"
| "GetPolicyInstance_code GetPolicyInstanceServiceUnavailable = 503"

fun GetPolicyInstanceOK_WithPayload :: "json \<Rightarrow> GetPolicyInstance_response \<Rightarrow> GetPolicyInstance_response" where
  "GetPolicyInstanceOK_WithPayload payload (GetPolicyInstanceOK _) = GetPolicyInstanceOK payload"
| "GetPolicyInstanceOK_WithPayload payload other = other"

fun GetPolicyInstance_WriteResponse :: "producer \<Rightarrow> GetPolicyInstance_response \<Rightarrow> rw \<Rightarrow> rw \<times> unit outcome" where
  "GetPolicyInstance_WriteResponse producer (GetPolicyInstanceOK payload) rw = produce producer (AJson payload) (WriteHeader 200 rw)"
| "GetPolicyInstance_WriteResponse producer GetPolicyInstanceNotFound rw = empty_response 404 rw"
| "GetPolicyInstance_WriteResponse producer GetPolicyInstanceServiceUnavailable rw = empty_response 503 rw"

fun GetPolicyInstance_payload :: "GetPolicyInstance_response \<Rightarrow> any option" where
  "GetPolicyInstance_payload (GetPolicyInstanceOK payload) = Some (AJson payload)"
| "GetPolicyInstance_payload _ = None"

subsection \<open>\<open>a1_controller_get_policy_instance_status_responses.go\<close>\<close>

datatype GetPolicyInstanceStatus_response =
    GetPolicyInstanceStatusOK "status_body option"
  | GetPolicyInstanceStatusNotFound
  | GetPolicyInstanceStatusServiceUnavailable

fun GetPolicyInstanceStatus_code :: "GetPolicyInstanceStatus_response \<Rightarrow> nat" where
  "GetPolicyInstanceStatus_code (GetPolicyInstanceStatusOK payload) = 200"
| "GetPolicyInstanceStatus_code GetPolicyInstanceStatusNotFound = 404"
| "GetPolicyInstanceStatus_code GetPolicyInstanceStatusServiceUnavailable = 503"

fun GetPolicyInstanceStatusOK_WithPayload :: "status_body option \<Rightarrow> GetPolicyInstanceStatus_response \<Rightarrow> GetPolicyInstanceStatus_response" where
  "GetPolicyInstanceStatusOK_WithPayload payload (GetPolicyInstanceStatusOK _) = GetPolicyInstanceStatusOK payload"
| "GetPolicyInstanceStatusOK_WithPayload payload other = other"

fun GetPolicyInstanceStatus_WriteResponse :: "producer \<Rightarrow> GetPolicyInstanceStatus_response \<Rightarrow> rw \<Rightarrow> rw \<times> unit outcome" where
  "GetPolicyInstanceStatus_WriteResponse producer (GetPolicyInstanceStatusOK payload) rw = (let rw1 = WriteHeader 200 rw in
     case payload of None \<Rightarrow> (rw1, Return ()) | Some x \<Rightarrow> produce producer (AStatus x) rw1)"
| "GetPolicyInstanceStatus_WriteResponse producer GetPolicyInstanceStatusNotFound rw = empty_response 404 rw"
| "GetPolicyInstanceStatus_WriteResponse producer GetPolicyInstanceStatusServiceUnavailable rw = empty_response 503 rw"

fun GetPolicyInstanceStatus_payload :: "GetPolicyInstanceStatus_response \<Rightarrow> any option" where
  "GetPolicyInstanceStatus_payload (GetPolicyInstanceStatusOK payload) = map_option AStatus payload"
| "GetPolicyInstanceStatus_payload _ = None"

subsection \<open>\<open>a1_controller_get_policy_type_responses.go\<close>\<close>

datatype GetPolicyType_response =
    GetPolicyTypeOK "policy_type_schema option"
  | GetPolicyTypeNotFound
  | GetPolicyTypeServiceUnavailable

fun GetPolicyType_code :: "GetPolicyType_response \<Rightarrow> nat" where
  "GetPolicyType_code (GetPolicyTypeOK payload) = 200"
| "GetPolicyType_code GetPolicyTypeNotFound = 404"
| "GetPolicyType_code GetPolicyTypeServiceUnavailable = 503"

fun GetPolicyTypeOK_WithPayload :: "policy_type_schema option \<Rightarrow> GetPolicyType_response \<Rightarrow> GetPolicyType_response" where
  "GetPolicyTypeOK_WithPayload payload (GetPolicyTypeOK _) = GetPolicyTypeOK payload"
| "GetPolicyTypeOK_WithPayload payload other = other"

fun GetPolicyType_WriteResponse :: "producer \<Rightarrow> GetPolicyType_response \<Rightarrow> rw \<Rightarrow> rw \<times> unit outcome" where
  "GetPolicyType_WriteResponse producer (GetPolicyTypeOK payload) rw = (let rw1 = WriteHeader 200 rw in
     case payload of None \<Rightarrow> (rw1, Return ()) | Some x \<Rightarrow> produce producer (ASchema x) rw1)"
| "GetPolicyType_WriteResponse producer GetPolicyTypeNotFound rw = empty_response 404 rw"
| "GetPolicyType_WriteResponse producer GetPolicyTypeServiceUnavailable rw = empty_response 503 rw"

fun GetPolicyType_payload :: "GetPolicyType_response \<Rightarrow> any option" where
  "GetPolicyType_payload (GetPolicyTypeOK payload) = map_option ASchema payload"
| "GetPolicyType_payload _ = None"

section \<open>What every response does\<close>

text \<open>
  The contract of \<open>middleware.Responder\<close>, as the handlers and the server rely on it: the first
  thing sent is the declared status; a response with a payload adds the producer's bytes and
  panics exactly when the producer fails; one without adds nothing.
\<close>

locale responder =
  fixes respond :: "producer \<Rightarrow> 'r \<Rightarrow> rw \<Rightarrow> rw \<times> unit outcome"
    and code :: "'r \<Rightarrow> nat"
    and payload :: "'r \<Rightarrow> any option"
  assumes status: "Wrote rw = None \<Longrightarrow> sent_status (fst (respond p r rw)) = Some (code r)"
    and later: "Wrote rw = Some s \<Longrightarrow> Wrote (fst (respond p r rw)) = Some s"
    and no_payload: "payload r = None \<Longrightarrow> Body (fst (respond p r rw)) = Body rw \<and> snd (respond p r rw) = Return ()"
    and with_payload: "payload r = Some v \<Longrightarrow>
          Body (fst (respond p r rw)) = Body rw @ fst (p v) \<and>
          snd (respond p r rw) = (case snd (p v) of None \<Rightarrow> Return () | Some err \<Rightarrow> Panic (Error err))"
    and payload_code: "payload r = Some v \<Longrightarrow> code r = 200"
    and known_code: "code r \<in> {200, 201, 202, 204, 400, 404, 503}"
begin

text \<open>A handler that writes twice is answered by its first response.\<close>

lemma first_response_wins:
  "Wrote rw = None \<Longrightarrow> sent_status (fst (respond p r' (fst (respond p r rw)))) = Some (code r)"
  using status [of rw p r] later [of "fst (respond p r rw)" _ p r'] by (auto simp: sent_status_def)

lemma returns_iff:
  "snd (respond p r rw) = Return () \<longleftrightarrow> (\<forall>v. payload r = Some v \<longrightarrow> snd (p v) = None)"
proof (cases "payload r")
  case (Some v)
  then show ?thesis using with_payload [of r v p rw] by (auto split: option.splits)
qed (simp add: no_payload)

lemma body_sent:
  "Body (fst (respond p r fresh_rw)) = (case payload r of None \<Rightarrow> [] | Some v \<Rightarrow> fst (p v))"
  using no_payload [of r p fresh_rw] with_payload [of r _ p fresh_rw]
  by (simp add: fresh_rw_def split: option.split)

lemma no_status_after_panic:
  "snd (respond p r fresh_rw) = Panic m \<Longrightarrow> sent_status (fst (respond p r fresh_rw)) = Some (code r)"
  by (rule status) (simp add: fresh_rw_def)

end

text \<open>How the writer behaves, in one bundle for the interpretations.\<close>

lemma WriteHeader_simps [simp]:
  "Wrote rw = None \<Longrightarrow> sent_status (WriteHeader c rw) = Some c"
  "Wrote rw = Some s \<Longrightarrow> Wrote (WriteHeader c rw) = Some s"
  "Wrote (WriteHeader c rw) \<noteq> None"
  "Body (WriteHeader c rw) = Body rw"
  by (auto simp: WriteHeader_def sent_status_def split: option.splits)

lemma Header_simps [simp]:
  "Wrote (Header_Del k rw) = Wrote rw" "Body (Header_Del k rw) = Body rw"
  "Wrote (Header_Set k v rw) = Wrote rw" "Body (Header_Set k v rw) = Body rw"
  by (simp_all add: Header_Del_def Header_Set_def)

lemma empty_response_simps:
  "Wrote rw = None \<Longrightarrow> sent_status (fst (empty_response c rw)) = Some c"
  "Wrote rw = Some s \<Longrightarrow> Wrote (fst (empty_response c rw)) = Some s"
  "Body (fst (empty_response c rw)) = Body rw"
  "snd (empty_response c rw) = Return ()"
  by (simp_all add: empty_response_def)

lemma Write_simps:
  "Wrote rw = Some s \<Longrightarrow> Wrote (Write bs rw) = Some s"
  "Wrote rw \<noteq> None \<Longrightarrow> sent_status (Write bs rw) = sent_status rw"
  "Body (Write bs rw) = Body rw @ bs"
  by (auto simp: Write_def sent_status_def)

lemma produce_simps:
  "Wrote rw = Some s \<Longrightarrow> Wrote (fst (produce p v rw)) = Some s"
  "Wrote rw \<noteq> None \<Longrightarrow> sent_status (fst (produce p v rw)) = sent_status rw"
  "Body (fst (produce p v rw)) = Body rw @ fst (p v)"
  "snd (produce p v rw) = (case snd (p v) of None \<Rightarrow> Return () | Some err \<Rightarrow> Panic (Error err))"
  by (auto simp: produce_def Write_simps split: prod.splits option.splits)

lemmas responder_simps = empty_response_simps produce_simps Let_def

interpretation r_CreateOrReplacePolicyInstance: responder CreateOrReplacePolicyInstance_WriteResponse CreateOrReplacePolicyInstance_code CreateOrReplacePolicyInstance_payload
  by (unfold_locales; case_tac r) (auto simp: responder_simps CreateOrReplacePolicyInstance_payload_def split: option.splits)

interpretation r_CreatePolicyType: responder CreatePolicyType_WriteResponse CreatePolicyType_code CreatePolicyType_payload
  by (unfold_locales; case_tac r) (auto simp: responder_simps CreatePolicyType_payload_def split: option.splits)

interpretation r_DataDelivery: responder DataDelivery_WriteResponse DataDelivery_code DataDelivery_payload
  by (unfold_locales; case_tac r) (auto simp: responder_simps DataDelivery_payload_def split: option.splits)

interpretation r_DeletePolicyInstance: responder DeletePolicyInstance_WriteResponse DeletePolicyInstance_code DeletePolicyInstance_payload
  by (unfold_locales; case_tac r) (auto simp: responder_simps DeletePolicyInstance_payload_def split: option.splits)

interpretation r_DeletePolicyType: responder DeletePolicyType_WriteResponse DeletePolicyType_code DeletePolicyType_payload
  by (unfold_locales; case_tac r) (auto simp: responder_simps DeletePolicyType_payload_def split: option.splits)

interpretation r_GetAllInstancesForType: responder GetAllInstancesForType_WriteResponse GetAllInstancesForType_code GetAllInstancesForType_payload
  by (unfold_locales; case_tac r) (auto simp: responder_simps split: option.splits)

interpretation r_GetAllPolicyTypes: responder GetAllPolicyTypes_WriteResponse GetAllPolicyTypes_code GetAllPolicyTypes_payload
  by (unfold_locales; case_tac r) (auto simp: responder_simps split: option.splits)

interpretation r_GetHealthcheck: responder GetHealthcheck_WriteResponse GetHealthcheck_code GetHealthcheck_payload
  by (unfold_locales; case_tac r) (auto simp: responder_simps GetHealthcheck_payload_def split: option.splits)

interpretation r_GetPolicyInstance: responder GetPolicyInstance_WriteResponse GetPolicyInstance_code GetPolicyInstance_payload
  by (unfold_locales; case_tac r) (auto simp: responder_simps split: option.splits)

interpretation r_GetPolicyInstanceStatus: responder GetPolicyInstanceStatus_WriteResponse GetPolicyInstanceStatus_code GetPolicyInstanceStatus_payload
  by (unfold_locales; case_tac r) (auto simp: responder_simps split: option.splits)

interpretation r_GetPolicyType: responder GetPolicyType_WriteResponse GetPolicyType_code GetPolicyType_payload
  by (unfold_locales; case_tac r) (auto simp: responder_simps split: option.splits)

section \<open>Any response of the program\<close>

text \<open>
  The dynamic type of a \<open>middleware.Responder\<close> the handlers return: one of the eleven
  operations', or the one of \<open>middleware.NotImplemented\<close>, code outside the repository.
\<close>

datatype Responder =
    CreateOrReplacePolicyInstanceR CreateOrReplacePolicyInstance_response
  | CreatePolicyTypeR CreatePolicyType_response
  | DataDeliveryR DataDelivery_response
  | DeletePolicyInstanceR DeletePolicyInstance_response
  | DeletePolicyTypeR DeletePolicyType_response
  | GetAllInstancesForTypeR GetAllInstancesForType_response
  | GetAllPolicyTypesR GetAllPolicyTypes_response
  | GetHealthcheckR GetHealthcheck_response
  | GetPolicyInstanceR GetPolicyInstance_response
  | GetPolicyInstanceStatusR GetPolicyInstanceStatus_response
  | GetPolicyTypeR GetPolicyType_response
  | NotImplementedR string

fun WriteResponse :: "(string \<Rightarrow> rw \<Rightarrow> rw \<times> unit outcome) \<Rightarrow> producer \<Rightarrow> Responder \<Rightarrow> rw \<Rightarrow> rw \<times> unit outcome" where
  "WriteResponse notImpl producer (CreateOrReplacePolicyInstanceR r) rw = CreateOrReplacePolicyInstance_WriteResponse producer r rw"
| "WriteResponse notImpl producer (CreatePolicyTypeR r) rw = CreatePolicyType_WriteResponse producer r rw"
| "WriteResponse notImpl producer (DataDeliveryR r) rw = DataDelivery_WriteResponse producer r rw"
| "WriteResponse notImpl producer (DeletePolicyInstanceR r) rw = DeletePolicyInstance_WriteResponse producer r rw"
| "WriteResponse notImpl producer (DeletePolicyTypeR r) rw = DeletePolicyType_WriteResponse producer r rw"
| "WriteResponse notImpl producer (GetAllInstancesForTypeR r) rw = GetAllInstancesForType_WriteResponse producer r rw"
| "WriteResponse notImpl producer (GetAllPolicyTypesR r) rw = GetAllPolicyTypes_WriteResponse producer r rw"
| "WriteResponse notImpl producer (GetHealthcheckR r) rw = GetHealthcheck_WriteResponse producer r rw"
| "WriteResponse notImpl producer (GetPolicyInstanceR r) rw = GetPolicyInstance_WriteResponse producer r rw"
| "WriteResponse notImpl producer (GetPolicyInstanceStatusR r) rw = GetPolicyInstanceStatus_WriteResponse producer r rw"
| "WriteResponse notImpl producer (GetPolicyTypeR r) rw = GetPolicyType_WriteResponse producer r rw"
| "WriteResponse notImpl producer (NotImplementedR msg) rw = notImpl msg rw"

fun response_code :: "Responder \<Rightarrow> nat option" where
  "response_code (CreateOrReplacePolicyInstanceR r) = Some (CreateOrReplacePolicyInstance_code r)"
| "response_code (CreatePolicyTypeR r) = Some (CreatePolicyType_code r)"
| "response_code (DataDeliveryR r) = Some (DataDelivery_code r)"
| "response_code (DeletePolicyInstanceR r) = Some (DeletePolicyInstance_code r)"
| "response_code (DeletePolicyTypeR r) = Some (DeletePolicyType_code r)"
| "response_code (GetAllInstancesForTypeR r) = Some (GetAllInstancesForType_code r)"
| "response_code (GetAllPolicyTypesR r) = Some (GetAllPolicyTypes_code r)"
| "response_code (GetHealthcheckR r) = Some (GetHealthcheck_code r)"
| "response_code (GetPolicyInstanceR r) = Some (GetPolicyInstance_code r)"
| "response_code (GetPolicyInstanceStatusR r) = Some (GetPolicyInstanceStatus_code r)"
| "response_code (GetPolicyTypeR r) = Some (GetPolicyType_code r)"
| "response_code (NotImplementedR msg) = None"

fun response_payload :: "Responder \<Rightarrow> any option" where
  "response_payload (CreateOrReplacePolicyInstanceR r) = CreateOrReplacePolicyInstance_payload r"
| "response_payload (CreatePolicyTypeR r) = CreatePolicyType_payload r"
| "response_payload (DataDeliveryR r) = DataDelivery_payload r"
| "response_payload (DeletePolicyInstanceR r) = DeletePolicyInstance_payload r"
| "response_payload (DeletePolicyTypeR r) = DeletePolicyType_payload r"
| "response_payload (GetAllInstancesForTypeR r) = GetAllInstancesForType_payload r"
| "response_payload (GetAllPolicyTypesR r) = GetAllPolicyTypes_payload r"
| "response_payload (GetHealthcheckR r) = GetHealthcheck_payload r"
| "response_payload (GetPolicyInstanceR r) = GetPolicyInstance_payload r"
| "response_payload (GetPolicyInstanceStatusR r) = GetPolicyInstanceStatus_payload r"
| "response_payload (GetPolicyTypeR r) = GetPolicyType_payload r"
| "response_payload (NotImplementedR msg) = None"

lemma WriteResponse_status:
  "response_code r = Some c \<Longrightarrow> Wrote rw = None \<Longrightarrow> sent_status (fst (WriteResponse ni p r rw)) = Some c"
  by (cases r) (auto simp: r_CreateOrReplacePolicyInstance.status r_CreatePolicyType.status r_DataDelivery.status r_DeletePolicyInstance.status r_DeletePolicyType.status r_GetAllInstancesForType.status r_GetAllPolicyTypes.status r_GetHealthcheck.status r_GetPolicyInstance.status r_GetPolicyInstanceStatus.status r_GetPolicyType.status)

lemma WriteResponse_later:
  "response_code r = Some c \<Longrightarrow> Wrote rw = Some s \<Longrightarrow> Wrote (fst (WriteResponse ni p r rw)) = Some s"
  by (cases r) (auto simp: r_CreateOrReplacePolicyInstance.later r_CreatePolicyType.later r_DataDelivery.later r_DeletePolicyInstance.later r_DeletePolicyType.later r_GetAllInstancesForType.later r_GetAllPolicyTypes.later r_GetHealthcheck.later r_GetPolicyInstance.later r_GetPolicyInstanceStatus.later r_GetPolicyType.later)

lemma WriteResponse_body:
  "response_code r = Some c \<Longrightarrow>
   Body (fst (WriteResponse ni p r rw)) = Body rw @ (case response_payload r of None \<Rightarrow> [] | Some v \<Rightarrow> fst (p v))"
  by (cases r) (auto simp: r_CreateOrReplacePolicyInstance.no_payload r_CreatePolicyType.no_payload r_DataDelivery.no_payload r_DeletePolicyInstance.no_payload r_DeletePolicyType.no_payload r_GetAllInstancesForType.no_payload r_GetAllPolicyTypes.no_payload r_GetHealthcheck.no_payload r_GetPolicyInstance.no_payload r_GetPolicyInstanceStatus.no_payload r_GetPolicyType.no_payload r_CreateOrReplacePolicyInstance.with_payload r_CreatePolicyType.with_payload r_DataDelivery.with_payload r_DeletePolicyInstance.with_payload r_DeletePolicyType.with_payload r_GetAllInstancesForType.with_payload r_GetAllPolicyTypes.with_payload r_GetHealthcheck.with_payload r_GetPolicyInstance.with_payload r_GetPolicyInstanceStatus.with_payload r_GetPolicyType.with_payload split: option.split)

lemma WriteResponse_outcome:
  "response_code r = Some c \<Longrightarrow>
   snd (WriteResponse ni p r rw) =
     (case response_payload r of None \<Rightarrow> Return ()
      | Some v \<Rightarrow> (case snd (p v) of None \<Rightarrow> Return () | Some err \<Rightarrow> Panic (Error err)))"
  by (cases r) (auto simp: r_CreateOrReplacePolicyInstance.no_payload r_CreatePolicyType.no_payload r_DataDelivery.no_payload r_DeletePolicyInstance.no_payload r_DeletePolicyType.no_payload r_GetAllInstancesForType.no_payload r_GetAllPolicyTypes.no_payload r_GetHealthcheck.no_payload r_GetPolicyInstance.no_payload r_GetPolicyInstanceStatus.no_payload r_GetPolicyType.no_payload r_CreateOrReplacePolicyInstance.with_payload r_CreatePolicyType.with_payload r_DataDelivery.with_payload r_DeletePolicyInstance.with_payload r_DeletePolicyType.with_payload r_GetAllInstancesForType.with_payload r_GetAllPolicyTypes.with_payload r_GetHealthcheck.with_payload r_GetPolicyInstance.with_payload r_GetPolicyInstanceStatus.with_payload r_GetPolicyType.with_payload split: option.split)

lemma payload_code:
  "response_payload r = Some v \<Longrightarrow> response_code r = Some 200"
  by (cases r) (simp_all add: r_CreateOrReplacePolicyInstance.payload_code r_CreatePolicyType.payload_code r_DataDelivery.payload_code r_DeletePolicyInstance.payload_code r_DeletePolicyType.payload_code r_GetAllInstancesForType.payload_code r_GetAllPolicyTypes.payload_code r_GetHealthcheck.payload_code r_GetPolicyInstance.payload_code r_GetPolicyInstanceStatus.payload_code r_GetPolicyType.payload_code)

section \<open>Properties\<close>

text \<open>
  Every response of the API sends the status its constant declares, whatever a previous
  handler put into the headers, and only that: a second response on the same connection
  changes neither status nor headers.
\<close>

theorem responses_send_declared_status:
  assumes "response_code r = Some c" and "response_code r' = Some c'" and "Wrote rw = None"
  shows "sent_status (fst (WriteResponse ni p r rw)) = Some c \<and>
    Wrote (fst (WriteResponse ni p r' (fst (WriteResponse ni p r rw)))) = Wrote (fst (WriteResponse ni p r rw))"
  using WriteResponse_status [OF assms(1,3), of ni p] WriteResponse_later [OF assms(2)]
  by (auto simp: sent_status_def)

definition not_implemented_writer :: "string \<Rightarrow> rw \<Rightarrow> rw \<times> unit outcome" where
  "not_implemented_writer msg rw = (Write msg (WriteHeader 501 rw), Return ())"

definition failing_producer :: producer where
  "failing_producer v = (''['', Some (ErrNew ''broken pipe''))"

theorem responses_send_declared_status_witness:
  "sent_status (fst (WriteResponse not_implemented_writer failing_producer
     (CreatePolicyTypeR CreatePolicyTypeCreated) fresh_rw)) = Some 201"
  using responses_send_declared_status [of "CreatePolicyTypeR CreatePolicyTypeCreated" 201
      "CreatePolicyTypeR CreatePolicyTypeCreated" 201 fresh_rw not_implemented_writer failing_producer]
  by (simp add: fresh_rw_def)

text \<open>
  A response whose producer fails panics after its status has gone out, so the client has
  been told 200 by then; it fails exactly when the producer does on the payload, and the bytes
  sent are the producer's.
\<close>

theorem producer_failure_after_200:
  assumes "response_code r = Some c" and "Wrote rw = None" and "snd (WriteResponse ni p r rw) = Panic m"
  shows "sent_status (fst (WriteResponse ni p r rw)) = Some 200 \<and>
    (\<exists>v err. response_payload r = Some v \<and> snd (p v) = Some err \<and> m = Error err \<and>
       Body (fst (WriteResponse ni p r rw)) = Body rw @ fst (p v))"
  using assms(3) WriteResponse_outcome [OF assms(1), of ni p rw] WriteResponse_body [OF assms(1), of ni p rw]
    payload_code [of r] WriteResponse_status [OF _ assms(2), of r _ ni p]
  by (auto split: option.splits)

theorem producer_failure_after_200_witness:
  "sent_status (fst (WriteResponse not_implemented_writer failing_producer (GetPolicyInstanceR (GetPolicyInstanceOK JNull)) fresh_rw)) = Some 200"
proof -
  let ?r = "GetPolicyInstanceR (GetPolicyInstanceOK JNull)"
  have code: "response_code ?r = Some 200" and fresh: "Wrote fresh_rw = None"
    by (simp_all add: fresh_rw_def)
  have "snd (WriteResponse not_implemented_writer failing_producer ?r fresh_rw) = Panic ''broken pipe''"
    unfolding WriteResponse_outcome [OF code] by (simp add: failing_producer_def)
  then show ?thesis using producer_failure_after_200 [OF code fresh] by blast
qed

end
