(* ===== verification/Operations.thy ===== *)
theory Operations
  imports Parameters Responses
begin

text \<open>
  The eleven operations (\<open>a1_controller_*.go\<close>): each serves a request by binding its parameters,
  calling its handler and writing what the handler returns. The struct of an operation holds
  the middleware context and the handler; both are arguments here. A handler works on the
  state \<open>'w\<close> of the program (the storage behind the hooks).
\<close>

section \<open>The middleware context\<close>

text \<open>
  \<open>middleware.Context\<close> is code outside the repository. \<open>RouteInfo\<close> finds the route of a request and
  perhaps a request that carries it; \<open>BindChecks\<close> is the error of the content types, if any,
  with which \<open>BindValidRequest\<close> returns before it runs the binder; \<open>RespondError\<close> is \<open>Respond\<close> for
  an error, and \<open>Negotiate\<close> the headers and the producer \<open>Respond\<close> chooses for a responder;
  \<open>NotImpl\<close> writes the response of \<open>middleware.NotImplemented\<close>.
\<close>

record mw_context =
  RouteInfo :: "request \<Rightarrow> matched_route \<times> request option"
  BindChecks :: "request \<Rightarrow> matched_route \<Rightarrow> go_error option"
  RespondError :: "request \<Rightarrow> matched_route \<Rightarrow> go_error \<Rightarrow> rw \<Rightarrow> rw \<times> unit outcome"
  Negotiate :: "request \<Rightarrow> matched_route \<Rightarrow> rw \<Rightarrow> rw \<times> producer"
  NotImpl :: "string \<Rightarrow> rw \<Rightarrow> rw \<times> unit outcome"

definition BindValidRequest ::
    "mw_context \<Rightarrow> (request \<Rightarrow> matched_route \<Rightarrow> 'p \<Rightarrow> 'p \<times> go_error option) \<Rightarrow>
     request \<Rightarrow> matched_route \<Rightarrow> 'p \<Rightarrow> 'p \<times> go_error option" where
  "BindValidRequest ctx bind r route p =
     (case BindChecks ctx r route of Some err \<Rightarrow> (p, Some err) | None \<Rightarrow> bind r route p)"

definition Respond :: "mw_context \<Rightarrow> request \<Rightarrow> matched_route \<Rightarrow> Responder \<Rightarrow> rw \<Rightarrow> rw \<times> unit outcome" where
  "Respond ctx r route res rw =
     (let (rw1, producer) = Negotiate ctx r route rw in WriteResponse (NotImpl ctx) producer res rw1)"

section \<open>Serving an operation\<close>

type_synonym ('p, 'w) op_handler = "'p \<Rightarrow> 'w \<Rightarrow> 'w \<times> Responder outcome"

type_synonym 'w http_handler = "request \<Rightarrow> rw \<Rightarrow> 'w \<Rightarrow> 'w \<times> rw \<times> unit outcome"

text \<open>The body every \<open>ServeHTTP\<close> shares; calling a \<open>nil\<close> handler panics.\<close>

definition serve_operation ::
    "mw_context \<Rightarrow> (request \<Rightarrow> matched_route \<Rightarrow> 'p \<Rightarrow> 'p \<times> go_error option) \<Rightarrow> 'p \<Rightarrow>
     ('p, 'w) op_handler option \<Rightarrow> 'w http_handler" where
  "serve_operation ctx bind newParams handler r rw w =
     (let (route, rCtx) = RouteInfo ctx r;
          r = (case rCtx of None \<Rightarrow> r | Some r' \<Rightarrow> r');
          (params, err) = BindValidRequest ctx bind r route newParams
      in case err of
           Some e \<Rightarrow> (w, RespondError ctx r route e rw)
         | None \<Rightarrow>
             (case handler of
                None \<Rightarrow> (w, rw, Panic nil_deref)
              | Some h \<Rightarrow>
                  (case h params w of
                     (w', Panic m) \<Rightarrow> (w', rw, Panic m)
                   | (w', Return res) \<Rightarrow> (w', Respond ctx r route res rw))))"

definition CreateOrReplacePolicyInstance_ServeHTTP :: "openapi \<Rightarrow> mw_context \<Rightarrow> (CreateOrReplacePolicyInstanceParams, 'w) op_handler option \<Rightarrow> 'w http_handler" where
  "CreateOrReplacePolicyInstance_ServeHTTP lib ctx handler = serve_operation ctx (CreateOrReplacePolicyInstance_BindRequest lib) NewCreateOrReplacePolicyInstanceParams handler"

definition CreatePolicyType_ServeHTTP :: "openapi \<Rightarrow> mw_context \<Rightarrow> (CreatePolicyTypeParams, 'w) op_handler option \<Rightarrow> 'w http_handler" where
  "CreatePolicyType_ServeHTTP lib ctx handler = serve_operation ctx (CreatePolicyType_BindRequest lib) NewCreatePolicyTypeParams handler"

definition DataDelivery_ServeHTTP :: "openapi \<Rightarrow> mw_context \<Rightarrow> (DataDeliveryParams, 'w) op_handler option \<Rightarrow> 'w http_handler" where
  "DataDelivery_ServeHTTP lib ctx handler = serve_operation ctx (DataDelivery_BindRequest lib) NewDataDeliveryParams handler"

definition DeletePolicyInstance_ServeHTTP :: "openapi \<Rightarrow> mw_context \<Rightarrow> (instance_params, 'w) op_handler option \<Rightarrow> 'w http_handler" where
  "DeletePolicyInstance_ServeHTTP lib ctx handler = serve_operation ctx (DeletePolicyInstance_BindRequest lib) NewDeletePolicyInstanceParams handler"

definition DeletePolicyType_ServeHTTP :: "openapi \<Rightarrow> mw_context \<Rightarrow> (type_params, 'w) op_handler option \<Rightarrow> 'w http_handler" where
  "DeletePolicyType_ServeHTTP lib ctx handler = serve_operation ctx (DeletePolicyType_BindRequest lib) NewDeletePolicyTypeParams handler"

definition GetAllInstancesForType_ServeHTTP :: "openapi \<Rightarrow> mw_context \<Rightarrow> (type_params, 'w) op_handler option \<Rightarrow> 'w http_handler" where
  "GetAllInstancesForType_ServeHTTP lib ctx handler = serve_operation ctx (GetAllInstancesForType_BindRequest lib) NewGetAllInstancesForTypeParams handler"

definition GetAllPolicyTypes_ServeHTTP :: "openapi \<Rightarrow> mw_context \<Rightarrow> (http_params, 'w) op_handler option \<Rightarrow> 'w http_handler" where
  "GetAllPolicyTypes_ServeHTTP lib ctx handler = serve_operation ctx (GetAllPolicyTypes_BindRequest lib) NewGetAllPolicyTypesParams handler"

definition GetHealthcheck_ServeHTTP :: "openapi \<Rightarrow> mw_context \<Rightarrow> (http_params, 'w) op_handler option \<Rightarrow> 'w http_handler" where
  "GetHealthcheck_ServeHTTP lib ctx handler = serve_operation ctx (GetHealthcheck_BindRequest lib) NewGetHealthcheckParams handler"

definition GetPolicyInstance_ServeHTTP :: "openapi \<Rightarrow> mw_context \<Rightarrow> (instance_params, 'w) op_handler option \<Rightarrow> 'w http_handler" where
  "GetPolicyInstance_ServeHTTP lib ctx handler = serve_operation ctx (GetPolicyInstance_BindRequest lib) NewGetPolicyInstanceParams handler"

definition GetPolicyInstanceStatus_ServeHTTP :: "openapi \<Rightarrow> mw_context \<Rightarrow> (instance_params, 'w) op_handler option \<Rightarrow> 'w http_handler" where
  "GetPolicyInstanceStatus_ServeHTTP lib ctx handler = serve_operation ctx (GetPolicyInstanceStatus_BindRequest lib) NewGetPolicyInstanceStatusParams handler"

definition GetPolicyType_ServeHTTP :: "openapi \<Rightarrow> mw_context \<Rightarrow> (type_params, 'w) op_handler option \<Rightarrow> 'w http_handler" where
  "GetPolicyType_ServeHTTP lib ctx handler = serve_operation ctx (GetPolicyType_BindRequest lib) NewGetPolicyTypeParams handler"

section \<open>The contract of an operation\<close>

text \<open>What the server calls: an operation stands between a request and its handler.\<close>

definition served_request :: "mw_context \<Rightarrow> request \<Rightarrow> request" where
  "served_request ctx r = (case snd (RouteInfo ctx r) of None \<Rightarrow> r | Some r' \<Rightarrow> r')"

definition served_params ::
    "mw_context \<Rightarrow> (request \<Rightarrow> matched_route \<Rightarrow> 'p \<Rightarrow> 'p \<times> go_error option) \<Rightarrow> 'p \<Rightarrow> request \<Rightarrow> 'p \<times> go_error option" where
  "served_params ctx bind newParams r = BindValidRequest ctx bind (served_request ctx r) (fst (RouteInfo ctx r)) newParams"

locale operation =
  fixes serve :: "mw_context \<Rightarrow> ('p, 'w) op_handler option \<Rightarrow> 'w http_handler"
    and bind :: "request \<Rightarrow> matched_route \<Rightarrow> 'p \<Rightarrow> 'p \<times> go_error option"
    and newParams :: 'p
  assumes refused: "snd (served_params ctx bind newParams r) = Some e \<Longrightarrow>
        serve ctx h r rw w = (w, RespondError ctx (served_request ctx r) (fst (RouteInfo ctx r)) e rw)"
    and handled: "served_params ctx bind newParams r = (p, None) \<Longrightarrow>
        serve ctx (Some f) r rw w =
          (case f p w of
             (w', Panic m) \<Rightarrow> (w', rw, Panic m)
           | (w', Return res) \<Rightarrow> (w', Respond ctx (served_request ctx r) (fst (RouteInfo ctx r)) res rw))"
    and unregistered: "served_params ctx bind newParams r = (p, None) \<Longrightarrow>
        serve ctx None r rw w = (w, rw, Panic nil_deref)"
begin

text \<open>The state changes only through the handler, on parameters that were bound.\<close>

lemma state_after:
  "fst (serve ctx h r rw w) =
     (case served_params ctx bind newParams r of
        (p, None) \<Rightarrow> (case h of None \<Rightarrow> w | Some f \<Rightarrow> fst (f p w))
      | (p, Some e) \<Rightarrow> w)"
proof (cases "served_params ctx bind newParams r")
  case (Pair p e)
  then show ?thesis
    using refused [of ctx r _ h rw w] handled [of ctx r p _ rw w] unregistered [of ctx r p rw w]
    by (cases e; cases h) (auto split: prod.splits outcome.splits)
qed

lemma invalid_keeps_state:
  "snd (served_params ctx bind newParams r) \<noteq> None \<Longrightarrow> fst (serve ctx h r rw w) = w"
  by (auto simp: state_after split: prod.split)

end

lemma serve_operation_unfold:
  "serve_operation ctx bind newParams handler r rw w =
     (case served_params ctx bind newParams r of
        (params, Some e) \<Rightarrow> (w, RespondError ctx (served_request ctx r) (fst (RouteInfo ctx r)) e rw)
      | (params, None) \<Rightarrow>
          (case handler of
             None \<Rightarrow> (w, rw, Panic nil_deref)
           | Some h \<Rightarrow>
               (case h params w of
                  (w', Panic m) \<Rightarrow> (w', rw, Panic m)
                | (w', Return res) \<Rightarrow> (w', Respond ctx (served_request ctx r) (fst (RouteInfo ctx r)) res rw))))"
  by (simp add: serve_operation_def served_params_def served_request_def split_beta Let_def split: option.split)

lemma operation_serve: "operation (\<lambda>ctx h. serve_operation ctx bind newParams h) bind newParams"
  by unfold_locales (auto simp: serve_operation_unfold split: prod.split)

interpretation o_CreateOrReplacePolicyInstance: operation "CreateOrReplacePolicyInstance_ServeHTTP lib" "CreateOrReplacePolicyInstance_BindRequest lib" NewCreateOrReplacePolicyInstanceParams for lib
  unfolding CreateOrReplacePolicyInstance_ServeHTTP_def by (rule operation_serve)

interpretation o_CreatePolicyType: operation "CreatePolicyType_ServeHTTP lib" "CreatePolicyType_BindRequest lib" NewCreatePolicyTypeParams for lib
  unfolding CreatePolicyType_ServeHTTP_def by (rule operation_serve)

interpretation o_DataDelivery: operation "DataDelivery_ServeHTTP lib" "DataDelivery_BindRequest lib" NewDataDeliveryParams for lib
  unfolding DataDelivery_ServeHTTP_def by (rule operation_serve)

interpretation o_DeletePolicyInstance: operation "DeletePolicyInstance_ServeHTTP lib" "DeletePolicyInstance_BindRequest lib" NewDeletePolicyInstanceParams for lib
  unfolding DeletePolicyInstance_ServeHTTP_def by (rule operation_serve)

interpretation o_DeletePolicyType: operation "DeletePolicyType_ServeHTTP lib" "DeletePolicyType_BindRequest lib" NewDeletePolicyTypeParams for lib
  unfolding DeletePolicyType_ServeHTTP_def by (rule operation_serve)

interpretation o_GetAllInstancesForType: operation "GetAllInstancesForType_ServeHTTP lib" "GetAllInstancesForType_BindRequest lib" NewGetAllInstancesForTypeParams for lib
  unfolding GetAllInstancesForType_ServeHTTP_def by (rule operation_serve)

interpretation o_GetAllPolicyTypes: operation "GetAllPolicyTypes_ServeHTTP lib" "GetAllPolicyTypes_BindRequest lib" NewGetAllPolicyTypesParams for lib
  unfolding GetAllPolicyTypes_ServeHTTP_def by (rule operation_serve)

interpretation o_GetHealthcheck: operation "GetHealthcheck_ServeHTTP lib" "GetHealthcheck_BindRequest lib" NewGetHealthcheckParams for lib
  unfolding GetHealthcheck_ServeHTTP_def by (rule operation_serve)

interpretation o_GetPolicyInstance: operation "GetPolicyInstance_ServeHTTP lib" "GetPolicyInstance_BindRequest lib" NewGetPolicyInstanceParams for lib
  unfolding GetPolicyInstance_ServeHTTP_def by (rule operation_serve)

interpretation o_GetPolicyInstanceStatus: operation "GetPolicyInstanceStatus_ServeHTTP lib" "GetPolicyInstanceStatus_BindRequest lib" NewGetPolicyInstanceStatusParams for lib
  unfolding GetPolicyInstanceStatus_ServeHTTP_def by (rule operation_serve)

interpretation o_GetPolicyType: operation "GetPolicyType_ServeHTTP lib" "GetPolicyType_BindRequest lib" NewGetPolicyTypeParams for lib
  unfolding GetPolicyType_ServeHTTP_def by (rule operation_serve)

section \<open>A middleware context\<close>

text \<open>
  An instance of the context, to show that the hypotheses can hold: it takes the policy type
  identifier from the path, reads JSON bodies and answers in JSON.
\<close>

definition sample_ctx :: mw_context where
  "sample_ctx =
     \<lparr>RouteInfo = (\<lambda>r.
        (\<lparr>GetOK = (\<lambda>name. if name = ''policy_type_id'' then ([Split (URLPath r) ''/'' ! 3], True, True) else ([], False, False)),
          Consumer = \<lparr>ConsumeAny = (\<lambda>text. (JNull, None)), ConsumeSchema = ReadSchema std_openapi\<rparr>\<rparr>, None)),
      BindChecks = (\<lambda>r route. None),
      RespondError = (\<lambda>r route err rw. (Write (Error err) (WriteHeader 422 rw), Return ())),
      Negotiate = (\<lambda>r route rw. (Header_Set ''Content-Type'' ''application/json'' rw, WriteJSON std_openapi)),
      NotImpl = not_implemented_writer\<rparr>"

section \<open>Properties\<close>

text \<open>
  What a server promises its handler: the state changes only through the handler, and every
  policy type identifier the handler gets is in the documented range.
\<close>

definition guards_handler ::
    "(mw_context \<Rightarrow> ('p, 'w) op_handler option \<Rightarrow> 'w http_handler) \<Rightarrow> ('p \<Rightarrow> int64) \<Rightarrow> bool" where
  "guards_handler serve tid \<longleftrightarrow>
     (\<forall>ctx f r rw w.
        fst (serve ctx (Some f) r rw w) = w \<or>
        (\<exists>p. 1 \<le> sint (tid p) \<and> sint (tid p) \<le> 2147483647 \<and> fst (serve ctx (Some f) r rw w) = fst (f p w)))"

lemma BindValidRequest_None:
  "served_params ctx bind newParams r = (p, None) \<Longrightarrow>
   bind (served_request ctx r) (fst (RouteInfo ctx r)) newParams = (p, None)"
  by (simp add: served_params_def BindValidRequest_def split: option.splits)

context operation
begin

lemma guards:
  assumes "reads_type_id bind tid"
  shows "guards_handler serve tid"
  unfolding guards_handler_def
proof (intro allI)
  fix ctx f r rw w
  show "fst (serve ctx (Some f) r rw w) = w \<or>
      (\<exists>p. 1 \<le> sint (tid p) \<and> sint (tid p) \<le> 2147483647 \<and> fst (serve ctx (Some f) r rw w) = fst (f p w))"
  proof (cases "served_params ctx bind newParams r")
    case (Pair p e)
    show ?thesis
    proof (cases e)
      case None
      with Pair have "bind (served_request ctx r) (fst (RouteInfo ctx r)) newParams = (p, None)"
        by (simp add: BindValidRequest_None)
      then have "1 \<le> sint (tid p)" "sint (tid p) \<le> 2147483647"
        using assms unfolding reads_type_id_def by blast+
      moreover have "fst (serve ctx (Some f) r rw w) = fst (f p w)"
        using Pair None by (simp add: state_after)
      ultimately show ?thesis by blast
    qed (use Pair in \<open>simp add: state_after\<close>)
  qed
qed

end



end
