(* ===== verification/A1Api.thy ===== *)
theory A1Api
  imports Operations
begin

text \<open>
  \<open>restapi/operations/a1_api.go\<close>, the API object with its registrations and its cache of
  handlers, and \<open>restapi/configure_a1.go\<close>. A Go map is an association list here, a \<open>nil\<close> map
  \<open>None\<close>; an operation's handler is \<open>None\<close> when it is not registered. The fields for the three
  security authenticators, the groups of command line options and the logger are left out:
  nothing here reads them.
\<close>

section \<open>The API object\<close>

text \<open>
  A \<open>middleware.Builder\<close>; where one may be \<open>nil\<close> it is an option. A function that answers an error.
  The registry of string formats is an object of the package \<open>strfmt\<close> every API shares; the
  field holds the reference to it.
\<close>

type_synonym 'w mw_builder = "'w http_handler \<Rightarrow> 'w http_handler"
type_synonym 'w error_handler = "request \<Rightarrow> go_error \<Rightarrow> rw \<Rightarrow> 'w \<Rightarrow> 'w \<times> rw \<times> unit outcome"
type_synonym format_registry = string

record 'w A1API =
  spec :: string
  api_context :: "mw_context option"
  handlers :: "(string \<times> (string \<times> 'w http_handler) list) list option"
  customConsumers :: "(string \<times> consumer) list"
  customProducers :: "(string \<times> producer) list"
  defaultConsumes :: string
  defaultProduces :: string
  Middleware :: "('w mw_builder option \<Rightarrow> 'w http_handler) option"
  JSONConsumer :: "consumer option"
  JSONProducer :: "producer option"
  CreateOrReplacePolicyInstanceHandler :: "(CreateOrReplacePolicyInstanceParams, 'w) op_handler option"
  CreatePolicyTypeHandler :: "(CreatePolicyTypeParams, 'w) op_handler option"
  DataDeliveryHandler :: "(DataDeliveryParams, 'w) op_handler option"
  DeletePolicyInstanceHandler :: "(instance_params, 'w) op_handler option"
  DeletePolicyTypeHandler :: "(type_params, 'w) op_handler option"
  GetAllInstancesForTypeHandler :: "(type_params, 'w) op_handler option"
  GetAllPolicyTypesHandler :: "(http_params, 'w) op_handler option"
  GetHealthcheckHandler :: "(http_params, 'w) op_handler option"
  GetPolicyInstanceHandler :: "(instance_params, 'w) op_handler option"
  GetPolicyInstanceStatusHandler :: "(instance_params, 'w) op_handler option"
  GetPolicyTypeHandler :: "(type_params, 'w) op_handler option"
  api_formats :: format_registry
  ServeError :: "'w error_handler"
  api_PreServerShutdown :: "'w \<Rightarrow> 'w"
  api_ServerShutdown :: "'w \<Rightarrow> 'w"

text \<open>
  The packages of go-openapi the API object calls: the consumer and the producer of JSON, the
  context of a specification, the handler that routes the requests to an API's operations, the
  answer to an error, and the registry of string formats with its method \<open>Add\<close> (the name, the Go
  type and the validator of the format), which changes the shared object.
\<close>

record 'w openapi_runtime =
  RuntimeJSONConsumer :: consumer
  RuntimeJSONProducer :: producer
  NewRoutableContext :: "string \<Rightarrow> mw_context"
  APIHandler :: "mw_context \<Rightarrow> 'w A1API \<Rightarrow> 'w mw_builder option \<Rightarrow> 'w http_handler"
  RuntimeServeError :: "'w error_handler"
  StrfmtDefault :: format_registry
  StrfmtAdd :: "format_registry \<Rightarrow> string \<Rightarrow> string \<Rightarrow> (string \<Rightarrow> bool) \<Rightarrow> 'w \<Rightarrow> 'w"

definition not_implemented :: "string \<Rightarrow> ('p, 'w) op_handler" where
  "not_implemented name params w =
     (w, Return (NotImplementedR (''operation '' @ name @ '' has not yet been implemented'')))"

definition NewA1API :: "'w openapi_runtime \<Rightarrow> string \<Rightarrow> 'w A1API" where
  "NewA1API rt swagger =
     \<lparr>spec = swagger, api_context = None, handlers = Some [],
      customConsumers = [], customProducers = [],
      defaultConsumes = ''application/json'', defaultProduces = ''application/json'',
      Middleware = None,
      JSONConsumer = Some (RuntimeJSONConsumer rt), JSONProducer = Some (RuntimeJSONProducer rt),
      CreateOrReplacePolicyInstanceHandler = Some (not_implemented ''a1_mediator.A1ControllerCreateOrReplacePolicyInstance''),
      CreatePolicyTypeHandler = Some (not_implemented ''a1_mediator.A1ControllerCreatePolicyType''),
      DataDeliveryHandler = Some (not_implemented ''a1_e_i_data_delivery.A1ControllerDataDelivery''),
      DeletePolicyInstanceHandler = Some (not_implemented ''a1_mediator.A1ControllerDeletePolicyInstance''),
      DeletePolicyTypeHandler = Some (not_implemented ''a1_mediator.A1ControllerDeletePolicyType''),
      GetAllInstancesForTypeHandler = Some (not_implemented ''a1_mediator.A1ControllerGetAllInstancesForType''),
      GetAllPolicyTypesHandler = Some (not_implemented ''a1_mediator.A1ControllerGetAllPolicyTypes''),
      GetHealthcheckHandler = Some (not_implemented ''a1_mediator.A1ControllerGetHealthcheck''),
      GetPolicyInstanceHandler = Some (not_implemented ''a1_mediator.A1ControllerGetPolicyInstance''),
      GetPolicyInstanceStatusHandler = Some (not_implemented ''a1_mediator.A1ControllerGetPolicyInstanceStatus''),
      GetPolicyTypeHandler = Some (not_implemented ''a1_mediator.A1ControllerGetPolicyType''),
      api_formats = StrfmtDefault rt, ServeError = RuntimeServeError rt,
      api_PreServerShutdown = (\<lambda>w. w), api_ServerShutdown = (\<lambda>w. w)\<rparr>"

section \<open>Accessors\<close>

definition SetDefaultProduces :: "'w A1API \<Rightarrow> string \<Rightarrow> 'w A1API" where
  "SetDefaultProduces api mediaType = api\<lparr>defaultProduces := mediaType\<rparr>"

definition SetDefaultConsumes :: "'w A1API \<Rightarrow> string \<Rightarrow> 'w A1API" where
  "SetDefaultConsumes api mediaType = api\<lparr>defaultConsumes := mediaType\<rparr>"

definition SetSpec :: "'w A1API \<Rightarrow> string \<Rightarrow> 'w A1API" where
  "SetSpec api swagger = api\<lparr>spec := swagger\<rparr>"

definition DefaultProduces :: "'w A1API \<Rightarrow> string" where
  "DefaultProduces api = defaultProduces api"

definition DefaultConsumes :: "'w A1API \<Rightarrow> string" where
  "DefaultConsumes api = defaultConsumes api"

definition Formats :: "'w A1API \<Rightarrow> format_registry" where
  "Formats api = api_formats api"

definition RegisterFormat ::
    "'w openapi_runtime \<Rightarrow> 'w A1API \<Rightarrow> string \<Rightarrow> string \<Rightarrow> (string \<Rightarrow> bool) \<Rightarrow> 'w \<Rightarrow> 'w" where
  "RegisterFormat rt api name format validator w = StrfmtAdd rt (api_formats api) name format validator w"

definition ServeErrorFor :: "'w A1API \<Rightarrow> string \<Rightarrow> 'w error_handler" where
  "ServeErrorFor api operationID = ServeError api"

text \<open>No security: there is no authenticator for any scheme, and no authorizer.\<close>

definition AuthenticatorsFor :: "'w A1API \<Rightarrow> (string \<times> 'scheme) list \<Rightarrow> (string \<times> 'authenticator) list option" where
  "AuthenticatorsFor api schemes = None"

definition Authorizer :: "'w A1API \<Rightarrow> 'authorizer option" where
  "Authorizer api = None"

definition RegisterConsumer :: "'w A1API \<Rightarrow> string \<Rightarrow> consumer \<Rightarrow> 'w A1API" where
  "RegisterConsumer api mediaType c = api\<lparr>customConsumers := AList.update mediaType c (customConsumers api)\<rparr>"

definition RegisterProducer :: "'w A1API \<Rightarrow> string \<Rightarrow> producer \<Rightarrow> 'w A1API" where
  "RegisterProducer api mediaType p = api\<lparr>customProducers := AList.update mediaType p (customProducers api)\<rparr>"

text \<open>One round of the loop of \<open>ConsumersFor\<close> and \<open>ProducersFor\<close>, and the loops.\<close>

definition add_codec ::
    "'c option \<Rightarrow> (string \<times> 'c) list \<Rightarrow> string \<Rightarrow> (string \<times> 'c option) list \<Rightarrow> (string \<times> 'c option) list" where
  "add_codec json custom mt result =
     (let result1 = (if mt = ''application/json'' then AList.update ''application/json'' json result else result)
      in case map_of custom mt of None \<Rightarrow> result1 | Some c \<Rightarrow> AList.update mt (Some c) result1)"

definition ConsumersFor :: "'w A1API \<Rightarrow> string list \<Rightarrow> (string \<times> consumer option) list" where
  "ConsumersFor api mediaTypes = fold (add_codec (JSONConsumer api) (customConsumers api)) mediaTypes []"

definition ProducersFor :: "'w A1API \<Rightarrow> string list \<Rightarrow> (string \<times> producer option) list" where
  "ProducersFor api mediaTypes = fold (add_codec (JSONProducer api) (customProducers api)) mediaTypes []"

section \<open>Registrations\<close>

definition missing :: "'a option \<Rightarrow> string \<Rightarrow> string list \<Rightarrow> string list" where
  "missing r name unregistered = (case r of None \<Rightarrow> unregistered @ [name] | Some _ \<Rightarrow> unregistered)"

definition unregistered :: "'w A1API \<Rightarrow> string list" where
  "unregistered api =
     (let u = [];
          u = missing (JSONConsumer api) ''JSONConsumer'' u;
          u = missing (JSONProducer api) ''JSONProducer'' u;
          u = missing (CreateOrReplacePolicyInstanceHandler api) ''a1_mediator.A1ControllerCreateOrReplacePolicyInstanceHandler'' u;
          u = missing (CreatePolicyTypeHandler api) ''a1_mediator.A1ControllerCreatePolicyTypeHandler'' u;
          u = missing (DataDeliveryHandler api) ''a1_e_i_data_delivery.A1ControllerDataDeliveryHandler'' u;
          u = missing (DeletePolicyInstanceHandler api) ''a1_mediator.A1ControllerDeletePolicyInstanceHandler'' u;
          u = missing (DeletePolicyTypeHandler api) ''a1_mediator.A1ControllerDeletePolicyTypeHandler'' u;
          u = missing (GetAllInstancesForTypeHandler api) ''a1_mediator.A1ControllerGetAllInstancesForTypeHandler'' u;
          u = missing (GetAllPolicyTypesHandler api) ''a1_mediator.A1ControllerGetAllPolicyTypesHandler'' u;
          u = missing (GetHealthcheckHandler api) ''a1_mediator.A1ControllerGetHealthcheckHandler'' u;
          u = missing (GetPolicyInstanceHandler api) ''a1_mediator.A1ControllerGetPolicyInstanceHandler'' u;
          u = missing (GetPolicyInstanceStatusHandler api) ''a1_mediator.A1ControllerGetPolicyInstanceStatusHandler'' u;
          u = missing (GetPolicyTypeHandler api) ''a1_mediator.A1ControllerGetPolicyTypeHandler'' u
      in u)"

definition Validate :: "'w A1API \<Rightarrow> go_error option" where
  "Validate api =
     (if 0 < length (unregistered api)
      then Some (ErrNew (''missing registration: '' @ Join (unregistered api) '', ''))
      else None)"

section \<open>The cache of handlers\<close>

definition HandlerFor :: "'w A1API \<Rightarrow> string \<Rightarrow> string \<Rightarrow> 'w http_handler option" where
  "HandlerFor api method path =
     (case handlers api of
        None \<Rightarrow> None
      | Some hs \<Rightarrow>
          (case map_of hs (ToUpper method) of
             None \<Rightarrow> None
           | Some paths \<Rightarrow> (let path = (if path = ''/'' then [] else path) in map_of paths path)))"

definition Context :: "'w openapi_runtime \<Rightarrow> 'w A1API \<Rightarrow> 'w A1API \<times> mw_context" where
  "Context rt api =
     (case api_context api of
        None \<Rightarrow> (let ctx = NewRoutableContext rt (spec api) in (api\<lparr>api_context := Some ctx\<rparr>, ctx))
      | Some ctx \<Rightarrow> (api, ctx))"

text \<open>\<open>if o.handlers[m] == nil { o.handlers[m] = make(...) }; o.handlers[m][path] = h\<close>.\<close>

definition add_route ::
    "string \<Rightarrow> string \<Rightarrow> 'w http_handler \<Rightarrow>
     (string \<times> (string \<times> 'w http_handler) list) list \<Rightarrow> (string \<times> (string \<times> 'w http_handler) list) list" where
  "add_route method path h hs =
     (let hs = (case map_of hs method of None \<Rightarrow> AList.update method [] hs | Some _ \<Rightarrow> hs)
      in AList.update method (AList.update path h (case map_of hs method of None \<Rightarrow> [] | Some m \<Rightarrow> m)) hs)"

definition initHandlerCache :: "openapi \<Rightarrow> 'w openapi_runtime \<Rightarrow> 'w A1API \<Rightarrow> 'w A1API" where
  "initHandlerCache lib rt api0 =
     (let (api, ctx) = Context rt api0;
          hs = (case handlers api of None \<Rightarrow> [] | Some hs \<Rightarrow> hs);
          hs = add_route ''PUT'' ''/a1-p/policytypes/{policy_type_id}/policies/{policy_instance_id}''
                 (CreateOrReplacePolicyInstance_ServeHTTP lib ctx (CreateOrReplacePolicyInstanceHandler api)) hs;
          hs = add_route ''PUT'' ''/a1-p/policytypes/{policy_type_id}''
                 (CreatePolicyType_ServeHTTP lib ctx (CreatePolicyTypeHandler api)) hs;
          hs = add_route ''POST'' ''/data-delivery''
                 (DataDelivery_ServeHTTP lib ctx (DataDeliveryHandler api)) hs;
          hs = add_route ''DELETE'' ''/a1-p/policytypes/{policy_type_id}/policies/{policy_instance_id}''
                 (DeletePolicyInstance_ServeHTTP lib ctx (DeletePolicyInstanceHandler api)) hs;
          hs = add_route ''DELETE'' ''/a1-p/policytypes/{policy_type_id}''
                 (DeletePolicyType_ServeHTTP lib ctx (DeletePolicyTypeHandler api)) hs;
          hs = add_route ''GET'' ''/a1-p/policytypes/{policy_type_id}/policies''
                 (GetAllInstancesForType_ServeHTTP lib ctx (GetAllInstancesForTypeHandler api)) hs;
          hs = add_route ''GET'' ''/a1-p/policytypes''
                 (GetAllPolicyTypes_ServeHTTP lib ctx (GetAllPolicyTypesHandler api)) hs;
          hs = add_route ''GET'' ''/a1-p/healthcheck''
                 (GetHealthcheck_ServeHTTP lib ctx (GetHealthcheckHandler api)) hs;
          hs = add_route ''GET'' ''/a1-p/policytypes/{policy_type_id}/policies/{policy_instance_id}''
                 (GetPolicyInstance_ServeHTTP lib ctx (GetPolicyInstanceHandler api)) hs;
          hs = add_route ''GET'' ''/a1-p/policytypes/{policy_type_id}/policies/{policy_instance_id}/status''
                 (GetPolicyInstanceStatus_ServeHTTP lib ctx (GetPolicyInstanceStatusHandler api)) hs;
          hs = add_route ''GET'' ''/a1-p/policytypes/{policy_type_id}''
                 (GetPolicyType_ServeHTTP lib ctx (GetPolicyTypeHandler api)) hs
      in api\<lparr>handlers := Some hs\<rparr>)"

definition Init :: "openapi \<Rightarrow> 'w openapi_runtime \<Rightarrow> 'w A1API \<Rightarrow> 'w A1API" where
  "Init lib rt api =
     (if length (case handlers api of None \<Rightarrow> [] | Some hs \<Rightarrow> hs) = 0 then initHandlerCache lib rt api else api)"

text \<open>\<open>Serve\<close>; a \<open>nil\<close> context would be dereferenced by \<open>APIHandler\<close>.\<close>

definition Serve ::
    "openapi \<Rightarrow> 'w openapi_runtime \<Rightarrow> 'w mw_builder option \<Rightarrow> 'w A1API \<Rightarrow>
     'w A1API \<times> 'w http_handler outcome" where
  "Serve lib rt builder api0 =
     (let api = Init lib rt api0 in
      case Middleware api of
        Some m \<Rightarrow> (api, Return (m builder))
      | None \<Rightarrow>
          (case api_context api of
             None \<Rightarrow> (api, Panic nil_deref)
           | Some ctx \<Rightarrow> (api, Return (APIHandler rt ctx api builder))))"

text \<open>
  \<open>AddMiddlewareFor\<close> looks the handler up under the upper-case method and stores it under the
  method as given; writing to a \<open>nil\<close> map panics.
\<close>

definition AddMiddlewareFor ::
    "openapi \<Rightarrow> 'w openapi_runtime \<Rightarrow> string \<Rightarrow> string \<Rightarrow> 'w mw_builder \<Rightarrow> 'w A1API \<Rightarrow>
     'w A1API \<times> unit outcome" where
  "AddMiddlewareFor lib rt method path builder api0 =
     (let um = ToUpper method;
          path = (if path = ''/'' then [] else path);
          api = Init lib rt api0;
          hs = (case handlers api of None \<Rightarrow> [] | Some hs \<Rightarrow> hs)
      in case map_of (case map_of hs um of None \<Rightarrow> [] | Some m \<Rightarrow> m) path of
           None \<Rightarrow> (api, Return ())
         | Some h \<Rightarrow>
             (case map_of hs method of
                None \<Rightarrow> (api, Panic nil_map_write)
              | Some m \<Rightarrow> (api\<lparr>handlers := Some (AList.update method (AList.update path (builder h) m) hs)\<rparr>, Return ())))"

section \<open>configure_a1.go\<close>

definition setupMiddlewares :: "'w http_handler \<Rightarrow> 'w http_handler" where
  "setupMiddlewares handler = handler"

definition setupGlobalMiddleware :: "'w http_handler \<Rightarrow> 'w http_handler" where
  "setupGlobalMiddleware handler = handler"

definition or_default :: "('p, 'w) op_handler option \<Rightarrow> string \<Rightarrow> ('p, 'w) op_handler option" where
  "or_default h name = (case h of None \<Rightarrow> Some (not_implemented name) | Some f \<Rightarrow> Some f)"

definition configure_handlers :: "'w openapi_runtime \<Rightarrow> 'w A1API \<Rightarrow> 'w A1API" where
  "configure_handlers rt api =
     (let api = api\<lparr>ServeError := RuntimeServeError rt\<rparr>;
          api = api\<lparr>JSONConsumer := Some (RuntimeJSONConsumer rt)\<rparr>;
          api = api\<lparr>JSONProducer := Some (RuntimeJSONProducer rt)\<rparr>;
          api = api\<lparr>CreateOrReplacePolicyInstanceHandler := or_default (CreateOrReplacePolicyInstanceHandler api) ''a1_mediator.A1ControllerCreateOrReplacePolicyInstance''\<rparr>;
          api = api\<lparr>CreatePolicyTypeHandler := or_default (CreatePolicyTypeHandler api) ''a1_mediator.A1ControllerCreatePolicyType''\<rparr>;
          api = api\<lparr>DataDeliveryHandler := or_default (DataDeliveryHandler api) ''a1_e_i_data_delivery.A1ControllerDataDelivery''\<rparr>;
          api = api\<lparr>DeletePolicyInstanceHandler := or_default (DeletePolicyInstanceHandler api) ''a1_mediator.A1ControllerDeletePolicyInstance''\<rparr>;
          api = api\<lparr>DeletePolicyTypeHandler := or_default (DeletePolicyTypeHandler api) ''a1_mediator.A1ControllerDeletePolicyType''\<rparr>;
          api = api\<lparr>GetAllInstancesForTypeHandler := or_default (GetAllInstancesForTypeHandler api) ''a1_mediator.A1ControllerGetAllInstancesForType''\<rparr>;
          api = api\<lparr>GetAllPolicyTypesHandler := or_default (GetAllPolicyTypesHandler api) ''a1_mediator.A1ControllerGetAllPolicyTypes''\<rparr>;
          api = api\<lparr>GetHealthcheckHandler := or_default (GetHealthcheckHandler api) ''a1_mediator.A1ControllerGetHealthcheck''\<rparr>;
          api = api\<lparr>GetPolicyInstanceHandler := or_default (GetPolicyInstanceHandler api) ''a1_mediator.A1ControllerGetPolicyInstance''\<rparr>;
          api = api\<lparr>GetPolicyInstanceStatusHandler := or_default (GetPolicyInstanceStatusHandler api) ''a1_mediator.A1ControllerGetPolicyInstanceStatus''\<rparr>;
          api = api\<lparr>GetPolicyTypeHandler := or_default (GetPolicyTypeHandler api) ''a1_mediator.A1ControllerGetPolicyType''\<rparr>;
          api = api\<lparr>api_PreServerShutdown := (\<lambda>w. w)\<rparr>;
          api = api\<lparr>api_ServerShutdown := (\<lambda>w. w)\<rparr>
      in api)"

definition configureAPI ::
    "openapi \<Rightarrow> 'w openapi_runtime \<Rightarrow> 'w A1API \<Rightarrow> 'w A1API \<times> 'w http_handler outcome" where
  "configureAPI lib rt api0 =
     (let api = configure_handlers rt api0;
          (api, h) = Serve lib rt (Some setupMiddlewares) api
      in (api, bind_outcome h (\<lambda>h. Return (setupGlobalMiddleware h))))"

section \<open>The routes\<close>

text \<open>
  The abstract view of the cache: a partial function from methods and paths to handlers. The
  route table is what \<open>api/swagger.yaml\<close> declares.
\<close>

definition cached :: "(string \<times> (string \<times> 'w http_handler) list) list \<Rightarrow> string \<Rightarrow> string \<Rightarrow> 'w http_handler option" where
  "cached hs method path = (case map_of hs method of None \<Rightarrow> None | Some m \<Rightarrow> map_of m path)"

definition route_table ::
    "openapi \<Rightarrow> mw_context \<Rightarrow> 'w A1API \<Rightarrow> ((string \<times> string) \<times> 'w http_handler) list" where
  "route_table lib ctx api =
     [((''GET'', ''/a1-p/policytypes/{policy_type_id}''), GetPolicyType_ServeHTTP lib ctx (GetPolicyTypeHandler api)),
        ((''GET'', ''/a1-p/policytypes/{policy_type_id}/policies/{policy_instance_id}/status''), GetPolicyInstanceStatus_ServeHTTP lib ctx (GetPolicyInstanceStatusHandler api)),
        ((''GET'', ''/a1-p/policytypes/{policy_type_id}/policies/{policy_instance_id}''), GetPolicyInstance_ServeHTTP lib ctx (GetPolicyInstanceHandler api)),
        ((''GET'', ''/a1-p/healthcheck''), GetHealthcheck_ServeHTTP lib ctx (GetHealthcheckHandler api)),
        ((''GET'', ''/a1-p/policytypes''), GetAllPolicyTypes_ServeHTTP lib ctx (GetAllPolicyTypesHandler api)),
        ((''GET'', ''/a1-p/policytypes/{policy_type_id}/policies''), GetAllInstancesForType_ServeHTTP lib ctx (GetAllInstancesForTypeHandler api)),
        ((''DELETE'', ''/a1-p/policytypes/{policy_type_id}''), DeletePolicyType_ServeHTTP lib ctx (DeletePolicyTypeHandler api)),
        ((''DELETE'', ''/a1-p/policytypes/{policy_type_id}/policies/{policy_instance_id}''), DeletePolicyInstance_ServeHTTP lib ctx (DeletePolicyInstanceHandler api)),
        ((''POST'', ''/data-delivery''), DataDelivery_ServeHTTP lib ctx (DataDeliveryHandler api)),
        ((''PUT'', ''/a1-p/policytypes/{policy_type_id}''), CreatePolicyType_ServeHTTP lib ctx (CreatePolicyTypeHandler api)),
        ((''PUT'', ''/a1-p/policytypes/{policy_type_id}/policies/{policy_instance_id}''), CreateOrReplacePolicyInstance_ServeHTTP lib ctx (CreateOrReplacePolicyInstanceHandler api))]"

lemma cached_add_route [simp]:
  "cached (add_route m p h hs) m' p' = (if m' = m \<and> p' = p then Some h else cached hs m' p')"
  by (auto simp: cached_def add_route_def Let_def update_conv' split: option.splits)

lemma cached_Nil [simp]: "cached [] m p = None"
  by (simp add: cached_def)

lemma add_route_not_Nil [simp]: "add_route m p h hs \<noteq> []"
  by (simp add: add_route_def Let_def update_nonempty)

definition fresh_cache :: "'w A1API \<Rightarrow> bool" where
  "fresh_cache api \<longleftrightarrow> handlers api \<in> {None, Some []}"

text \<open>Once there are handlers there is a context; every operation of the API keeps this.\<close>

definition cache_ok :: "'w A1API \<Rightarrow> bool" where
  "cache_ok api \<longleftrightarrow> fresh_cache api \<or> api_context api \<noteq> None"

definition context_of :: "'w openapi_runtime \<Rightarrow> 'w A1API \<Rightarrow> mw_context" where
  "context_of rt api = (case api_context api of None \<Rightarrow> NewRoutableContext rt (spec api) | Some ctx \<Rightarrow> ctx)"

definition fill :: "((string \<times> string) \<times> 'w http_handler) list \<Rightarrow> (string \<times> (string \<times> 'w http_handler) list) list" where
  "fill table = foldr (\<lambda>((m, p), h) hs. add_route m p h hs) table []"

lemma cached_fill: "cached (fill table) m p = map_of table (m, p)"
  by (induction table) (auto simp: fill_def)

lemma fill_not_Nil: "table \<noteq> [] \<Longrightarrow> fill table \<noteq> []"
  by (cases table) (auto simp: fill_def)

lemma initHandlerCache_fill:
  assumes "fresh_cache api"
  shows "initHandlerCache lib rt api =
     api\<lparr>api_context := Some (context_of rt api), handlers := Some (fill (route_table lib (context_of rt api) api))\<rparr>"
proof -
  have nil: "(case handlers api of None \<Rightarrow> [] | Some hs \<Rightarrow> hs) = []"
    using assms by (auto simp: fresh_cache_def)
  then show ?thesis
    by (cases "api_context api")
       (simp_all add: initHandlerCache_def Context_def context_of_def Let_def route_table_def fill_def)
qed

lemma Init_fresh:
  assumes "fresh_cache api"
  shows "\<exists>hs. Init lib rt api = api\<lparr>api_context := Some (context_of rt api), handlers := Some hs\<rparr> \<and> hs \<noteq> [] \<and>
     (\<forall>m p. cached hs m p = map_of (route_table lib (context_of rt api) api) (m, p))"
proof -
  have "Init lib rt api = initHandlerCache lib rt api"
    using assms by (auto simp: Init_def fresh_cache_def)
  moreover have "route_table lib (context_of rt api) api \<noteq> []"
    by (simp add: route_table_def)
  ultimately show ?thesis
    unfolding initHandlerCache_fill [OF assms] using cached_fill fill_not_Nil by blast
qed

lemma Init_used: "\<not> fresh_cache api \<Longrightarrow> Init lib rt api = api"
  by (auto simp: Init_def fresh_cache_def split: option.splits)

lemma HandlerFor_cached:
  "handlers api = Some hs \<Longrightarrow> HandlerFor api m p = cached hs (ToUpper m) (if p = ''/'' then [] else p)"
  by (simp add: HandlerFor_def cached_def Let_def split: option.split)

lemma Init_cache_ok [simp]: "cache_ok api \<Longrightarrow> cache_ok (Init lib rt api)"
  using Init_fresh [of api lib rt] Init_used [of api lib rt]
  by (cases "fresh_cache api") (auto simp: cache_ok_def)

lemma Init_context: "cache_ok api \<Longrightarrow> api_context (Init lib rt api) \<noteq> None"
  using Init_fresh [of api lib rt] Init_used [of api lib rt]
  by (cases "fresh_cache api") (auto simp: cache_ok_def)

lemma NewA1API_fresh [simp]: "fresh_cache (NewA1API rt swagger)"
  by (simp add: fresh_cache_def NewA1API_def)

section \<open>Registrations and codecs\<close>

lemma missing_Nil_iff [simp]: "missing r name u = [] \<longleftrightarrow> u = [] \<and> r \<noteq> None"
  by (simp add: missing_def split: option.split)

lemma set_missing: "set (missing r name u) = set u \<union> (if r = None then {name} else {})"
  by (simp add: missing_def split: option.split)

lemma map_of_add_codec:
  "map_of (add_codec json custom mt result) k =
     (if k = mt then (case map_of custom mt of
          Some c \<Rightarrow> Some (Some c)
        | None \<Rightarrow> if mt = ''application/json'' then Some json else map_of result k)
      else map_of result k)"
  by (simp add: add_codec_def Let_def update_conv' split: option.split)

lemma map_of_codecs:
  "map_of (fold (add_codec json custom) mts result) k =
     (if k \<in> set mts then (case map_of custom k of
          Some c \<Rightarrow> Some (Some c)
        | None \<Rightarrow> if k = ''application/json'' then Some json else map_of result k)
      else map_of result k)"
  by (induction mts arbitrary: result) (auto simp: map_of_add_codec split: option.splits)

lemma or_default_simps [simp]:
  "or_default h name \<noteq> None" "or_default (Some f) name = Some f" "or_default None name = Some (not_implemented name)"
  by (simp_all add: or_default_def split: option.split)

lemma configure_handlers_simps [simp]:
  "fresh_cache (configure_handlers rt api) = fresh_cache api"
  "cache_ok (configure_handlers rt api) = cache_ok api"
  "Middleware (configure_handlers rt api) = Middleware api"
  "spec (configure_handlers rt api) = spec api"
  "api_context (configure_handlers rt api) = api_context api"
  "CreateOrReplacePolicyInstanceHandler (configure_handlers rt api) = or_default (CreateOrReplacePolicyInstanceHandler api) ''a1_mediator.A1ControllerCreateOrReplacePolicyInstance''"
  "CreatePolicyTypeHandler (configure_handlers rt api) = or_default (CreatePolicyTypeHandler api) ''a1_mediator.A1ControllerCreatePolicyType''"
  "DataDeliveryHandler (configure_handlers rt api) = or_default (DataDeliveryHandler api) ''a1_e_i_data_delivery.A1ControllerDataDelivery''"
  "DeletePolicyInstanceHandler (configure_handlers rt api) = or_default (DeletePolicyInstanceHandler api) ''a1_mediator.A1ControllerDeletePolicyInstance''"
  "DeletePolicyTypeHandler (configure_handlers rt api) = or_default (DeletePolicyTypeHandler api) ''a1_mediator.A1ControllerDeletePolicyType''"
  "GetAllInstancesForTypeHandler (configure_handlers rt api) = or_default (GetAllInstancesForTypeHandler api) ''a1_mediator.A1ControllerGetAllInstancesForType''"
  "GetAllPolicyTypesHandler (configure_handlers rt api) = or_default (GetAllPolicyTypesHandler api) ''a1_mediator.A1ControllerGetAllPolicyTypes''"
  "GetHealthcheckHandler (configure_handlers rt api) = or_default (GetHealthcheckHandler api) ''a1_mediator.A1ControllerGetHealthcheck''"
  "GetPolicyInstanceHandler (configure_handlers rt api) = or_default (GetPolicyInstanceHandler api) ''a1_mediator.A1ControllerGetPolicyInstance''"
  "GetPolicyInstanceStatusHandler (configure_handlers rt api) = or_default (GetPolicyInstanceStatusHandler api) ''a1_mediator.A1ControllerGetPolicyInstanceStatus''"
  "GetPolicyTypeHandler (configure_handlers rt api) = or_default (GetPolicyTypeHandler api) ''a1_mediator.A1ControllerGetPolicyType''"
  by (simp_all add: configure_handlers_def fresh_cache_def cache_ok_def Let_def)

lemma Serve_Init: "cache_ok api \<Longrightarrow> fst (Serve lib rt builder api) = Init lib rt api \<and> (\<exists>h. snd (Serve lib rt builder api) = Return h)"
  using Init_context [of api lib rt] by (auto simp: Serve_def Let_def split: option.split)

lemma configureAPI_Init:
  "cache_ok api \<Longrightarrow> fst (configureAPI lib rt api) = Init lib rt (configure_handlers rt api) \<and>
     (\<exists>h. snd (configureAPI lib rt api) = Return h)"
  using Serve_Init [of "configure_handlers rt api" lib rt "Some setupMiddlewares"]
  by (auto simp: configureAPI_def Let_def split_beta)

lemma Validate_None_iff:
  "Validate api = None \<longleftrightarrow> JSONConsumer api \<noteq> None \<and> JSONProducer api \<noteq> None \<and>
     CreateOrReplacePolicyInstanceHandler api \<noteq> None \<and>
     CreatePolicyTypeHandler api \<noteq> None \<and>
     DataDeliveryHandler api \<noteq> None \<and>
     DeletePolicyInstanceHandler api \<noteq> None \<and>
     DeletePolicyTypeHandler api \<noteq> None \<and>
     GetAllInstancesForTypeHandler api \<noteq> None \<and>
     GetAllPolicyTypesHandler api \<noteq> None \<and>
     GetHealthcheckHandler api \<noteq> None \<and>
     GetPolicyInstanceHandler api \<noteq> None \<and>
     GetPolicyInstanceStatusHandler api \<noteq> None \<and>
     GetPolicyTypeHandler api \<noteq> None"
  by (simp add: Validate_def unregistered_def Let_def)

lemma Validate_cache [simp]: "Validate (api\<lparr>api_context := c, handlers := hs\<rparr>) = Validate api"
  by (simp add: Validate_def unregistered_def)

lemma Validate_Init: "Validate (Init lib rt api) = Validate api"
proof (cases "fresh_cache api")
  case True
  then show ?thesis
    using Init_fresh [of api lib rt] Validate_cache by metis
qed (simp add: Init_used)

lemma fill_methods: "m \<notin> fst ` fst ` set table \<Longrightarrow> map_of (fill table) m = None"
  by (induction table) (auto simp: fill_def add_route_def Let_def update_conv' split: option.splits)

lemma fill_some: "map_of table (m, p) = Some h \<Longrightarrow> \<exists>ps. map_of (fill table) m = Some ps \<and> map_of ps p = Some h"
  using cached_fill [of table m p] by (auto simp: cached_def split: option.splits)

lemma route_methods: "fst ` fst ` set (route_table lib ctx api) = {''PUT'', ''POST'', ''DELETE'', ''GET''}"
  by (auto simp: route_table_def)

lemma route_methods_upper: "m \<in> fst ` fst ` set (route_table lib ctx api) \<Longrightarrow> ToUpper m = m"
  unfolding route_methods by (elim insertE emptyE; simp; code_simp)

lemma route_root: "map_of (route_table lib ctx api) (m, ''/'') = None" "map_of (route_table lib ctx api) (m, []) = None"
  by (simp_all add: route_table_def)

definition registrations :: "'w A1API \<Rightarrow> (string \<times> bool) list" where
  "registrations api =
     [(''JSONConsumer'', JSONConsumer api \<noteq> None), (''JSONProducer'', JSONProducer api \<noteq> None),
      (''a1_mediator.A1ControllerCreateOrReplacePolicyInstanceHandler'', CreateOrReplacePolicyInstanceHandler api \<noteq> None),
      (''a1_mediator.A1ControllerCreatePolicyTypeHandler'', CreatePolicyTypeHandler api \<noteq> None),
      (''a1_e_i_data_delivery.A1ControllerDataDeliveryHandler'', DataDeliveryHandler api \<noteq> None),
      (''a1_mediator.A1ControllerDeletePolicyInstanceHandler'', DeletePolicyInstanceHandler api \<noteq> None),
      (''a1_mediator.A1ControllerDeletePolicyTypeHandler'', DeletePolicyTypeHandler api \<noteq> None),
      (''a1_mediator.A1ControllerGetAllInstancesForTypeHandler'', GetAllInstancesForTypeHandler api \<noteq> None),
      (''a1_mediator.A1ControllerGetAllPolicyTypesHandler'', GetAllPolicyTypesHandler api \<noteq> None),
      (''a1_mediator.A1ControllerGetHealthcheckHandler'', GetHealthcheckHandler api \<noteq> None),
      (''a1_mediator.A1ControllerGetPolicyInstanceHandler'', GetPolicyInstanceHandler api \<noteq> None),
      (''a1_mediator.A1ControllerGetPolicyInstanceStatusHandler'', GetPolicyInstanceStatusHandler api \<noteq> None),
      (''a1_mediator.A1ControllerGetPolicyTypeHandler'', GetPolicyTypeHandler api \<noteq> None)]"

definition add_missing :: "string \<times> bool \<Rightarrow> string list \<Rightarrow> string list" where
  "add_missing r u = (if snd r then u else u @ [fst r])"

lemma missing_fold: "missing r name = add_missing (name, r \<noteq> None)"
  by (simp add: fun_eq_iff missing_def add_missing_def split: option.split)

lemma fold_add_missing: "fold add_missing rs u = u @ map fst (filter (\<lambda>r. \<not> snd r) rs)"
  by (induction rs arbitrary: u) (simp_all add: add_missing_def)

lemma unregistered_eq: "unregistered api = map fst (filter (\<lambda>r. \<not> snd r) (registrations api))"
proof -
  have "unregistered api = fold add_missing (registrations api) []"
    unfolding unregistered_def registrations_def Let_def missing_fold by (simp only: fold_simps comp_def)
  then show ?thesis by (simp add: fold_add_missing)
qed

lemma handler_cache_is_route_table_eq:
  assumes "fresh_cache api"
  shows "HandlerFor (Init lib rt api) method path
       = map_of (route_table lib (context_of rt api) api) (ToUpper method, path)"
proof -
  obtain hs where hs: "Init lib rt api = api\<lparr>api_context := Some (context_of rt api), handlers := Some hs\<rparr>"
      "\<forall>m p. cached hs m p = map_of (route_table lib (context_of rt api) api) (m, p)"
    using Init_fresh [OF assms] by blast
  have "handlers (Init lib rt api) = Some hs" using hs(1) by simp
  from HandlerFor_cached [OF this, of "method" "path"] hs(2) show ?thesis
    by (simp add: route_root)
qed

section \<open>An instance of the runtime\<close>

text \<open>
  An instance of the go-openapi packages, to run examples: JSON codecs of \<open>std_openapi\<close>, the
  context \<open>sample_ctx\<close>, and a router that finds a handler by the path alone.
\<close>

definition sample_rt :: "'w openapi_runtime" where
  "sample_rt =
     \<lparr>RuntimeJSONConsumer = \<lparr>ConsumeAny = (\<lambda>text. (JNull, None)), ConsumeSchema = ReadSchema std_openapi\<rparr>,
      RuntimeJSONProducer = WriteJSON std_openapi,
      NewRoutableContext = (\<lambda>swagger. sample_ctx),
      APIHandler = (\<lambda>ctx api builder r rw w.
        case HandlerFor api (Method r) (URLPath r) of
          Some h \<Rightarrow> (case builder of None \<Rightarrow> h r rw w | Some b \<Rightarrow> b h r rw w)
        | None \<Rightarrow> (w, WriteHeader 404 rw, Return ())),
      RuntimeServeError = (\<lambda>r err rw w. (w, WriteHeader 500 rw, Return ())),
      StrfmtDefault = ''strfmt.Default'',
      StrfmtAdd = (\<lambda>reg name format validator w. w)\<rparr>"

definition sample_api :: "unit A1API" where
  "sample_api = NewA1API sample_rt ''{}''"

lemma sample_api_fresh: "fresh_cache sample_api"
  by (simp add: sample_api_def)

section \<open>Properties\<close>

text \<open>
  Functional correctness of the routing cache. After \<open>Init\<close> on an API whose cache is empty,
  \<open>HandlerFor\<close> answers exactly for the eleven routes of the API, the method in any case, and
  with the operation registered for the route; no other method or path has a handler.
\<close>

theorem handler_cache_is_route_table:
  assumes "fresh_cache api"
  shows "HandlerFor (Init lib rt api) method path
       = map_of (route_table lib (context_of rt api) api) (ToUpper method, path)"
  using assms by (rule handler_cache_is_route_table_eq)

theorem handler_cache_is_route_table_witness:
  "HandlerFor (Init std_openapi sample_rt sample_api) ''get'' ''/a1-p/policytypes''
   = Some (GetAllPolicyTypes_ServeHTTP std_openapi sample_ctx (GetAllPolicyTypesHandler sample_api))"
proof -
  have "ToUpper ''get'' = ''GET''" by code_simp
  moreover have "context_of sample_rt sample_api = sample_ctx"
    by (simp add: context_of_def sample_api_def NewA1API_def sample_rt_def)
  ultimately show ?thesis
    using handler_cache_is_route_table [OF sample_api_fresh, of std_openapi sample_rt "''get''" "''/a1-p/policytypes''"]
    by (simp add: route_table_def)
qed

text \<open>
  \<open>Validate\<close> succeeds exactly when every registration is there; otherwise its error lists
  the names of those that are missing, in order.
\<close>

theorem validate_lists_missing:
  "Validate api =
     (if \<forall>r \<in> set (registrations api). snd r then None
      else Some (ErrNew (''missing registration: '' @
             Join (map fst (filter (\<lambda>r. \<not> snd r) (registrations api))) '', '')))"
  by (auto simp: Validate_def unregistered_eq filter_empty_conv)

theorem validate_lists_missing_witness:
  "Validate (sample_api\<lparr>GetHealthcheckHandler := None\<rparr>)
   = Some (ErrNew ''missing registration: a1_mediator.A1ControllerGetHealthcheckHandler'')"
  using validate_lists_missing [of "sample_api\<lparr>GetHealthcheckHandler := None\<rparr>"]
  by (simp add: registrations_def sample_api_def NewA1API_def)

text \<open>
  \<open>configureAPI\<close> completes any API whose cache is empty: it never panics, afterwards nothing
  is missing, the routes lead to the registered handlers, and an operation without one answers
  that it is not implemented.
\<close>

theorem configureAPI_completes:
  assumes "fresh_cache api"
  shows "(\<exists>h. snd (configureAPI lib rt api) = Return h) \<and>
    Validate (fst (configureAPI lib rt api)) = None \<and>
    HandlerFor (fst (configureAPI lib rt api)) method path
      = map_of (route_table lib (context_of rt api) (configure_handlers rt api)) (ToUpper method, path) \<and>
    CreatePolicyTypeHandler (fst (configureAPI lib rt api))
      = (case CreatePolicyTypeHandler api of
           Some f \<Rightarrow> Some f
         | None \<Rightarrow> Some (not_implemented ''a1_mediator.A1ControllerCreatePolicyType''))"
proof -
  let ?api = "configure_handlers rt api"
  have fresh: "fresh_cache ?api" using assms by simp
  have api: "fst (configureAPI lib rt api) = Init lib rt ?api" "\<exists>h. snd (configureAPI lib rt api) = Return h"
    using configureAPI_Init [of api lib rt] assms by (simp_all add: cache_ok_def)
  have "Validate ?api = None"
    unfolding Validate_None_iff by (simp add: configure_handlers_def Let_def)
  moreover have "context_of rt ?api = context_of rt api"
    by (cases "api_context api") (simp_all add: context_of_def)
  moreover obtain hs where "Init lib rt ?api = ?api\<lparr>api_context := Some (context_of rt ?api), handlers := Some hs\<rparr>"
    using Init_fresh [OF fresh] by blast
  then have "CreatePolicyTypeHandler (Init lib rt ?api) = CreatePolicyTypeHandler ?api" by simp
  ultimately show ?thesis
    unfolding api(1) using api(2) handler_cache_is_route_table_eq [OF fresh]
    by (simp add: Validate_Init or_default_def)
qed

theorem configureAPI_completes_witness:
  "Validate (fst (configureAPI std_openapi sample_rt (sample_api\<lparr>CreatePolicyTypeHandler := None\<rparr>))) = None"
proof -
  have "fresh_cache (sample_api\<lparr>CreatePolicyTypeHandler := None\<rparr>)"
    by (simp add: fresh_cache_def sample_api_def NewA1API_def)
  from configureAPI_completes [OF this] show ?thesis by blast
qed

text \<open>
  The cache is built once. A second \<open>Init\<close> changes nothing, and a handler registered after
  the first one is never called: the routes keep leading to the handlers of that time.
\<close>

theorem init_is_once:
  "Init lib rt (Init lib rt api) = Init lib rt api \<and>
   HandlerFor (Init lib rt ((Init lib rt api)\<lparr>CreatePolicyTypeHandler := f\<rparr>)) method path
     = HandlerFor (Init lib rt api) method path"
proof -
  have used: "\<not> fresh_cache (Init lib rt api)"
  proof (cases "fresh_cache api")
    case True
    then show ?thesis using Init_fresh [OF True, of lib rt] by (auto simp: fresh_cache_def)
  qed (simp add: Init_used)
  then have "\<not> fresh_cache ((Init lib rt api)\<lparr>CreatePolicyTypeHandler := f\<rparr>)"
    by (simp add: fresh_cache_def)
  then show ?thesis
    using used by (simp add: Init_used HandlerFor_def)
qed

text \<open>
  C38. \<open>AddMiddlewareFor\<close> wraps the handler of exactly the route it names when the method is in
  upper case. With the method in any other case, for which \<open>HandlerFor\<close> finds the same handler,
  it panics: it reads the cache under the upper-case method and writes it under the method as
  given.
\<close>

theorem add_middleware_for:
  assumes "fresh_cache api"
    and "map_of (route_table lib (context_of rt api) api) (ToUpper method, path) = Some h"
  shows "if ToUpper method = method
    then snd (AddMiddlewareFor lib rt method path builder api) = Return () \<and>
      HandlerFor (fst (AddMiddlewareFor lib rt method path builder api)) m p
        = (if ToUpper m = method \<and> p = path then Some (builder h) else HandlerFor (Init lib rt api) m p)
    else snd (AddMiddlewareFor lib rt method path builder api) = Panic nil_map_write"
proof -
  let ?T = "route_table lib (context_of rt api) api"
  have init: "Init lib rt api = api\<lparr>api_context := Some (context_of rt api), handlers := Some (fill ?T)\<rparr>"
    using initHandlerCache_fill [OF assms(1)] assms(1) by (auto simp: Init_def fresh_cache_def)
  obtain ps where ps: "map_of (fill ?T) (ToUpper method) = Some ps" "map_of ps path = Some h"
    using fill_some [OF assms(2)] by blast
  have path: "path \<noteq> ''/''" "path \<noteq> []"
    using assms(2) route_root by (metis option.distinct(1))+
  show ?thesis
  proof (cases "ToUpper method = method")
    case True
    have add: "AddMiddlewareFor lib rt method path builder api
        = (api\<lparr>api_context := Some (context_of rt api),
              handlers := Some (AList.update method (AList.update path (builder h) ps) (fill ?T))\<rparr>, Return ())"
      using ps True path by (simp add: AddMiddlewareFor_def init Let_def)
    have "HandlerFor (fst (AddMiddlewareFor lib rt method path builder api)) m p
        = (if ToUpper m = method \<and> (if p = ''/'' then [] else p) = path then Some (builder h)
           else HandlerFor (Init lib rt api) m p)"
      using ps True by (auto simp: add init HandlerFor_def Let_def update_conv' split: option.splits)
    moreover have "(if p = ''/'' then [] else p) = path \<longleftrightarrow> p = path" using path by auto
    ultimately show ?thesis using True by (simp add: add)
  next
    case False
    then have "method \<notin> fst ` fst ` set ?T" using route_methods_upper by blast
    then have "map_of (fill ?T) method = None" by (rule fill_methods)
    with False ps path show ?thesis by (simp add: AddMiddlewareFor_def init Let_def)
  qed
qed

theorem add_middleware_for_witness:
  "snd (AddMiddlewareFor std_openapi sample_rt ''get'' ''/a1-p/healthcheck'' (\<lambda>h. h) sample_api) = Panic nil_map_write"
proof -
  have up: "ToUpper ''get'' = ''GET''" by code_simp
  have "\<exists>h. map_of (route_table std_openapi (context_of sample_rt sample_api) sample_api)
      (ToUpper ''get'', ''/a1-p/healthcheck'') = Some h"
    by (simp add: up route_table_def)
  then show ?thesis
    using add_middleware_for [OF sample_api_fresh, of std_openapi sample_rt "''get''" "''/a1-p/healthcheck''"] up by fastforce
qed

text \<open>
  The codec of a media type is the one registered for it, or the JSON codec for
  \<open>application/json\<close>, or none; only the media types asked for are answered, in any order.
\<close>

theorem codecs_for_media_types:
  "map_of (ConsumersFor api mts) mt =
     (if mt \<in> set mts then (case map_of (customConsumers api) mt of
          Some c \<Rightarrow> Some (Some c)
        | None \<Rightarrow> if mt = ''application/json'' then Some (JSONConsumer api) else None)
      else None) \<and>
   map_of (ProducersFor (RegisterProducer api mt pr) [mt]) mt = Some (Some pr)"
  by (simp add: ConsumersFor_def ProducersFor_def RegisterProducer_def map_of_codecs map_of_add_codec update_conv' split: option.split)

end
