(* ===== verification/Restful.thy ===== *)
theory Restful
  imports Resthooks A1Api
begin

text \<open>
  Package \<open>pkg/restful\<close>: the three handlers \<open>setupHandler\<close> registers, on top of the hooks of
  \<open>pkg/resthooks\<close>, and the API object they are registered in. The closure variable \<open>err\<close> of
  \<open>setupHandler\<close> is a local value here, which is what a single request sees of it; the theory
  \<open>CreateRace\<close> models what concurrent requests do to it.
\<close>

section \<open>The handlers\<close>

definition NewGetAllPolicyTypesOK :: GetAllPolicyTypes_response where
  "NewGetAllPolicyTypesOK = GetAllPolicyTypesOK None"

definition NewGetPolicyTypeOK :: GetPolicyType_response where
  "NewGetPolicyTypeOK = GetPolicyTypeOK None"

text \<open>Each handler takes the method of \<open>r.rh\<close> it calls as its first argument.\<close>

definition GetAllPolicyTypes_handler ::
    "('w \<Rightarrow> 'w \<times> policy_type_id list option outcome) \<Rightarrow> (http_params, 'w) op_handler" where
  "GetAllPolicyTypes_handler all param w =
     (case all w of
        (w', Panic m) \<Rightarrow> (w', Panic m)
      | (w', Return ids) \<Rightarrow>
          (w', Return (GetAllPolicyTypesR (GetAllPolicyTypesOK_WithPayload ids NewGetAllPolicyTypesOK))))"

definition CreatePolicyType_handler ::
    "(policy_type_id \<Rightarrow> policy_type_schema \<Rightarrow> 'w \<Rightarrow> 'w \<times> go_error option outcome) \<Rightarrow>
     (CreatePolicyTypeParams, 'w) op_handler" where
  "CreatePolicyType_handler create params w =
     (case SchemaBody params of
        None \<Rightarrow> (w, Panic nil_deref)
      | Some body \<Rightarrow>
          (case create (TypeID params) body w of
             (w', Panic m) \<Rightarrow> (w', Panic m)
           | (w', Return err) \<Rightarrow>
               if err = None then (w', Return (CreatePolicyTypeR CreatePolicyTypeCreated))
               else if IsTypeAlready err \<or> IsTypeMismatch err then
                 (w', Return (CreatePolicyTypeR CreatePolicyTypeBadRequest))
               else (w', Return (CreatePolicyTypeR CreatePolicyTypeServiceUnavailable))))"

definition GetPolicyType_handler ::
    "(policy_type_id \<Rightarrow> 'w \<Rightarrow> 'w \<times> policy_type_schema option outcome) \<Rightarrow> (type_params, 'w) op_handler" where
  "GetPolicyType_handler fetch params w =
     (case fetch (TypeID params) w of
        (w', Panic m) \<Rightarrow> (w', Panic m)
      | (w', Return resp) \<Rightarrow> (w', Return (GetPolicyTypeR (GetPolicyTypeOK_WithPayload resp NewGetPolicyTypeOK))))"

section \<open>The API object of the mediator\<close>

text \<open>
  \<open>loads.Embedded\<close> is code outside the repository: the specification it loads, or \<open>None\<close> for its
  error, upon which the process exits (no API object).
\<close>

definition setupHandler ::
    "openapi \<Rightarrow> 'w openapi_runtime \<Rightarrow> 'w Resthook \<Rightarrow> string option \<Rightarrow> 'w A1API option" where
  "setupHandler lib rt rh swaggerSpec =
     (case swaggerSpec of
        None \<Rightarrow> None
      | Some swagger \<Rightarrow>
          (let api = NewA1API rt swagger;
               api = api\<lparr>GetAllPolicyTypesHandler := Some (GetAllPolicyTypes_handler (GetAllPolicyType rh))\<rparr>;
               api = api\<lparr>CreatePolicyTypeHandler := Some (CreatePolicyType_handler (CreatePolicyType lib rh))\<rparr>;
               api = api\<lparr>GetPolicyTypeHandler := Some (GetPolicyType_handler (GetPolicyType rh))\<rparr>
           in Some api))"

record 'w Restful =
  r_api :: "'w A1API option"
  r_rh :: "'w Resthook"

definition NewRestful :: "openapi \<Rightarrow> 'w openapi_runtime \<Rightarrow> 'w iSdl \<Rightarrow> string option \<Rightarrow> 'w Restful" where
  "NewRestful lib rt syncStorage swaggerSpec =
     (let r = \<lparr>r_api = None, r_rh = NewResthook syncStorage\<rparr>
      in r\<lparr>r_api := setupHandler lib rt (r_rh r) swaggerSpec\<rparr>)"

section \<open>What a handler answers\<close>

lemma WithPayload_simps [simp]:
  "GetAllPolicyTypesOK_WithPayload ids NewGetAllPolicyTypesOK = GetAllPolicyTypesOK ids"
  "GetPolicyTypeOK_WithPayload resp NewGetPolicyTypeOK = GetPolicyTypeOK resp"
  by (simp_all add: NewGetAllPolicyTypesOK_def NewGetPolicyTypeOK_def)

context type_registry
begin

text \<open>The answer to a create, over the registry: created, refused, or unknown.\<close>

lemma create_answer:
  assumes "inv w" and "SchemaBody p = Some m" and "storable (TypeID p) m"
    and "CreatePolicyType_handler create p w = (w', res)"
  shows "inv w' \<and>
    (res = Return (CreatePolicyTypeR CreatePolicyTypeCreated) \<and>
       reg w (TypeID p) = None \<and> reg w' = (reg w)(TypeID p \<mapsto> m) \<or>
     res = Return (CreatePolicyTypeR CreatePolicyTypeBadRequest) \<and>
       reg w (TypeID p) \<noteq> None \<and> reg w' = reg w \<or>
     res = Return (CreatePolicyTypeR CreatePolicyTypeServiceUnavailable) \<and>
       (reg w' = reg w \<or> reg w (TypeID p) = None \<and> reg w' = (reg w)(TypeID p \<mapsto> m)))"
proof -
  obtain w1 r where c: "create (TypeID p) m w = (w1, r)" by fastforce
  from create_cases [OF assms(1,3) c] show ?thesis
    using assms(2,4) c
    by (auto simp: CreatePolicyType_handler_def IsTypeAlready_def IsTypeMismatch_def)
qed

lemma fetch_answer:
  assumes "inv w" and "GetPolicyType_handler fetch p w = (w', res)"
  shows "inv w' \<and> reg w' = reg w \<and>
    (\<exists>s. res = Return (GetPolicyTypeR (GetPolicyTypeOK s)) \<and> (s = None \<or> s = reg w (TypeID p)))"
proof -
  obtain w1 r where c: "fetch (TypeID p) w = (w1, r)" by fastforce
  from fetch_reg [OF assms(1) c] show ?thesis
    using assms(2) c by (auto simp: GetPolicyType_handler_def)
qed

lemma all_answer:
  assumes "inv w" and "GetAllPolicyTypes_handler all p w = (w', res)"
  shows "inv w' \<and> reg w' = reg w \<and>
    (res = Return (GetAllPolicyTypesR (GetAllPolicyTypesOK None)) \<or>
     (\<exists>xs. res = Return (GetAllPolicyTypesR (GetAllPolicyTypesOK (slice xs))) \<and> distinct xs \<and> set xs = dom (reg w)))"
proof -
  obtain w1 r where c: "all w = (w1, r)" by fastforce
  from all_reg [OF assms(1) c] show ?thesis
    using assms(2) c by (auto simp: GetAllPolicyTypes_handler_def)
qed

end

section \<open>The service behind a middleware context\<close>

text \<open>
  What the handlers rely on of the context: choosing the headers and the producer of a response
  sends nothing to the client.
\<close>

definition negotiates :: "mw_context \<Rightarrow> bool" where
  "negotiates ctx \<longleftrightarrow>
     (\<forall>r route rw. Wrote (fst (Negotiate ctx r route rw)) = Wrote rw \<and> Body (fst (Negotiate ctx r route rw)) = Body rw)"

lemma Respond_status:
  assumes "negotiates ctx" and "response_code res = Some c" and "Wrote rw = None"
  shows "sent_status (fst (Respond ctx r route res rw)) = Some c"
  using WriteResponse_status [OF assms(2), of "fst (Negotiate ctx r route rw)" "NotImpl ctx" "snd (Negotiate ctx r route rw)"]
    assms by (simp add: Respond_def split_beta negotiates_def)

lemma Respond_body:
  assumes "negotiates ctx" and "response_code res = Some c"
  shows "Body (fst (Respond ctx r route res rw)) = Body rw @
    (case response_payload res of None \<Rightarrow> [] | Some v \<Rightarrow> fst (snd (Negotiate ctx r route rw) v))"
  using WriteResponse_body [OF assms(2), of "NotImpl ctx" "snd (Negotiate ctx r route rw)" "fst (Negotiate ctx r route rw)"]
    assms(1) by (simp add: Respond_def split_beta negotiates_def)

lemma Respond_returns:
  assumes "response_code res = Some c" and "response_payload res = None"
  shows "snd (Respond ctx r route res rw) = Return ()"
  using WriteResponse_outcome [OF assms(1), of "NotImpl ctx" "snd (Negotiate ctx r route rw)" "fst (Negotiate ctx r route rw)"]
    assms(2) by (simp add: Respond_def split_beta)

lemma create_serve:
  assumes "served_params ctx (CreatePolicyType_BindRequest lib) NewCreatePolicyTypeParams r = (p, None)"
  shows "CreatePolicyType_ServeHTTP lib ctx (Some f) r rw w =
    (case f p w of
       (w', Panic m) \<Rightarrow> (w', rw, Panic m)
     | (w', Return res) \<Rightarrow> (w', Respond ctx (served_request ctx r) (fst (RouteInfo ctx r)) res rw))"
  using o_CreatePolicyType.handled [OF assms] .

lemma fetch_serve:
  assumes "served_params ctx (GetPolicyType_BindRequest lib) NewGetPolicyTypeParams r = (p, None)"
  shows "GetPolicyType_ServeHTTP lib ctx (Some f) r rw w =
    (case f p w of
       (w', Panic m) \<Rightarrow> (w', rw, Panic m)
     | (w', Return res) \<Rightarrow> (w', Respond ctx (served_request ctx r) (fst (RouteInfo ctx r)) res rw))"
  using o_GetPolicyType.handled [OF assms] .

lemma all_serve:
  assumes "served_params ctx (GetAllPolicyTypes_BindRequest lib) NewGetAllPolicyTypesParams r = (p, None)"
  shows "GetAllPolicyTypes_ServeHTTP lib ctx (Some f) r rw w =
    (case f p w of
       (w', Panic m) \<Rightarrow> (w', rw, Panic m)
     | (w', Return res) \<Rightarrow> (w', Respond ctx (served_request ctx r) (fst (RouteInfo ctx r)) res rw))"
  using o_GetAllPolicyTypes.handled [OF assms] .

section \<open>Requests and their parameters\<close>

lemma sample_negotiates [simp]: "negotiates sample_ctx"
  by (simp add: negotiates_def sample_ctx_def)

definition sample_request :: "string \<Rightarrow> bool \<Rightarrow> string \<Rightarrow> request" where
  "sample_request m body text =
     \<lparr>Method = m, URLPath = ''/a1-p/policytypes/20001'', HasBody = body, BodyText = text\<rparr>"

definition sample_put :: request where
  "sample_put = sample_request ''PUT'' True (encode_schema sample_schema)"

definition sample_get :: request where
  "sample_get = sample_request ''GET'' False []"

abbreviation put_served :: "openapi \<Rightarrow> mw_context \<Rightarrow> request \<Rightarrow> CreatePolicyTypeParams \<Rightarrow> bool" where
  "put_served lib ctx r p \<equiv> served_params ctx (CreatePolicyType_BindRequest lib) NewCreatePolicyTypeParams r = (p, None)"

abbreviation get_served :: "openapi \<Rightarrow> mw_context \<Rightarrow> request \<Rightarrow> type_params \<Rightarrow> bool" where
  "get_served lib ctx r p \<equiv> served_params ctx (GetPolicyType_BindRequest lib) NewGetPolicyTypeParams r = (p, None)"

text \<open>The three operations as the mediator serves them.\<close>

definition serve_put :: "openapi \<Rightarrow> mw_context \<Rightarrow> 'w Resthook \<Rightarrow> 'w http_handler" where
  "serve_put lib ctx rh = CreatePolicyType_ServeHTTP lib ctx (Some (CreatePolicyType_handler (CreatePolicyType lib rh)))"

definition serve_get :: "openapi \<Rightarrow> mw_context \<Rightarrow> 'w Resthook \<Rightarrow> 'w http_handler" where
  "serve_get lib ctx rh = GetPolicyType_ServeHTTP lib ctx (Some (GetPolicyType_handler (GetPolicyType rh)))"

definition serve_list :: "openapi \<Rightarrow> mw_context \<Rightarrow> 'w Resthook \<Rightarrow> 'w http_handler" where
  "serve_list lib ctx rh = GetAllPolicyTypes_ServeHTTP lib ctx (Some (GetAllPolicyTypes_handler (GetAllPolicyType rh)))"

definition sample_params :: CreatePolicyTypeParams where
  "sample_params = \<lparr>HTTPRequest = sample_put, TypeID = 20001, SchemaBody = Some sample_schema\<rparr>"

lemma sample_put_served: "put_served std_openapi sample_ctx sample_put sample_params"
  by code_simp

lemma sample_get_served:
  "get_served std_openapi sample_ctx sample_get \<lparr>HTTPRequest = sample_get, TypeID = 20001\<rparr>"
  by code_simp

section \<open>Properties\<close>

text \<open>
  C1. Refinement, from the request to the response. A well-formed PUT of a policy type is
  answered 201 exactly when it registered a type that was not there, 400 when the identifier in
  the body is another one or already registered, and 503 when the storage failed; nothing else
  changes in the registry, the invariant of the storage is kept, and the handler returns.
\<close>

theorem put_policy_type_refines_registry:
  assumes "hooks lib rh view" and "negotiates ctx" and "store_ok (view w)" and "Wrote rw = None"
    and "put_served lib ctx r p" and "SchemaBody p = Some m"
    and "PolicyTypeID m = Some j" and "storable j m"
    and "serve_put lib ctx rh r rw w = (w', rw', out)"
  shows "out = Return () \<and> store_ok (view w') \<and>
    (sent_status rw' = Some 201 \<and> j = TypeID p \<and> registry (view w) j = None \<and>
       registry (view w') = (registry (view w))(j \<mapsto> m) \<or>
     sent_status rw' = Some 400 \<and> (j \<noteq> TypeID p \<or> registry (view w) j \<noteq> None) \<and>
       registry (view w') = registry (view w) \<or>
     sent_status rw' = Some 503 \<and> j = TypeID p \<and>
       (registry (view w') = registry (view w) \<or>
        registry (view w) j = None \<and> registry (view w') = (registry (view w))(j \<mapsto> m)))"
proof -
  let ?h = "CreatePolicyType_handler (CreatePolicyType lib rh)"
  note served = assms(9) [unfolded serve_put_def create_serve [OF assms(5)]]
  have answered: "sent_status rw' = Some (CreatePolicyType_code c) \<and> out = Return () \<and> w' = w1"
    if "?h p w = (w1, Return (CreatePolicyTypeR c))" for c w1
    using served that Respond_status [OF assms(2) _ assms(4), of "CreatePolicyTypeR c"]
      Respond_returns [of "CreatePolicyTypeR c" _ ctx]
    by (auto simp: CreatePolicyType_payload_def prod_eq_iff)
  show ?thesis
  proof (cases "j = TypeID p")
    case True
    obtain w1 res where h: "?h p w = (w1, res)" by fastforce
    from type_registry.create_answer [OF hooks.registry_laws [OF assms(1)] assms(3,6) _ h] assms(8) True
    show ?thesis
      using answered [of w1] h by auto
  next
    case False
    then have "?h p w = (w, Return (CreatePolicyTypeR CreatePolicyTypeBadRequest))"
      using assms(6) hooks.create_mismatch [OF assms(1,7), of "TypeID p" w]
      by (simp add: CreatePolicyType_handler_def IsTypeMismatch_def)
    from answered [OF this] False show ?thesis using assms(3) by auto
  qed
qed

definition put_world :: mem_world where
  "put_world = fst (serve_put std_openapi sample_ctx mem_hook sample_put fresh_rw empty_world)"

definition put_rw :: rw where
  "put_rw = fst (snd (serve_put std_openapi sample_ctx mem_hook sample_put fresh_rw empty_world))"

lemma sample_put_run:
  "serve_put std_openapi sample_ctx mem_hook sample_put fresh_rw empty_world = (put_world, put_rw, Return ())"
  "sent_status put_rw = Some 201"
proof -
  have "case serve_put std_openapi sample_ctx mem_hook sample_put fresh_rw empty_world of
      (w, rw, out) \<Rightarrow> out = Return () \<and> sent_status rw = Some 201"
    by code_simp
  then show "serve_put std_openapi sample_ctx mem_hook sample_put fresh_rw empty_world = (put_world, put_rw, Return ())"
      and "sent_status put_rw = Some 201"
    by (auto simp: put_world_def put_rw_def split: prod.splits)
qed

lemma sample_put_ok: "store_ok (mem_view put_world)"
proof -
  let ?h = "CreatePolicyType_handler (CreatePolicyType std_openapi mem_hook)"
  obtain w1 res where h: "?h sample_params empty_world = (w1, res)" by fastforce
  have pre: "SchemaBody sample_params = Some sample_schema" "storable (TypeID sample_params) sample_schema"
    using sample_storable by (simp_all add: sample_params_def)
  have "w1 = put_world"
    using sample_put_run(1) [unfolded serve_put_def create_serve [OF sample_put_served]] h
    by (auto split: outcome.splits)
  then show ?thesis
    using type_registry.create_answer [OF mem_hooks.registry_laws empty_world_ok pre h] by simp
qed

theorem put_policy_type_refines_registry_witness:
  "registry (mem_view put_world) = [20001 \<mapsto> sample_schema]"
proof -
  have pre: "Wrote fresh_rw = None" "SchemaBody sample_params = Some sample_schema"
      "PolicyTypeID sample_schema = Some 20001"
    by (simp_all add: fresh_rw_def sample_params_def sample_schema_def)
  have "registry (mem_view empty_world) = Map.empty"
    by (simp add: fun_eq_iff registry_def mem_view_def empty_world_def)
  then show ?thesis
    using put_policy_type_refines_registry [OF mem_hooks_ok sample_negotiates empty_world_ok pre(1) sample_put_served
        pre(2,3) sample_storable sample_put_run(1)] sample_put_run(2) by simp
qed



text \<open>
  C36. Divergence from the API's documentation. A GET of a policy type is answered 200 whenever
  it is answered at all: for an identifier that is not registered (documented: 404) and when the
  storage fails (documented: 503), the body is empty. It changes nothing.
\<close>

theorem get_policy_type_always_200:
  assumes "hooks lib rh view" and "negotiates ctx" and "store_ok (view w)" and "Wrote rw = None"
    and "get_served lib ctx r p" and "serve_get lib ctx rh r rw w = (w', rw', out)"
  shows "sent_status rw' = Some 200 \<and> store_ok (view w') \<and> registry (view w') = registry (view w) \<and>
    (registry (view w) (TypeID p) = None \<or>
     snd (snd (Get (db rh) a1MediatorNs [type_key (TypeID p)] w)) \<noteq> None \<longrightarrow>
       Body rw' = Body rw \<and> out = Return ())"
proof -
  let ?h = "GetPolicyType_handler (GetPolicyType rh)"
  obtain w1 res where h: "?h p w = (w1, res)" by fastforce
  from type_registry.fetch_answer [OF hooks.registry_laws [OF assms(1)] assms(3) h] obtain s
    where ans: "store_ok (view w1)" "registry (view w1) = registry (view w)"
      "res = Return (GetPolicyTypeR (GetPolicyTypeOK s))" "s = None \<or> s = registry (view w) (TypeID p)"
    by auto
  have err: "s = None" if "snd (snd (Get (db rh) a1MediatorNs [type_key (TypeID p)] w)) \<noteq> None"
  proof -
    have "snd (GetPolicyType rh (TypeID p) w) = Return None"
      using that by (auto simp: GetPolicyType_def Let_def split: prod.split)
    with h ans(3) show ?thesis
      by (auto simp: GetPolicyType_handler_def split: prod.splits)
  qed
  have run: "w' = w1" "rw' = fst (Respond ctx (served_request ctx r) (fst (RouteInfo ctx r)) (GetPolicyTypeR (GetPolicyTypeOK s)) rw)"
    "out = snd (Respond ctx (served_request ctx r) (fst (RouteInfo ctx r)) (GetPolicyTypeR (GetPolicyTypeOK s)) rw)"
    using assms(6) [unfolded serve_get_def fetch_serve [OF assms(5)]] h ans(3) by (auto simp: prod_eq_iff)
  show ?thesis
    using ans err Respond_status [OF assms(2) _ assms(4), of "GetPolicyTypeR (GetPolicyTypeOK s)" 200]
      Respond_body [OF assms(2), of "GetPolicyTypeR (GetPolicyTypeOK s)" 200]
      Respond_returns [of "GetPolicyTypeR (GetPolicyTypeOK s)" 200]
    by (auto simp: run)
qed

theorem get_policy_type_always_200_witness:
  "sent_status (fst (snd (serve_get std_openapi sample_ctx mem_hook sample_get fresh_rw empty_world))) = Some 200 \<and>
   Body (fst (snd (serve_get std_openapi sample_ctx mem_hook sample_get fresh_rw empty_world))) = []"
proof -
  have empty: "registry (mem_view empty_world) (TypeID \<lparr>HTTPRequest = sample_get, TypeID = 20001\<rparr>) = None"
      "Wrote fresh_rw = None" "Body fresh_rw = []"
    by (simp_all add: registry_def mem_view_def empty_world_def fresh_rw_def)
  obtain w' rw' out where s: "serve_get std_openapi sample_ctx mem_hook sample_get fresh_rw empty_world = (w', rw', out)"
    by (cases "serve_get std_openapi sample_ctx mem_hook sample_get fresh_rw empty_world") auto
  from get_policy_type_always_200 [OF mem_hooks_ok sample_negotiates empty_world_ok empty(2) sample_get_served s] empty
  show ?thesis by (simp add: s)
qed

text \<open>
  The listing over HTTP is answered 200 with the JSON of a list: the registered identifiers,
  each once, or the empty list when none is registered or the storage fails (documented: 503);
  it is never the JSON of a \<open>nil\<close> slice, and it changes nothing.
\<close>

theorem list_policy_types:
  assumes "hooks lib rh view" and "negotiates ctx" and "store_ok (view w)" and "Wrote rw = None"
    and "served_params ctx (GetAllPolicyTypes_BindRequest lib) NewGetAllPolicyTypesParams r = (p, None)"
    and "serve_list lib ctx rh r rw w = (w', rw', out)"
  shows "sent_status rw' = Some 200 \<and> store_ok (view w') \<and> registry (view w') = registry (view w) \<and>
    (\<exists>xs. Body rw' = Body rw @ fst (snd (Negotiate ctx (served_request ctx r) (fst (RouteInfo ctx r)) rw) (ATypeIDs xs)) \<and>
       distinct xs \<and> (set xs = dom (registry (view w)) \<or>
                      xs = [] \<and> snd (snd (GetAll (db rh) a1MediatorNs w)) \<noteq> None))"
proof -
  let ?h = "GetAllPolicyTypes_handler (GetAllPolicyType rh)"
  obtain w1 res where h: "?h p w = (w1, res)" by fastforce
  note ans = type_registry.all_answer [OF hooks.registry_laws [OF assms(1)] assms(3) h]
  obtain w2 ids where g: "GetAllPolicyType rh w = (w2, ids)" by fastforce
  have "\<exists>s xs. res = Return (GetAllPolicyTypesR (GetAllPolicyTypesOK s)) \<and>
      xs = (case s of None \<Rightarrow> [] | Some ys \<Rightarrow> ys) \<and> distinct xs \<and>
      (set xs = dom (registry (view w)) \<or> xs = [] \<and> snd (snd (GetAll (db rh) a1MediatorNs w)) \<noteq> None)"
  proof (cases "snd (snd (GetAll (db rh) a1MediatorNs w))")
    case None
    from hooks.all_outcome(3) [OF assms(1,3) g None] obtain ys
      where ys: "ids = Return (slice ys)" "distinct ys" "set ys = dom (registry (view w))"
      by blast
    with h g have "res = Return (GetAllPolicyTypesR (GetAllPolicyTypesOK (slice ys)))"
      by (auto simp: GetAllPolicyTypes_handler_def)
    moreover have "(case slice ys of None \<Rightarrow> [] | Some zs \<Rightarrow> zs) = ys"
      by (simp add: slice_def)
    ultimately show ?thesis using ys(2,3) by metis
  next
    case (Some e)
    have "a1MediatorNs = ''A1m_ns''" by (simp add: a1MediatorNs_def)
    with Some g have "ids = Return None"
      by (auto simp: GetAllPolicyType_def split: prod.splits)
    with h g Some show ?thesis by (auto simp: GetAllPolicyTypes_handler_def)
  qed
  then obtain s xs where s: "res = Return (GetAllPolicyTypesR (GetAllPolicyTypesOK s))"
      "xs = (case s of None \<Rightarrow> [] | Some ys \<Rightarrow> ys)" "distinct xs"
      "set xs = dom (registry (view w)) \<or> xs = [] \<and> snd (snd (GetAll (db rh) a1MediatorNs w)) \<noteq> None"
    by blast
  let ?R = "GetAllPolicyTypesR (GetAllPolicyTypesOK s)"
  have run: "w' = w1" "rw' = fst (Respond ctx (served_request ctx r) (fst (RouteInfo ctx r)) ?R rw)"
    using assms(6) [unfolded serve_list_def all_serve [OF assms(5)]] h s(1) by (auto simp: prod_eq_iff)
  have "Body rw' = Body rw @ fst (snd (Negotiate ctx (served_request ctx r) (fst (RouteInfo ctx r)) rw) (ATypeIDs xs))"
    using Respond_body [OF assms(2), of ?R 200] by (simp add: run s(2))
  moreover have "sent_status rw' = Some 200"
    using Respond_status [OF assms(2) _ assms(4), of ?R 200] by (simp add: run)
  ultimately show ?thesis using ans s(3,4) run(1) by blast
qed

definition sample_list :: request where
  "sample_list = \<lparr>Method = ''GET'', URLPath = ''/a1-p/policytypes'', HasBody = False, BodyText = []\<rparr>"

theorem list_policy_types_witness:
  "sent_status (fst (snd (serve_list std_openapi sample_ctx mem_hook sample_list fresh_rw put_world))) = Some 200"
proof -
  have served: "served_params sample_ctx (GetAllPolicyTypes_BindRequest std_openapi) NewGetAllPolicyTypesParams sample_list
      = (\<lparr>HTTPRequest = sample_list\<rparr>, None)"
    by code_simp
  have ok: "store_ok (mem_view put_world)"
    using sample_put_ok .
  have fresh: "Wrote fresh_rw = None" by (simp add: fresh_rw_def)
  obtain w' rw' out where s: "serve_list std_openapi sample_ctx mem_hook sample_list fresh_rw put_world = (w', rw', out)"
    by (cases "serve_list std_openapi sample_ctx mem_hook sample_list fresh_rw put_world") auto
  from list_policy_types [OF mem_hooks_ok sample_negotiates ok fresh served s]
  show ?thesis by (simp add: s)
qed

text \<open>
  C35. Error path. A PUT of a policy type without a body passes every check and panics: the
  handler dereferences the missing body. Nothing has been sent and nothing stored by then.
\<close>

theorem put_without_body_panics:
  assumes "openapi_laws lib" and "BindChecks ctx (served_request ctx r) (fst (RouteInfo ctx r)) = None"
    and "\<not> HasBody (served_request ctx r)"
    and "fst (GetOK (fst (RouteInfo ctx r)) ''policy_type_id'') = [FormatInt i]"
    and "1 \<le> sint i" and "sint i \<le> 2147483647"
  shows "serve_put lib ctx rh r rw w = (w, rw, Panic nil_deref)"
proof -
  have "ConvertInt64 lib (FormatInt i) = (i, None)"
    using openapi_laws.ConvertInt64_iff [OF assms(1), of "FormatInt i" i] by simp
  then have served: "put_served lib ctx r \<lparr>HTTPRequest = served_request ctx r, TypeID = i, SchemaBody = None\<rparr>"
    using assms(2-6) openapi_laws.in_range_checks [OF assms(1), of "''policy_type_id''" "''path''" i]
    by (simp add: served_params_def BindValidRequest_def CreatePolicyType_BindRequest_def NewCreatePolicyTypeParams_def
        bind_methods bindPolicyTypeID_def raw_value_def validatePolicyTypeID_def Let_def)
  show ?thesis
    by (simp add: serve_put_def create_serve [OF served] CreatePolicyType_handler_def)
qed

theorem put_without_body_panics_witness:
  "serve_put std_openapi sample_ctx mem_hook (sample_request ''PUT'' False []) fresh_rw empty_world
   = (empty_world, fresh_rw, Panic nil_deref)"
proof (rule put_without_body_panics [OF std_openapi_laws])
  show "fst (GetOK (fst (RouteInfo sample_ctx (sample_request ''PUT'' False []))) ''policy_type_id'') = [FormatInt 20001]"
    by code_simp
qed (simp_all add: sample_ctx_def sample_request_def served_request_def)

end
