(* ===== verification/Machines.thy ===== *)
theory Machines
  imports A1_Prelude
begin

text \<open>
  Transition systems, for the parts of the program where goroutines interleave. A machine is a
  partial function \<open>move\<close> from an event (which thread moves, or what the environment does) and a
  state to the next state. \<open>steps\<close> is the relation of its runs, labelled with the events;
  \<open>run\<close> executes a given sequence of events. The locales \<open>machine_invariant\<close> and \<open>machine_work\<close>
  are the two contracts the components prove of their machines: what stays true, and how much
  can still happen.
\<close>

section \<open>Runs\<close>

inductive steps :: "('e \<Rightarrow> 's \<Rightarrow> 's option) \<Rightarrow> 's \<Rightarrow> 'e list \<Rightarrow> 's \<Rightarrow> bool" for move where
  steps_Nil: "steps move s [] s"
| steps_Cons: "move e s = Some t \<Longrightarrow> steps move t es u \<Longrightarrow> steps move s (e # es) u"

inductive_simps steps_simps [simp]: "steps move s [] t" "steps move s (e # es) t"

fun run :: "('e \<Rightarrow> 's \<Rightarrow> 's option) \<Rightarrow> 'e list \<Rightarrow> 's \<Rightarrow> 's option" where
  "run move [] s = Some s"
| "run move (e # es) s = Option.bind (move e s) (run move es)"

text \<open>A state in which nothing can happen any more.\<close>

definition stuck :: "('e \<Rightarrow> 's \<Rightarrow> 's option) \<Rightarrow> 's \<Rightarrow> bool" where
  "stuck move s \<longleftrightarrow> (\<forall>e. move e s = None)"

lemma steps_run: "steps move s es t \<longleftrightarrow> run move es s = Some t"
  by (induction es arbitrary: s) (auto simp: bind_eq_Some_conv)

lemma steps_append: "steps move s (es @ fs) u \<longleftrightarrow> (\<exists>t. steps move s es t \<and> steps move t fs u)"
  by (induction es arbitrary: s) auto

lemma steps_snoc: "steps move s (es @ [e]) u \<longleftrightarrow> (\<exists>t. steps move s es t \<and> move e t = Some u)"
  by (simp add: steps_append)

section \<open>Sums over threads\<close>

text \<open>A list of threads of which one moves, measured by a sum of weights.\<close>

lemma sum_list_map_update:
  "i < length xs \<Longrightarrow> sum_list (map f (xs[i := y])) + f (xs ! i) = sum_list (map f xs) + (f y :: nat)"
  by (induction xs arbitrary: i) (auto split: nat.split)

lemma sum_list_le_length: "(\<And>x. f x \<le> (1 :: nat)) \<Longrightarrow> sum_list (map f xs) \<le> length xs"
proof (induction xs)
  case (Cons x xs)
  then show ?case using Cons.prems [of x] by (simp add: Cons.IH add_mono [of "f x" 1, simplified])
qed simp

lemma sum_list_eq_length_iff:
  assumes "\<And>x. f x \<le> (1 :: nat)"
  shows "sum_list (map f xs) = length xs \<longleftrightarrow> (\<forall>x \<in> set xs. f x = 1)"
proof (induction xs)
  case (Cons x xs)
  with sum_list_le_length [of f xs, OF assms] assms [of x] show ?case by (cases "f x") auto
qed simp

section \<open>Contracts of machines\<close>

locale machine_invariant =
  fixes move :: "'e \<Rightarrow> 's \<Rightarrow> 's option" and inv :: "'s \<Rightarrow> bool"
  assumes preserved: "inv s \<Longrightarrow> move e s = Some t \<Longrightarrow> inv t"
begin

lemma invariant: "steps move s es t \<Longrightarrow> inv s \<Longrightarrow> inv t"
  by (induction rule: steps.induct) (auto intro: preserved)

end

text \<open>
  \<open>work\<close> bounds the steps that are left; an event of the environment may add to it (\<open>extra\<close>), all
  others use it up.
\<close>

locale machine_work = machine_invariant move inv
  for move :: "'e \<Rightarrow> 's \<Rightarrow> 's option" and inv :: "'s \<Rightarrow> bool" +
  fixes work :: "'s \<Rightarrow> nat" and extra :: "'e \<Rightarrow> nat"
  assumes progress: "inv s \<Longrightarrow> move e s = Some t \<Longrightarrow> work t < work s + extra e"
begin

lemma bounded: "steps move s es t \<Longrightarrow> inv s \<Longrightarrow> length es + work t \<le> work s + sum_list (map extra es)"
proof (induction rule: steps.induct)
  case (steps_Cons e s t es u)
  then show ?case using progress [OF _ steps_Cons.hyps(1)] preserved [OF _ steps_Cons.hyps(1)] by simp
qed simp

end

end
