(* ===== verification/CreateRace.thy ===== *)
theory CreateRace
  imports Restful Machines
begin

text \<open>
  Concurrent PUT requests. The handler \<open>setupHandler\<close> registers assigns the result of
  \<open>CreatePolicyType\<close> to \<open>err\<close>, a variable of \<open>setupHandler\<close> that the closure captures: all requests
  share it. A request is a thread that calls the hook, assigns \<open>err\<close>, and reads it up to three
  times; the threads interleave between these accesses. Each call of the hook is one step (the
  storage's \<open>SetIfNotExists\<close> is atomic), and a read or write of \<open>err\<close> is one step.
\<close>

section \<open>Threads\<close>

datatype pc =
    Start
  | Called "go_error option"
  | Assigned
  | NotNil
  | NotAlready
  | Answered CreatePolicyType_response
  | Crashed string

text \<open>One step of one thread: the shared variable, the state of the storage, the position.\<close>

fun thread_step ::
    "(policy_type_id \<Rightarrow> policy_type_schema \<Rightarrow> 'w \<Rightarrow> 'w \<times> go_error option outcome) \<Rightarrow>
     CreatePolicyTypeParams \<Rightarrow> go_error option \<Rightarrow> 'w \<Rightarrow> pc \<Rightarrow> (go_error option \<times> 'w \<times> pc) option" where
  "thread_step create params err w Start =
     Some (case SchemaBody params of
             None \<Rightarrow> (err, w, Crashed nil_deref)
           | Some body \<Rightarrow>
               (case create (TypeID params) body w of
                  (w', Panic m) \<Rightarrow> (err, w', Crashed m)
                | (w', Return r) \<Rightarrow> (err, w', Called r)))"
| "thread_step create params err w (Called r) = Some (r, w, Assigned)"
| "thread_step create params err w Assigned =
     Some (err, w, if err = None then Answered CreatePolicyTypeCreated else NotNil)"
| "thread_step create params err w NotNil =
     Some (err, w, if IsTypeAlready err then Answered CreatePolicyTypeBadRequest else NotAlready)"
| "thread_step create params err w NotAlready =
     Some (err, w, Answered (if IsTypeMismatch err then CreatePolicyTypeBadRequest
                             else CreatePolicyTypeServiceUnavailable))"
| "thread_step create params err w (Answered c) = None"
| "thread_step create params err w (Crashed m) = None"

section \<open>Interleavings\<close>

record 'w race =
  captured_err :: "go_error option"
  world :: 'w
  threads :: "pc list"

definition race_start :: "CreatePolicyTypeParams list \<Rightarrow> 'w \<Rightarrow> 'w race" where
  "race_start reqs w = \<lparr>captured_err = None, world = w, threads = replicate (length reqs) Start\<rparr>"

definition move ::
    "(policy_type_id \<Rightarrow> policy_type_schema \<Rightarrow> 'w \<Rightarrow> 'w \<times> go_error option outcome) \<Rightarrow>
     CreatePolicyTypeParams list \<Rightarrow> nat \<Rightarrow> 'w race \<Rightarrow> 'w race option" where
  "move create reqs i s =
     (if i < length (threads s) \<and> i < length reqs then
        map_option (\<lambda>(e, w, c). \<lparr>captured_err = e, world = w, threads = (threads s)[i := c]\<rparr>)
          (thread_step create (reqs ! i) (captured_err s) (world s) (threads s ! i))
      else None)"

section \<open>Every request is answered\<close>

text \<open>The steps a thread has left; each step of the machine takes one of them.\<close>

fun left :: "pc \<Rightarrow> nat" where
  "left Start = 5"
| "left (Called r) = 4"
| "left Assigned = 3"
| "left NotNil = 2"
| "left NotAlready = 1"
| "left (Answered c) = 0"
| "left (Crashed m) = 0"

definition work :: "'w race \<Rightarrow> nat" where
  "work s = sum_list (map left (threads s))"

lemma thread_step_left: "thread_step create p e w c = Some (e', w', c') \<Longrightarrow> left c' < left c"
  by (cases c) (auto split: option.splits prod.splits outcome.splits if_splits)

lemma thread_step_None: "thread_step create p e w c = None \<longleftrightarrow> left c = 0"
  by (cases c) auto

lemma sum_list_update_less:
  "i < length xs \<Longrightarrow> (y::nat) < xs ! i \<Longrightarrow> sum_list (xs[i := y]) < sum_list xs"
  using elem_le_sum_list [of i xs] by (simp add: sum_list_update)

lemma move_cases:
  assumes "move create reqs i s = Some t"
  shows "i < length (threads s)" and "i < length reqs" and "length (threads t) = length (threads s)"
    and "thread_step create (reqs ! i) (captured_err s) (world s) (threads s ! i)
         = Some (captured_err t, world t, threads t ! i)"
    and "threads t = (threads s)[i := threads t ! i]"
  using assms by (auto simp: move_def split: if_splits)

lemma move_work: "move create reqs i s = Some t \<Longrightarrow> work t < work s"
  using move_cases [of create reqs i s t] thread_step_left
  by (metis length_map map_update nth_map sum_list_update_less work_def)

interpretation creates: machine_work "move create reqs" "\<lambda>s. True" work "\<lambda>i. 0"
  for create :: "policy_type_id \<Rightarrow> policy_type_schema \<Rightarrow> 'w \<Rightarrow> 'w \<times> go_error option outcome" and reqs
  by unfold_locales (simp_all add: move_work)

interpretation creates_len: machine_invariant "move create reqs" "\<lambda>s. length (threads s) = n"
  for create :: "policy_type_id \<Rightarrow> policy_type_schema \<Rightarrow> 'w \<Rightarrow> 'w \<times> go_error option outcome" and reqs n
  by unfold_locales (simp add: move_cases(3))

lemma stuck_iff:
  assumes "length (threads s) = length reqs"
  shows "stuck (move create reqs) s \<longleftrightarrow> (\<forall>c \<in> set (threads s). left c = 0)"
proof -
  have "move create reqs i s = None \<longleftrightarrow> (i < length (threads s) \<longrightarrow> left (threads s ! i) = 0)" for i
    using assms by (simp add: move_def thread_step_None)
  then show ?thesis
    by (simp add: stuck_def all_set_conv_all_nth)
qed

section \<open>A request that runs alone\<close>

text \<open>What the handler of \<open>Restful\<close> returns is what a thread answers when no other one moves.\<close>

fun answer_pc :: "Responder outcome \<Rightarrow> pc" where
  "answer_pc (Return (CreatePolicyTypeR c)) = Answered c"
| "answer_pc (Panic m) = Crashed m"
| "answer_pc _ = Start"

fun solo ::
    "(policy_type_id \<Rightarrow> policy_type_schema \<Rightarrow> 'w \<Rightarrow> 'w \<times> go_error option outcome) \<Rightarrow>
     CreatePolicyTypeParams \<Rightarrow> nat \<Rightarrow> go_error option \<times> 'w \<times> pc \<Rightarrow> go_error option \<times> 'w \<times> pc" where
  "solo create p 0 st = st"
| "solo create p (Suc n) (e, w, c) =
     (case thread_step create p e w c of None \<Rightarrow> (e, w, c) | Some st \<Rightarrow> solo create p n st)"

lemma solo_done: "left c = 0 \<Longrightarrow> solo create p n (e, w, c) = (e, w, c)"
  using thread_step_None [of create p e w c] by (cases n) auto

lemma solo_Suc: "solo create p (Suc n) (e, w, c) =
    (case thread_step create p e w c of None \<Rightarrow> (e, w, c) | Some st \<Rightarrow> solo create p n st)"
  by simp

lemma solo_handler:
  assumes "CreatePolicyType_handler create p w = (w', res)"
  shows "\<exists>e. solo create p 5 (err, w, Start) = (e, w', answer_pc res)"
proof -
  have five: "5 = Suc (Suc (Suc (Suc (Suc 0))))" by simp
  show ?thesis
  proof (cases "SchemaBody p")
    case None
    with assms show ?thesis by (auto simp: CreatePolicyType_handler_def five)
  next
    case (Some body)
    obtain w1 r where c: "create (TypeID p) body w = (w1, r)" by fastforce
    with assms Some show ?thesis
      by (cases r) (auto simp: CreatePolicyType_handler_def five split: if_splits)
  qed
qed

lemma solo_add: "solo create p (n + m) st = solo create p m (solo create p n st)"
proof (induction n arbitrary: st)
  case (Suc n)
  obtain e w c where st: "st = (e, w, c)" by (cases st)
  show ?case
  proof (cases "thread_step create p e w c")
    case None
    then have "left c = 0" by (simp add: thread_step_None)
    then show ?thesis by (simp add: st solo_done None)
  next
    case (Some st')
    then show ?thesis by (simp add: st Suc.IH)
  qed
qed simp

lemma solo_run:
  "steps (move create [p]) s is t \<Longrightarrow> length (threads s) = 1 \<Longrightarrow>
   length (threads t) = 1 \<and>
   solo create p (length is) (captured_err s, world s, threads s ! 0) = (captured_err t, world t, threads t ! 0)"
proof (induction rule: steps.induct)
  case (steps_Cons i s t es u)
  then have "i = 0" using move_cases(1) by fastforce
  with steps_Cons move_cases [OF steps_Cons.hyps(1)] show ?case by simp
qed simp

section \<open>What stays true under every schedule\<close>

text \<open>The registry may only gain what a request asked for, under its identifier.\<close>

definition grown :: "CreatePolicyTypeParams list \<Rightarrow> registry \<Rightarrow> registry \<Rightarrow> bool" where
  "grown reqs before after \<longleftrightarrow>
     before \<subseteq>\<^sub>m after \<and>
     (\<forall>j m. after j = Some m \<longrightarrow>
        before j = Some m \<or> (\<exists>p \<in> set reqs. TypeID p = j \<and> SchemaBody p = Some m))"

lemma grown_refl: "grown reqs r r"
  by (simp add: grown_def)

lemma grown_put:
  "grown reqs before r \<Longrightarrow> r i = None \<Longrightarrow> p \<in> set reqs \<Longrightarrow> TypeID p = i \<Longrightarrow> SchemaBody p = Some m \<Longrightarrow>
   grown reqs before (r(i \<mapsto> m))"
  by (auto simp: grown_def map_le_def dom_def)

definition reqs_ok :: "CreatePolicyTypeParams list \<Rightarrow> bool" where
  "reqs_ok reqs \<longleftrightarrow>
     list_all (\<lambda>p. case SchemaBody p of None \<Rightarrow> True | Some m \<Rightarrow> storable (TypeID p) m) reqs"

context type_registry
begin

lemma thread_step_safe:
  assumes "inv w" and "grown reqs r0 (reg w)" and "reqs_ok reqs" and "p \<in> set reqs"
    and "thread_step create p e w c = Some (e', w', c')"
  shows "inv w' \<and> grown reqs r0 (reg w')"
proof (cases "c = Start \<and> SchemaBody p \<noteq> None")
  case True
  then obtain m where m: "SchemaBody p = Some m" and c: "c = Start" by auto
  have "storable (TypeID p) m"
    using assms(3,4) m by (auto simp: reqs_ok_def list_all_iff)
  moreover obtain w1 res where call: "create (TypeID p) m w = (w1, res)" by fastforce
  ultimately have cases: "inv w1 \<and> (reg w1 = reg w \<or> reg w (TypeID p) = None \<and> reg w1 = (reg w)(TypeID p \<mapsto> m))"
    using create_cases [OF assms(1), of "TypeID p" m w1 res] by auto
  moreover have "w' = w1"
    using assms(5) m c call by (cases res) auto
  ultimately show ?thesis
    using assms(2,4) m grown_put [of reqs r0 "reg w" "TypeID p" p m] by auto
next
  case False
  then have "w' = w"
    using assms(5) by (cases c) (auto split: option.splits)
  with assms(1,2) show ?thesis by simp
qed

lemma race_safe:
  assumes "inv w" and "reqs_ok reqs" and "steps (move create reqs) (race_start reqs w) is s"
  shows "inv (world s) \<and> grown reqs (reg w) (reg (world s))"
proof -
  have "machine_invariant (move create reqs) (\<lambda>s. inv (world s) \<and> grown reqs (reg w) (reg (world s)))"
    by unfold_locales (metis move_cases(2,4) nth_mem thread_step_safe [OF _ _ assms(2)])
  from machine_invariant.invariant [OF this assms(3)] show ?thesis
    using assms(1) by (simp add: race_start_def grown_refl)
qed

end

section \<open>Two requests\<close>

definition req :: "string \<Rightarrow> CreatePolicyTypeParams" where
  "req name = sample_params\<lparr>SchemaBody := Some (sample_schema\<lparr>Name := Some name\<rparr>)\<rparr>"

definition two_reqs :: "CreatePolicyTypeParams list" where
  "two_reqs = [req ''first'', req ''second'']"

definition run_two :: "nat list \<Rightarrow> mem_world race option" where
  "run_two is = run (move (CreatePolicyType std_openapi mem_hook) two_reqs) is (race_start two_reqs empty_world)"

lemma two_reqs_ok: "reqs_ok two_reqs"
  by code_simp

text \<open>The storage after the first of the two requests, which both threads end with.\<close>

definition first_stored :: "((string \<times> string) \<times> string) list" where
  "first_stored = [((a1MediatorNs, type_key 20001), encode_schema (sample_schema\<lparr>Name := Some ''first''\<rparr>))]"

lemma both_created:
  "map_option (\<lambda>s. (threads s, cells (world s))) (run_two [0, 1, 1, 0, 0, 1]) =
     Some ([Answered CreatePolicyTypeCreated, Answered CreatePolicyTypeCreated], first_stored)"
  by code_simp

lemma both_rejected:
  "map_option (\<lambda>s. (threads s, cells (world s))) (run_two [0, 1, 0, 1, 0, 0, 1, 1]) =
     Some ([Answered CreatePolicyTypeBadRequest, Answered CreatePolicyTypeBadRequest], first_stored)"
  by code_simp

lemma run_two_reaches:
  "map_option (\<lambda>s. (threads s, cells (world s))) (run_two is) = Some (cs, ms) \<Longrightarrow>
   \<exists>s. steps (move (CreatePolicyType std_openapi mem_hook) two_reqs) (race_start two_reqs empty_world) is s \<and>
      threads s = cs \<and> cells (world s) = ms"
  by (auto simp: run_two_def steps_run)

section \<open>Properties\<close>




text \<open>
  Equivalence with the sequential handler. A request that runs alone ends in the answer, or
  the panic, and the state of the storage the handler of \<open>setupHandler\<close> gives for it.
\<close>

theorem alone_answers_as_handler:
  assumes "CreatePolicyType_handler create p w = (w', res)"
    and "steps (move create [p]) (race_start [p] w) is s" and "\<forall>c \<in> set (threads s). left c = 0"
  shows "world s = w' \<and> threads s = [answer_pc res]"
proof -
  have run: "length (threads s) = 1" "solo create p (length is) (None, w, Start) = (captured_err s, world s, threads s ! 0)"
    using solo_run [OF assms(2)] by (simp_all add: race_start_def)
  have "length is \<le> 5"
    using creates.bounded [OF assms(2) TrueI] by (simp add: work_def race_start_def)
  then obtain k where k: "5 = length is + k" using le_Suc_ex by blast
  have "left (threads s ! 0) = 0" using assms(3) run(1) by simp
  then have "solo create p 5 (None, w, Start) = (captured_err s, world s, threads s ! 0)"
    unfolding k solo_add run(2) by (rule solo_done)
  with solo_handler [OF assms(1), of None] have "world s = w'" "threads s ! 0 = answer_pc res" by auto
  moreover have "threads s = [threads s ! 0]" using run(1) by (cases "threads s") auto
  ultimately show ?thesis by metis
qed

theorem alone_answers_as_handler_witness:
  "\<exists>s. run (move (CreatePolicyType std_openapi mem_hook) [req ''first'']) [0, 0, 0] (race_start [req ''first''] empty_world) = Some s \<and>
     threads s = [answer_pc (snd (CreatePolicyType_handler (CreatePolicyType std_openapi mem_hook) (req ''first'') empty_world))]"
proof -
  let ?run = "run (move (CreatePolicyType std_openapi mem_hook) [req ''first'']) [0, 0, 0] (race_start [req ''first''] empty_world)"
  have "map_option threads ?run = Some [Answered CreatePolicyTypeCreated]" by code_simp
  then obtain s where s: "?run = Some s" "threads s = [Answered CreatePolicyTypeCreated]" by auto
  have "\<forall>c \<in> set (threads s). left c = 0" using s(2) by simp
  from alone_answers_as_handler [OF prod.collapse [symmetric] s(1) [unfolded steps_run [symmetric]] this] s(1)
  show ?thesis by simp
qed

text \<open>
  Termination. Every schedule of any number of requests ends after at most five steps per
  request, and where no thread can move every request has been answered or has panicked: no
  request waits for another one.
\<close>

theorem every_request_is_answered:
  assumes "steps (move create reqs) (race_start reqs w) is s"
  shows "length is \<le> 5 * length reqs \<and>
    (stuck (move create reqs) s \<longleftrightarrow>
       (\<forall>c \<in> set (threads s). (\<exists>a. c = Answered a) \<or> (\<exists>m. c = Crashed m)))"
proof -
  have "left c = 0 \<longleftrightarrow> (\<exists>a. c = Answered a) \<or> (\<exists>m. c = Crashed m)" for c by (cases c) auto
  moreover have "length (threads s) = length reqs"
    using creates_len.invariant [OF assms] by (simp add: race_start_def)
  ultimately show ?thesis
    using creates.bounded [OF assms TrueI] stuck_iff [of s reqs create]
    by (simp add: work_def race_start_def sum_list_replicate)
qed

theorem every_request_is_answered_witness:
  "\<exists>s. run_two [0, 1, 1, 0, 0, 1] = Some s \<and>
     stuck (move (CreatePolicyType std_openapi mem_hook) two_reqs) s"
proof -
  obtain s where s: "run_two [0, 1, 1, 0, 0, 1] = Some s" and
    over: "threads s = [Answered CreatePolicyTypeCreated, Answered CreatePolicyTypeCreated]"
    using both_created by auto
  from every_request_is_answered [OF s [unfolded run_two_def steps_run [symmetric]]] over s
  show ?thesis by simp
qed

end
