(* ===== verification/Mediator.thy ===== *)
theory Mediator
  imports Restful
begin

text \<open>
  The API of the mediator as a whole: the API object \<open>setupHandler\<close> makes, brought into service
  either by \<open>Server.Serve\<close>, which calls \<open>Serve\<close> of the API (the way \<open>Run\<close> goes), or by
  \<open>configureAPI\<close>. Its routes, and what any request on any route does to the registry.
\<close>

section \<open>The routes of the mediator\<close>

text \<open>The API of \<open>api/swagger.yaml\<close> as the mediator implements it: three operations of eleven.\<close>

definition mediator_table ::
    "openapi \<Rightarrow> mw_context \<Rightarrow> 'w Resthook \<Rightarrow> ((string \<times> string) \<times> 'w http_handler) list" where
  "mediator_table lib ctx rh =
     [((''GET'', ''/a1-p/policytypes/{policy_type_id}''), serve_get lib ctx rh),
      ((''GET'', ''/a1-p/policytypes/{policy_type_id}/policies/{policy_instance_id}/status''), GetPolicyInstanceStatus_ServeHTTP lib ctx (Some (not_implemented ''a1_mediator.A1ControllerGetPolicyInstanceStatus''))),
      ((''GET'', ''/a1-p/policytypes/{policy_type_id}/policies/{policy_instance_id}''), GetPolicyInstance_ServeHTTP lib ctx (Some (not_implemented ''a1_mediator.A1ControllerGetPolicyInstance''))),
      ((''GET'', ''/a1-p/healthcheck''), GetHealthcheck_ServeHTTP lib ctx (Some (not_implemented ''a1_mediator.A1ControllerGetHealthcheck''))),
      ((''GET'', ''/a1-p/policytypes''), serve_list lib ctx rh),
      ((''GET'', ''/a1-p/policytypes/{policy_type_id}/policies''), GetAllInstancesForType_ServeHTTP lib ctx (Some (not_implemented ''a1_mediator.A1ControllerGetAllInstancesForType''))),
      ((''DELETE'', ''/a1-p/policytypes/{policy_type_id}''), DeletePolicyType_ServeHTTP lib ctx (Some (not_implemented ''a1_mediator.A1ControllerDeletePolicyType''))),
      ((''DELETE'', ''/a1-p/policytypes/{policy_type_id}/policies/{policy_instance_id}''), DeletePolicyInstance_ServeHTTP lib ctx (Some (not_implemented ''a1_mediator.A1ControllerDeletePolicyInstance''))),
      ((''POST'', ''/data-delivery''), DataDelivery_ServeHTTP lib ctx (Some (not_implemented ''a1_e_i_data_delivery.A1ControllerDataDelivery''))),
      ((''PUT'', ''/a1-p/policytypes/{policy_type_id}''), serve_put lib ctx rh),
      ((''PUT'', ''/a1-p/policytypes/{policy_type_id}/policies/{policy_instance_id}''), CreateOrReplacePolicyInstance_ServeHTTP lib ctx (Some (not_implemented ''a1_mediator.A1ControllerCreateOrReplacePolicyInstance'')))]"

lemma NewA1API_simps:
  "handlers (NewA1API rt swagger) = Some []" "api_context (NewA1API rt swagger) = None" "spec (NewA1API rt swagger) = swagger"
  "CreateOrReplacePolicyInstanceHandler (NewA1API rt swagger) = Some (not_implemented ''a1_mediator.A1ControllerCreateOrReplacePolicyInstance'')"
  "CreatePolicyTypeHandler (NewA1API rt swagger) = Some (not_implemented ''a1_mediator.A1ControllerCreatePolicyType'')"
  "DataDeliveryHandler (NewA1API rt swagger) = Some (not_implemented ''a1_e_i_data_delivery.A1ControllerDataDelivery'')"
  "DeletePolicyInstanceHandler (NewA1API rt swagger) = Some (not_implemented ''a1_mediator.A1ControllerDeletePolicyInstance'')"
  "DeletePolicyTypeHandler (NewA1API rt swagger) = Some (not_implemented ''a1_mediator.A1ControllerDeletePolicyType'')"
  "GetAllInstancesForTypeHandler (NewA1API rt swagger) = Some (not_implemented ''a1_mediator.A1ControllerGetAllInstancesForType'')"
  "GetAllPolicyTypesHandler (NewA1API rt swagger) = Some (not_implemented ''a1_mediator.A1ControllerGetAllPolicyTypes'')"
  "GetHealthcheckHandler (NewA1API rt swagger) = Some (not_implemented ''a1_mediator.A1ControllerGetHealthcheck'')"
  "GetPolicyInstanceHandler (NewA1API rt swagger) = Some (not_implemented ''a1_mediator.A1ControllerGetPolicyInstance'')"
  "GetPolicyInstanceStatusHandler (NewA1API rt swagger) = Some (not_implemented ''a1_mediator.A1ControllerGetPolicyInstanceStatus'')"
  "GetPolicyTypeHandler (NewA1API rt swagger) = Some (not_implemented ''a1_mediator.A1ControllerGetPolicyType'')"
  by (simp_all add: NewA1API_def)

lemma setupHandler_handlers:
  assumes "setupHandler lib rt rh (Some swagger) = Some api"
  shows "handlers api = Some []" and "api_context api = None" and "spec api = swagger"
    and "CreateOrReplacePolicyInstanceHandler api = Some (not_implemented ''a1_mediator.A1ControllerCreateOrReplacePolicyInstance'')"
    and "CreatePolicyTypeHandler api = Some (CreatePolicyType_handler (CreatePolicyType lib rh))"
    and "DataDeliveryHandler api = Some (not_implemented ''a1_e_i_data_delivery.A1ControllerDataDelivery'')"
    and "DeletePolicyInstanceHandler api = Some (not_implemented ''a1_mediator.A1ControllerDeletePolicyInstance'')"
    and "DeletePolicyTypeHandler api = Some (not_implemented ''a1_mediator.A1ControllerDeletePolicyType'')"
    and "GetAllInstancesForTypeHandler api = Some (not_implemented ''a1_mediator.A1ControllerGetAllInstancesForType'')"
    and "GetAllPolicyTypesHandler api = Some (GetAllPolicyTypes_handler (GetAllPolicyType rh))"
    and "GetHealthcheckHandler api = Some (not_implemented ''a1_mediator.A1ControllerGetHealthcheck'')"
    and "GetPolicyInstanceHandler api = Some (not_implemented ''a1_mediator.A1ControllerGetPolicyInstance'')"
    and "GetPolicyInstanceStatusHandler api = Some (not_implemented ''a1_mediator.A1ControllerGetPolicyInstanceStatus'')"
    and "GetPolicyTypeHandler api = Some (GetPolicyType_handler (GetPolicyType rh))"
proof -
  have api: "api = NewA1API rt swagger
      \<lparr>GetAllPolicyTypesHandler := Some (GetAllPolicyTypes_handler (GetAllPolicyType rh)),
       CreatePolicyTypeHandler := Some (CreatePolicyType_handler (CreatePolicyType lib rh)),
       GetPolicyTypeHandler := Some (GetPolicyType_handler (GetPolicyType rh))\<rparr>"
    using assms by (simp add: setupHandler_def Let_def)
  show "handlers api = Some []" and "api_context api = None" and "spec api = swagger"
    and "CreateOrReplacePolicyInstanceHandler api = Some (not_implemented ''a1_mediator.A1ControllerCreateOrReplacePolicyInstance'')"
    and "CreatePolicyTypeHandler api = Some (CreatePolicyType_handler (CreatePolicyType lib rh))"
    and "DataDeliveryHandler api = Some (not_implemented ''a1_e_i_data_delivery.A1ControllerDataDelivery'')"
    and "DeletePolicyInstanceHandler api = Some (not_implemented ''a1_mediator.A1ControllerDeletePolicyInstance'')"
    and "DeletePolicyTypeHandler api = Some (not_implemented ''a1_mediator.A1ControllerDeletePolicyType'')"
    and "GetAllInstancesForTypeHandler api = Some (not_implemented ''a1_mediator.A1ControllerGetAllInstancesForType'')"
    and "GetAllPolicyTypesHandler api = Some (GetAllPolicyTypes_handler (GetAllPolicyType rh))"
    and "GetHealthcheckHandler api = Some (not_implemented ''a1_mediator.A1ControllerGetHealthcheck'')"
    and "GetPolicyInstanceHandler api = Some (not_implemented ''a1_mediator.A1ControllerGetPolicyInstance'')"
    and "GetPolicyInstanceStatusHandler api = Some (not_implemented ''a1_mediator.A1ControllerGetPolicyInstanceStatus'')"
    and "GetPolicyTypeHandler api = Some (GetPolicyType_handler (GetPolicyType rh))"
    by (simp_all add: api NewA1API_simps)
qed

lemma setupHandler_simps:
  assumes "setupHandler lib rt rh (Some swagger) = Some api"
  shows "fresh_cache api" and "context_of rt api = NewRoutableContext rt swagger"
    and "route_table lib ctx api = mediator_table lib ctx rh"
    and "route_table lib ctx (configure_handlers rt api) = mediator_table lib ctx rh"
proof -
  show "fresh_cache api" and "context_of rt api = NewRoutableContext rt swagger"
    by (simp_all add: fresh_cache_def context_of_def setupHandler_handlers [OF assms])
  show "route_table lib ctx api = mediator_table lib ctx rh"
    and "route_table lib ctx (configure_handlers rt api) = mediator_table lib ctx rh"
    unfolding route_table_def mediator_table_def serve_put_def serve_get_def serve_list_def
      configure_handlers_simps setupHandler_handlers [OF assms] or_default_simps by (rule refl)+
qed

text \<open>The two ways into service fill the cache with the same routes.\<close>

lemma mediator_handler:
  assumes "setupHandler lib rt rh (Some swagger) = Some api"
  shows "HandlerFor (fst (Serve lib rt builder api)) method path
       = map_of (mediator_table lib (NewRoutableContext rt swagger) rh) (ToUpper method, path)"
    and "HandlerFor (fst (configureAPI lib rt api)) method path
       = map_of (mediator_table lib (NewRoutableContext rt swagger) rh) (ToUpper method, path)"
    and "\<exists>h. snd (Serve lib rt builder api) = Return h"
proof -
  note api = setupHandler_simps [OF assms]
  have ok: "cache_ok api" using api(1) by (simp add: cache_ok_def)
  have "context_of rt (configure_handlers rt api) = NewRoutableContext rt swagger"
    using api(2) by (cases "api_context api") (simp_all add: context_of_def)
  then show "HandlerFor (fst (configureAPI lib rt api)) method path
       = map_of (mediator_table lib (NewRoutableContext rt swagger) rh) (ToUpper method, path)"
    using handler_cache_is_route_table_eq [of "configure_handlers rt api" lib rt "method" "path"] api(1,4)
      configureAPI_Init [OF ok, of lib rt] by simp
  show "HandlerFor (fst (Serve lib rt builder api)) method path
       = map_of (mediator_table lib (NewRoutableContext rt swagger) rh) (ToUpper method, path)"
    using handler_cache_is_route_table_eq [OF api(1), of lib rt "method" "path"] api(2,3)
      Serve_Init [OF ok, of lib rt builder] by simp
  show "\<exists>h. snd (Serve lib rt builder api) = Return h"
    using Serve_Init [OF ok, of lib rt builder] by simp
qed

context operation
begin

lemma keeps:
  "(\<And>p. P (fst (f p w))) \<Longrightarrow> P w \<Longrightarrow> P (fst (serve ctx (Some f) r rw w))"
  by (simp add: state_after split: prod.split option.split)

lemma not_implemented_keeps: "fst (serve ctx (Some (not_implemented name)) r rw w) = w"
  by (rule keeps) (simp_all add: not_implemented_def)

end

lemmas unimplemented_keep =
  o_CreateOrReplacePolicyInstance.not_implemented_keeps
  o_DataDelivery.not_implemented_keeps
  o_DeletePolicyInstance.not_implemented_keeps
  o_DeletePolicyType.not_implemented_keeps
  o_GetAllInstancesForType.not_implemented_keeps
  o_GetHealthcheck.not_implemented_keeps
  o_GetPolicyInstance.not_implemented_keeps
  o_GetPolicyInstanceStatus.not_implemented_keeps

definition sample_mediator :: "mem_world A1API" where
  "sample_mediator = the (setupHandler std_openapi sample_rt mem_hook (Some ''{}''))"

lemma sample_rt_context: "NewRoutableContext sample_rt swagger = sample_ctx"
  by (simp add: sample_rt_def)

lemma sample_mediator_set: "setupHandler std_openapi sample_rt mem_hook (Some ''{}'') = Some sample_mediator"
  by (simp add: sample_mediator_def setupHandler_def Let_def)

section \<open>Properties\<close>

text \<open>
  C33. The routes of the mediator. Serving the API never panics and answers the eleven routes of
  the specification, the method in any case, and nothing else; PUT and GET of a policy type and
  the listing lead to the hooks, and the eight other operations are not implemented.
  \<open>configureAPI\<close> leads to the same routes.
\<close>

theorem mediator_routes:
  assumes "setupHandler lib rt rh (Some swagger) = Some api"
  shows "(\<exists>h. snd (Serve lib rt builder api) = Return h) \<and>
    HandlerFor (fst (Serve lib rt builder api)) method path
      = map_of (mediator_table lib (NewRoutableContext rt swagger) rh) (ToUpper method, path) \<and>
    HandlerFor (fst (configureAPI lib rt api)) method path
      = HandlerFor (fst (Serve lib rt builder api)) method path"
  using mediator_handler [OF assms] by simp

theorem mediator_routes_witness:
  "HandlerFor (fst (Serve std_openapi sample_rt None sample_mediator)) ''put'' ''/a1-p/policytypes/{policy_type_id}''
   = Some (serve_put std_openapi sample_ctx mem_hook)"
proof -
  have "ToUpper ''put'' = ''PUT''" by code_simp
  then show ?thesis
    using mediator_routes [OF sample_mediator_set, of None "''put''" "''/a1-p/policytypes/{policy_type_id}''"]
    by (simp add: mediator_table_def sample_rt_context)
qed

text \<open>
  C4. Safety of the whole API. Whatever request arrives on whatever route, other than a PUT of a
  policy type, the registered policy types stay what they are and the invariant of the storage
  is kept: malformed requests, failures of the storage and the operations that are not
  implemented included.
\<close>

theorem only_put_changes_registry:
  assumes "hooks lib rh view" and "store_ok (view w)"
    and "setupHandler lib rt rh (Some swagger) = Some api"
    and "HandlerFor (fst (Serve lib rt builder api)) method path = Some h"
    and "(ToUpper method, path) \<noteq> (''PUT'', ''/a1-p/policytypes/{policy_type_id}'')"
  shows "registry (view (fst (h r rw w))) = registry (view w) \<and> store_ok (view (fst (h r rw w)))"
proof -
  let ?ctx = "NewRoutableContext rt swagger"
  let ?P = "\<lambda>w'. registry (view w') = registry (view w) \<and> store_ok (view w')"
  note laws = hooks.registry_laws [OF assms(1)]
  have fetch: "?P (fst (GetPolicyType_handler (GetPolicyType rh) p w))" for p
    using type_registry.fetch_answer [OF laws assms(2), of p] by (metis prod.collapse)
  have all: "?P (fst (GetAllPolicyTypes_handler (GetAllPolicyType rh) p w))" for p
    using type_registry.all_answer [OF laws assms(2), of p] by (metis prod.collapse)
  have get: "?P (fst (serve_get lib ?ctx rh r rw w))"
    unfolding serve_get_def by (rule o_GetPolicyType.keeps [where P = ?P]) (use fetch assms(2) in auto)
  have list: "?P (fst (serve_list lib ?ctx rh r rw w))"
    unfolding serve_list_def by (rule o_GetAllPolicyTypes.keeps [where P = ?P]) (use all assms(2) in auto)
  have "map_of (mediator_table lib ?ctx rh) (ToUpper method, path) = Some h"
    using mediator_handler(1) [OF assms(3)] assms(4) by metis
  then have "((ToUpper method, path), h) \<in> set (mediator_table lib ?ctx rh)"
    by (rule map_of_SomeD)
  moreover have "\<forall>e \<in> set (mediator_table lib ?ctx rh). fst e \<noteq> (''PUT'', ''/a1-p/policytypes/{policy_type_id}'') \<longrightarrow>
      snd e = serve_get lib ?ctx rh \<or> snd e = serve_list lib ?ctx rh \<or> fst (snd e r rw w) = w"
    unfolding mediator_table_def by (simp add: unimplemented_keep)
  ultimately have "h = serve_get lib ?ctx rh \<or> h = serve_list lib ?ctx rh \<or> fst (h r rw w) = w"
    using assms(5) by (metis fst_conv snd_conv)
  then show ?thesis using get list assms(2) by auto
qed

theorem only_put_changes_registry_witness:
  "\<exists>h. HandlerFor (fst (Serve std_openapi sample_rt None sample_mediator))
         ''DELETE'' ''/a1-p/policytypes/{policy_type_id}'' = Some h \<and>
     registry (mem_view (fst (h sample_get fresh_rw put_world))) = registry (mem_view put_world)"
proof -
  have up: "ToUpper ''DELETE'' = ''DELETE''" by code_simp
  then obtain h where h: "HandlerFor (fst (Serve std_openapi sample_rt None sample_mediator))
      ''DELETE'' ''/a1-p/policytypes/{policy_type_id}'' = Some h"
    using mediator_handler(1) [OF sample_mediator_set, of None "''DELETE''" "''/a1-p/policytypes/{policy_type_id}''"]
    by (simp add: mediator_table_def)
  from only_put_changes_registry [OF mem_hooks_ok sample_put_ok sample_mediator_set h] up h show ?thesis by auto
qed

end
