(* ===== verification/Server.thy ===== *)
theory Server
  imports A1Api
begin

text \<open>
  \<open>restapi/server.go\<close>, first part: the server's data, its construction and configuration, and
  \<open>Listen\<close> with the accessors of the listeners. The operating system (sockets, files), the
  parsing of host and port by go-openapi's \<open>swag\<close>, and the certificates of \<open>crypto/tls\<close> are a
  record of functions on a state \<open>'n\<close> of the system; the locale \<open>socket_laws\<close> states what
  \<open>Listen\<close> relies on. Logging is left out, except that \<open>Fatalf\<close> ends the process.
\<close>

section \<open>Data\<close>

type_synonym duration = int64

text \<open>The part of a \<open>tls.Config\<close> the server sets or reads.\<close>

record tls_config =
  PreferServerCipherSuites :: bool
  CurvePreferences :: "string list"
  NextProtos :: "string list"
  MinVersion :: string
  CipherSuites :: "string list"
  Certificates :: "string list"
  GetCertificate :: "(string \<Rightarrow> string) option"
  ClientCAs :: "string option"
  ClientAuth :: string

text \<open>
  A \<open>net.Listener\<close>: a socket with its address, or one of the two wrappers the server puts around
  a listener that may be \<open>nil\<close>.
\<close>

datatype listener =
    Socket string string
  | LimitListener "listener option" int64
  | TLSListener "listener option" tls_config

fun Addr :: "listener option \<Rightarrow> string outcome" where
  "Addr None = Panic nil_deref"
| "Addr (Some (Socket network addr)) = Return addr"
| "Addr (Some (LimitListener l n)) = Addr l"
| "Addr (Some (TLSListener l cfg)) = Addr l"

text \<open>
  The fields shutting down works on: whether the channel \<open>shutdown\<close> is closed, the flag, and the
  signals waiting in the channel \<open>interrupt\<close>, which has room for one.
\<close>

record lifecycle =
  shutdown_closed :: bool
  shuttingDown :: "32 word"
  interrupted :: bool
  interrupt :: nat

record 'w Server =
  EnabledListeners :: "string list"
  CleanupTimeout :: duration
  GracefulTimeout :: duration
  MaxHeaderSize :: int64
  SocketPath :: string
  domainSocketL :: "listener option"
  Host :: string
  Port :: int64
  ListenLimit :: int64
  KeepAlive :: duration
  ReadTimeout :: duration
  WriteTimeout :: duration
  httpServerL :: "listener option"
  TLSHost :: string
  TLSPort :: int64
  TLSCertificate :: string
  TLSCertificateKey :: string
  TLSCACertificate :: string
  TLSListenLimit :: int64
  TLSKeepAlive :: duration
  TLSReadTimeout :: duration
  TLSWriteTimeout :: duration
  httpsServerL :: "listener option"
  srv_api :: "'w A1API option"
  srv_handler :: "'w http_handler option"
  hasListeners :: bool
  life :: lifecycle

definition schemeHTTP :: string where
  "schemeHTTP = ''http''"

definition schemeHTTPS :: string where
  "schemeHTTPS = ''https''"

definition schemeUnix :: string where
  "schemeUnix = ''unix''"

definition defaultSchemes :: "string list" where
  "defaultSchemes = [schemeHTTP]"

section \<open>Construction and configuration\<close>

definition new_lifecycle :: lifecycle where
  "new_lifecycle = \<lparr>shutdown_closed = False, shuttingDown = 0, interrupted = False, interrupt = 0\<rparr>"

text \<open>Every field \<open>NewServer\<close> does not set has Go's zero value.\<close>

definition NewServer :: "'w A1API option \<Rightarrow> 'w Server" where
  "NewServer api =
     \<lparr>EnabledListeners = [], CleanupTimeout = 0, GracefulTimeout = 0, MaxHeaderSize = 0,
      SocketPath = [], domainSocketL = None,
      Host = [], Port = 0, ListenLimit = 0, KeepAlive = 0, ReadTimeout = 0, WriteTimeout = 0, httpServerL = None,
      TLSHost = [], TLSPort = 0, TLSCertificate = [], TLSCertificateKey = [], TLSCACertificate = [],
      TLSListenLimit = 0, TLSKeepAlive = 0, TLSReadTimeout = 0, TLSWriteTimeout = 0, httpsServerL = None,
      srv_api = api, srv_handler = None, hasListeners = False,
      life = new_lifecycle\<rparr>"

definition install ::
    "openapi \<Rightarrow> 'w openapi_runtime \<Rightarrow> 'w A1API \<Rightarrow> 'w Server \<Rightarrow> 'w Server \<times> unit outcome" where
  "install lib rt api s =
     (case configureAPI lib rt api of
        (api', Panic m) \<Rightarrow> (s\<lparr>srv_api := Some api'\<rparr>, Panic m)
      | (api', Return h) \<Rightarrow> (s\<lparr>srv_api := Some api', srv_handler := Some h\<rparr>, Return ()))"

definition ConfigureAPI :: "openapi \<Rightarrow> 'w openapi_runtime \<Rightarrow> 'w Server \<Rightarrow> 'w Server \<times> unit outcome" where
  "ConfigureAPI lib rt s =
     (case srv_api s of None \<Rightarrow> (s, Return ()) | Some api \<Rightarrow> install lib rt api s)"

definition SetAPI ::
    "openapi \<Rightarrow> 'w openapi_runtime \<Rightarrow> 'w A1API option \<Rightarrow> 'w Server \<Rightarrow> 'w Server \<times> unit outcome" where
  "SetAPI lib rt api s =
     (case api of
        None \<Rightarrow> (s\<lparr>srv_api := None, srv_handler := None\<rparr>, Return ())
      | Some api \<Rightarrow> install lib rt api (s\<lparr>srv_api := Some api\<rparr>))"

definition configureFlags :: "'w A1API \<Rightarrow> 'w A1API" where
  "configureFlags api = api"

definition ConfigureFlags :: "'w Server \<Rightarrow> 'w Server" where
  "ConfigureFlags s = (case srv_api s of None \<Rightarrow> s | Some api \<Rightarrow> s\<lparr>srv_api := Some (configureFlags api)\<rparr>)"

definition GetHandler :: "'w Server \<Rightarrow> 'w http_handler option" where
  "GetHandler s = srv_handler s"

definition SetHandler :: "'w http_handler option \<Rightarrow> 'w Server \<Rightarrow> 'w Server" where
  "SetHandler h s = s\<lparr>srv_handler := h\<rparr>"

definition hasScheme :: "'w Server \<Rightarrow> string \<Rightarrow> bool" where
  "hasScheme s scheme =
     (let schemes = (if length (EnabledListeners s) = 0 then defaultSchemes else EnabledListeners s)
      in list_ex (\<lambda>v. v = scheme) schemes)"

section \<open>Listening\<close>

record 'n os =
  NetListen :: "string \<Rightarrow> string \<Rightarrow> 'n \<Rightarrow> 'n \<times> (go_error + string)"
  SplitHostPort :: "string \<Rightarrow> go_error + (string \<times> int64)"
  LoadX509KeyPair :: "string \<Rightarrow> string \<Rightarrow> 'n \<Rightarrow> go_error + string"
  ReadFile :: "string \<Rightarrow> 'n \<Rightarrow> go_error + string"
  AppendCertsFromPEM :: "string \<Rightarrow> string option"

text \<open>\<open>net.JoinHostPort\<close>: a host with a colon is put in brackets.\<close>

definition JoinHostPort :: "string \<Rightarrow> string \<Rightarrow> string" where
  "JoinHostPort host port =
     (if CHR '':'' \<in> set host then ''['' @ host @ '']:'' @ port else host @ '':'' @ port)"

text \<open>What is set for HTTP is the default for HTTPS.\<close>

definition tls_defaults :: "'w Server \<Rightarrow> 'w Server" where
  "tls_defaults s0 =
     (if hasScheme s0 schemeHTTPS then
        (let s = s0;
             s = (if TLSHost s = [] then s\<lparr>TLSHost := Host s\<rparr> else s);
             s = (if TLSListenLimit s = 0 then s\<lparr>TLSListenLimit := ListenLimit s\<rparr> else s);
             s = (if TLSKeepAlive s = 0 then s\<lparr>TLSKeepAlive := KeepAlive s\<rparr> else s);
             s = (if TLSReadTimeout s = 0 then s\<lparr>TLSReadTimeout := ReadTimeout s\<rparr> else s);
             s = (if TLSWriteTimeout s = 0 then s\<lparr>TLSWriteTimeout := WriteTimeout s\<rparr> else s)
         in s)
      else s0)"

type_synonym ('n, 'w) listen_result = "'n \<times> 'w Server \<times> go_error option"

definition listen_unix :: "'n os \<Rightarrow> 'w Server \<Rightarrow> 'n \<Rightarrow> ('n, 'w) listen_result" where
  "listen_unix os s n =
     (if hasScheme s schemeUnix then
        (case NetListen os ''unix'' (SocketPath s) n of
           (n', Inl err) \<Rightarrow> (n', s, Some err)
         | (n', Inr addr) \<Rightarrow> (n', s\<lparr>domainSocketL := Some (Socket ''unix'' addr)\<rparr>, None))
      else (n, s, None))"

definition listen_http :: "'n os \<Rightarrow> 'w Server \<Rightarrow> 'n \<Rightarrow> ('n, 'w) listen_result" where
  "listen_http os s n =
     (if hasScheme s schemeHTTP then
        (case NetListen os ''tcp'' (JoinHostPort (Host s) (FormatInt (Port s))) n of
           (n', Inl err) \<Rightarrow> (n', s, Some err)
         | (n', Inr addr) \<Rightarrow>
             (case SplitHostPort os addr of
                Inl err \<Rightarrow> (n', s, Some err)
              | Inr (h, p) \<Rightarrow> (n', s\<lparr>Host := h, Port := p, httpServerL := Some (Socket ''tcp'' addr)\<rparr>, None)))
      else (n, s, None))"

definition listen_https :: "'n os \<Rightarrow> 'w Server \<Rightarrow> 'n \<Rightarrow> ('n, 'w) listen_result" where
  "listen_https os s n =
     (if hasScheme s schemeHTTPS then
        (case NetListen os ''tcp'' (JoinHostPort (TLSHost s) (FormatInt (TLSPort s))) n of
           (n', Inl err) \<Rightarrow> (n', s, Some err)
         | (n', Inr addr) \<Rightarrow>
             (case SplitHostPort os addr of
                Inl err \<Rightarrow> (n', s, Some err)
              | Inr (h, p) \<Rightarrow> (n', s\<lparr>TLSHost := h, TLSPort := p, httpsServerL := Some (Socket ''tcp'' addr)\<rparr>, None)))
      else (n, s, None))"

text \<open>\<open>if err != nil { return err }\<close> between two parts.\<close>

fun and_then :: "('n, 'w) listen_result \<Rightarrow> ('w Server \<Rightarrow> 'n \<Rightarrow> ('n, 'w) listen_result) \<Rightarrow> ('n, 'w) listen_result" where
  "and_then (n, s, Some err) f = (n, s, Some err)"
| "and_then (n, s, None) f = f s n"

definition Listen :: "'n os \<Rightarrow> 'w Server \<Rightarrow> 'n \<Rightarrow> ('n, 'w) listen_result" where
  "Listen os s n =
     (if hasListeners s then (n, s, None)
      else and_then (and_then (and_then (listen_unix os (tls_defaults s) n) (listen_http os)) (listen_https os))
             (\<lambda>s n. (n, s\<lparr>hasListeners := True\<rparr>, None)))"

definition listener_of ::
    "('w Server \<Rightarrow> listener option) \<Rightarrow> 'n os \<Rightarrow> 'w Server \<Rightarrow> 'n \<Rightarrow>
     'n \<times> 'w Server \<times> (go_error + listener option)" where
  "listener_of field os s n =
     (if hasListeners s then (n, s, Inr (field s))
      else case Listen os s n of
             (n', s', Some err) \<Rightarrow> (n', s', Inl err)
           | (n', s', None) \<Rightarrow> (n', s', Inr (field s')))"

definition UnixListener :: "'n os \<Rightarrow> 'w Server \<Rightarrow> 'n \<Rightarrow> 'n \<times> 'w Server \<times> (go_error + listener option)" where
  "UnixListener = listener_of domainSocketL"

definition HTTPListener :: "'n os \<Rightarrow> 'w Server \<Rightarrow> 'n \<Rightarrow> 'n \<times> 'w Server \<times> (go_error + listener option)" where
  "HTTPListener = listener_of httpServerL"

definition TLSListener_of :: "'n os \<Rightarrow> 'w Server \<Rightarrow> 'n \<Rightarrow> 'n \<times> 'w Server \<times> (go_error + listener option)" where
  "TLSListener_of = listener_of httpsServerL"

section \<open>What is relied on of the system\<close>

text \<open>
  \<open>opened\<close> is the set of the addresses the process listens on. Listening succeeds only on an
  address that is free and adds the one it reports; \<open>Addr\<close> of a unix socket is its path, that of
  a TCP socket splits into a host and a port that join to it again.
\<close>

locale socket_laws =
  fixes os :: "'n os" and opened :: "'n \<Rightarrow> (string \<times> string) set"
  assumes listen_new: "NetListen os nw a n = (n', Inr addr) \<Longrightarrow>
        (nw, addr) \<notin> opened n \<and> opened n' = insert (nw, addr) (opened n)"
    and listen_err: "NetListen os nw a n = (n', Inl e) \<Longrightarrow> opened n' = opened n"
    and in_use: "(nw, a) \<in> opened n \<Longrightarrow> a \<noteq> [] \<Longrightarrow> \<exists>n' e. NetListen os nw a n = (n', Inl e)"
    and unix_addr: "NetListen os ''unix'' a n = (n', Inr addr) \<Longrightarrow> a \<noteq> [] \<Longrightarrow> addr = a"
    and tcp_addr: "NetListen os ''tcp'' a n = (n', Inr addr) \<Longrightarrow>
        \<exists>h p. SplitHostPort os addr = Inr (h, p) \<and> JoinHostPort h (FormatInt p) = addr"

text \<open>
  The contract of the three parts of \<open>Listen\<close>: a part does nothing unless its scheme is enabled;
  then it opens the socket it records, or fails without a trace; and it fails if the address it
  asks for (\<open>target\<close>) is taken.
\<close>

locale listen_part = socket_laws os opened
  for os :: "'n os" and opened :: "'n \<Rightarrow> (string \<times> string) set" +
  fixes part :: "'w Server \<Rightarrow> 'n \<Rightarrow> ('n, 'w) listen_result"
    and scheme network :: string
    and target :: "'w Server \<Rightarrow> string"
    and field :: "'w Server \<Rightarrow> listener option"
  assumes off: "\<not> hasScheme s scheme \<Longrightarrow> part s n = (n, s, None)"
    and on: "hasScheme s scheme \<Longrightarrow> target s \<noteq> [] \<Longrightarrow> part s n = (n', s', None) \<Longrightarrow>
        field s' = Some (Socket network (target s')) \<and> (network, target s') \<notin> opened n \<and>
        opened n' = insert (network, target s') (opened n)"
    and failed: "part s n = (n', s', Some e) \<Longrightarrow> hasScheme s scheme \<and> s' = s \<and> opened n' = opened n"
    and busy: "hasScheme s scheme \<Longrightarrow> (network, target s) \<in> opened n \<Longrightarrow> target s \<noteq> [] \<Longrightarrow>
        \<exists>n' e. part s n = (n', s, Some e)"
begin

lemma grows: "part s n = (n', s', r) \<Longrightarrow> target s \<noteq> [] \<Longrightarrow> opened n \<subseteq> opened n'"
proof (cases r)
  case None
  assume "part s n = (n', s', r)" and "target s \<noteq> []"
  with None show ?thesis
    using off [of s n] on [of s n n' s'] by (cases "hasScheme s scheme") (simp_all add: subset_insertI)
next
  case (Some e)
  assume "part s n = (n', s', r)"
  with Some show ?thesis using failed [of s n n' s' e] by simp
qed

end

definition http_target :: "'w Server \<Rightarrow> string" where
  "http_target s = JoinHostPort (Host s) (FormatInt (Port s))"

definition https_target :: "'w Server \<Rightarrow> string" where
  "https_target s = JoinHostPort (TLSHost s) (FormatInt (TLSPort s))"

lemma targets_not_empty [simp]: "http_target s \<noteq> []" "https_target s \<noteq> []"
  by (simp_all add: http_target_def https_target_def JoinHostPort_def)

lemma hasScheme_cong: "EnabledListeners s' = EnabledListeners s \<Longrightarrow> hasScheme s' = hasScheme s"
  by (simp add: hasScheme_def fun_eq_iff)

text \<open>What a part may change of the server.\<close>

lemma listen_unix_server:
  "listen_unix os s n = (n', s', r) \<Longrightarrow> s' = s\<lparr>domainSocketL := domainSocketL s'\<rparr>"
  by (auto simp: listen_unix_def split: if_splits prod.splits sum.splits)

lemma listen_http_server:
  "listen_http os s n = (n', s', r) \<Longrightarrow> s' = s\<lparr>Host := Host s', Port := Port s', httpServerL := httpServerL s'\<rparr>"
  by (auto simp: listen_http_def split: if_splits prod.splits sum.splits)

lemma listen_https_server:
  "listen_https os s n = (n', s', r) \<Longrightarrow>
   s' = s\<lparr>TLSHost := TLSHost s', TLSPort := TLSPort s', httpsServerL := httpsServerL s'\<rparr>"
  by (auto simp: listen_https_def split: if_splits prod.splits sum.splits)

context socket_laws
begin

lemma unix_part: "listen_part os opened (listen_unix os) schemeUnix ''unix'' SocketPath domainSocketL"
proof unfold_locales
  fix s :: "'w Server" and n n' s'
  assume "hasScheme s schemeUnix" "SocketPath s \<noteq> []" "listen_unix os s n = (n', s', None)"
  then show "domainSocketL s' = Some (Socket ''unix'' (SocketPath s')) \<and> (''unix'', SocketPath s') \<notin> opened n \<and>
      opened n' = insert (''unix'', SocketPath s') (opened n)"
    using listen_new [of "''unix''" "SocketPath s" n n'] unix_addr [of "SocketPath s" n n']
    by (auto simp: listen_unix_def split: prod.splits sum.splits)
next
  fix s :: "'w Server" and n
  assume "hasScheme s schemeUnix" "(''unix'', SocketPath s) \<in> opened n" "SocketPath s \<noteq> []"
  then show "\<exists>n' e. listen_unix os s n = (n', s, Some e)"
    using in_use [of "''unix''" "SocketPath s" n] by (auto simp: listen_unix_def)
qed (auto simp: listen_unix_def listen_err split: if_splits prod.splits sum.splits)

lemma http_part: "listen_part os opened (listen_http os) schemeHTTP ''tcp'' http_target httpServerL"
proof unfold_locales
  fix s :: "'w Server" and n n' s'
  assume "hasScheme s schemeHTTP" "listen_http os s n = (n', s', None)"
  then show "httpServerL s' = Some (Socket ''tcp'' (http_target s')) \<and> (''tcp'', http_target s') \<notin> opened n \<and>
      opened n' = insert (''tcp'', http_target s') (opened n)"
    using listen_new [of "''tcp''" "http_target s" n n'] tcp_addr [of "http_target s" n n']
    by (fastforce simp: listen_http_def http_target_def split: prod.splits sum.splits)
next
  fix s :: "'w Server" and n
  assume "hasScheme s schemeHTTP" "(''tcp'', http_target s) \<in> opened n"
  then show "\<exists>n' e. listen_http os s n = (n', s, Some e)"
    using in_use [of "''tcp''" "http_target s" n] targets_not_empty(1) [of s]
    by (auto simp: listen_http_def http_target_def)
next
  fix s :: "'w Server" and n n' s' e
  assume "listen_http os s n = (n', s', Some e)"
  then show "hasScheme s schemeHTTP \<and> s' = s \<and> opened n' = opened n"
    using listen_err [of "''tcp''" "http_target s" n n'] tcp_addr [of "http_target s" n n']
    by (fastforce simp: listen_http_def http_target_def split: if_splits prod.splits sum.splits)
qed (simp add: listen_http_def)

lemma https_part: "listen_part os opened (listen_https os) schemeHTTPS ''tcp'' https_target httpsServerL"
proof unfold_locales
  fix s :: "'w Server" and n n' s'
  assume "hasScheme s schemeHTTPS" "listen_https os s n = (n', s', None)"
  then show "httpsServerL s' = Some (Socket ''tcp'' (https_target s')) \<and> (''tcp'', https_target s') \<notin> opened n \<and>
      opened n' = insert (''tcp'', https_target s') (opened n)"
    using listen_new [of "''tcp''" "https_target s" n n'] tcp_addr [of "https_target s" n n']
    by (fastforce simp: listen_https_def https_target_def split: prod.splits sum.splits)
next
  fix s :: "'w Server" and n
  assume "hasScheme s schemeHTTPS" "(''tcp'', https_target s) \<in> opened n"
  then show "\<exists>n' e. listen_https os s n = (n', s, Some e)"
    using in_use [of "''tcp''" "https_target s" n] targets_not_empty(2) [of s]
    by (auto simp: listen_https_def https_target_def)
next
  fix s :: "'w Server" and n n' s' e
  assume "listen_https os s n = (n', s', Some e)"
  then show "hasScheme s schemeHTTPS \<and> s' = s \<and> opened n' = opened n"
    using listen_err [of "''tcp''" "https_target s" n n'] tcp_addr [of "https_target s" n n']
    by (fastforce simp: listen_https_def https_target_def split: if_splits prod.splits sum.splits)
qed (simp add: listen_https_def)

end

section \<open>What Listen does\<close>

lemma and_then_None:
  "and_then p f = (n', s', None) \<longleftrightarrow> (\<exists>n1 s1. p = (n1, s1, None) \<and> f s1 n1 = (n', s', None))"
  by (cases "(p, f)" rule: and_then.cases) auto

lemma and_then_Some:
  "and_then p f = (n', s', Some e) \<longleftrightarrow>
     p = (n', s', Some e) \<or> (\<exists>n1 s1. p = (n1, s1, None) \<and> f s1 n1 = (n', s', Some e))"
  by (cases "(p, f)" rule: and_then.cases) auto

lemma tls_defaults_fields [simp]:
  "EnabledListeners (tls_defaults s) = EnabledListeners s" "hasListeners (tls_defaults s) = hasListeners s"
  "SocketPath (tls_defaults s) = SocketPath s" "Host (tls_defaults s) = Host s" "Port (tls_defaults s) = Port s"
  "hasScheme (tls_defaults s) = hasScheme s" "http_target (tls_defaults s) = http_target s"
  by (simp_all add: tls_defaults_def Let_def hasScheme_def http_target_def fun_eq_iff)

lemma Listen_None:
  assumes "\<not> hasListeners s" and "Listen os s n = (n', s', None)"
  obtains n1 s1 n2 s2 s3 where "listen_unix os (tls_defaults s) n = (n1, s1, None)"
    and "listen_http os s1 n1 = (n2, s2, None)" and "listen_https os s2 n2 = (n', s3, None)"
    and "s' = s3\<lparr>hasListeners := True\<rparr>"
  using assms by (auto simp: Listen_def and_then_None)

lemma Listen_Some:
  assumes "Listen os s n = (n', s', Some e)"
  obtains (unix) "listen_unix os (tls_defaults s) n = (n', s', Some e)"
    | (http) n1 s1 where "listen_unix os (tls_defaults s) n = (n1, s1, None)" "listen_http os s1 n1 = (n', s', Some e)"
    | (https) n1 s1 n2 s2 where "listen_unix os (tls_defaults s) n = (n1, s1, None)"
        "listen_http os s1 n1 = (n2, s2, None)" "listen_https os s2 n2 = (n', s', Some e)"
  using assms by (auto simp: Listen_def and_then_Some and_then_None split: if_splits)

lemma listen_unix_frame:
  assumes "listen_unix os s n = (n', s', r)"
  shows "hasScheme s' = hasScheme s" "hasListeners s' = hasListeners s" "SocketPath s' = SocketPath s"
    "http_target s' = http_target s" "EnabledListeners s' = EnabledListeners s"
    "srv_api s' = srv_api s" "srv_handler s' = srv_handler s" "life s' = life s"
    "TLSCertificate s' = TLSCertificate s" "TLSCertificateKey s' = TLSCertificateKey s"
    "TLSCACertificate s' = TLSCACertificate s"
  by (subst listen_unix_server [OF assms], simp add: http_target_def hasScheme_def fun_eq_iff)+

lemma listen_http_frame:
  assumes "listen_http os s n = (n', s', r)"
  shows "hasScheme s' = hasScheme s" "hasListeners s' = hasListeners s" "SocketPath s' = SocketPath s"
    "domainSocketL s' = domainSocketL s" "EnabledListeners s' = EnabledListeners s"
    "srv_api s' = srv_api s" "srv_handler s' = srv_handler s" "life s' = life s"
    "TLSCertificate s' = TLSCertificate s" "TLSCertificateKey s' = TLSCertificateKey s"
    "TLSCACertificate s' = TLSCACertificate s"
  by (subst listen_http_server [OF assms], simp add: hasScheme_def fun_eq_iff)+

lemma listen_https_frame:
  assumes "listen_https os s n = (n', s', r)"
  shows "hasScheme s' = hasScheme s" "hasListeners s' = hasListeners s" "SocketPath s' = SocketPath s"
    "domainSocketL s' = domainSocketL s" "http_target s' = http_target s" "httpServerL s' = httpServerL s"
    "EnabledListeners s' = EnabledListeners s"
    "srv_api s' = srv_api s" "srv_handler s' = srv_handler s" "life s' = life s"
    "TLSCertificate s' = TLSCertificate s" "TLSCertificateKey s' = TLSCertificateKey s"
    "TLSCACertificate s' = TLSCACertificate s"
  by (subst listen_https_server [OF assms], simp add: http_target_def hasScheme_def fun_eq_iff)+

lemma listening_fields [simp]:
  "hasScheme (s\<lparr>hasListeners := b\<rparr>) = hasScheme s" "http_target (s\<lparr>hasListeners := b\<rparr>) = http_target s"
  "https_target (s\<lparr>hasListeners := b\<rparr>) = https_target s"
  by (simp_all add: hasScheme_def http_target_def https_target_def fun_eq_iff)

lemma tls_defaults_kept [simp]:
  "srv_api (tls_defaults s) = srv_api s" "srv_handler (tls_defaults s) = srv_handler s" "life (tls_defaults s) = life s"
  "TLSCertificate (tls_defaults s) = TLSCertificate s" "TLSCertificateKey (tls_defaults s) = TLSCertificateKey s"
  "TLSCACertificate (tls_defaults s) = TLSCACertificate s"
  by (simp_all add: tls_defaults_def Let_def)

text \<open>No part touches the fields that \<open>Serve\<close> works with.\<close>

definition same_setup :: "'w Server \<Rightarrow> 'w Server \<Rightarrow> bool" where
  "same_setup s s' \<longleftrightarrow> hasScheme s' = hasScheme s \<and> SocketPath s' = SocketPath s \<and> srv_api s' = srv_api s \<and>
     srv_handler s' = srv_handler s \<and> life s' = life s \<and> TLSCertificate s' = TLSCertificate s \<and>
     TLSCertificateKey s' = TLSCertificateKey s \<and> TLSCACertificate s' = TLSCACertificate s"

lemma same_setup_chain [trans]: "same_setup s t \<Longrightarrow> same_setup t u \<Longrightarrow> same_setup s u"
  by (simp add: same_setup_def)

lemma unix_same_setup: "listen_unix os s n = (n', s', r) \<Longrightarrow> same_setup s s'"
  by (simp add: same_setup_def listen_unix_frame [of os s n n' s' r])

lemma http_same_setup: "listen_http os s n = (n', s', r) \<Longrightarrow> same_setup s s'"
  by (simp add: same_setup_def listen_http_frame [of os s n n' s' r])

lemma https_same_setup: "listen_https os s n = (n', s', r) \<Longrightarrow> same_setup s s'"
  by (simp add: same_setup_def listen_https_frame [of os s n n' s' r])

lemma Listen_same_setup:
  assumes "\<not> hasListeners s" and "Listen os s n = (n', s', r)"
  shows "same_setup s s'"
proof (cases r)
  case None
  obtain n1 s1 n2 s2 s3 where u: "listen_unix os (tls_defaults s) n = (n1, s1, None)"
    and h: "listen_http os s1 n1 = (n2, s2, None)" and t: "listen_https os s2 n2 = (n', s3, None)"
    and s': "s' = s3\<lparr>hasListeners := True\<rparr>"
    using Listen_None [OF assms(1) assms(2) [unfolded None]] .
  have "same_setup s (tls_defaults s)" by (simp add: same_setup_def)
  also note unix_same_setup [OF u] also note http_same_setup [OF h] also note https_same_setup [OF t]
  also have "same_setup s3 s'" by (simp add: s' same_setup_def)
  finally show ?thesis .
next
  case (Some e)
  have tls: "same_setup s (tls_defaults s)" by (simp add: same_setup_def)
  from assms(2) [unfolded Some] show ?thesis
  proof (cases rule: Listen_Some)
    case unix
    show ?thesis using tls unix_same_setup [OF unix] by (rule same_setup_chain)
  next
    case (http n1 s1)
    note tls also note unix_same_setup [OF http(1)] also note http_same_setup [OF http(2)]
    finally show ?thesis .
  next
    case (https n1 s1 n2 s2)
    note tls also note unix_same_setup [OF https(1)] also note http_same_setup [OF https(2)]
    also note https_same_setup [OF https(3)]
    finally show ?thesis .
  qed
qed

lemma Listen_hasListeners:
  assumes "\<not> hasListeners s" and "Listen os s n = (n', s', r)"
  shows "hasListeners s' \<longleftrightarrow> r = None"
proof (cases r)
  case None
  with assms show ?thesis using Listen_None [of s os n n' s'] by force
next
  case (Some e)
  have tls: "\<not> hasListeners (tls_defaults s)" using assms(1) by simp
  from assms(2) [unfolded Some] show ?thesis
  proof (cases rule: Listen_Some)
    case unix
    show ?thesis using tls listen_unix_frame(2) [OF unix] Some by simp
  next
    case (http n1 s1)
    show ?thesis using tls listen_unix_frame(2) [OF http(1)] listen_http_frame(2) [OF http(2)] Some by simp
  next
    case (https n1 s1 n2 s2)
    show ?thesis using tls listen_unix_frame(2) [OF https(1)] listen_http_frame(2) [OF https(2)]
        listen_https_frame(2) [OF https(3)] Some by simp
  qed
qed

text \<open>The addresses of the enabled schemes.\<close>

definition bound_addresses :: "'w Server \<Rightarrow> (string \<times> string) list" where
  "bound_addresses s =
     (if hasScheme s schemeUnix then [(''unix'', SocketPath s)] else []) @
     (if hasScheme s schemeHTTP then [(''tcp'', http_target s)] else []) @
     (if hasScheme s schemeHTTPS then [(''tcp'', https_target s)] else [])"

definition recorded :: "'w Server \<Rightarrow> bool" where
  "recorded s \<longleftrightarrow>
     (hasScheme s schemeUnix \<longrightarrow> domainSocketL s = Some (Socket ''unix'' (SocketPath s))) \<and>
     (hasScheme s schemeHTTP \<longrightarrow> httpServerL s = Some (Socket ''tcp'' (http_target s))) \<and>
     (hasScheme s schemeHTTPS \<longrightarrow> httpsServerL s = Some (Socket ''tcp'' (https_target s)))"

sublocale socket_laws \<subseteq> unix: listen_part os opened "listen_unix os" schemeUnix "''unix''" SocketPath domainSocketL
  by (rule unix_part)

sublocale socket_laws \<subseteq> http: listen_part os opened "listen_http os" schemeHTTP "''tcp''" http_target httpServerL
  by (rule http_part)

sublocale socket_laws \<subseteq> https: listen_part os opened "listen_https os" schemeHTTPS "''tcp''" https_target httpsServerL
  by (rule https_part)

context socket_laws
begin

lemma unix_opens:
  assumes "hasScheme s schemeUnix \<longrightarrow> SocketPath s \<noteq> []" and "listen_unix os s n = (n', s', None)"
  shows "opened n' = opened n \<union> (if hasScheme s schemeUnix then {(''unix'', SocketPath s)} else {})"
    and "hasScheme s schemeUnix \<Longrightarrow> (''unix'', SocketPath s) \<notin> opened n \<and>
      domainSocketL s' = Some (Socket ''unix'' (SocketPath s))"
proof -
  have on: "hasScheme s schemeUnix \<Longrightarrow> domainSocketL s' = Some (Socket ''unix'' (SocketPath s)) \<and>
      (''unix'', SocketPath s) \<notin> opened n \<and> opened n' = insert (''unix'', SocketPath s) (opened n)"
    using unix.on [of s n n' s'] assms listen_unix_frame(3) [OF assms(2)] by metis
  moreover have "\<not> hasScheme s schemeUnix \<Longrightarrow> n' = n" using unix.off [of s n] assms(2) by simp
  ultimately show "opened n' = opened n \<union> (if hasScheme s schemeUnix then {(''unix'', SocketPath s)} else {})"
    by (cases "hasScheme s schemeUnix") auto
  show "(''unix'', SocketPath s) \<notin> opened n \<and> domainSocketL s' = Some (Socket ''unix'' (SocketPath s))"
    if "hasScheme s schemeUnix"
    using on [OF that] by simp
qed

lemma http_opens:
  assumes "listen_http os s n = (n', s', None)"
  shows "opened n' = opened n \<union> (if hasScheme s schemeHTTP then {(''tcp'', http_target s')} else {})"
    and "hasScheme s schemeHTTP \<Longrightarrow> (''tcp'', http_target s') \<notin> opened n \<and>
      httpServerL s' = Some (Socket ''tcp'' (http_target s'))"
proof -
  have off: "\<not> hasScheme s schemeHTTP \<Longrightarrow> n' = n" using http.off [of s n] assms by simp
  note on = http.on [OF _ targets_not_empty(1) assms]
  show "opened n' = opened n \<union> (if hasScheme s schemeHTTP then {(''tcp'', http_target s')} else {})"
    using on off by (cases "hasScheme s schemeHTTP") auto
  show "(''tcp'', http_target s') \<notin> opened n \<and> httpServerL s' = Some (Socket ''tcp'' (http_target s'))"
    if "hasScheme s schemeHTTP"
    using on [OF that] by simp
qed

lemma https_opens:
  assumes "listen_https os s n = (n', s', None)"
  shows "opened n' = opened n \<union> (if hasScheme s schemeHTTPS then {(''tcp'', https_target s')} else {})"
    and "hasScheme s schemeHTTPS \<Longrightarrow> (''tcp'', https_target s') \<notin> opened n \<and>
      httpsServerL s' = Some (Socket ''tcp'' (https_target s'))"
proof -
  have off: "\<not> hasScheme s schemeHTTPS \<Longrightarrow> n' = n" using https.off [of s n] assms by simp
  note on = https.on [OF _ targets_not_empty(2) assms]
  show "opened n' = opened n \<union> (if hasScheme s schemeHTTPS then {(''tcp'', https_target s')} else {})"
    using on off by (cases "hasScheme s schemeHTTPS") auto
  show "(''tcp'', https_target s') \<notin> opened n \<and> httpsServerL s' = Some (Socket ''tcp'' (https_target s'))"
    if "hasScheme s schemeHTTPS"
    using on [OF that] by simp
qed

lemma listened:
  assumes "\<not> hasListeners s" and "hasScheme s schemeUnix \<longrightarrow> SocketPath s \<noteq> []"
    and "Listen os s n = (n', s', None)"
  shows "opened n' = opened n \<union> set (bound_addresses s')"
    and "set (bound_addresses s') \<inter> opened n = {}" and "distinct (bound_addresses s')" and "recorded s'"
proof -
  obtain n1 s1 n2 s2 s3 where u: "listen_unix os (tls_defaults s) n = (n1, s1, None)"
    and h: "listen_http os s1 n1 = (n2, s2, None)" and t: "listen_https os s2 n2 = (n', s3, None)"
    and s': "s' = s3\<lparr>hasListeners := True\<rparr>"
    using Listen_None [OF assms(1,3)] .
  note frames = listen_unix_frame [OF u] listen_http_frame [OF h] listen_https_frame [OF t]
  note opens = unix_opens [OF _ u] http_opens [OF h] https_opens [OF t]
  show "opened n' = opened n \<union> set (bound_addresses s')"
    using opens assms(2) by (auto simp: s' frames bound_addresses_def)
  show "set (bound_addresses s') \<inter> opened n = {}"
    using opens assms(2) by (auto simp: s' frames bound_addresses_def split: if_splits)
  show "distinct (bound_addresses s')"
    using opens assms(2) by (auto simp: s' frames bound_addresses_def split: if_splits)
  show "recorded s'"
    using opens assms(2) by (auto simp: s' frames recorded_def split: if_splits)
qed

text \<open>
  After a failure: what was opened stays open, and if anything was, the part that opened it
  finds its own address taken when \<open>Listen\<close> is called again.
\<close>

lemma unix_again:
  assumes "hasScheme s schemeUnix" and "SocketPath s \<noteq> []" and "(''unix'', SocketPath s) \<in> opened n"
    and "\<not> hasListeners s"
  shows "\<exists>n' s' e. Listen os s n = (n', s', Some e)"
  using unix.busy [of "tls_defaults s" n] assms by (force simp: Listen_def)

lemma http_again:
  assumes "\<not> hasScheme s schemeUnix" and "hasScheme s schemeHTTP" and "(''tcp'', http_target s) \<in> opened n"
    and "\<not> hasListeners s"
  shows "\<exists>n' s' e. Listen os s n = (n', s', Some e)"
  using http.busy [of "tls_defaults s" n] unix.off [of "tls_defaults s" n] assms by (force simp: Listen_def)

lemma listen_failed:
  assumes "\<not> hasListeners s" and "hasScheme s schemeUnix \<longrightarrow> SocketPath s \<noteq> []"
    and "Listen os s n = (n', s', Some e)"
  shows "opened n \<subseteq> opened n' \<and> (opened n' \<noteq> opened n \<longrightarrow> (\<exists>n2 s2 e2. Listen os s' n' = (n2, s2, Some e2)))"
  using assms(3)
proof (cases rule: Listen_Some)
  case unix
  from unix.failed [OF this] show ?thesis by simp
next
  case (http n1 s1)
  note u = unix_opens [OF _ http(1)]
  have "s1 = s'" "opened n' = opened n1" using http.failed [OF http(2)] by simp_all
  then show ?thesis
    using u assms(1,2) unix_again [of s' n'] listen_unix_frame [OF http(1)]
    by (cases "hasScheme s schemeUnix") auto
next
  case (https n1 s1 n2 s2)
  note u = unix_opens [OF _ https(1)] and h = http_opens [OF https(2)]
  have "s2 = s'" "opened n' = opened n2" using https.failed [OF https(3)] by simp_all
  then show ?thesis
    using u h assms(1,2) unix_again [of s' n'] http_again [of s' n']
      listen_unix_frame [OF https(1)] listen_http_frame [OF https(2)]
    by (cases "hasScheme s schemeUnix"; cases "hasScheme s schemeHTTP") auto
qed

end

section \<open>An instance of the system\<close>

text \<open>A system whose state is the list of its open sockets; it has one certificate file.\<close>

definition sample_split :: "string \<Rightarrow> go_error + (string \<times> int64)" where
  "sample_split addr =
     (let h = takeWhile (\<lambda>c. c \<noteq> CHR '':'') addr;
          p = fst (ParseInt (drop (length h + 1) addr))
      in if JoinHostPort h (FormatInt p) = addr then Inr (h, p) else Inl (Foreign ''missing port in address''))"

definition sample_listen ::
    "string \<Rightarrow> string \<Rightarrow> (string \<times> string) list \<Rightarrow> (string \<times> string) list \<times> (go_error + string)" where
  "sample_listen nw a n =
     (if (nw, a) \<in> set n then (n, Inl (Foreign ''address already in use''))
      else if nw = ''tcp'' \<and> Inl (Foreign ''missing port in address'') = sample_split a
        then (n, Inl (Foreign ''missing port in address''))
      else ((nw, a) # n, Inr a))"

definition sample_os :: "(string \<times> string) list os" where
  "sample_os =
     \<lparr>NetListen = sample_listen, SplitHostPort = sample_split,
      LoadX509KeyPair = (\<lambda>cert key n. if cert = ''cert.pem'' then Inr cert else Inl (Foreign ''no such file'')),
      ReadFile = (\<lambda>file n. Inl (Foreign ''no such file'')), AppendCertsFromPEM = (\<lambda>pem. None)\<rparr>"

lemma sample_split_cases: "sample_split a = Inl (Foreign ''missing port in address'') \<or>
    (\<exists>h p. sample_split a = Inr (h, p) \<and> JoinHostPort h (FormatInt p) = a)"
  by (auto simp: sample_split_def Let_def)

interpretation sample_sockets: socket_laws sample_os set
proof unfold_locales
  fix a n n' addr
  assume "NetListen sample_os ''tcp'' a n = (n', Inr addr)"
  then show "\<exists>h p. SplitHostPort sample_os addr = Inr (h, p) \<and> JoinHostPort h (FormatInt p) = addr"
    using sample_split_cases [of a] by (auto simp: sample_os_def sample_listen_def split: if_splits)
qed (auto simp: sample_os_def sample_listen_def split: if_splits)

lemma sample_os_laws: "socket_laws sample_os set"
  by (rule sample_sockets.socket_laws_axioms)

definition sample_server :: "unit Server" where
  "sample_server = (NewServer (Some sample_api))
     \<lparr>EnabledListeners := [schemeUnix, schemeHTTP, schemeHTTPS], SocketPath := ''/var/run/a1.sock'',
      Host := ''localhost'', Port := 8080, TLSPort := 8443\<rparr>"

lemma sample_server_fresh: "\<not> hasListeners sample_server" "hasScheme sample_server schemeUnix \<longrightarrow> SocketPath sample_server \<noteq> []"
  by (simp_all add: sample_server_def NewServer_def)

section \<open>Properties\<close>

text \<open>
  Listening. \<open>Listen\<close> without an error has opened exactly the sockets of the enabled schemes,
  none of them open before and no two the same; each listener field holds its socket, the host
  and port fields the address it really got, and a second call does nothing. With an error the
  server stays without listeners, so that it will not be served.
\<close>

theorem listen_opens_enabled_schemes:
  assumes "socket_laws os opened" and "\<not> hasListeners s"
    and "hasScheme s schemeUnix \<longrightarrow> SocketPath s \<noteq> []" and "Listen os s n = (n', s', r)"
  shows "(hasListeners s' \<longleftrightarrow> r = None) \<and> hasScheme s' = hasScheme s \<and>
    (r = None \<longrightarrow>
       opened n' = opened n \<union> set (bound_addresses s') \<and> set (bound_addresses s') \<inter> opened n = {} \<and>
       distinct (bound_addresses s') \<and> recorded s' \<and> Listen os s' n' = (n', s', None))"
  using socket_laws.listened [OF assms(1-3), of n n' s'] Listen_hasListeners [OF assms(2,4)]
    Listen_same_setup [OF assms(2,4)] assms(4)
  by (simp add: same_setup_def Listen_def [of os s' n'])

definition sample_listened :: "(string \<times> string) list \<times> unit Server \<times> go_error option" where
  "sample_listened = Listen sample_os sample_server []"

lemma sample_listened_run:
  "snd (snd sample_listened) = None \<and>
   fst sample_listened = [(''tcp'', ''localhost:8443''), (''tcp'', ''localhost:8080''), (''unix'', ''/var/run/a1.sock'')]"
  by code_simp

theorem listen_opens_enabled_schemes_witness:
  "set (bound_addresses (fst (snd sample_listened))) =
     set [(''tcp'', ''localhost:8443''), (''tcp'', ''localhost:8080''), (''unix'', ''/var/run/a1.sock'')]"
proof -
  have "Listen sample_os sample_server [] = (fst sample_listened, fst (snd sample_listened), snd (snd sample_listened))"
    by (simp add: sample_listened_def)
  note opens = listen_opens_enabled_schemes [OF sample_os_laws sample_server_fresh this]
  have "set (fst sample_listened) = set [] \<union> set (bound_addresses (fst (snd sample_listened)))"
    by (rule conjunct1 [OF mp [OF conjunct2 [OF conjunct2 [OF opens]] conjunct1 [OF sample_listened_run]]])
  then show ?thesis
    unfolding conjunct2 [OF sample_listened_run] by (simp only: set_empty list.set(1) Un_empty_left)
qed

text \<open>
  A failed \<open>Listen\<close> leaves the sockets it had opened before the failure open, without
  recording which; if there were any, no later call can succeed, because it asks for them again.
\<close>

theorem failed_listen_is_final:
  assumes "socket_laws os opened" and "\<not> hasListeners s"
    and "hasScheme s schemeUnix \<longrightarrow> SocketPath s \<noteq> []" and "Listen os s n = (n', s', Some e)"
  shows "\<not> hasListeners s' \<and> opened n \<subseteq> opened n' \<and>
    (opened n' \<noteq> opened n \<longrightarrow> (\<exists>n2 s2 e2. Listen os s' n' = (n2, s2, Some e2)))"
  using socket_laws.listen_failed [OF assms] Listen_hasListeners [OF assms(2,4)] by simp

definition sample_failed :: "(string \<times> string) list \<times> unit Server \<times> go_error option" where
  "sample_failed = Listen sample_os sample_server [(''tcp'', ''localhost:8443'')]"

lemma sample_failed_run:
  "snd (snd sample_failed) = Some (Foreign ''address already in use'') \<and>
   fst sample_failed = [(''tcp'', ''localhost:8080''), (''unix'', ''/var/run/a1.sock''), (''tcp'', ''localhost:8443'')]"
  by code_simp

theorem failed_listen_is_final_witness:
  "\<exists>n2 s2 e2. Listen sample_os (fst (snd sample_failed)) (fst sample_failed) = (n2, s2, Some e2)"
proof -
  have "Listen sample_os sample_server [(''tcp'', ''localhost:8443'')]
      = (fst sample_failed, fst (snd sample_failed), Some (Foreign ''address already in use''))"
    using sample_failed_run by (metis sample_failed_def prod.collapse)
  from failed_listen_is_final [OF sample_os_laws sample_server_fresh this] show ?thesis
    using sample_failed_run by auto
qed

end
