(* ===== verification/Serving.thy ===== *)
theory Serving
  imports Server
begin

text \<open>
  \<open>restapi/server.go\<close>, second part: \<open>Serve\<close>, from the sockets to the HTTP servers that run on
  them. The goroutines \<open>Serve\<close> starts are recorded in the order in which it starts them; what
  they do afterwards is the machine of the theory \<open>Shutdown\<close>.
\<close>

section \<open>HTTP servers\<close>

text \<open>The fields of an \<open>http.Server\<close> the code sets.\<close>

record 'w http_server =
  MaxHeaderBytes :: int64
  srv_Handler :: "'w http_handler option"
  IdleTimeout :: duration
  srv_ReadTimeout :: duration
  srv_WriteTimeout :: duration
  KeepAlivesEnabled :: bool
  TLSConfig :: "tls_config option"

definition new_http_server :: "'w http_server" where
  "new_http_server =
     \<lparr>MaxHeaderBytes = 0, srv_Handler = None, IdleTimeout = 0, srv_ReadTimeout = 0, srv_WriteTimeout = 0,
      KeepAlivesEnabled = True, TLSConfig = None\<rparr>"

datatype 'w goroutine =
    HandleInterrupt
  | ServeOn "'w http_server" "listener option"
  | HandleShutdown

text \<open>
  The activation of \<open>Serve\<close>: the signals that are delivered to the server's channel, the slice
  \<open>servers\<close>, and the goroutines.
\<close>

record 'w activation =
  notified :: "string list"
  servers :: "'w http_server list"
  goroutines :: "'w goroutine list"

definition no_activation :: "'w activation" where
  "no_activation = \<lparr>notified = [], servers = [], goroutines = []\<rparr>"

text \<open>How a part of \<open>Serve\<close> ends it: an error returned, the process ended by \<open>Fatalf\<close>, a panic.\<close>

datatype halt = ReturnErr go_error | Exit string | PanicWith string

text \<open>\<open>Serve\<close> as a whole: halted, or waiting for the goroutines.\<close>

datatype serve_end = Halted halt | Waits

definition signalNotify :: "'w activation \<Rightarrow> 'w activation" where
  "signalNotify a = a\<lparr>notified := [''SIGINT'', ''SIGTERM'']\<rparr>"

definition configureServer :: "'w http_server \<Rightarrow> string \<Rightarrow> string \<Rightarrow> 'w http_server" where
  "configureServer srv scheme addr = srv"

definition configureTLS :: "tls_config \<Rightarrow> tls_config" where
  "configureTLS cfg = cfg"

text \<open>\<open>servers = append(servers, srv)\<close> and the goroutine that serves it.\<close>

definition launch :: "'w http_server \<Rightarrow> listener option \<Rightarrow> 'w activation \<Rightarrow> 'w activation" where
  "launch srv l a = a\<lparr>servers := servers a @ [srv], goroutines := goroutines a @ [ServeOn srv l]\<rparr>"

definition set_idle :: "'w Server \<Rightarrow> 'w http_server \<Rightarrow> 'w http_server" where
  "set_idle s srv = (if 0 < sint (CleanupTimeout s) then srv\<lparr>IdleTimeout := CleanupTimeout s\<rparr> else srv)"

definition serve_unix :: "'w Server \<Rightarrow> 'w activation \<Rightarrow> 'w activation" where
  "serve_unix s a =
     (if hasScheme s schemeUnix then
        (let domainSocket = new_http_server\<lparr>MaxHeaderBytes := MaxHeaderSize s\<rparr>;
             domainSocket = domainSocket\<lparr>srv_Handler := srv_handler s\<rparr>;
             domainSocket = set_idle s domainSocket;
             domainSocket = configureServer domainSocket ''unix'' (SocketPath s)
         in launch domainSocket (domainSocketL s) a)
      else a)"

type_synonym 'w serve_part = "'w Server \<times> 'w activation \<times> halt option"

definition serve_http :: "'w Server \<Rightarrow> 'w activation \<Rightarrow> 'w serve_part" where
  "serve_http s0 a =
     (if hasScheme s0 schemeHTTP then
        (let httpServer = new_http_server\<lparr>MaxHeaderBytes := MaxHeaderSize s0\<rparr>;
             httpServer = httpServer\<lparr>srv_ReadTimeout := ReadTimeout s0\<rparr>;
             httpServer = httpServer\<lparr>srv_WriteTimeout := WriteTimeout s0\<rparr>;
             httpServer = httpServer\<lparr>KeepAlivesEnabled := (0 < sint (KeepAlive s0))\<rparr>;
             s = (if 0 < sint (ListenLimit s0)
                  then s0\<lparr>httpServerL := Some (LimitListener (httpServerL s0) (ListenLimit s0))\<rparr> else s0);
             httpServer = set_idle s httpServer;
             httpServer = httpServer\<lparr>srv_Handler := srv_handler s\<rparr>
         in case Addr (httpServerL s) of
              Panic m \<Rightarrow> (s, a, Some (PanicWith m))
            | Return addr \<Rightarrow> (s, launch (configureServer httpServer ''http'' addr) (httpServerL s) a, None))
      else (s0, a, None))"

definition base_tls_config :: tls_config where
  "base_tls_config =
     \<lparr>PreferServerCipherSuites = True, CurvePreferences = [''P256''],
      NextProtos = [''h2'', ''http/1.1''], MinVersion = ''TLS12'',
      CipherSuites =
        [''TLS_ECDHE_ECDSA_WITH_AES_256_GCM_SHA384'', ''TLS_ECDHE_RSA_WITH_AES_256_GCM_SHA384'',
         ''TLS_ECDHE_ECDSA_WITH_AES_128_GCM_SHA256'', ''TLS_ECDHE_RSA_WITH_AES_128_GCM_SHA256'',
         ''TLS_ECDHE_ECDSA_WITH_CHACHA20_POLY1305'', ''TLS_ECDHE_RSA_WITH_CHACHA20_POLY1305''],
      Certificates = [], GetCertificate = None, ClientCAs = None, ClientAuth = ''NoClientCert''\<rparr>"

text \<open>The three steps of the TLS configuration: the key pair, the authority of the clients, the check.\<close>

definition tls_key_pair :: "'n os \<Rightarrow> 'w Server \<Rightarrow> 'n \<Rightarrow> tls_config \<Rightarrow> halt + tls_config" where
  "tls_key_pair os s n cfg =
     (if TLSCertificate s \<noteq> [] \<and> TLSCertificateKey s \<noteq> [] then
        (case LoadX509KeyPair os (TLSCertificate s) (TLSCertificateKey s) n of
           Inl err \<Rightarrow> Inl (ReturnErr err)
         | Inr cert \<Rightarrow> Inr (cfg\<lparr>Certificates := [cert]\<rparr>))
      else Inr cfg)"

definition tls_client_ca :: "'n os \<Rightarrow> 'w Server \<Rightarrow> 'n \<Rightarrow> tls_config \<Rightarrow> halt + tls_config" where
  "tls_client_ca os s n cfg =
     (if TLSCACertificate s \<noteq> [] then
        (case ReadFile os (TLSCACertificate s) n of
           Inl caCertErr \<Rightarrow> Inl (ReturnErr caCertErr)
         | Inr caCert \<Rightarrow>
             (case AppendCertsFromPEM os caCert of
                None \<Rightarrow> Inl (ReturnErr (ErrNew ''cannot parse CA certificate''))
              | Some pool \<Rightarrow> Inr (cfg\<lparr>ClientCAs := Some pool, ClientAuth := ''RequireAndVerifyClientCert''\<rparr>)))
      else Inr cfg)"

definition tls_check :: "'w Server \<Rightarrow> tls_config \<Rightarrow> halt + tls_config" where
  "tls_check s cfg =
     (if length (Certificates cfg) = 0 \<and> GetCertificate cfg = None then
        (if TLSCertificate s = [] then
           (if TLSCertificateKey s = []
            then Inl (Exit ''the required flags `--tls-certificate` and `--tls-key` were not specified'')
            else Inl (Exit ''the required flag `--tls-certificate` was not specified''))
         else if TLSCertificateKey s = []
           then Inl (Exit ''the required flag `--tls-key` was not specified'')
         else Inl (Exit ''no certificate was configured for TLS''))
      else Inr cfg)"

fun bind_halt :: "halt + 'a \<Rightarrow> ('a \<Rightarrow> halt + 'b) \<Rightarrow> halt + 'b" where
  "bind_halt (Inl h) f = Inl h"
| "bind_halt (Inr x) f = f x"

lemma bind_halt_Inr: "bind_halt m f = Inr y \<longleftrightarrow> (\<exists>x. m = Inr x \<and> f x = Inr y)"
  by (cases m) auto

lemma bind_halt_Inl: "bind_halt m f = Inl h \<longleftrightarrow> m = Inl h \<or> (\<exists>x. m = Inr x \<and> f x = Inl h)"
  by (cases m) auto

definition tls_setup :: "'n os \<Rightarrow> 'w Server \<Rightarrow> 'n \<Rightarrow> halt + tls_config" where
  "tls_setup os s n =
     bind_halt (tls_key_pair os s n base_tls_config)
       (\<lambda>cfg. bind_halt (tls_client_ca os s n cfg) (\<lambda>cfg. tls_check s (configureTLS cfg)))"

definition serve_https :: "'n os \<Rightarrow> 'w Server \<Rightarrow> 'n \<Rightarrow> 'w activation \<Rightarrow> 'w serve_part" where
  "serve_https os s0 n a =
     (if hasScheme s0 schemeHTTPS then
        (let httpsServer = new_http_server\<lparr>MaxHeaderBytes := MaxHeaderSize s0\<rparr>;
             httpsServer = httpsServer\<lparr>srv_ReadTimeout := TLSReadTimeout s0\<rparr>;
             httpsServer = httpsServer\<lparr>srv_WriteTimeout := TLSWriteTimeout s0\<rparr>;
             httpsServer = httpsServer\<lparr>KeepAlivesEnabled := (0 < sint (TLSKeepAlive s0))\<rparr>;
             s = (if 0 < sint (TLSListenLimit s0)
                  then s0\<lparr>httpsServerL := Some (LimitListener (httpsServerL s0) (TLSListenLimit s0))\<rparr> else s0);
             httpsServer = set_idle s httpsServer;
             httpsServer = httpsServer\<lparr>srv_Handler := srv_handler s\<rparr>
         in case tls_setup os s n of
              Inl h \<Rightarrow> (s, a, Some h)
            | Inr cfg \<Rightarrow>
                (let httpsServer = httpsServer\<lparr>TLSConfig := Some cfg\<rparr> in
                 case Addr (httpsServerL s) of
                   Panic m \<Rightarrow> (s, a, Some (PanicWith m))
                 | Return addr \<Rightarrow>
                     (s, launch (configureServer httpsServer ''https'' addr) (Some (TLSListener (httpsServerL s) cfg)) a, None)))
      else (s0, a, None))"

section \<open>Serve\<close>

text \<open>The default handler: that of the API, without a builder of middleware.\<close>

definition default_handler ::
    "openapi \<Rightarrow> 'w openapi_runtime \<Rightarrow> 'w Server \<Rightarrow> 'w Server \<times> halt option" where
  "default_handler lib rt s =
     (if srv_handler s = None then
        (case srv_api s of
           None \<Rightarrow> (s, Some (ReturnErr (ErrNew ''can't create the default handler, as no api is set'')))
         | Some api \<Rightarrow>
             (case Serve lib rt None api of
                (api', Panic m) \<Rightarrow> (s\<lparr>srv_api := Some api'\<rparr>, Some (PanicWith m))
              | (api', Return h) \<Rightarrow> (SetHandler (Some h) (s\<lparr>srv_api := Some api'\<rparr>), None)))
      else (s, None))"

text \<open>From the notification of signals on: the goroutines, the servers, the wait.\<close>

definition start_servers :: "'n os \<Rightarrow> 'w Server \<Rightarrow> 'n \<Rightarrow> 'w Server \<times> 'w activation \<times> serve_end" where
  "start_servers os s n =
     (let a = signalNotify no_activation;
          a = a\<lparr>goroutines := goroutines a @ [HandleInterrupt]\<rparr>;
          a = serve_unix s a
      in case serve_http s a of
           (s, a, Some h) \<Rightarrow> (s, a, Halted h)
         | (s, a, None) \<Rightarrow>
             (case serve_https os s n a of
                (s, a, Some h) \<Rightarrow> (s, a, Halted h)
              | (s, a, None) \<Rightarrow> (s, a\<lparr>goroutines := goroutines a @ [HandleShutdown]\<rparr>, Waits)))"

definition Server_Serve ::
    "'n os \<Rightarrow> openapi \<Rightarrow> 'w openapi_runtime \<Rightarrow> 'w Server \<Rightarrow> 'n \<Rightarrow>
     'n \<times> 'w Server \<times> 'w activation \<times> serve_end" where
  "Server_Serve os lib rt s n =
     (case (if \<not> hasListeners s then Listen os s n else (n, s, None)) of
        (n, s, Some err) \<Rightarrow> (n, s, no_activation, Halted (ReturnErr err))
      | (n, s, None) \<Rightarrow>
          (case default_handler lib rt s of
             (s, Some h) \<Rightarrow> (n, s, no_activation, Halted h)
           | (s, None) \<Rightarrow> (n, start_servers os s n)))"

section \<open>The servers a configuration asks for\<close>

definition idle_of :: "'w Server \<Rightarrow> duration" where
  "idle_of s = (if 0 < sint (CleanupTimeout s) then CleanupTimeout s else 0)"

definition unix_server :: "'w Server \<Rightarrow> 'w http_server" where
  "unix_server s =
     \<lparr>MaxHeaderBytes = MaxHeaderSize s, srv_Handler = srv_handler s, IdleTimeout = idle_of s,
      srv_ReadTimeout = 0, srv_WriteTimeout = 0, KeepAlivesEnabled = True, TLSConfig = None\<rparr>"

definition http_server_of :: "'w Server \<Rightarrow> 'w http_server" where
  "http_server_of s =
     \<lparr>MaxHeaderBytes = MaxHeaderSize s, srv_Handler = srv_handler s, IdleTimeout = idle_of s,
      srv_ReadTimeout = ReadTimeout s, srv_WriteTimeout = WriteTimeout s,
      KeepAlivesEnabled = (0 < sint (KeepAlive s)), TLSConfig = None\<rparr>"

definition https_server_of :: "'w Server \<Rightarrow> tls_config \<Rightarrow> 'w http_server" where
  "https_server_of s cfg =
     \<lparr>MaxHeaderBytes = MaxHeaderSize s, srv_Handler = srv_handler s, IdleTimeout = idle_of s,
      srv_ReadTimeout = TLSReadTimeout s, srv_WriteTimeout = TLSWriteTimeout s,
      KeepAlivesEnabled = (0 < sint (TLSKeepAlive s)), TLSConfig = Some cfg\<rparr>"

lemmas server_defs = new_http_server_def set_idle_def idle_of_def unix_server_def http_server_of_def
  https_server_of_def configureServer_def Let_def

lemma serve_unix_eq:
  "serve_unix s a = (if hasScheme s schemeUnix then launch (unix_server s) (domainSocketL s) a else a)"
  by (simp add: serve_unix_def server_defs)

lemma serve_http_on:
  assumes "hasScheme s schemeHTTP" and "Addr (httpServerL s) = Return addr"
  shows "\<exists>l. serve_http s a = (s\<lparr>httpServerL := l\<rparr>, launch (http_server_of s) l a, None) \<and> Addr l = Return addr"
proof (cases "0 < sint (ListenLimit s)")
  case True
  with assms show ?thesis
    by (intro exI [of _ "Some (LimitListener (httpServerL s) (ListenLimit s))"]) (simp add: serve_http_def server_defs)
next
  case False
  with assms show ?thesis
    by (intro exI [of _ "httpServerL s"]) (simp add: serve_http_def server_defs)
qed

lemma serve_https_on:
  assumes "hasScheme s schemeHTTPS" and "Addr (httpsServerL s) = Return addr"
  shows "\<exists>l. Addr l = Return addr \<and> serve_https os s n a =
    (case tls_setup os s n of
       Inl h \<Rightarrow> (s\<lparr>httpsServerL := l\<rparr>, a, Some h)
     | Inr cfg \<Rightarrow> (s\<lparr>httpsServerL := l\<rparr>, launch (https_server_of s cfg) (Some (TLSListener l cfg)) a, None))"
proof -
  have cong: "tls_setup os (s\<lparr>httpsServerL := l\<rparr>) n = tls_setup os s n" for l
    by (simp add: tls_setup_def tls_key_pair_def tls_client_ca_def tls_check_def fun_eq_iff)
  show ?thesis
  proof (cases "0 < sint (TLSListenLimit s)")
    case True
    let ?l = "Some (LimitListener (httpsServerL s) (TLSListenLimit s))"
    show ?thesis using assms True cong [of ?l]
      by (intro exI [of _ ?l]) (simp add: serve_https_def server_defs split: sum.split)
  next
    case False
    with assms show ?thesis
      by (intro exI [of _ "httpsServerL s"]) (simp add: serve_https_def server_defs split: sum.split)
  qed
qed

lemma serve_off:
  "\<not> hasScheme s schemeHTTP \<Longrightarrow> serve_http s a = (s, a, None)"
  "\<not> hasScheme s schemeHTTPS \<Longrightarrow> serve_https os s n a = (s, a, None)"
  by (simp_all add: serve_http_def serve_https_def)

section \<open>TLS\<close>

text \<open>What the configuration of TLS comes to, by the flags that are set.\<close>

lemma tls_client_ca_Inr:
  "tls_client_ca os s n cfg = Inr cfg' \<Longrightarrow> Certificates cfg' = Certificates cfg \<and> GetCertificate cfg' = GetCertificate cfg \<and>
     MinVersion cfg' = MinVersion cfg \<and>
     (TLSCACertificate s \<noteq> [] \<longrightarrow> ClientAuth cfg' = ''RequireAndVerifyClientCert'' \<and> ClientCAs cfg' \<noteq> None)"
  by (auto simp: tls_client_ca_def split: if_splits sum.splits option.splits)

lemma tls_setup_Inr:
  assumes "tls_setup os s n = Inr cfg"
  shows "(\<exists>c. Certificates cfg = [c] \<and> LoadX509KeyPair os (TLSCertificate s) (TLSCertificateKey s) n = Inr c) \<and>
    TLSCertificate s \<noteq> [] \<and> TLSCertificateKey s \<noteq> [] \<and> MinVersion cfg = ''TLS12'' \<and>
    (TLSCACertificate s \<noteq> [] \<longrightarrow> ClientAuth cfg = ''RequireAndVerifyClientCert'' \<and> ClientCAs cfg \<noteq> None)"
proof -
  obtain c1 c2 where key: "tls_key_pair os s n base_tls_config = Inr c1" and ca: "tls_client_ca os s n c1 = Inr c2"
    and chk: "tls_check s c2 = Inr cfg"
    using assms by (auto simp: tls_setup_def configureTLS_def bind_halt_Inr)
  have "cfg = c2" "Certificates cfg \<noteq> [] \<or> GetCertificate cfg \<noteq> None"
    using chk by (auto simp: tls_check_def split: if_splits)
  then show ?thesis
    using key tls_client_ca_Inr [OF ca]
    by (auto simp: tls_key_pair_def base_tls_config_def split: if_splits sum.splits)
qed

section \<open>What Serve starts\<close>

definition serve_go :: "'w http_server \<times> listener option \<Rightarrow> 'w goroutine" where
  "serve_go x = ServeOn (fst x) (snd x)"

text \<open>An activation that serves the servers \<open>xs\<close>, each with its listener.\<close>

definition serves :: "'w activation \<Rightarrow> ('w http_server \<times> listener option) list \<Rightarrow> bool" where
  "serves a xs \<longleftrightarrow> servers a = map fst xs \<and> goroutines a = HandleInterrupt # map serve_go xs \<and>
     notified a = [''SIGINT'', ''SIGTERM'']"

lemma serves_launch: "serves a xs \<Longrightarrow> serves (launch srv l a) (xs @ [(srv, l)])"
  by (simp add: serves_def launch_def serve_go_def)

lemma serves_start: "serves ((signalNotify no_activation)\<lparr>goroutines := goroutines (signalNotify no_activation) @ [HandleInterrupt]\<rparr>) []"
  by (simp add: serves_def signalNotify_def no_activation_def)

lemma recorded_Addr:
  assumes "recorded s"
  shows "hasScheme s schemeUnix \<Longrightarrow> Addr (domainSocketL s) = Return (SocketPath s)"
    and "hasScheme s schemeHTTP \<Longrightarrow> Addr (httpServerL s) = Return (http_target s)"
    and "hasScheme s schemeHTTPS \<Longrightarrow> Addr (httpsServerL s) = Return (https_target s)"
  using assms by (simp_all add: recorded_def)

lemma relisten_fields [simp]:
  "hasScheme (s\<lparr>httpServerL := l\<rparr>) = hasScheme s" "hasScheme (s\<lparr>httpsServerL := l\<rparr>) = hasScheme s"
  "bound_addresses (s\<lparr>httpServerL := l\<rparr>) = bound_addresses s" "bound_addresses (s\<lparr>httpsServerL := l\<rparr>) = bound_addresses s"
  "tls_setup os (s\<lparr>httpServerL := l\<rparr>) n = tls_setup os s n"
  "https_server_of (s\<lparr>httpServerL := l\<rparr>) cfg = https_server_of s cfg"
  "http_target (s\<lparr>httpServerL := l\<rparr>) = http_target s" "http_target (s\<lparr>httpsServerL := l\<rparr>) = http_target s"
  "https_target (s\<lparr>httpServerL := l\<rparr>) = https_target s" "https_target (s\<lparr>httpsServerL := l\<rparr>) = https_target s"
  by (simp_all add: hasScheme_def bound_addresses_def http_target_def https_target_def fun_eq_iff
      tls_setup_def tls_key_pair_def tls_client_ca_def tls_check_def https_server_of_def idle_of_def)

text \<open>The servers of a configuration, up to the wrappers around the listeners.\<close>

definition wanted_plain :: "'w Server \<Rightarrow> ('w http_server \<times> string) list" where
  "wanted_plain s =
     (if hasScheme s schemeUnix then [(unix_server s, SocketPath s)] else []) @
     (if hasScheme s schemeHTTP then [(http_server_of s, http_target s)] else [])"

definition wanted_tls :: "'w Server \<Rightarrow> tls_config \<Rightarrow> ('w http_server \<times> string) list" where
  "wanted_tls s cfg = (if hasScheme s schemeHTTPS then [(https_server_of s cfg, https_target s)] else [])"

text \<open>\<open>xs\<close> are these servers, each on a listener of its address.\<close>

definition placed :: "('w http_server \<times> listener option) list \<Rightarrow> ('w http_server \<times> string) list \<Rightarrow> bool" where
  "placed xs ys \<longleftrightarrow> map (\<lambda>(srv, l). (srv, Addr l)) xs = map (\<lambda>(srv, addr). (srv, Return addr)) ys"

lemma placed_append: "placed xs ys \<Longrightarrow> placed xs' ys' \<Longrightarrow> placed (xs @ xs') (ys @ ys')"
  by (simp add: placed_def)

lemma placed_one: "Addr l = Return addr \<Longrightarrow> placed [(srv, l)] [(srv, addr)]"
  by (simp add: placed_def)

lemma placed_Nil [simp]: "placed [] []"
  by (simp add: placed_def)

lemma serve_unix_placed:
  assumes "recorded s" and "serves a xs" and "placed xs ys"
  shows "\<exists>xs'. serves (serve_unix s a) xs' \<and>
    placed xs' (ys @ (if hasScheme s schemeUnix then [(unix_server s, SocketPath s)] else []))"
proof (cases "hasScheme s schemeUnix")
  case True
  have "placed (xs @ [(unix_server s, domainSocketL s)]) (ys @ [(unix_server s, SocketPath s)])"
    by (rule placed_append [OF assms(3) placed_one]) (rule recorded_Addr(1) [OF assms(1) True])
  with True show ?thesis using serves_launch [OF assms(2)] by (auto simp: serve_unix_eq)
qed (use assms in \<open>auto simp: serve_unix_eq\<close>)

lemma serve_http_placed:
  assumes "recorded s" and "serves a xs" and "placed xs ys"
  shows "\<exists>l a' xs'. serve_http s a = (s\<lparr>httpServerL := l\<rparr>, a', None) \<and> serves a' xs' \<and>
    placed xs' (ys @ (if hasScheme s schemeHTTP then [(http_server_of s, http_target s)] else []))"
proof (cases "hasScheme s schemeHTTP")
  case True
  from serve_http_on [OF True recorded_Addr(2) [OF assms(1) True], of a] obtain l where
    l: "serve_http s a = (s\<lparr>httpServerL := l\<rparr>, launch (http_server_of s) l a, None)" "Addr l = Return (http_target s)"
    by blast
  have "placed (xs @ [(http_server_of s, l)])
      (ys @ (if hasScheme s schemeHTTP then [(http_server_of s, http_target s)] else []))"
    using placed_append [OF assms(3) placed_one [OF l(2)], of "http_server_of s"] True by simp
  with l(1) serves_launch [OF assms(2)] show ?thesis by blast
next
  case False
  then have "serve_http s a = (s\<lparr>httpServerL := httpServerL s\<rparr>, a, None)" by (simp add: serve_off)
  moreover have "placed xs (ys @ (if hasScheme s schemeHTTP then [(http_server_of s, http_target s)] else []))"
    using False assms(3) by simp
  ultimately show ?thesis using assms(2) by blast
qed

lemma start_plain:
  assumes "recorded s"
  obtains l a xs where "serves a xs" and "placed xs (wanted_plain s)"
    and "start_servers os s n = (case serve_https os (s\<lparr>httpServerL := l\<rparr>) n a of
            (s, a, Some h) \<Rightarrow> (s, a, Halted h)
          | (s, a, None) \<Rightarrow> (s, a\<lparr>goroutines := goroutines a @ [HandleShutdown]\<rparr>, Waits))"
proof -
  from serve_unix_placed [OF assms serves_start placed_Nil] obtain xs1 where
    u: "serves (serve_unix s ((signalNotify no_activation)\<lparr>goroutines := goroutines (signalNotify no_activation) @ [HandleInterrupt]\<rparr>)) xs1"
      "placed xs1 (if hasScheme s schemeUnix then [(unix_server s, SocketPath s)] else [])"
    by auto
  from serve_http_placed [OF assms u] obtain l a xs where h: "serve_http s
      (serve_unix s ((signalNotify no_activation)\<lparr>goroutines := goroutines (signalNotify no_activation) @ [HandleInterrupt]\<rparr>))
      = (s\<lparr>httpServerL := l\<rparr>, a, None)" "serves a xs" "placed xs (wanted_plain s)"
    by (auto simp: wanted_plain_def)
  show thesis
    by (rule that [OF h(2,3)]) (simp add: start_servers_def Let_def h(1))
qed

lemma default_handler_server:
  assumes "default_handler lib rt s = (s', None)"
  obtains (given) "s' = s" "srv_handler s \<noteq> None"
    | (made) api h where "s' = s\<lparr>srv_api := Some api, srv_handler := Some h\<rparr>"
proof (cases "srv_handler s = None")
  case True
  with assms show ?thesis
    by (cases "srv_api s") (auto simp: default_handler_def SetHandler_def split: prod.splits outcome.splits intro: made)
next
  case False
  with assms show ?thesis by (simp add: default_handler_def given)
qed

lemma handler_fields [simp]:
  "hasScheme (s\<lparr>srv_api := api, srv_handler := h\<rparr>) = hasScheme s"
  "bound_addresses (s\<lparr>srv_api := api, srv_handler := h\<rparr>) = bound_addresses s"
  "recorded (s\<lparr>srv_api := api, srv_handler := h\<rparr>) = recorded s"
  by (simp_all add: hasScheme_def bound_addresses_def recorded_def http_target_def https_target_def fun_eq_iff)

lemma default_handler_keeps:
  assumes "default_handler lib rt s = (s', None)"
  shows "hasScheme s' = hasScheme s \<and> bound_addresses s' = bound_addresses s \<and> recorded s' = recorded s \<and>
    srv_handler s' \<noteq> None"
  using assms by (cases rule: default_handler_server) simp_all

lemma Server_Serve_started:
  assumes "\<not> hasListeners s" and "Server_Serve os lib rt s n = (n', s', a, e)" and "goroutines a \<noteq> []"
  obtains s1 s2 where "Listen os s n = (n', s1, None)" and "default_handler lib rt s1 = (s2, None)"
    and "start_servers os s2 n' = (s', a, e)"
  using assms
  by (auto simp: Server_Serve_def no_activation_def split: prod.splits option.splits)

text \<open>How the servers of a configuration with recorded listeners are started.\<close>

lemma start_cases:
  assumes "recorded s" and "start_servers os s n = (s', a, e)"
  obtains (waits) xs cfg where "e = Waits" and "servers a = map fst xs"
        and "goroutines a = HandleInterrupt # map serve_go xs @ [HandleShutdown]"
        and "placed xs (wanted_plain s @ wanted_tls s cfg)"
        and "hasScheme s schemeHTTPS \<longrightarrow> tls_setup os s n = Inr cfg"
        and "bound_addresses s' = bound_addresses s" and "https_target s' = https_target s"
        and "srv_handler s' = srv_handler s"
    | (tls) xs h where "e = Halted h" and "serves a xs" and "placed xs (wanted_plain s)"
        and "hasScheme s schemeHTTPS" and "tls_setup os s n = Inl h"
        and "http_target s' = http_target s"
proof -
  obtain l a0 xs where run: "serves a0 xs" "placed xs (wanted_plain s)"
    and start: "start_servers os s n = (case serve_https os (s\<lparr>httpServerL := l\<rparr>) n a0 of
            (s, a, Some h) \<Rightarrow> (s, a, Halted h)
          | (s, a, None) \<Rightarrow> (s, a\<lparr>goroutines := goroutines a @ [HandleShutdown]\<rparr>, Waits))"
    using start_plain [OF assms(1)] .
  show thesis
  proof (cases "hasScheme s schemeHTTPS")
    case False
    then have "serve_https os (s\<lparr>httpServerL := l\<rparr>) n a0 = (s\<lparr>httpServerL := l\<rparr>, a0, None)"
      by (simp add: serve_off)
    with assms(2) start have e: "e = Waits" "s' = s\<lparr>httpServerL := l\<rparr>"
        "a = a0\<lparr>goroutines := goroutines a0 @ [HandleShutdown]\<rparr>"
      by auto
    show thesis
      by (rule waits [of xs base_tls_config]) (use e run False in \<open>simp_all add: serves_def wanted_tls_def\<close>)
  next
    case True
    let ?s = "s\<lparr>httpServerL := l\<rparr>"
    have "hasScheme ?s schemeHTTPS" "Addr (httpsServerL ?s) = Return (https_target s)"
      using True recorded_Addr(3) [OF assms(1) True] by simp_all
    from serve_https_on [OF this, of os n a0] obtain l2 where l2: "Addr l2 = Return (https_target s)"
      and https: "serve_https os ?s n a0 = (case tls_setup os s n of
         Inl h \<Rightarrow> (?s\<lparr>httpsServerL := l2\<rparr>, a0, Some h)
       | Inr cfg \<Rightarrow> (?s\<lparr>httpsServerL := l2\<rparr>, launch (https_server_of ?s cfg) (Some (TLSListener l2 cfg)) a0, None))"
      by auto
    show thesis
    proof (cases "tls_setup os s n")
      case (Inl h)
      with assms(2) start https have "e = Halted h" "s' = ?s\<lparr>httpsServerL := l2\<rparr>" "a = a0" by auto
      then show thesis
        by (intro tls [of h xs]) (use run True Inl in simp_all)
    next
      case (Inr cfg)
      let ?x = "(https_server_of s cfg, Some (TLSListener l2 cfg))"
      let ?a = "launch (fst ?x) (snd ?x) a0"
      from Inr assms(2) start https have e: "e = Waits" "s' = ?s\<lparr>httpsServerL := l2\<rparr>"
          "a = ?a\<lparr>goroutines := goroutines ?a @ [HandleShutdown]\<rparr>"
        by auto
      have "serves ?a (xs @ [?x])" using serves_launch [OF run(1)] by simp
      moreover have "placed [?x] [(https_server_of s cfg, https_target s)]"
        by (rule placed_one) (simp add: l2)
      with run(2) have "placed (xs @ [?x]) (wanted_plain s @ wanted_tls s cfg)"
        using True placed_append by (simp add: wanted_tls_def)
      ultimately show thesis
        by (intro waits [of "xs @ [?x]" cfg]) (use e Inr in \<open>simp_all add: serves_def\<close>)
    qed
  qed
qed

lemma tls_setup_Inl:
  "tls_setup os s n = Inl h \<Longrightarrow>
   (\<exists>e. h = ReturnErr e) \<or> (\<exists>m. h = Exit m \<and> (TLSCertificate s = [] \<or> TLSCertificateKey s = []))"
  by (auto simp: tls_setup_def bind_halt_Inl configureTLS_def tls_key_pair_def tls_client_ca_def tls_check_def
      split: if_splits sum.splits option.splits)

lemma Waits_goroutines:
  assumes "Server_Serve os lib rt s n = (n', s', a, Waits)"
  shows "goroutines a \<noteq> []"
proof -
  have "start_servers os s n = (s', a, Waits) \<Longrightarrow> goroutines a \<noteq> []" for s n
    by (auto simp: start_servers_def Let_def split: prod.splits option.splits)
  with assms show ?thesis
    by (auto simp: Server_Serve_def split: prod.splits option.splits)
qed

lemma placed_maps:
  assumes "placed xs ys"
  shows "map fst xs = map fst ys" and "map (\<lambda>x. Addr (snd x)) xs = map (\<lambda>y. Return (snd y)) ys"
  using arg_cong [OF assms [unfolded placed_def], of "map fst"] arg_cong [OF assms [unfolded placed_def], of "map snd"]
  by (simp_all add: comp_def split_def)

lemma placed_mem:
  assumes "placed xs ys" and "(srv, addr) \<in> set ys"
  obtains l where "(srv, l) \<in> set xs" and "Addr l = Return addr"
proof -
  have "(srv, Return addr) \<in> set (map (\<lambda>(srv, l). (srv, Addr l)) xs)"
    unfolding assms(1) [unfolded placed_def] using assms(2) by force
  then show thesis using that by auto
qed

lemma wanted_addresses: "map snd (wanted_plain s @ wanted_tls s cfg) = map snd (bound_addresses s)"
  by (simp add: wanted_plain_def wanted_tls_def bound_addresses_def)

lemma wanted_handlers: "x \<in> set (wanted_plain s @ wanted_tls s cfg) \<Longrightarrow> srv_Handler (fst x) = srv_handler s"
  by (auto simp: wanted_plain_def wanted_tls_def unix_server_def http_server_of_def https_server_of_def split: if_splits)

text \<open>
  \<open>Serve\<close> of a server without listeners that gets as far as starting goroutines: it listens on
  the enabled schemes, and starts the servers from there.
\<close>

lemma Server_Serve_cases:
  assumes "socket_laws os opened" and "\<not> hasListeners s"
    and "hasScheme s schemeUnix \<longrightarrow> SocketPath s \<noteq> []"
    and "Server_Serve os lib rt s n = (n', s', a, e)" and "goroutines a \<noteq> []"
  obtains s2 where "recorded s2" and "opened n' = opened n \<union> set (bound_addresses s2)" and "srv_handler s2 \<noteq> None"
    and "hasScheme s2 = hasScheme s" and "TLSCertificate s2 = TLSCertificate s"
    and "TLSCertificateKey s2 = TLSCertificateKey s" and "TLSCACertificate s2 = TLSCACertificate s"
    and "start_servers os s2 n' = (s', a, e)"
proof -
  from assms(2,4,5) obtain s1 s2 where l: "Listen os s n = (n', s1, None)" and d: "default_handler lib rt s1 = (s2, None)"
    and st: "start_servers os s2 n' = (s', a, e)"
    by (rule Server_Serve_started)
  have s1: "same_setup s s1" using Listen_same_setup [OF assms(2) l] .
  have "TLSCertificate s2 = TLSCertificate s1 \<and> TLSCertificateKey s2 = TLSCertificateKey s1 \<and>
      TLSCACertificate s2 = TLSCACertificate s1"
    using d by (cases rule: default_handler_server) simp_all
  then show thesis
    using that [of s2] s1 default_handler_keeps [OF d] socket_laws.listened [OF assms(1-3) l] st
    by (simp add: same_setup_def)
qed

section \<open>Examples\<close>

text \<open>
  Two configurations of the three schemes: with a certificate, with which serving waits, and with
  one that cannot be read, with which it ends after the HTTP server has been started.
\<close>

definition sample_tls :: "string \<Rightarrow> unit Server" where
  "sample_tls cert = sample_server\<lparr>TLSCertificate := cert, TLSCertificateKey := ''key.pem'',
     srv_handler := Some (\<lambda>r rw w. (w, rw, Return ()))\<rparr>"

definition sample_serve :: "string \<Rightarrow> (string \<times> string) list \<times> unit Server \<times> unit activation \<times> serve_end" where
  "sample_serve cert = Server_Serve sample_os std_openapi sample_rt (sample_tls cert) []"

definition sample_end :: "string \<Rightarrow> serve_end \<times> nat" where
  "sample_end cert = (case sample_serve cert of (n, s, a, e) \<Rightarrow> (e, length (goroutines a)))"

lemma sample_ends:
  "sample_end ''cert.pem'' = (Waits, 5)"
  "sample_end ''none.pem'' = (Halted (ReturnErr (Foreign ''no such file'')), 3)"
  by code_simp+

lemma sample_tls_fresh:
  "\<not> hasListeners (sample_tls cert)" "hasScheme (sample_tls cert) schemeUnix \<longrightarrow> SocketPath (sample_tls cert) \<noteq> []"
  "hasScheme (sample_tls cert) schemeHTTP" "hasScheme (sample_tls cert) schemeHTTPS"
  by (simp_all add: sample_tls_def sample_server_def NewServer_def hasScheme_def)

section \<open>Properties\<close>

text \<open>
  What \<open>Serve\<close> starts. When it waits, it has opened exactly the sockets of the enabled
  schemes and runs one server on each, in the order unix, HTTP, HTTPS, all with the server's
  handler, which is set; around them run the goroutines for interrupts and for shutting down.
\<close>

theorem serve_starts_enabled_servers:
  assumes "socket_laws os opened" and "\<not> hasListeners s"
    and "hasScheme s schemeUnix \<longrightarrow> SocketPath s \<noteq> []"
    and "Server_Serve os lib rt s n = (n', s', a, Waits)"
  shows "\<exists>xs. servers a = map fst xs \<and> goroutines a = HandleInterrupt # map serve_go xs @ [HandleShutdown] \<and>
    opened n' = opened n \<union> set (bound_addresses s') \<and>
    map (\<lambda>x. Addr (snd x)) xs = map (\<lambda>b. Return (snd b)) (bound_addresses s') \<and>
    (\<forall>srv \<in> set (servers a). srv_Handler srv = srv_handler s') \<and> srv_handler s' \<noteq> None"
proof -
  obtain s2 where s2: "recorded s2" "opened n' = opened n \<union> set (bound_addresses s2)" "srv_handler s2 \<noteq> None"
    and st: "start_servers os s2 n' = (s', a, Waits)"
    using Server_Serve_cases [OF assms Waits_goroutines [OF assms(4)]] .
  from s2(1) st show ?thesis
  proof (cases rule: start_cases)
    case (waits xs cfg)
    have "map (\<lambda>x. Addr (snd x)) xs = map (\<lambda>b. Return (snd b)) (bound_addresses s2)"
      unfolding placed_maps(2) [OF waits(4)] using arg_cong [OF wanted_addresses [of s2 cfg], of "map Return"]
      by (simp add: comp_def)
    moreover have "\<forall>srv \<in> set (map fst xs). srv_Handler srv = srv_handler s2"
      unfolding placed_maps(1) [OF waits(4)] using wanted_handlers [of _ s2 cfg] by (simp add: image_iff) blast
    ultimately show ?thesis using waits s2(2,3) by auto
  qed simp
qed


lemma sample_waits:
  obtains n' s' a where "Server_Serve sample_os std_openapi sample_rt (sample_tls ''cert.pem'') [] = (n', s', a, Waits)"
    and "length (goroutines a) = 5"
  using sample_ends(1) by (auto simp: sample_end_def sample_serve_def split: prod.splits)

theorem serve_starts_enabled_servers_witness:
  "\<exists>n' s' a. Server_Serve sample_os std_openapi sample_rt (sample_tls ''cert.pem'') [] = (n', s', a, Waits) \<and>
     length (servers a) = 3 \<and> n' \<noteq> []"
proof (rule sample_waits)
  fix n' s' a
  assume run: "Server_Serve sample_os std_openapi sample_rt (sample_tls ''cert.pem'') [] = (n', s', a, Waits)"
    and len: "length (goroutines a) = 5"
  from serve_starts_enabled_servers [OF sample_os_laws sample_tls_fresh(1,2) run] obtain xs
    where xs: "servers a = map fst xs" "goroutines a = HandleInterrupt # map serve_go xs @ [HandleShutdown]"
      "set n' = set [] \<union> set (bound_addresses s')"
      "map (\<lambda>x. Addr (snd x)) xs = map (\<lambda>b. Return (snd b)) (bound_addresses s')"
    by blast
  have three: "length xs = 3" using xs(2) len by simp
  with xs(4) have "length (bound_addresses s') = 3" by (metis length_map)
  with xs(3) have "n' \<noteq> []" by auto
  with three run xs(1) show ?thesis by auto
qed

text \<open>
  C23. HTTPS needs a certificate. When HTTPS is enabled, \<open>Serve\<close> waits only if both flags are set
  and the key pair loads; the HTTPS server then has exactly that certificate, at least TLS 1.2,
  and demands a client certificate if an authority is configured. \<open>Fatalf\<close> ends the process only
  when a flag is missing.
\<close>

theorem https_needs_certificate:
  assumes "socket_laws os opened" and "\<not> hasListeners s"
    and "hasScheme s schemeUnix \<longrightarrow> SocketPath s \<noteq> []" and "hasScheme s schemeHTTPS"
    and "Server_Serve os lib rt s n = (n', s', a, e)" and "goroutines a \<noteq> []"
  shows "(e = Waits \<longrightarrow> (\<exists>srv l cfg c.
       ServeOn srv l \<in> set (goroutines a) \<and> Addr l = Return (https_target s') \<and> TLSConfig srv = Some cfg \<and>
       TLSCertificate s \<noteq> [] \<and> TLSCertificateKey s \<noteq> [] \<and>
       LoadX509KeyPair os (TLSCertificate s) (TLSCertificateKey s) n' = Inr c \<and>
       Certificates cfg = [c] \<and> MinVersion cfg = ''TLS12'' \<and>
       (TLSCACertificate s \<noteq> [] \<longrightarrow> ClientAuth cfg = ''RequireAndVerifyClientCert'' \<and> ClientCAs cfg \<noteq> None))) \<and>
    (\<forall>m. e = Halted (Exit m) \<longrightarrow> TLSCertificate s = [] \<or> TLSCertificateKey s = [])"
proof -
  obtain s2 where s2: "recorded s2" "hasScheme s2 = hasScheme s" "TLSCertificate s2 = TLSCertificate s"
      "TLSCertificateKey s2 = TLSCertificateKey s" "TLSCACertificate s2 = TLSCACertificate s"
    and st: "start_servers os s2 n' = (s', a, e)"
    using Server_Serve_cases [OF assms(1-3,5,6)] .
  from s2(1) st show ?thesis
  proof (cases rule: start_cases)
    case (waits xs cfg)
    have "(https_server_of s2 cfg, https_target s2) \<in> set (wanted_plain s2 @ wanted_tls s2 cfg)"
      using assms(4) s2(2) by (simp add: wanted_tls_def)
    from placed_mem [OF waits(4) this] obtain l where
      l: "(https_server_of s2 cfg, l) \<in> set xs" "Addr l = Return (https_target s')"
      using waits(7) by auto
    then have "ServeOn (https_server_of s2 cfg) l \<in> set (goroutines a)"
      unfolding waits(3) by (force simp: serve_go_def)
    moreover have "TLSConfig (https_server_of s2 cfg) = Some cfg" by (simp add: https_server_of_def)
    moreover have "tls_setup os s2 n' = Inr cfg" using waits(5) assms(4) s2(2) by simp
    note tls_setup_Inr [OF this, unfolded s2(3-5)]
    ultimately show ?thesis using l(2) unfolding waits(1) by blast
  next
    case (tls xs h)
    then show ?thesis using tls_setup_Inl [of os s2 n' h] s2 by auto
  qed
qed

theorem https_needs_certificate_witness:
  "\<exists>n' s' a srv l cfg. Server_Serve sample_os std_openapi sample_rt (sample_tls ''cert.pem'') [] = (n', s', a, Waits) \<and>
     ServeOn srv l \<in> set (goroutines a) \<and> TLSConfig srv = Some cfg \<and> MinVersion cfg = ''TLS12''"
proof (rule sample_waits)
  fix n' s' a
  assume run: "Server_Serve sample_os std_openapi sample_rt (sample_tls ''cert.pem'') [] = (n', s', a, Waits)"
    and len: "length (goroutines a) = 5"
  then have "goroutines a \<noteq> []" by auto
  from https_needs_certificate [OF sample_os_laws sample_tls_fresh(1,2,4) run this] run show ?thesis by blast
qed

text \<open>
  C24. An error of the TLS configuration comes too late. If the HTTPS part of \<open>Serve\<close> fails, the
  HTTP server (when enabled) is already running on its socket, and it keeps running: the
  goroutine that would shut it down has not been started.
\<close>

theorem failed_https_leaves_http_running:
  assumes "socket_laws os opened" and "\<not> hasListeners s"
    and "hasScheme s schemeUnix \<longrightarrow> SocketPath s \<noteq> []" and "hasScheme s schemeHTTP"
    and "Server_Serve os lib rt s n = (n', s', a, Halted h)" and "goroutines a \<noteq> []"
  shows "HandleShutdown \<notin> set (goroutines a) \<and>
    (\<exists>srv l. ServeOn srv l \<in> set (goroutines a) \<and> TLSConfig srv = None \<and> Addr l = Return (http_target s')) \<and>
    (''tcp'', http_target s') \<in> opened n'"
proof -
  obtain s2 where s2: "recorded s2" "hasScheme s2 = hasScheme s" "opened n' = opened n \<union> set (bound_addresses s2)"
    and st: "start_servers os s2 n' = (s', a, Halted h)"
    using Server_Serve_cases [OF assms(1-3,5,6)] .
  from s2(1) st show ?thesis
  proof (cases rule: start_cases)
    case (tls xs h)
    have "(http_server_of s2, http_target s2) \<in> set (wanted_plain s2)"
      using assms(4) s2(2) by (simp add: wanted_plain_def)
    from placed_mem [OF tls(3) this] obtain l where
      l: "(http_server_of s2, l) \<in> set xs" "Addr l = Return (http_target s')"
      using tls(6) by auto
    have go: "goroutines a = HandleInterrupt # map serve_go xs" using tls(2) by (simp add: serves_def)
    have "ServeOn (http_server_of s2) l \<in> set (goroutines a)"
      unfolding go using l(1) by (force simp: serve_go_def)
    moreover have "HandleShutdown \<notin> set (goroutines a)" by (auto simp: go serve_go_def)
    moreover have "TLSConfig (http_server_of s2) = None" by (simp add: http_server_of_def)
    moreover have "(''tcp'', http_target s') \<in> opened n'"
      using s2(2,3) assms(4) tls(6) by (simp add: bound_addresses_def)
    ultimately show ?thesis using l(2) by blast
  qed simp
qed

theorem failed_https_leaves_http_running_witness:
  "case sample_serve ''none.pem'' of (n', s', a, e) \<Rightarrow>
     e \<noteq> Waits \<and> HandleShutdown \<notin> set (goroutines a) \<and> (''tcp'', http_target s') \<in> set n'"
proof -
  obtain n' s' a where run: "sample_serve ''none.pem'' = (n', s', a, Halted (ReturnErr (Foreign ''no such file'')))"
    and len: "length (goroutines a) = 3"
    using sample_ends(2) by (auto simp: sample_end_def split: prod.splits)
  then have "goroutines a \<noteq> []" by auto
  from failed_https_leaves_http_running [OF sample_os_laws sample_tls_fresh(1-3) run [unfolded sample_serve_def] this]
  show ?thesis by (simp add: run)
qed

end
