(* ===== verification/Shutdown.thy ===== *)
theory Shutdown
  imports Serving Machines
begin

text \<open>
  \<open>restapi/server.go\<close>, third part: what happens after \<open>Serve\<close> has started its goroutines, up to
  its return. The goroutines are \<open>handleInterrupt\<close>, \<open>handleShutdown\<close> with one goroutine per
  server that shuts the server down, the servers themselves, and any number of callers of
  \<open>Shutdown\<close>. Each access to shared data is one step. The environment delivers signals, lets a
  server fail, and decides whether shutting a server down succeeds (\<open>net/http\<close> promises that it
  returns: the context given to it has a timeout).
\<close>

section \<open>Shutdown and handleInterrupt\<close>

text \<open>A call of \<open>Shutdown\<close>: before the compare-and-swap, before \<open>close\<close>, returned.\<close>

datatype caller = CallCas | CallClose | CallDone

datatype interrupt_pc = Ranging | Checking | Calling caller

datatype fault = Crash string | Exited

abbreviation (input) close_closed :: string where
  "close_closed \<equiv> ''close of closed channel''"

text \<open>\<open>signal.Notify\<close> does not block: a signal is dropped when the channel, of capacity 1, is full.\<close>

definition deliver :: "lifecycle \<Rightarrow> lifecycle" where
  "deliver l = (if interrupt l < 1 then l\<lparr>interrupt := interrupt l + 1\<rparr> else l)"

fun Shutdown_step :: "caller \<Rightarrow> lifecycle \<Rightarrow> (lifecycle \<times> caller \<times> fault option) option" where
  "Shutdown_step CallCas l =
     (if shuttingDown l = 0 then Some (l\<lparr>shuttingDown := 1\<rparr>, CallClose, None) else Some (l, CallDone, None))"
| "Shutdown_step CallClose l =
     (if shutdown_closed l then Some (l, CallDone, Some (Crash close_closed))
      else Some (l\<lparr>shutdown_closed := True\<rparr>, CallDone, None))"
| "Shutdown_step CallDone l = None"

text \<open>The loop of \<open>handleInterrupt\<close> over the channel, which is never closed.\<close>

fun interrupt_step :: "interrupt_pc \<Rightarrow> lifecycle \<Rightarrow> (lifecycle \<times> interrupt_pc \<times> fault option) option" where
  "interrupt_step Ranging l =
     (if 0 < interrupt l then Some (l\<lparr>interrupt := interrupt l - 1\<rparr>, Checking, None) else None)"
| "interrupt_step Checking l =
     (if interrupted l then Some (l, Ranging, None)
      else Some (l\<lparr>interrupted := True\<rparr>, Calling CallCas, None))"
| "interrupt_step (Calling c) l =
     (case Shutdown_step c l of
        None \<Rightarrow> Some (l, Ranging, None)
      | Some (l', CallDone, f) \<Rightarrow> Some (l', Ranging, f)
      | Some (l', c', f) \<Rightarrow> Some (l', Calling c', f))"

section \<open>handleShutdown\<close>

text \<open>
  The goroutine that shuts a server down: not started, started, inside \<open>Shutdown\<close> of the server,
  sending the result, and its result received.
\<close>

datatype stopper = Unborn | Spawned | Stopping | Sending bool | Sent bool

datatype shutdown_pc =
    AwaitShutdown
  | PreHook
  | Spawning nat
  | Collecting nat bool
  | PostHook
  | HDone

datatype hook = PreServerShutdown | ServerShutdown

datatype event =
    Signal
  | CallerMoves nat
  | InterruptMoves
  | HandleMoves
  | Collects nat
  | StopperMoves nat bool
  | ServerReturns nat
  | ServerFails nat
  | ServeReturns

record drain =
  hpc :: shutdown_pc
  stoppers :: "stopper list"
  serving :: "bool list"
  log :: "hook list"

text \<open>
  \<open>success = success && <-shutdownChan\<close> receives only while \<open>success\<close> is true: then it waits
  for one of the senders (\<open>Collects\<close>), otherwise the loop goes on by itself.
\<close>

definition handle_move :: "bool \<Rightarrow> drain \<Rightarrow> drain option" where
  "handle_move closed d =
     (case hpc d of
        AwaitShutdown \<Rightarrow> if closed then Some (d\<lparr>hpc := PreHook\<rparr>) else None
      | PreHook \<Rightarrow> Some (d\<lparr>log := log d @ [PreServerShutdown], hpc := Spawning 0\<rparr>)
      | Spawning i \<Rightarrow>
          if i < length (stoppers d)
          then Some (d\<lparr>stoppers := (stoppers d)[i := Spawned], hpc := Spawning (i + 1)\<rparr>)
          else Some (d\<lparr>hpc := Collecting 0 True\<rparr>)
      | Collecting i success \<Rightarrow>
          if i < length (stoppers d)
          then if success then None else Some (d\<lparr>hpc := Collecting (i + 1) False\<rparr>)
          else Some (d\<lparr>hpc := (if success then PostHook else HDone)\<rparr>)
      | PostHook \<Rightarrow> Some (d\<lparr>log := log d @ [ServerShutdown], hpc := HDone\<rparr>)
      | HDone \<Rightarrow> None)"

definition collect_move :: "nat \<Rightarrow> drain \<Rightarrow> drain option" where
  "collect_move j d =
     (case hpc d of
        Collecting i True \<Rightarrow>
          if i < length (stoppers d) \<and> j < length (stoppers d) then
            (case stoppers d ! j of
               Sending b \<Rightarrow> Some (d\<lparr>stoppers := (stoppers d)[j := Sent b], hpc := Collecting (i + 1) b\<rparr>)
             | _ \<Rightarrow> None)
          else None
      | _ \<Rightarrow> None)"

definition stopper_move :: "nat \<Rightarrow> bool \<Rightarrow> drain \<Rightarrow> drain option" where
  "stopper_move j result d =
     (if j < length (stoppers d) then
        (case stoppers d ! j of
           Spawned \<Rightarrow> Some (d\<lparr>stoppers := (stoppers d)[j := Stopping]\<rparr>)
         | Stopping \<Rightarrow> Some (d\<lparr>stoppers := (stoppers d)[j := Sending result]\<rparr>)
         | _ \<Rightarrow> None)
      else None)"

text \<open>\<open>Serve\<close> of a server returns \<open>ErrServerClosed\<close> as soon as its \<open>Shutdown\<close> has been called.\<close>

definition server_returns :: "nat \<Rightarrow> drain \<Rightarrow> drain option" where
  "server_returns j d =
     (if j < length (serving d) \<and> serving d ! j \<and> j < length (stoppers d) \<and> stoppers d ! j \<notin> {Unborn, Spawned}
      then Some (d\<lparr>serving := (serving d)[j := False]\<rparr>) else None)"

text \<open>The counter of the wait group: the servers and \<open>handleShutdown\<close>.\<close>

definition wg_count :: "drain \<Rightarrow> nat" where
  "wg_count d = length (filter (\<lambda>b. b) (serving d)) + (if hpc d = HDone then 0 else 1)"

section \<open>The whole machine\<close>

record server_run =
  lc :: lifecycle
  ipc :: interrupt_pc
  callers :: "caller list"
  dr :: drain
  api_present :: bool
  fault :: "fault option"
  returned :: bool

definition drain_by :: "server_run \<Rightarrow> drain option \<Rightarrow> server_run option" where
  "drain_by s m = map_option (\<lambda>d. s\<lparr>dr := d\<rparr>) m"

fun live_move :: "event \<Rightarrow> server_run \<Rightarrow> server_run option" where
  "live_move Signal s = Some (s\<lparr>lc := deliver (lc s)\<rparr>)"
| "live_move (CallerMoves i) s =
     (if i < length (callers s) then
        map_option (\<lambda>(l, c, f). s\<lparr>lc := l, callers := (callers s)[i := c], fault := f\<rparr>)
          (Shutdown_step (callers s ! i) (lc s))
      else None)"
| "live_move InterruptMoves s =
     map_option (\<lambda>(l, c, f). s\<lparr>lc := l, ipc := c, fault := f\<rparr>) (interrupt_step (ipc s) (lc s))"
| "live_move HandleMoves s =
     (if hpc (dr s) = PreHook \<and> \<not> api_present s then Some (s\<lparr>fault := Some (Crash nil_deref)\<rparr>)
      else drain_by s (handle_move (shutdown_closed (lc s)) (dr s)))"
| "live_move (Collects j) s = drain_by s (collect_move j (dr s))"
| "live_move (StopperMoves j result) s = drain_by s (stopper_move j result (dr s))"
| "live_move (ServerReturns j) s = drain_by s (server_returns j (dr s))"
| "live_move (ServerFails j) s =
     (if j < length (serving (dr s)) \<and> serving (dr s) ! j then Some (s\<lparr>fault := Some Exited\<rparr>) else None)"
| "live_move ServeReturns s =
     (if \<not> returned s \<and> wg_count (dr s) = 0 then Some (s\<lparr>returned := True\<rparr>) else None)"

text \<open>After a panic or \<open>Fatalf\<close> the process is gone.\<close>

definition server_move :: "event \<Rightarrow> server_run \<Rightarrow> server_run option" where
  "server_move e s = (if fault s = None then live_move e s else None)"

text \<open>The state in which \<open>Serve\<close> waits, with \<open>k\<close> callers of \<open>Shutdown\<close> to come.\<close>

definition waiting :: "'w Server \<Rightarrow> 'w activation \<Rightarrow> nat \<Rightarrow> server_run" where
  "waiting s a k =
     \<lparr>lc = life s, ipc = Ranging, callers = replicate k CallCas,
      dr = \<lparr>hpc = AwaitShutdown, stoppers = replicate (length (servers a)) Unborn,
            serving = replicate (length (servers a)) True, log = []\<rparr>,
      api_present = (srv_api s \<noteq> None), fault = None, returned = False\<rparr>"

section \<open>The channel is closed once\<close>

fun closing :: "caller \<Rightarrow> nat" where
  "closing CallClose = 1"
| "closing CallCas = 0"
| "closing CallDone = 0"

fun closing_pc :: "interrupt_pc \<Rightarrow> nat" where
  "closing_pc (Calling c) = closing c"
| "closing_pc Ranging = 0"
| "closing_pc Checking = 0"

text \<open>
  Who has swapped the flag and not yet closed the channel; together with the closed channel they
  are one exactly when the flag is set.
\<close>

definition closers :: "server_run \<Rightarrow> nat" where
  "closers s = sum_list (map closing (callers s)) + closing_pc (ipc s)"

definition closing_inv :: "server_run \<Rightarrow> bool" where
  "closing_inv s \<longleftrightarrow>
     closers s + of_bool (shutdown_closed (lc s)) = of_bool (shuttingDown (lc s) \<noteq> 0) \<and>
     (fault s = None \<or> fault s = Some Exited \<or> \<not> api_present s \<and> fault s = Some (Crash nil_deref))"

text \<open>A step of \<open>Shutdown\<close> keeps the balance, and closes only an open channel.\<close>

lemma Shutdown_step_balance:
  assumes "Shutdown_step c l = Some (l', c', f)"
    and "m + closing c + of_bool (shutdown_closed l) = of_bool (shuttingDown l \<noteq> 0)"
  shows "m + closing c' + of_bool (shutdown_closed l') = of_bool (shuttingDown l' \<noteq> 0) \<and> f = None \<and>
    interrupt l' = interrupt l \<and> interrupted l' = interrupted l"
  using assms by (cases c) (auto split: if_splits)

lemma deliver_fields [simp]:
  "shutdown_closed (deliver l) = shutdown_closed l" "shuttingDown (deliver l) = shuttingDown l"
  "interrupted (deliver l) = interrupted l" "0 < interrupt (deliver l)"
  by (simp_all add: deliver_def)

lemma interrupt_step_balance:
  assumes "interrupt_step c l = Some (l', c', f)"
    and "m + closing_pc c + of_bool (shutdown_closed l) = of_bool (shuttingDown l \<noteq> 0)"
  shows "m + closing_pc c' + of_bool (shutdown_closed l') = of_bool (shuttingDown l' \<noteq> 0) \<and> f = None"
proof (cases c)
  case (Calling c0)
  show ?thesis
  proof (cases "Shutdown_step c0 l")
    case None
    with assms Calling show ?thesis by (cases c0) (auto split: if_splits)
  next
    case (Some r)
    obtain l1 c1 f1 where r: "r = (l1, c1, f1)" by (cases r)
    from Shutdown_step_balance [OF Some [unfolded r], of m] assms Calling Some r show ?thesis
      by (cases c1) auto
  qed
qed (use assms in \<open>auto split: if_splits\<close>)

lemma drain_by_fields:
  "drain_by s m = Some t \<Longrightarrow> lc t = lc s \<and> ipc t = ipc s \<and> callers t = callers s \<and> api_present t = api_present s \<and>
     fault t = fault s \<and> returned t = returned s \<and> m = Some (dr t)"
  by (auto simp: drain_by_def)

lemma closing_preserved:
  assumes "closing_inv s" and "server_move e s = Some t"
  shows "closing_inv t"
proof -
  have ok: "fault s = None" and move: "live_move e s = Some t"
    using assms(2) by (auto simp: server_move_def split: if_splits)
  show ?thesis
  proof (cases e)
    case (CallerMoves i)
    with move obtain l c f where i: "i < length (callers s)" and st: "Shutdown_step (callers s ! i) (lc s) = Some (l, c, f)"
      and t: "t = s\<lparr>lc := l, callers := (callers s)[i := c], fault := f\<rparr>"
      by (auto split: if_splits)
    have sum: "closers t + closing (callers s ! i) = closers s + closing c"
      using sum_list_map_update [OF i, of closing c] by (simp add: closers_def t)
    have "closing (callers s ! i) \<le> sum_list (map closing (callers s))"
      using elem_le_sum_list [of i "map closing (callers s)"] i by simp
    then obtain m where m: "closers s = m + closing (callers s ! i)"
      unfolding closers_def by (metis add.commute add.left_commute le_Suc_ex)
    from Shutdown_step_balance [OF st, of m] assms(1) m have
      "m + closing c + of_bool (shutdown_closed l) = of_bool (shuttingDown l \<noteq> 0) \<and> f = None"
      by (simp add: closing_inv_def)
    with sum m have "closers t + of_bool (shutdown_closed l) = of_bool (shuttingDown l \<noteq> 0) \<and> f = None"
      by linarith
    moreover have "lc t = l" and "fault t = f" by (simp_all add: t)
    ultimately show ?thesis by (simp add: closing_inv_def)
  next
    case InterruptMoves
    with move obtain l c f where st: "interrupt_step (ipc s) (lc s) = Some (l, c, f)"
      and t: "t = s\<lparr>lc := l, ipc := c, fault := f\<rparr>"
      by auto
    from interrupt_step_balance [OF st, of "sum_list (map closing (callers s))"] assms(1) show ?thesis
      by (simp add: closing_inv_def closers_def t)
  next
    case HandleMoves
    with move assms(1) ok show ?thesis
      by (auto simp: closing_inv_def closers_def dest: drain_by_fields split: if_splits)
  qed (use move assms(1) ok in \<open>auto simp: closing_inv_def closers_def dest: drain_by_fields split: if_splits\<close>)
qed

interpretation closing: machine_invariant server_move closing_inv
  by unfold_locales (rule closing_preserved)

lemma waiting_closing: "life s = new_lifecycle \<Longrightarrow> closing_inv (waiting s a k)"
  by (simp add: closing_inv_def closers_def waiting_def new_lifecycle_def sum_list_replicate)

section \<open>The order of shutting down\<close>

fun is_sent :: "stopper \<Rightarrow> nat" where
  "is_sent (Sent b) = 1"
| "is_sent Unborn = 0"
| "is_sent Spawned = 0"
| "is_sent Stopping = 0"
| "is_sent (Sending b) = 0"

lemma is_sent_le: "is_sent x \<le> 1"
  by (cases x) auto

definition collected :: "stopper list \<Rightarrow> nat" where
  "collected xs = sum_list (map is_sent xs)"

text \<open>What holds at each position of \<open>handleShutdown\<close>.\<close>

definition at_pc :: "drain \<Rightarrow> bool" where
  "at_pc d =
     (case hpc d of
        AwaitShutdown \<Rightarrow> set (stoppers d) \<subseteq> {Unborn} \<and> log d = []
      | PreHook \<Rightarrow> set (stoppers d) \<subseteq> {Unborn} \<and> log d = []
      | Spawning i \<Rightarrow> i \<le> length (stoppers d) \<and> (\<forall>j < length (stoppers d). stoppers d ! j = Unborn \<longleftrightarrow> i \<le> j) \<and>
          collected (stoppers d) = 0 \<and> log d = [PreServerShutdown]
      | Collecting i success \<Rightarrow> i \<le> length (stoppers d) \<and> Unborn \<notin> set (stoppers d) \<and>
          (success \<longrightarrow> collected (stoppers d) = i \<and> Sent False \<notin> set (stoppers d)) \<and> log d = [PreServerShutdown]
      | PostHook \<Rightarrow> set (stoppers d) \<subseteq> {Sent True} \<and> log d = [PreServerShutdown]
      | HDone \<Rightarrow> Unborn \<notin> set (stoppers d) \<and>
          (log d = [PreServerShutdown] \<or>
           log d = [PreServerShutdown, ServerShutdown] \<and> set (stoppers d) \<subseteq> {Sent True}))"

definition served_ok :: "drain \<Rightarrow> bool" where
  "served_ok d \<longleftrightarrow> length (serving d) = length (stoppers d) \<and>
     (\<forall>j < length (stoppers d). \<not> serving d ! j \<longrightarrow> stoppers d ! j \<notin> {Unborn, Spawned})"

definition drain_inv :: "drain \<Rightarrow> bool" where
  "drain_inv d \<longleftrightarrow> at_pc d \<and> served_ok d"

lemma none_collected: "collected xs = 0 \<Longrightarrow> Sent b \<notin> set xs"
  by (induction xs) (auto simp: collected_def)

lemma all_unborn: "set xs \<subseteq> {Unborn} \<Longrightarrow> collected xs = 0 \<and> (\<forall>j < length xs. xs ! j = Unborn)"
  by (induction xs) (auto simp: collected_def nth_Cons')

lemma all_collected:
  assumes "collected xs = length xs" and "Sent False \<notin> set xs"
  shows "set xs \<subseteq> {Sent True}"
proof
  fix x assume x: "x \<in> set xs"
  then have "is_sent x = 1"
    using assms(1) sum_list_eq_length_iff [of is_sent xs, OF is_sent_le] by (simp add: collected_def)
  then obtain b where "x = Sent b" by (cases x) auto
  with x assms(2) show "x \<in> {Sent True}" by (cases b) auto
qed

lemma collected_update:
  "j < length xs \<Longrightarrow> collected (xs[j := x]) + is_sent (xs ! j) = collected xs + is_sent x"
  by (simp add: collected_def sum_list_map_update)

lemma set_update_cases: "y \<in> set (xs[j := x]) \<Longrightarrow> y = x \<or> y \<in> set xs"
  using set_update_subset_insert [of xs j x] by auto

lemma handle_inv:
  assumes "drain_inv d" and "handle_move closed d = Some d'"
  shows "drain_inv d'"
proof (cases "hpc d")
  case (Spawning i)
  show ?thesis
  proof (cases "i < length (stoppers d)")
    case True
    from assms(1) Spawning True have "serving d ! i" "stoppers d ! i = Unborn"
      by (auto simp: drain_inv_def at_pc_def served_ok_def)
    with assms Spawning True collected_update [OF True, of Spawned] show ?thesis
      by (auto simp: handle_move_def drain_inv_def at_pc_def served_ok_def nth_list_update)
  next
    case False
    with assms Spawning none_collected [of "stoppers d" False] show ?thesis
      by (auto simp: handle_move_def drain_inv_def at_pc_def served_ok_def in_set_conv_nth)
  qed
next
  case PreHook
  with assms all_unborn [of "stoppers d"] show ?thesis
    by (auto simp: handle_move_def drain_inv_def at_pc_def served_ok_def)
next
  case (Collecting i success)
  with assms all_collected [of "stoppers d"] show ?thesis
    by (auto simp: handle_move_def drain_inv_def at_pc_def served_ok_def split: if_splits)
qed (use assms in \<open>auto simp: handle_move_def drain_inv_def at_pc_def served_ok_def split: if_splits\<close>)

lemma collect_inv:
  assumes "drain_inv d" and "collect_move j d = Some d'"
  shows "drain_inv d'"
proof -
  obtain i b where pc: "hpc d = Collecting i True" and i: "i < length (stoppers d)" and j: "j < length (stoppers d)"
    and snd: "stoppers d ! j = Sending b"
    and d': "d' = d\<lparr>stoppers := (stoppers d)[j := Sent b], hpc := Collecting (i + 1) b\<rparr>"
    using assms(2) by (auto simp: collect_move_def split: shutdown_pc.splits bool.splits if_splits stopper.splits)
  show ?thesis
    using assms(1) pc i j snd collected_update [OF j, of "Sent b"]
    by (auto simp: d' drain_inv_def at_pc_def served_ok_def nth_list_update dest: set_update_cases)
qed

lemma stopper_inv:
  assumes "drain_inv d" and "stopper_move j r d = Some d'"
  shows "drain_inv d'"
proof -
  obtain x where j: "j < length (stoppers d)" and x: "x \<notin> {Unborn, Spawned}" "is_sent x = 0" "is_sent (stoppers d ! j) = 0"
      "stoppers d ! j \<noteq> Unborn" and d': "d' = d\<lparr>stoppers := (stoppers d)[j := x]\<rparr>"
    using assms(2) that [of Stopping] that [of "Sending r"] by (auto simp: stopper_move_def split: if_splits stopper.splits)
  have "stoppers d ! j \<in> set (stoppers d)" using j by simp
  then have "\<not> set (stoppers d) \<subseteq> {Unborn}" "\<not> set (stoppers d) \<subseteq> {Sent True}" using x(3,4) by auto
  with assms(1) j x collected_update [OF j, of x] show ?thesis
    by (cases "hpc d")
       (auto simp: d' drain_inv_def at_pc_def served_ok_def nth_list_update dest: set_update_cases)
qed

lemma server_returns_inv:
  assumes "drain_inv d" and "server_returns j d = Some d'"
  shows "drain_inv d'"
  using assms
  by (auto simp: drain_inv_def at_pc_def served_ok_def server_returns_def nth_list_update
      split: if_splits shutdown_pc.splits)

text \<open>
  On the whole machine: besides, \<open>handleShutdown\<close> has passed its wait only if the channel is
  closed, and \<open>Serve\<close> returns only when the wait group is down to zero.
\<close>

definition run_inv :: "server_run \<Rightarrow> bool" where
  "run_inv s \<longleftrightarrow> drain_inv (dr s) \<and> (hpc (dr s) \<noteq> AwaitShutdown \<longrightarrow> shutdown_closed (lc s)) \<and>
     (returned s \<longrightarrow> wg_count (dr s) = 0)"

lemma wg_zero: "wg_count d = 0 \<longleftrightarrow> hpc d = HDone \<and> True \<notin> set (serving d)"
  by (auto simp: wg_count_def filter_empty_conv split: if_splits)

lemma closed_stays:
  assumes "server_move e s = Some t" and "shutdown_closed (lc s)"
  shows "shutdown_closed (lc t)"
proof -
  have step: "shutdown_closed l'" if "Shutdown_step c l = Some (l', c', f)" and "shutdown_closed l" for c l l' c' f
    using that by (cases c) (auto split: if_splits)
  have "shutdown_closed l'" if "interrupt_step c l = Some (l', c', f)" and "shutdown_closed l" for c l l' c' f
  proof (cases c)
    case (Calling c0)
    with that show ?thesis
      using step [of c0 l] by (cases "Shutdown_step c0 l") (auto split: caller.splits prod.splits)
  qed (use that in \<open>auto split: if_splits\<close>)
  with step assms show ?thesis
    by (cases e) (auto simp: server_move_def dest: drain_by_fields split: if_splits)
qed

lemma drain_moves:
  assumes "drain_inv d"
  shows "handle_move c d = Some d' \<Longrightarrow> drain_inv d'" and "collect_move j d = Some d' \<Longrightarrow> drain_inv d'"
    and "stopper_move j r d = Some d' \<Longrightarrow> drain_inv d'" and "server_returns j d = Some d' \<Longrightarrow> drain_inv d'"
  using assms handle_inv collect_inv stopper_inv server_returns_inv by blast+

text \<open>No step of the drain starts it, and none undoes the end of the wait group.\<close>

lemma drain_moves_started:
  "handle_move c d = Some d' \<Longrightarrow> hpc d' \<noteq> AwaitShutdown \<and> (hpc d = AwaitShutdown \<longrightarrow> c) \<and> hpc d \<noteq> HDone"
  "collect_move j d = Some d' \<Longrightarrow> hpc d \<noteq> AwaitShutdown \<and> hpc d \<noteq> HDone"
  "stopper_move j r d = Some d' \<Longrightarrow> hpc d' = hpc d \<and> serving d' = serving d"
  "server_returns j d = Some d' \<Longrightarrow> hpc d' = hpc d \<and> True \<in> set (serving d)"
  by (auto simp: handle_move_def collect_move_def stopper_move_def server_returns_def in_set_conv_nth
      split: shutdown_pc.splits if_splits bool.splits stopper.splits)

lemma run_inv_preserved:
  assumes "run_inv s" and "server_move e s = Some t"
  shows "run_inv t"
proof -
  have move: "live_move e s = Some t"
    using assms(2) by (auto simp: server_move_def split: if_splits)
  have drain: "run_inv t" if "drain_by s m = Some t" and "\<And>d. m = Some d \<Longrightarrow> drain_inv d"
      and "\<And>d. m = Some d \<Longrightarrow> hpc d \<noteq> AwaitShutdown \<Longrightarrow> shutdown_closed (lc s)"
      and "\<And>d. m = Some d \<Longrightarrow> wg_count (dr s) = 0 \<Longrightarrow> wg_count d = 0" for m
    using drain_by_fields [OF that(1)] that(2-4) assms(1) by (auto simp: run_inv_def)
  have "drain_inv (dr s)" using assms(1) by (simp add: run_inv_def)
  note keeps = drain_moves [OF this]
  have closed: "hpc (dr s) \<noteq> AwaitShutdown \<Longrightarrow> shutdown_closed (lc s)" using assms(1) by (simp add: run_inv_def)
  show ?thesis
  proof (cases e)
    case HandleMoves
    show ?thesis
    proof (cases "hpc (dr s) = PreHook \<and> \<not> api_present s")
      case True
      with move HandleMoves assms(1) show ?thesis by (auto simp: run_inv_def)
    next
      case False
      with move HandleMoves have "drain_by s (handle_move (shutdown_closed (lc s)) (dr s)) = Some t" by auto
      then show ?thesis
        by (rule drain) (use keeps(1) closed drain_moves_started(1) wg_zero in blast)+
    qed
  next
    case (Collects j)
    then have "drain_by s (collect_move j (dr s)) = Some t" using move by simp
    then show ?thesis
      by (rule drain) (use keeps(2) closed drain_moves_started(2) wg_zero in blast)+
  next
    case (StopperMoves j r)
    then have "drain_by s (stopper_move j r (dr s)) = Some t" using move by simp
    then show ?thesis
      by (rule drain) (use keeps(3) closed drain_moves_started(3) wg_zero in \<open>auto; metis\<close>)+
  next
    case (ServerReturns j)
    then have "drain_by s (server_returns j (dr s)) = Some t" using move by simp
    then show ?thesis
      by (rule drain) (use keeps(4) closed drain_moves_started(4) wg_zero in \<open>auto; metis\<close>)+
  next
    case ServeReturns
    with move assms(1) show ?thesis by (auto simp: run_inv_def split: if_splits)
  qed (use move assms(1) closed_stays [OF assms(2)] in \<open>auto simp: run_inv_def split: if_splits\<close>)
qed

interpretation draining: machine_invariant server_move run_inv
  by unfold_locales (rule run_inv_preserved)

lemma waiting_run_inv: "run_inv (waiting s a k)"
  by (auto simp: run_inv_def drain_inv_def at_pc_def served_ok_def waiting_def)

section \<open>How much is left to do\<close>

fun caller_work :: "caller \<Rightarrow> nat" where
  "caller_work CallCas = 2"
| "caller_work CallClose = 1"
| "caller_work CallDone = 0"

fun interrupt_work :: "interrupt_pc \<Rightarrow> nat" where
  "interrupt_work Ranging = 0"
| "interrupt_work Checking = 4"
| "interrupt_work (Calling c) = 1 + caller_work c"

fun stopper_work :: "stopper \<Rightarrow> nat" where
  "stopper_work Unborn = 4"
| "stopper_work Spawned = 3"
| "stopper_work Stopping = 2"
| "stopper_work (Sending b) = 1"
| "stopper_work (Sent b) = 0"

definition handle_work :: "nat \<Rightarrow> shutdown_pc \<Rightarrow> nat" where
  "handle_work n pc =
     (case pc of
        AwaitShutdown \<Rightarrow> 2 * n + 5
      | PreHook \<Rightarrow> 2 * n + 4
      | Spawning i \<Rightarrow> (n - i) + n + 3
      | Collecting i success \<Rightarrow> (n - i) + 2
      | PostHook \<Rightarrow> 1
      | HDone \<Rightarrow> 0)"

definition drain_work :: "drain \<Rightarrow> nat" where
  "drain_work d = handle_work (length (stoppers d)) (hpc d) + sum_list (map stopper_work (stoppers d)) +
     sum_list (map of_bool (serving d))"

definition work :: "server_run \<Rightarrow> nat" where
  "work s = 5 * interrupt (lc s) + interrupt_work (ipc s) + sum_list (map caller_work (callers s)) +
     drain_work (dr s) + of_bool (\<not> returned s) + of_bool (fault s = None)"

text \<open>Only a signal adds work: at most what receiving and handling it takes.\<close>

fun signal_work :: "event \<Rightarrow> nat" where
  "signal_work Signal = 6"
| "signal_work _ = 0"

lemma handle_work:
  assumes "drain_inv d" and "handle_move c d = Some d'"
  shows "drain_work d' < drain_work d"
proof (cases "hpc d")
  case (Spawning i)
  show ?thesis
  proof (cases "i < length (stoppers d)")
    case True
    with assms(1) Spawning have "stoppers d ! i = Unborn" by (simp add: drain_inv_def at_pc_def)
    with True assms(2) Spawning sum_list_map_update [OF True, of stopper_work Spawned] show ?thesis
      by (auto simp: handle_move_def drain_work_def handle_work_def)
  next
    case False
    with assms(2) Spawning show ?thesis by (auto simp: handle_move_def drain_work_def handle_work_def)
  qed
qed (use assms in \<open>auto simp: handle_move_def drain_work_def handle_work_def split: if_splits\<close>)

lemma collect_work:
  assumes "collect_move j d = Some d'"
  shows "drain_work d' < drain_work d"
proof -
  obtain i b where pc: "hpc d = Collecting i True" and i: "i < length (stoppers d)" and j: "j < length (stoppers d)"
    and snd: "stoppers d ! j = Sending b"
    and d': "d' = d\<lparr>stoppers := (stoppers d)[j := Sent b], hpc := Collecting (i + 1) b\<rparr>"
    using assms by (auto simp: collect_move_def split: shutdown_pc.splits bool.splits if_splits stopper.splits)
  then show ?thesis
    using sum_list_map_update [OF j, of stopper_work "Sent b"] by (simp add: drain_work_def handle_work_def)
qed

lemma stopper_work:
  assumes "stopper_move j r d = Some d'"
  shows "drain_work d' < drain_work d"
proof -
  obtain x where j: "j < length (stoppers d)" and less: "stopper_work x < stopper_work (stoppers d ! j)"
    and d': "d' = d\<lparr>stoppers := (stoppers d)[j := x]\<rparr>"
    using assms that [of Stopping] that [of "Sending r"] by (auto simp: stopper_move_def split: if_splits stopper.splits)
  then show ?thesis
    using sum_list_map_update [OF j, of stopper_work x] by (simp add: drain_work_def)
qed

lemma server_returns_work:
  assumes "server_returns j d = Some d'"
  shows "drain_work d' < drain_work d"
proof -
  have j: "j < length (serving d)" "serving d ! j" and d': "d' = d\<lparr>serving := (serving d)[j := False]\<rparr>"
    using assms by (auto simp: server_returns_def split: if_splits)
  then show ?thesis
    using sum_list_map_update [OF j(1), of "of_bool :: bool \<Rightarrow> nat" False] by (simp add: drain_work_def)
qed

lemma Shutdown_step_work:
  "Shutdown_step c l = Some (l', c', f) \<Longrightarrow> caller_work c' < caller_work c \<and> interrupt l' = interrupt l"
  by (cases c) (auto split: if_splits)

lemma interrupt_step_work:
  assumes "interrupt_step c l = Some (l', c', f)"
  shows "5 * interrupt l' + interrupt_work c' < 5 * interrupt l + interrupt_work c"
proof (cases c)
  case (Calling c0)
  with assms show ?thesis
    using Shutdown_step_work [of c0 l] by (cases "Shutdown_step c0 l") (auto split: caller.splits prod.splits)
qed (use assms in \<open>auto split: if_splits\<close>)

lemma server_move_work:
  assumes "run_inv s" and "server_move e s = Some t"
  shows "work t < work s + signal_work e"
proof -
  have ok: "fault s = None" and move: "live_move e s = Some t"
    using assms(2) by (auto simp: server_move_def split: if_splits)
  have inv: "drain_inv (dr s)" using assms(1) by (simp add: run_inv_def)
  have drain: "work t < work s" if "drain_by s m = Some t" and "\<And>d. m = Some d \<Longrightarrow> drain_work d < drain_work (dr s)" for m
    using drain_by_fields [OF that(1)] that(2) by (auto simp: work_def)
  show ?thesis
  proof (cases e)
    case Signal
    with move show ?thesis by (auto simp: work_def deliver_def)
  next
    case (CallerMoves i)
    with move obtain l c f where i: "i < length (callers s)" and st: "Shutdown_step (callers s ! i) (lc s) = Some (l, c, f)"
      and t: "t = s\<lparr>lc := l, callers := (callers s)[i := c], fault := f\<rparr>"
      by (auto split: if_splits)
    from sum_list_map_update [OF i, of caller_work c] Shutdown_step_work [OF st] CallerMoves ok show ?thesis
      by (simp add: work_def t)
  next
    case InterruptMoves
    with move obtain l c f where st: "interrupt_step (ipc s) (lc s) = Some (l, c, f)"
      and t: "t = s\<lparr>lc := l, ipc := c, fault := f\<rparr>"
      by auto
    from interrupt_step_work [OF st] InterruptMoves ok show ?thesis by (simp add: work_def t)
  next
    case HandleMoves
    with move ok show ?thesis
      using drain [OF _ handle_work [OF inv]] by (auto simp: work_def split: if_splits)
  next
    case (Collects j)
    with move show ?thesis using drain [OF _ collect_work] by auto
  next
    case (StopperMoves j r)
    with move show ?thesis using drain [OF _ stopper_work] by auto
  next
    case (ServerReturns j)
    with move show ?thesis using drain [OF _ server_returns_work] by auto
  qed (use move ok in \<open>auto simp: work_def split: if_splits\<close>)
qed

interpretation working: machine_work server_move run_inv work signal_work
  by unfold_locales (rule server_move_work)

lemma waiting_work: "work (waiting s a k) = 5 * interrupt (life s) + 2 * k + 7 * length (servers a) + 7"
  by (simp add: work_def drain_work_def handle_work_def waiting_def sum_list_replicate)

section \<open>Nothing is left hanging\<close>

text \<open>
  The steps the program takes by itself; signals and failures of servers come from outside. A
  state is quiet if the program cannot move.
\<close>

fun internal :: "event \<Rightarrow> bool" where
  "internal Signal = False"
| "internal (ServerFails j) = False"
| "internal _ = True"

definition quiet :: "server_run \<Rightarrow> bool" where
  "quiet s \<longleftrightarrow> (\<forall>e. internal e \<longrightarrow> server_move e s = None)"

lemma quiet_threads:
  assumes "quiet s" and "fault s = None"
  shows "set (callers s) \<subseteq> {CallDone}" and "ipc s = Ranging" and "interrupt (lc s) = 0"
proof -
  have "Shutdown_step c l = None \<longleftrightarrow> c = CallDone" for c l by (cases c) auto
  moreover have "live_move (CallerMoves i) s = None" for i
    using assms by (metis internal.simps(3) quiet_def server_move_def)
  then have "Shutdown_step (callers s ! i) (lc s) = None" if "i < length (callers s)" for i
    using that by (metis live_move.simps(2) map_option_is_None)
  ultimately show "set (callers s) \<subseteq> {CallDone}"
    by (auto simp: in_set_conv_nth)
  have "interrupt_step (ipc s) (lc s) = None"
    using assms by (metis (no_types) internal.simps(4) quiet_def server_move_def live_move.simps(3) map_option_is_None)
  then show "ipc s = Ranging" and "interrupt (lc s) = 0"
    by (cases "ipc s"; auto split: if_splits option.splits prod.splits caller.splits)+
qed

lemma quiet_drain:
  assumes "quiet s" and "fault s = None" and "api_present s"
  shows "handle_move (shutdown_closed (lc s)) (dr s) = None" and "collect_move j (dr s) = None"
    and "stopper_move j r (dr s) = None" and "server_returns j (dr s) = None"
    and "wg_count (dr s) = 0 \<Longrightarrow> returned s"
proof -
  have none: "live_move e s = None" if "internal e" for e
    using assms(1,2) that by (auto simp: quiet_def server_move_def)
  show "handle_move (shutdown_closed (lc s)) (dr s) = None" using none [of HandleMoves] assms(3) by (simp add: drain_by_def)
  show "collect_move j (dr s) = None" using none [of "Collects j"] by (simp add: drain_by_def)
  show "stopper_move j r (dr s) = None" using none [of "StopperMoves j r"] by (simp add: drain_by_def)
  show "server_returns j (dr s) = None" using none [of "ServerReturns j"] by (simp add: drain_by_def)
  show "wg_count (dr s) = 0 \<Longrightarrow> returned s" using none [of ServeReturns] by (simp split: if_splits)
qed

lemma quiet_returned:
  assumes "run_inv s" and "closing_inv s" and "quiet s" and "fault s = None" and "api_present s"
    and "shuttingDown (lc s) \<noteq> 0"
  shows "returned s"
proof -
  note threads = quiet_threads [OF assms(3,4)] and drain = quiet_drain [OF assms(3-5)]
  let ?d = "dr s"
  have inv: "at_pc ?d" "served_ok ?d" using assms(1) by (simp_all add: run_inv_def drain_inv_def)
  have "closers s = 0" using threads(1,2) by (auto simp: closers_def)
  then have closed: "shutdown_closed (lc s)"
    using assms(2,6) by (cases "shutdown_closed (lc s)") (simp_all add: closing_inv_def)
  have stopped: "stoppers ?d ! j \<notin> {Spawned, Stopping}" if "j < length (stoppers ?d)" for j
    using drain(3) [of j True] that by (auto simp: stopper_move_def)
  have "hpc ?d = HDone"
  proof (rule ccontr)
    assume "hpc ?d \<noteq> HDone"
    then obtain i where pc: "hpc ?d = Collecting i True" and i: "i < length (stoppers ?d)"
      using drain(1) closed by (auto simp: handle_move_def split: shutdown_pc.splits if_splits)
    then have "collected (stoppers ?d) \<noteq> length (stoppers ?d)" and born: "Unborn \<notin> set (stoppers ?d)"
      using inv(1) by (simp_all add: at_pc_def)
    then have "\<not> (\<forall>x \<in> set (stoppers ?d). is_sent x = 1)"
      using sum_list_eq_length_iff [of is_sent "stoppers ?d", OF is_sent_le] by (simp add: collected_def)
    then obtain j where j: "j < length (stoppers ?d)" and "is_sent (stoppers ?d ! j) \<noteq> 1"
      by (metis in_set_conv_nth)
    moreover have "stoppers ?d ! j \<noteq> Unborn" using born j by (metis nth_mem)
    ultimately obtain b where "stoppers ?d ! j = Sending b"
      using stopped [OF j] by (cases "stoppers ?d ! j") auto
    then show False using drain(2) [of j] pc i j by (simp add: collect_move_def)
  qed
  moreover have "True \<notin> set (serving ?d)"
  proof
    assume "True \<in> set (serving ?d)"
    then obtain j where j: "j < length (stoppers ?d)" "serving ?d ! j"
      using inv(2) by (auto simp: served_ok_def in_set_conv_nth)
    have "Unborn \<notin> set (stoppers ?d)" using inv(1) \<open>hpc ?d = HDone\<close> by (simp add: at_pc_def)
    then have "stoppers ?d ! j \<notin> {Unborn, Spawned}" using stopped [OF j(1)] j(1) by (metis insert_iff nth_mem)
    then show False using drain(4) [of j] j inv(2) by (simp add: server_returns_def served_ok_def)
  qed
  ultimately show ?thesis using drain(5) by (simp add: wg_zero)
qed

text \<open>A request to shut down is not lost: it ends in the flag being set.\<close>

definition flag :: "server_run \<Rightarrow> bool" where
  "flag s \<longleftrightarrow> shuttingDown (lc s) \<noteq> 0"

definition asked_inv :: "nat \<Rightarrow> server_run \<Rightarrow> bool" where
  "asked_inv k s \<longleftrightarrow> length (callers s) = k \<and> (\<forall>c \<in> set (callers s). c \<noteq> CallCas \<longrightarrow> flag s) \<and>
     (interrupted (lc s) \<longrightarrow> flag s \<or> ipc s = Calling CallCas) \<and>
     (\<forall>c. ipc s = Calling c \<longrightarrow> interrupted (lc s))"

definition signalled :: "server_run \<Rightarrow> bool" where
  "signalled s \<longleftrightarrow> 0 < interrupt (lc s) \<or> ipc s \<noteq> Ranging \<or> interrupted (lc s)"

lemma Shutdown_step_flag:
  "Shutdown_step c l = Some (l', c', f) \<Longrightarrow>
   (shuttingDown l' \<noteq> 0 \<longleftrightarrow> shuttingDown l \<noteq> 0 \<or> c = CallCas) \<and> c' \<noteq> CallCas \<and>
   interrupted l' = interrupted l \<and> interrupt l' = interrupt l"
  by (cases c) (auto split: if_splits)

lemma asked_cong:
  assumes "lc t = lc s" and "ipc t = ipc s" and "callers t = callers s"
  shows "asked_inv k t \<longleftrightarrow> asked_inv k s" and "signalled t \<longleftrightarrow> signalled s"
  by (simp_all add: asked_inv_def signalled_def flag_def assms)

lemma asked_preserved:
  assumes "asked_inv k s" and "server_move e s = Some t"
  shows "asked_inv k t" and "signalled s \<Longrightarrow> signalled t" and "e = Signal \<Longrightarrow> signalled t"
proof -
  have move: "live_move e s = Some t"
    using assms(2) by (auto simp: server_move_def split: if_splits)
  show "e = Signal \<Longrightarrow> signalled t" using move by (auto simp: signalled_def)
  show "asked_inv k t" and "signalled s \<Longrightarrow> signalled t"
  proof (atomize (full), cases e)
    case (CallerMoves i)
    with move obtain l c f where i: "i < length (callers s)" and st: "Shutdown_step (callers s ! i) (lc s) = Some (l, c, f)"
      and t: "t = s\<lparr>lc := l, callers := (callers s)[i := c], fault := f\<rparr>"
      by (auto split: if_splits)
    have "callers s ! i \<in> set (callers s)" using i by simp
    with Shutdown_step_flag [OF st] assms(1) show "asked_inv k t \<and> (signalled s \<longrightarrow> signalled t)"
      using set_update_subset_insert [of "callers s" i c]
      by (auto simp: asked_inv_def flag_def signalled_def t)
  next
    case InterruptMoves
    with move obtain l c f where st: "interrupt_step (ipc s) (lc s) = Some (l, c, f)"
      and t: "t = s\<lparr>lc := l, ipc := c, fault := f\<rparr>"
      by auto
    show "asked_inv k t \<and> (signalled s \<longrightarrow> signalled t)"
    proof (cases "ipc s")
      case (Calling c0)
      with st assms(1) show ?thesis
        using Shutdown_step_flag [of c0 "lc s"]
        by (cases "Shutdown_step c0 (lc s)")
           (auto simp: asked_inv_def flag_def signalled_def t split: caller.splits prod.splits)
    qed (use st assms(1) in \<open>auto simp: asked_inv_def flag_def signalled_def t split: if_splits\<close>)
  next
    case Signal
    with move have "t = s\<lparr>lc := deliver (lc s)\<rparr>" by simp
    with assms(1) show "asked_inv k t \<and> (signalled s \<longrightarrow> signalled t)"
      by (simp add: asked_inv_def flag_def signalled_def)
  next
    case HandleMoves
    have "lc t = lc s" "ipc t = ipc s" "callers t = callers s"
      using move HandleMoves by (auto dest: drain_by_fields split: if_splits)
    from asked_cong [OF this] assms(1) show "asked_inv k t \<and> (signalled s \<longrightarrow> signalled t)" by blast
  next
    case (Collects j)
    from asked_cong(1) [of t s k] asked_cong(2) [of t s] drain_by_fields [of s _ t] move Collects assms(1)
    show "asked_inv k t \<and> (signalled s \<longrightarrow> signalled t)" by simp
  next
    case (StopperMoves j r)
    from asked_cong(1) [of t s k] asked_cong(2) [of t s] drain_by_fields [of s _ t] move StopperMoves assms(1)
    show "asked_inv k t \<and> (signalled s \<longrightarrow> signalled t)" by simp
  next
    case (ServerReturns j)
    from asked_cong(1) [of t s k] asked_cong(2) [of t s] drain_by_fields [of s _ t] move ServerReturns assms(1)
    show "asked_inv k t \<and> (signalled s \<longrightarrow> signalled t)" by simp
  next
    case (ServerFails j)
    with move assms(1) show "asked_inv k t \<and> (signalled s \<longrightarrow> signalled t)"
      by (auto simp: asked_inv_def flag_def signalled_def split: if_splits)
  next
    case ServeReturns
    with move assms(1) show "asked_inv k t \<and> (signalled s \<longrightarrow> signalled t)"
      by (auto simp: asked_inv_def flag_def signalled_def split: if_splits)
  qed
qed

interpretation asked: machine_invariant server_move "asked_inv k" for k
  by unfold_locales (rule asked_preserved(1))

interpretation signals: machine_invariant server_move "\<lambda>s. asked_inv k s \<and> signalled s" for k
  by unfold_locales (use asked_preserved in blast)

lemma waiting_asked: "life s = new_lifecycle \<Longrightarrow> asked_inv k (waiting s a k)"
  by (auto simp: asked_inv_def waiting_def new_lifecycle_def)

lemma signal_heard:
  assumes "steps server_move s es t" and "asked_inv k s" and "Signal \<in> set es"
  shows "signalled t"
proof -
  obtain xs ys where es: "es = xs @ Signal # ys" using assms(3) by (meson split_list)
  with assms(1) obtain u v where "steps server_move s xs u" and "server_move Signal u = Some v" and "steps server_move v ys t"
    by (auto simp: steps_append)
  with assms(2) show ?thesis
    using asked.invariant asked_preserved signals.invariant by blast
qed

lemma quiet_flag:
  assumes "asked_inv k s" and "quiet s" and "fault s = None" and "signalled s \<or> 0 < k"
  shows "flag s"
proof (cases "signalled s")
  case True
  with assms(1) quiet_threads(2,3) [OF assms(2,3)] show ?thesis by (auto simp: asked_inv_def signalled_def)
next
  case False
  with assms(1,4) have "callers s \<noteq> []" by (auto simp: asked_inv_def)
  then obtain c where "c \<in> set (callers s)" by (cases "callers s") auto
  moreover from this have "c = CallDone" using quiet_threads(1) [OF assms(2,3)] by auto
  ultimately show ?thesis using assms(1) by (auto simp: asked_inv_def)
qed

lemma signal_works: "sum_list (map signal_work es) = 6 * length (filter (\<lambda>e. e = Signal) es)"
proof (induction es)
  case (Cons e es)
  then show ?case by (cases e) simp_all
qed simp

lemma serving_length:
  "handle_move c d = Some d' \<Longrightarrow> length (serving d') = length (serving d)"
  "collect_move j d = Some d' \<Longrightarrow> length (serving d') = length (serving d)"
  "stopper_move j r d = Some d' \<Longrightarrow> length (serving d') = length (serving d)"
  "server_returns j d = Some d' \<Longrightarrow> length (serving d') = length (serving d)"
  by (auto simp: handle_move_def collect_move_def stopper_move_def server_returns_def
      split: shutdown_pc.splits if_splits bool.splits stopper.splits)

interpretation servers_kept: machine_invariant server_move "\<lambda>s. length (serving (dr s)) = n" for n
proof unfold_locales
  fix s e t
  assume "length (serving (dr s)) = n" and "server_move e s = Some t"
  then show "length (serving (dr t)) = n"
    by (cases e) (auto simp: server_move_def dest!: drain_by_fields serving_length split: if_splits)
qed

text \<open>Once a server was not shut down with success, no other result is received.\<close>

definition abandons :: "nat list \<Rightarrow> drain \<Rightarrow> bool" where
  "abandons sent d \<longleftrightarrow> (hpc d = HDone \<or> (\<exists>i. hpc d = Collecting i False)) \<and>
     ServerShutdown \<notin> set (log d) \<and> map is_sent (stoppers d) = sent"

lemma drain_moves_abandon:
  assumes "abandons m d"
  shows "handle_move c d = Some d' \<Longrightarrow> abandons m d'" and "collect_move j d = Some d' \<Longrightarrow> abandons m d'"
    and "stopper_move j r d = Some d' \<Longrightarrow> abandons m d'" and "server_returns j d = Some d' \<Longrightarrow> abandons m d'"
proof -
  show "abandons m d'" if "stopper_move j r d = Some d'"
    using that assms
    by (auto simp: abandons_def stopper_move_def map_update list_update_same_conv split: if_splits stopper.splits)
qed (use assms in \<open>auto simp: abandons_def handle_move_def collect_move_def server_returns_def split: if_splits\<close>)

lemma abandons_preserved:
  assumes "abandons m (dr s)" and "server_move e s = Some t"
  shows "abandons m (dr t)"
proof -
  have move: "live_move e s = Some t"
    using assms(2) by (auto simp: server_move_def split: if_splits)
  show ?thesis
    using move drain_moves_abandon [OF assms(1)] assms(1)
    by (cases e) (auto dest: drain_by_fields split: if_splits)
qed

interpretation abandoned: machine_invariant server_move "\<lambda>s. abandons m (dr s)" for m
  by unfold_locales (rule abandons_preserved)

lemma drain_order:
  assumes "drain_inv d"
  shows "log d \<in> {[], [PreServerShutdown], [PreServerShutdown, ServerShutdown]}"
    and "ServerShutdown \<in> set (log d) \<Longrightarrow> set (stoppers d) \<subseteq> {Sent True}"
    and "set (stoppers d) \<subseteq> {Unborn} \<and> False \<notin> set (serving d) \<or>
      hpc d \<noteq> AwaitShutdown \<and> PreServerShutdown \<in> set (log d)"
proof -
  show "log d \<in> {[], [PreServerShutdown], [PreServerShutdown, ServerShutdown]}"
    and "ServerShutdown \<in> set (log d) \<Longrightarrow> set (stoppers d) \<subseteq> {Sent True}"
    using assms by (auto simp: drain_inv_def at_pc_def split: shutdown_pc.splits)
  have "False \<notin> set (serving d)" if "set (stoppers d) \<subseteq> {Unborn}"
    using assms all_unborn [OF that] by (auto simp: drain_inv_def served_ok_def in_set_conv_nth)
  then show "set (stoppers d) \<subseteq> {Unborn} \<and> False \<notin> set (serving d) \<or>
      hpc d \<noteq> AwaitShutdown \<and> PreServerShutdown \<in> set (log d)"
    using assms by (cases "hpc d") (auto simp: drain_inv_def at_pc_def)
qed

lemma api_preserved: "api_present s = b \<Longrightarrow> server_move e s = Some t \<Longrightarrow> api_present t = b"
  by (cases e) (auto simp: server_move_def dest: drain_by_fields split: if_splits)

interpretation api_kept: machine_invariant server_move "\<lambda>s. api_present s = b" for b
  by unfold_locales (rule api_preserved)

section \<open>Examples\<close>

definition sample_activation :: "nat \<Rightarrow> unit activation" where
  "sample_activation n = no_activation\<lparr>servers := replicate n new_http_server\<rparr>"

lemma sample_fresh: "life sample_server = new_lifecycle" "srv_api sample_server \<noteq> None"
  by (simp_all add: sample_server_def NewServer_def)

text \<open>A signal, and two servers that shut down one after the other.\<close>

definition stop_server :: "nat \<Rightarrow> bool \<Rightarrow> event list" where
  "stop_server j r = [StopperMoves j r, ServerReturns j, StopperMoves j r, Collects j]"

definition start_stopping :: "event list" where
  "start_stopping = Signal # replicate 4 InterruptMoves @ replicate 5 HandleMoves"

definition sample_shutdown :: "event list" where
  "sample_shutdown = start_stopping @ stop_server 0 True @ stop_server 1 True @ [HandleMoves, HandleMoves, ServeReturns]"

definition sample_final :: server_run where
  "sample_final =
     \<lparr>lc = \<lparr>shutdown_closed = True, shuttingDown = 1, interrupted = True, interrupt = 0\<rparr>, ipc = Ranging, callers = [],
      dr = \<lparr>hpc = HDone, stoppers = [Sent True, Sent True], serving = [False, False],
            log = [PreServerShutdown, ServerShutdown]\<rparr>,
      api_present = True, fault = None, returned = True\<rparr>"

lemma sample_shutdown_steps: "steps server_move (waiting sample_server (sample_activation 2) 0) sample_shutdown sample_final"
  unfolding steps_run by code_simp

lemma sample_final_quiet: "quiet sample_final"
proof -
  have "server_move e sample_final = None" if "internal e" for e
    using that
    by (cases e) (simp_all add: server_move_def sample_final_def drain_by_def handle_move_def collect_move_def
        stopper_move_def server_returns_def less_Suc_eq nth_Cons' wg_count_def)
  then show ?thesis by (simp add: quiet_def)
qed

text \<open>The same two servers; shutting down the first fails, and \<open>Serve\<close> returns during the second.\<close>

definition sample_abandon :: "event list" where
  "sample_abandon = [StopperMoves 1 True, ServerReturns 1, HandleMoves, HandleMoves, ServeReturns]"

definition sample_failed_stop :: server_run where
  "sample_failed_stop =
     \<lparr>lc = \<lparr>shutdown_closed = True, shuttingDown = 1, interrupted = True, interrupt = 0\<rparr>, ipc = Ranging, callers = [],
      dr = \<lparr>hpc = Collecting 1 False, stoppers = [Sent False, Spawned], serving = [False, True],
            log = [PreServerShutdown]\<rparr>,
      api_present = True, fault = None, returned = False\<rparr>"

definition sample_abandoned :: server_run where
  "sample_abandoned = sample_failed_stop
     \<lparr>dr := \<lparr>hpc = HDone, stoppers = [Sent False, Stopping], serving = [False, False], log = [PreServerShutdown]\<rparr>,
      returned := True\<rparr>"

lemma sample_abandon_steps:
  "steps server_move (waiting sample_server (sample_activation 2) 0) (start_stopping @ stop_server 0 False) sample_failed_stop"
  "steps server_move sample_failed_stop sample_abandon sample_abandoned"
  unfolding steps_run by code_simp+

section \<open>Properties\<close>

text \<open>
  C10. The channel \<open>shutdown\<close> is closed at most once. However many callers of \<open>Shutdown\<close> and
  signals there are and however all goroutines interleave, no step closes a closed channel, and a
  server with an API never panics; the channel is closed exactly when the flag is set and nobody
  is between setting it and closing.
\<close>

theorem shutdown_closes_once:
  assumes "life s = new_lifecycle" and "steps server_move (waiting s a k) es t"
  shows "fault t \<noteq> Some (Crash close_closed) \<and>
    (srv_api s \<noteq> None \<longrightarrow> fault t = None \<or> fault t = Some Exited) \<and>
    (shutdown_closed (lc t) \<longleftrightarrow> shuttingDown (lc t) \<noteq> 0 \<and> closers t = 0)"
proof -
  have "closing_inv t"
    using closing.invariant [OF assms(2)] waiting_closing [OF assms(1)] by blast
  moreover have "api_present t \<longleftrightarrow> srv_api s \<noteq> None"
    using api_kept.invariant [OF assms(2), of "srv_api s \<noteq> None"] by (simp add: waiting_def)
  ultimately show ?thesis
    by (cases "shutdown_closed (lc t)"; cases "shuttingDown (lc t) = 0") (auto simp: closing_inv_def)
qed

theorem shutdown_closes_once_witness:
  "shutdown_closed (lc sample_final) \<and> fault sample_final \<noteq> Some (Crash close_closed)"
  using shutdown_closes_once [OF sample_fresh(1) sample_shutdown_steps] by (simp add: sample_final_def)

text \<open>
  C11. The order of shutting down. No server is shut down, and none stops serving, before the
  channel is closed and the hook \<open>PreServerShutdown\<close> has run; \<open>ServerShutdown\<close> runs at most
  once, after every server was shut down with success; \<open>Serve\<close> returns only after
  \<open>handleShutdown\<close> is done and no server serves any more.
\<close>

theorem shutdown_order:
  assumes "steps server_move (waiting s a k) es t"
  shows "log (dr t) \<in> {[], [PreServerShutdown], [PreServerShutdown, ServerShutdown]} \<and>
    (ServerShutdown \<in> set (log (dr t)) \<longrightarrow> set (stoppers (dr t)) \<subseteq> {Sent True}) \<and>
    (set (stoppers (dr t)) \<subseteq> {Unborn} \<and> False \<notin> set (serving (dr t)) \<or>
       shutdown_closed (lc t) \<and> PreServerShutdown \<in> set (log (dr t))) \<and>
    (returned t \<longrightarrow> hpc (dr t) = HDone \<and> True \<notin> set (serving (dr t)))"
proof -
  have inv: "run_inv t" using draining.invariant [OF assms waiting_run_inv] .
  then have "drain_inv (dr t)" by (simp add: run_inv_def)
  from drain_order [OF this] inv show ?thesis
    by (auto simp: run_inv_def wg_zero)
qed

theorem shutdown_order_witness:
  "ServerShutdown \<in> set (log (dr sample_final)) \<and> set (stoppers (dr sample_final)) \<subseteq> {Sent True}"
  using shutdown_order [OF sample_shutdown_steps] by (simp add: sample_final_def)

text \<open>
  C21. Shutting down ends. With \<open>k\<close> callers of \<open>Shutdown\<close>, \<open>n\<close> servers and any signals, a run has
  at most \<open>2 k + 7 n + 7\<close> steps, and 6 more for each signal; and when the program cannot move
  any more after it has been asked to shut down, by a signal or a call, \<open>Serve\<close> has returned.
\<close>

theorem shutdown_returns:
  assumes "life s = new_lifecycle" and "srv_api s \<noteq> None" and "steps server_move (waiting s a k) es t"
  shows "length es \<le> 2 * k + 7 * length (servers a) + 7 + 6 * length (filter (\<lambda>e. e = Signal) es) \<and>
    (quiet t \<and> fault t = None \<and> (Signal \<in> set es \<or> 0 < k) \<longrightarrow> returned t)"
proof -
  have "closing_inv t" using closing.invariant [OF assms(3) waiting_closing [OF assms(1)]] .
  moreover have "run_inv t" using draining.invariant [OF assms(3) waiting_run_inv] .
  moreover have "api_present t"
    using api_kept.invariant [OF assms(3), of True] assms(2) by (simp add: waiting_def)
  moreover have "asked_inv k t" using asked.invariant [OF assms(3) waiting_asked [OF assms(1)]] .
  moreover have "Signal \<in> set es \<Longrightarrow> signalled t" using signal_heard [OF assms(3) waiting_asked [OF assms(1)]] .
  ultimately have "quiet t \<and> fault t = None \<and> (Signal \<in> set es \<or> 0 < k) \<longrightarrow> returned t"
    using quiet_flag [of k t] quiet_returned [of t] unfolding flag_def by blast
  moreover have "interrupt (life s) = 0" by (simp add: assms(1) new_lifecycle_def)
  then have "length es \<le> 2 * k + 7 * length (servers a) + 7 + 6 * length (filter (\<lambda>e. e = Signal) es)"
    using working.bounded [OF assms(3) waiting_run_inv] by (simp add: waiting_work signal_works)
  ultimately show ?thesis by blast
qed

theorem shutdown_returns_witness: "returned sample_final \<and> length sample_shutdown \<le> 27"
proof -
  have "Signal \<in> set sample_shutdown" by (simp add: sample_shutdown_def start_stopping_def)
  moreover have "length (filter (\<lambda>e. e = Signal) sample_shutdown) = 1" by code_simp
  moreover have "fault sample_final = None" by (simp add: sample_final_def)
  ultimately show ?thesis
    using shutdown_returns [OF sample_fresh sample_shutdown_steps] sample_final_quiet
    by (simp add: sample_activation_def)
qed

text \<open>
  C22. A failure abandons the other servers. Once a server that could not be shut down in time has
  been received, \<open>handleShutdown\<close> receives no other result, whatever happens: it does not wait
  for the remaining servers, and their goroutines can never deliver.
\<close>

theorem failed_stop_abandons_others:
  assumes "steps server_move (waiting s a k) es t" and "hpc (dr t) = Collecting i False"
    and "steps server_move t fs u"
  shows "map is_sent (stoppers (dr u)) = map is_sent (stoppers (dr t)) \<and> ServerShutdown \<notin> set (log (dr u))"
proof -
  have "run_inv t" using draining.invariant [OF assms(1) waiting_run_inv] .
  then have "abandons (map is_sent (stoppers (dr t))) (dr t)"
    using assms(2) by (simp add: abandons_def run_inv_def drain_inv_def at_pc_def)
  from abandoned.invariant [OF assms(3) this] show ?thesis by (simp add: abandons_def)
qed

text \<open>In the example \<open>Serve\<close> has returned while the second server is still being shut down.\<close>

theorem failed_stop_abandons_others_witness:
  "returned sample_abandoned \<and> stoppers (dr sample_abandoned) = [Sent False, Stopping] \<and>
   ServerShutdown \<notin> set (log (dr sample_abandoned))"
proof -
  have "hpc (dr sample_failed_stop) = Collecting 1 False" by (simp add: sample_failed_stop_def)
  from failed_stop_abandons_others [OF sample_abandon_steps(1) this sample_abandon_steps(2)] show ?thesis
    by (simp add: sample_abandoned_def)
qed

end
