(* ===== verification/Run.thy ===== *)
theory Run
  imports Mediator Shutdown
begin

text \<open>
  \<open>Run\<close> of \<open>restful/restful.go\<close> and \<open>main\<close> of \<open>cmd/a1.go\<close>: the service from its construction to
  the waiting server, and to its end. The handlers of \<open>Restful\<close>, the API of \<open>A1Api\<close>, the server
  of \<open>Server\<close> and \<open>Serving\<close> and the machine of \<open>Shutdown\<close> are put together here.
\<close>

section \<open>Run\<close>

text \<open>
  The server has its zero values but for host and port; an error of \<open>Serve\<close> ends the process by
  \<open>log.Fatal\<close>, upon which the deferred call of \<open>Shutdown\<close> is not made.
\<close>

definition run_server :: "'w Restful \<Rightarrow> 'w Server" where
  "run_server r =
     (let server = NewServer (r_api r);
          server = server\<lparr>Port := 8080\<rparr>;
          server = server\<lparr>Host := ''0.0.0.0''\<rparr>
      in server)"

definition Run ::
    "'n os \<Rightarrow> openapi \<Rightarrow> 'w openapi_runtime \<Rightarrow> 'w Restful \<Rightarrow> 'n \<Rightarrow> 'n \<times> 'w Server \<times> 'w activation \<times> serve_end" where
  "Run os lib rt r n =
     (case Server_Serve os lib rt (run_server r) n of
        (n', s, a, Halted (ReturnErr err)) \<Rightarrow> (n', s, a, Halted (Exit (Error err)))
      | (n', s, a, Halted h) \<Rightarrow> (n', s, a, Halted h)
      | (n', s, a, Waits) \<Rightarrow> (n', s, a, Waits))"

text \<open>
  The logger, \<open>Init\<close> of \<open>a1/a1.go\<close>: what it prints and asks of the logging library, given whether
  \<open>InitLogger\<close> failed and the environment. Its state is the library's; nothing else depends on it.
\<close>

datatype log_action =
    Println string
  | ParseFileContent string
  | LevelSet_INFO
  | LogInfo string

definition a1_Init :: "bool \<Rightarrow> (string \<Rightarrow> string) \<Rightarrow> log_action list" where
  "a1_Init failed Getenv =
     (if failed then [Println ''logger not initialised !!!'']
      else
        let configFile = Getenv ''A1_CONFIG_FILE'' in
        Println configFile #
        (if configFile \<noteq> []
         then [ParseFileContent configFile, LogInfo (''logger is initialized with config file : '' @ configFile)]
         else [LevelSet_INFO, LogInfo ''logger is initialized without config file.'']))"

text \<open>\<open>main\<close>: the mediator over a storage; no API object when the specification does not load.\<close>

definition mediator_main ::
    "'n os \<Rightarrow> openapi \<Rightarrow> 'w openapi_runtime \<Rightarrow> 'w iSdl \<Rightarrow> string option \<Rightarrow> 'n \<Rightarrow>
     ('n \<times> 'w Server \<times> 'w activation \<times> serve_end) option" where
  "mediator_main os lib rt storage swaggerSpec n =
     (let r = NewRestful lib rt storage swaggerSpec in
      case r_api r of None \<Rightarrow> None | Some _ \<Rightarrow> Some (Run os lib rt r n))"

section \<open>The server of Run\<close>

lemma run_server_fields:
  "\<not> hasListeners (run_server r)" "srv_handler (run_server r) = None" "srv_api (run_server r) = r_api r"
  "life (run_server r) = new_lifecycle" "EnabledListeners (run_server r) = []"
  "Host (run_server r) = ''0.0.0.0''" "Port (run_server r) = 8080"
  by (simp_all add: run_server_def NewServer_def)

lemma run_server_zero:
  "ReadTimeout (run_server r) = 0" "WriteTimeout (run_server r) = 0" "KeepAlive (run_server r) = 0"
  "CleanupTimeout (run_server r) = 0" "GracefulTimeout (run_server r) = 0"
  by (simp_all add: run_server_def NewServer_def)

lemma run_server_schemes:
  "hasScheme (run_server r) schemeHTTP" "\<not> hasScheme (run_server r) schemeUnix" "\<not> hasScheme (run_server r) schemeHTTPS"
  by (simp_all add: hasScheme_def run_server_fields defaultSchemes_def schemeHTTP_def schemeUnix_def schemeHTTPS_def)

lemma run_target: "JoinHostPort ''0.0.0.0'' (FormatInt 8080) = ''0.0.0.0:8080''"
  by code_simp

lemma default_listen_https: "EnabledListeners s = [] \<Longrightarrow> listen_https os s n = (n, s, None)"
  by (simp add: listen_https_def hasScheme_def defaultSchemes_def schemeHTTP_def schemeHTTPS_def)

text \<open>Only HTTP is enabled, so \<open>Listen\<close> asks for one socket.\<close>

lemma run_Listen:
  "Listen os (run_server r) n =
     (case NetListen os ''tcp'' ''0.0.0.0:8080'' n of
        (n', Inl err) \<Rightarrow> (n', run_server r, Some err)
      | (n', Inr addr) \<Rightarrow>
          (case SplitHostPort os addr of
             Inl err \<Rightarrow> (n', run_server r, Some err)
           | Inr (h, p) \<Rightarrow> (n', (run_server r)\<lparr>Host := h, Port := p, httpServerL := Some (Socket ''tcp'' addr),
                             hasListeners := True\<rparr>, None)))"
proof -
  have "tls_defaults (run_server r) = run_server r"
    by (simp add: tls_defaults_def run_server_schemes)
  moreover have "listen_unix os (run_server r) n = (n, run_server r, None)"
    by (simp add: listen_unix_def run_server_schemes)
  ultimately show ?thesis
    by (simp add: Listen_def run_server_fields listen_http_def default_listen_https run_server_schemes run_target
        split: prod.split sum.split)
qed

text \<open>The default handler over the API of the mediator.\<close>

lemma mediator_Serve:
  assumes "setupHandler lib rt rh (Some swagger) = Some api"
  obtains api' where "Serve lib rt None api = (api', Return (APIHandler rt (NewRoutableContext rt swagger) api' None))"
    and "\<And>m p. HandlerFor api' m p = map_of (mediator_table lib (NewRoutableContext rt swagger) rh) (ToUpper m, p)"
proof -
  note api = setupHandler_simps [OF assms]
  have "Middleware api = None"
    using assms by (auto simp: setupHandler_def Let_def NewA1API_def)
  with Init_fresh [OF api(1), of lib rt] have init: "Middleware (Init lib rt api) = None"
      "api_context (Init lib rt api) = Some (NewRoutableContext rt swagger)"
    by (auto simp: api(2))
  then have serve: "Serve lib rt None api
      = (Init lib rt api, Return (APIHandler rt (NewRoutableContext rt swagger) (Init lib rt api) None))"
    by (simp add: Serve_def Let_def)
  from that [OF serve] mediator_handler(1) [OF assms, of None] serve show thesis by simp
qed

text \<open>A server with one HTTP listener and the default scheme starts one server on it.\<close>

lemma start_default:
  assumes "EnabledListeners s = []" and "Addr (httpServerL s) = Return addr"
  obtains l where "Addr l = Return addr" and "start_servers os s n =
    (s\<lparr>httpServerL := l\<rparr>,
     \<lparr>notified = [''SIGINT'', ''SIGTERM''], servers = [http_server_of s],
      goroutines = [HandleInterrupt, ServeOn (http_server_of s) l, HandleShutdown]\<rparr>, Waits)"
proof -
  have schemes: "hasScheme s schemeHTTP" "\<not> hasScheme s schemeUnix" "\<not> hasScheme s schemeHTTPS"
    using assms(1) by (simp_all add: hasScheme_def defaultSchemes_def schemeHTTP_def schemeUnix_def schemeHTTPS_def)
  let ?a = "(signalNotify no_activation)\<lparr>goroutines := goroutines (signalNotify no_activation) @ [HandleInterrupt]\<rparr>"
  from serve_http_on [OF schemes(1) assms(2), of ?a] obtain l where
    l: "serve_http s ?a = (s\<lparr>httpServerL := l\<rparr>, launch (http_server_of s) l ?a, None)" "Addr l = Return addr"
    by blast
  have "serve_unix s ?a = ?a" using schemes(2) by (simp add: serve_unix_def)
  with l schemes(3) have "start_servers os s n = (s\<lparr>httpServerL := l\<rparr>,
      (launch (http_server_of s) l ?a)\<lparr>goroutines := goroutines (launch (http_server_of s) l ?a) @ [HandleShutdown]\<rparr>, Waits)"
    by (simp add: start_servers_def Let_def serve_off)
  with l(2) that show thesis
    by (simp add: launch_def signalNotify_def no_activation_def)
qed

text \<open>The two ways \<open>main\<close> can go: the port is not available, or the server waits.\<close>

lemma mediator_main_cases:
  assumes "socket_laws os opened"
    and "mediator_main os lib rt storage (Some swagger) n = Some (n', s, a, e)"
  obtains (failed) m where "e = Halted (Exit m)" and "opened n' = opened n" and "goroutines a = []"
    | (serving) h p l addr api srv where "e = Waits"
        and "NetListen os ''tcp'' ''0.0.0.0:8080'' n = (n', Inr addr)" and "Addr l = Return addr"
        and "s = (run_server (NewRestful lib rt storage (Some swagger)))\<lparr>Host := h, Port := p, httpServerL := l,
                  hasListeners := True, srv_api := Some api,
                  srv_handler := Some (APIHandler rt (NewRoutableContext rt swagger) api None)\<rparr>"
        and "srv = http_server_of s" and "servers a = [srv]"
        and "goroutines a = [HandleInterrupt, ServeOn srv l, HandleShutdown]"
        and "\<And>m p. HandlerFor api m p =
          map_of (mediator_table lib (NewRoutableContext rt swagger) (NewResthook storage)) (ToUpper m, p)"
proof -
  let ?r = "NewRestful lib rt storage (Some swagger)" and ?rh = "NewResthook storage"
  let ?ctx = "NewRoutableContext rt swagger"
  obtain api where api: "setupHandler lib rt ?rh (Some swagger) = Some api" "r_api ?r = Some api"
    by (simp add: NewRestful_def Let_def setupHandler_def)
  with assms(2) have run: "Run os lib rt ?r n = (n', s, a, e)"
    by (simp add: mediator_main_def)
  obtain n1 res where net: "NetListen os ''tcp'' ''0.0.0.0:8080'' n = (n1, res)" by fastforce
  show thesis
  proof (cases res)
    case (Inl err)
    then have "Server_Serve os lib rt (run_server ?r) n = (n1, run_server ?r, no_activation, Halted (ReturnErr err))"
      using net by (simp add: Server_Serve_def run_server_fields run_Listen)
    with run have "n' = n1" "a = no_activation" "e = Halted (Exit (Error err))" by (simp_all add: Run_def)
    then show thesis
      using socket_laws.listen_err [OF assms(1), of "''tcp''" "''0.0.0.0:8080''" n n1 err] net Inl
      by (intro failed [of "Error err"]) (simp_all add: no_activation_def)
  next
    case (Inr addr)
    then obtain h p where split: "SplitHostPort os addr = Inr (h, p)"
      using socket_laws.tcp_addr [OF assms(1)] net by blast
    let ?s1 = "(run_server ?r)\<lparr>Host := h, Port := p, httpServerL := Some (Socket ''tcp'' addr), hasListeners := True\<rparr>"
    have l: "Listen os (run_server ?r) n = (n1, ?s1, None)"
      using net Inr split by (simp add: run_Listen)
    from api(1) obtain api' where serve: "Serve lib rt None api = (api', Return (APIHandler rt ?ctx api' None))"
      and routes: "\<And>m p. HandlerFor api' m p = map_of (mediator_table lib ?ctx ?rh) (ToUpper m, p)"
      by (rule mediator_Serve) blast
    let ?s2 = "?s1\<lparr>srv_api := Some api', srv_handler := Some (APIHandler rt ?ctx api' None)\<rparr>"
    have d: "default_handler lib rt ?s1 = (?s2, None)"
      using serve api(2) by (simp add: default_handler_def run_server_fields SetHandler_def)
    obtain l where addr: "Addr l = Return addr" and start: "start_servers os ?s2 n1 =
      (?s2\<lparr>httpServerL := l\<rparr>,
       \<lparr>notified = [''SIGINT'', ''SIGTERM''], servers = [http_server_of ?s2],
        goroutines = [HandleInterrupt, ServeOn (http_server_of ?s2) l, HandleShutdown]\<rparr>, Waits)"
      by (rule start_default [of ?s2 addr os n1]) (simp_all add: run_server_fields)
    have "Server_Serve os lib rt (run_server ?r) n = (n1, start_servers os ?s2 n1)"
      using l d by (simp add: Server_Serve_def run_server_fields)
    with run start have eq: "n' = n1" "s = ?s2\<lparr>httpServerL := l\<rparr>" "e = Waits"
        "servers a = [http_server_of ?s2]"
        "goroutines a = [HandleInterrupt, ServeOn (http_server_of ?s2) l, HandleShutdown]"
      by (auto simp: Run_def)
    have "http_server_of s = http_server_of ?s2" by (simp add: eq(2) http_server_of_def idle_of_def)
    with eq show thesis
      by (intro serving [where addr = addr and l = l and h = h and p = p and api = api' and srv = "http_server_of s"]) (use net Inr addr routes in simp_all)
  qed
qed

text \<open>An instance: the storage in memory and a system without open sockets.\<close>

definition sample_main :: "((string \<times> string) list \<times> mem_world Server \<times> mem_world activation \<times> serve_end) option" where
  "sample_main = mediator_main sample_os std_openapi sample_rt mem_sdl (Some ''{}'') []"

lemma sample_main_waits:
  obtains n' s a where "sample_main = Some (n', s, a, Waits)" and "n' = [(''tcp'', ''0.0.0.0:8080'')]"
proof -
  have "(case sample_main of None \<Rightarrow> False | Some (n, s, a, e) \<Rightarrow> e = Waits \<and> n = [(''tcp'', ''0.0.0.0:8080'')])"
    by code_simp
  then show thesis using that by (auto split: option.splits prod.splits)
qed

section \<open>Properties\<close>

text \<open>
  C3. The service in operation. Started over a storage, the mediator either fails to get its port
  and exits, or waits with one HTTP server, on the socket asked for as 0.0.0.0:8080, whose handler
  is the router over an API object with exactly the routes of the mediator; there is no timeout,
  keep-alives are off and the grace period for shutting down is zero, whatever the flags of the
  server declare as defaults.
\<close>

theorem service_serves_mediator:
  assumes "socket_laws os opened"
    and "mediator_main os lib rt storage (Some swagger) n = Some (n', s, a, e)"
  shows "(\<exists>m. e = Halted (Exit m)) \<and> opened n' = opened n \<and> goroutines a = [] \<or>
    e = Waits \<and>
    (\<exists>srv l addr api. servers a = [srv] \<and> goroutines a = [HandleInterrupt, ServeOn srv l, HandleShutdown] \<and>
       Addr l = Return addr \<and> NetListen os ''tcp'' ''0.0.0.0:8080'' n = (n', Inr addr) \<and>
       srv_Handler srv = Some (APIHandler rt (NewRoutableContext rt swagger) api None) \<and>
       (\<forall>m p. HandlerFor api m p =
          map_of (mediator_table lib (NewRoutableContext rt swagger) (NewResthook storage)) (ToUpper m, p)) \<and>
       srv_ReadTimeout srv = 0 \<and> srv_WriteTimeout srv = 0 \<and> IdleTimeout srv = 0 \<and>
       \<not> KeepAlivesEnabled srv \<and> GracefulTimeout s = 0)"
  using assms
proof (cases rule: mediator_main_cases)
  case (serving h p l addr api srv)
  have "srv_Handler srv = Some (APIHandler rt (NewRoutableContext rt swagger) api None)"
    "srv_ReadTimeout srv = 0" "srv_WriteTimeout srv = 0" "IdleTimeout srv = 0" "\<not> KeepAlivesEnabled srv"
    "GracefulTimeout s = 0"
    by (simp_all add: serving(4,5) http_server_of_def idle_of_def run_server_zero)
  then show ?thesis using serving by blast
qed blast

theorem service_serves_mediator_witness:
  "\<exists>n' s a srv api. sample_main = Some (n', s, a, Waits) \<and> servers a = [srv] \<and>
     srv_Handler srv = Some (APIHandler sample_rt sample_ctx api None) \<and>
     HandlerFor api ''PUT'' ''/a1-p/policytypes/{policy_type_id}'' = Some (serve_put std_openapi sample_ctx mem_hook)"
proof -
  obtain n' s a where main: "sample_main = Some (n', s, a, Waits)" by (rule sample_main_waits)
  have up: "ToUpper ''PUT'' = ''PUT''" by code_simp
  from service_serves_mediator [OF sample_os_laws main [unfolded sample_main_def], unfolded sample_rt_context]
  obtain srv api where "servers a = [srv]" and "srv_Handler srv = Some (APIHandler sample_rt sample_ctx api None)"
    and "\<forall>m p. HandlerFor api m p =
        map_of (mediator_table std_openapi sample_ctx (NewResthook mem_sdl)) (ToUpper m, p)"
    by (elim disjE conjE exE) (simp, metis)
  moreover from this(3) have "HandlerFor api ''PUT'' ''/a1-p/policytypes/{policy_type_id}''
      = Some (serve_put std_openapi sample_ctx mem_hook)"
    by (simp add: mediator_table_def up mem_hook_def)
  ultimately show ?thesis using main by blast
qed

text \<open>
  C9. The service stops when told to. After a signal to the waiting mediator the program makes at
  most 14 steps, and 6 more for each signal; unless its server fails, which ends the process, it
  can only come to rest with \<open>Serve\<close> returned, the server stopped after the hook
  \<open>PreServerShutdown\<close>, and the deferred call of \<open>Shutdown\<close> without effect.
\<close>

theorem service_stops_on_signal:
  assumes "socket_laws os opened"
    and "mediator_main os lib rt storage (Some swagger) n = Some (n', s, a, Waits)"
    and "steps server_move (waiting s a 0) es t" and "Signal \<in> set es"
  shows "length es \<le> 14 + 6 * length (filter (\<lambda>e. e = Signal) es) \<and>
    (quiet t \<and> fault t \<noteq> Some Exited \<longrightarrow>
       returned t \<and> serving (dr t) = [False] \<and> PreServerShutdown \<in> set (log (dr t)) \<and>
       Shutdown_step CallCas (lc t) = Some (lc t, CallDone, None))"
proof -
  have srv: "life s = new_lifecycle \<and> srv_api s \<noteq> None \<and> length (servers a) = 1"
    using assms(1,2) by (cases rule: mediator_main_cases) (simp_all add: run_server_fields)
  then have bound: "length es \<le> 14 + 6 * length (filter (\<lambda>e. e = Signal) es)"
    and stops: "quiet t \<and> fault t = None \<longrightarrow> returned t"
    using shutdown_returns [OF _ _ assms(3)] assms(4) by simp_all
  have none: "fault t = None" if "fault t \<noteq> Some Exited"
    using shutdown_closes_once [OF _ assms(3)] srv that by blast
  have len: "length (serving (dr t)) = 1"
    using servers_kept.invariant [OF assms(3), of 1] srv by (simp add: waiting_def)
  show ?thesis
  proof (intro conjI impI)
    assume over: "quiet t \<and> fault t \<noteq> Some Exited"
    then have "returned t" using stops none over by blast
    then have "True \<notin> set (serving (dr t))" using shutdown_order [OF assms(3)] by blast
    then have stopped: "serving (dr t) = [False]" using len by (cases "serving (dr t)") auto
    then have "PreServerShutdown \<in> set (log (dr t)) \<and> shutdown_closed (lc t)"
      using shutdown_order [OF assms(3)] by simp
    moreover from this have "shuttingDown (lc t) \<noteq> 0"
      using shutdown_closes_once [OF _ assms(3)] srv by blast
    ultimately show "returned t" "serving (dr t) = [False]" "PreServerShutdown \<in> set (log (dr t))"
      "Shutdown_step CallCas (lc t) = Some (lc t, CallDone, None)"
      using \<open>returned t\<close> stopped by simp_all
  qed (rule bound)
qed

text \<open>The example stopped by one signal.\<close>

definition sample_stop :: "event list" where
  "sample_stop = Signal # replicate 4 InterruptMoves @ replicate 4 HandleMoves @ stop_server 0 True @
     [HandleMoves, HandleMoves, ServeReturns]"

definition sample_stopped :: server_run where
  "sample_stopped = sample_final
     \<lparr>dr := \<lparr>hpc = HDone, stoppers = [Sent True], serving = [False], log = [PreServerShutdown, ServerShutdown]\<rparr>\<rparr>"

lemma sample_stopped_quiet: "quiet sample_stopped"
proof -
  have "server_move e sample_stopped = None" if "internal e" for e
    using that
    by (cases e) (auto simp: server_move_def sample_stopped_def sample_final_def drain_by_def handle_move_def
        collect_move_def stopper_move_def server_returns_def wg_count_def nth_Cons')
  then show ?thesis by (simp add: quiet_def)
qed

lemma sample_stop_steps: "steps server_move (waiting sample_server (sample_activation 1) 0) sample_stop sample_stopped"
  unfolding steps_run by code_simp

theorem service_stops_on_signal_witness:
  "\<exists>n' s a. sample_main = Some (n', s, a, Waits) \<and>
     steps server_move (waiting s a 0) sample_stop sample_stopped \<and> returned sample_stopped"
proof -
  obtain n' s a where main: "sample_main = Some (n', s, a, Waits)" by (rule sample_main_waits)
  from sample_os_laws main [unfolded sample_main_def]
  have "life s = new_lifecycle \<and> srv_api s \<noteq> None \<and> length (servers a) = 1"
    by (cases rule: mediator_main_cases) (simp_all add: run_server_fields)
  then have "waiting s a 0 = waiting sample_server (sample_activation 1) 0"
    using sample_fresh by (simp add: waiting_def sample_activation_def)
  then have st: "steps server_move (waiting s a 0) sample_stop sample_stopped"
    using sample_stop_steps by simp
  have "Signal \<in> set sample_stop" by (simp add: sample_stop_def)
  from service_stops_on_signal [OF sample_os_laws main [unfolded sample_main_def] st this] sample_stopped_quiet
  have "returned sample_stopped" by (simp add: sample_stopped_def sample_final_def)
  with main st show ?thesis by blast
qed

end
