(* ===== verification/EmbeddedSpec.thy ===== *)
theory EmbeddedSpec
  imports Json
begin

text \<open>
  The document \<open>SwaggerJSON\<close> of \<open>restapi/embedded_spec.go\<close>, the specification of the API that
  the program carries: one definition per path, the definitions of the models, and the document.
  It is given as the JSON value of its text.
\<close>

definition spec_healthcheck :: json where
  "spec_healthcheck = JObject
     [(''get'', JObject
       [(''description'', JString ''Perform a healthcheck on a1\<newline>''),
        (''tags'', JArray [JString ''A1 Mediator'']),
        (''operationId'', JString ''a1.controller.get_healthcheck''),
        (''responses'', JObject
         [(''200'', JObject
           [(''description'', JString ''A1 is healthy. Anything other than a 200 should be considered a1 as failing\<newline>'')])])])]"

definition spec_policytypes :: json where
  "spec_policytypes = JObject
     [(''get'', JObject
       [(''description'', JString ''Get a list of all registered policy type ids''),
        (''produces'', JArray [JString ''application/json'']),
        (''tags'', JArray [JString ''A1 Mediator'']),
        (''operationId'', JString ''a1.controller.get_all_policy_types''),
        (''responses'', JObject
         [(''200'', JObject
           [(''description'', JString ''list of all registered policy type ids''),
            (''schema'', JObject
             [(''type'', JString ''array''),
              (''items'', JObject
               [(''$ref'', JString ''#/definitions/policy_type_id'')])]),
            (''examples'', JObject
             [(''application/json'', JArray [JNumber ''20000'', JNumber ''20020''])])]),
          (''503'', JObject
           [(''description'', JString ''Potentially transient backend database error. Client should attempt to retry later.'')])])])]"

definition spec_policytype :: json where
  "spec_policytype = JObject
     [(''get'', JObject
       [(''description'', JString ''Get this policy type\<newline>''),
        (''produces'', JArray [JString ''application/json'']),
        (''tags'', JArray [JString ''A1 Mediator'']),
        (''operationId'', JString ''a1.controller.get_policy_type''),
        (''responses'', JObject
         [(''200'', JObject
           [(''description'', JString ''policy type successfully found''),
            (''schema'', JObject
             [(''$ref'', JString ''#/definitions/policy_type_schema'')])]),
          (''404'', JObject
           [(''description'', JString ''policy type not found\<newline>'')]),
          (''503'', JObject
           [(''description'', JString ''Potentially transient backend database error. Client should attempt to retry later.'')])])]),
      (''put'', JObject
       [(''description'', JString ''Create a new policy type . Replace is not currently allowed; to replace, for now do a DELETE and then a PUT again.\<newline>''),
        (''consumes'', JArray [JString ''application/json'']),
        (''tags'', JArray [JString ''A1 Mediator'']),
        (''operationId'', JString ''a1.controller.create_policy_type''),
        (''parameters'', JArray [JObject
           [(''name'', JString ''body''),
            (''in'', JString ''body''),
            (''schema'', JObject
             [(''$ref'', JString ''#/definitions/policy_type_schema'')])]]),
        (''responses'', JObject
         [(''201'', JObject
           [(''description'', JString ''policy type successfully created'')]),
          (''400'', JObject
           [(''description'', JString ''illegal ID, or object already existed'')]),
          (''503'', JObject
           [(''description'', JString ''Potentially transient backend database error. Client should attempt to retry later.'')])])]),
      (''delete'', JObject
       [(''description'', JString ''Delete this policy type. Can only be performed if there are no instances of this type\<newline>''),
        (''tags'', JArray [JString ''A1 Mediator'']),
        (''operationId'', JString ''a1.controller.delete_policy_type''),
        (''responses'', JObject
         [(''204'', JObject
           [(''description'', JString ''policy type successfully deleted\<newline>'')]),
          (''400'', JObject
           [(''description'', JString ''Policy type cannot be deleted because there are instances All instances must be removed before a policy type can be deleted\<newline>'')]),
          (''404'', JObject
           [(''description'', JString ''policy type not found\<newline>'')]),
          (''503'', JObject
           [(''description'', JString ''Potentially transient backend database error. Client should attempt to retry later.'')])])]),
      (''parameters'', JArray [JObject
         [(''maximum'', JNumber ''2147483647''),
          (''minimum'', JNumber ''1''),
          (''type'', JString ''integer''),
          (''description'', JString ''represents a policy type identifier. Currently this is restricted to an integer range.\<newline>''),
          (''name'', JString ''policy_type_id''),
          (''in'', JString ''path''),
          (''required'', JBool True)]])]"

definition spec_policies :: json where
  "spec_policies = JObject
     [(''get'', JObject
       [(''description'', JString ''get a list of all policy instance ids for this policy type id''),
        (''produces'', JArray [JString ''application/json'']),
        (''tags'', JArray [JString ''A1 Mediator'']),
        (''operationId'', JString ''a1.controller.get_all_instances_for_type''),
        (''responses'', JObject
         [(''200'', JObject
           [(''description'', JString ''list of all policy instance ids for this policy type id''),
            (''schema'', JObject
             [(''type'', JString ''array''),
              (''items'', JObject
               [(''$ref'', JString ''#/definitions/policy_instance_id'')])]),
            (''examples'', JObject
             [(''application/json'', JArray [JString ''3d2157af-6a8f-4a7c-810f-38c2f824bf12'', JString ''06911bfc-c127-444a-8eb1-1bffad27cc3d''])])]),
          (''503'', JObject
           [(''description'', JString ''Potentially transient backend database error. Client should attempt to retry later.'')])])]),
      (''parameters'', JArray [JObject
         [(''maximum'', JNumber ''2147483647''),
          (''minimum'', JNumber ''1''),
          (''type'', JString ''integer''),
          (''description'', JString ''represents a policy type identifier. Currently this is restricted to an integer range.\<newline>''),
          (''name'', JString ''policy_type_id''),
          (''in'', JString ''path''),
          (''required'', JBool True)]])]"

definition spec_policy :: json where
  "spec_policy = JObject
     [(''get'', JObject
       [(''description'', JString ''Retrieve the policy instance\<newline>''),
        (''produces'', JArray [JString ''application/json'']),
        (''tags'', JArray [JString ''A1 Mediator'']),
        (''operationId'', JString ''a1.controller.get_policy_instance''),
        (''responses'', JObject
         [(''200'', JObject
           [(''description'', JString ''The policy instance. the schema of this object is defined by the create_schema field of the policy type\<newline>''),
            (''schema'', JObject
             [(''type'', JString ''object'')])]),
          (''404'', JObject
           [(''description'', JString ''there is no policy instance with this policy_instance_id or there is no policy type with this policy_type_id\<newline>'')]),
          (''503'', JObject
           [(''description'', JString ''Potentially transient backend database error. Client should attempt to retry later.'')])])]),
      (''put'', JObject
       [(''description'', JString ''Create or replace a policy instance of type policy_type_id. The schema of the PUT body is defined by the create_schema field of the policy type.\<newline>''),
        (''consumes'', JArray [JString ''application/json'']),
        (''tags'', JArray [JString ''A1 Mediator'']),
        (''operationId'', JString ''a1.controller.create_or_replace_policy_instance''),
        (''parameters'', JArray [JObject
           [(''name'', JString ''body''),
            (''in'', JString ''body''),
            (''schema'', JObject
             [(''description'', JString ''the schema of this object is defined by the create_schema field of the policy type\<newline>''),
              (''type'', JString ''object'')])]]),
        (''responses'', JObject
         [(''202'', JObject
           [(''description'', JString ''Policy instance creation initiated\<newline>'')]),
          (''400'', JObject
           [(''description'', JString ''Bad PUT body for this policy instance\<newline>'')]),
          (''404'', JObject
           [(''description'', JString ''There is no policy type with this policy_type_id\<newline>'')]),
          (''503'', JObject
           [(''description'', JString ''Potentially transient backend database error. Client should attempt to retry later.'')])])]),
      (''delete'', JObject
       [(''description'', JString ''Delete this policy instance\<newline>''),
        (''tags'', JArray [JString ''A1 Mediator'']),
        (''operationId'', JString ''a1.controller.delete_policy_instance''),
        (''responses'', JObject
         [(''202'', JObject
           [(''description'', JString ''policy instance deletion initiated\<newline>'')]),
          (''404'', JObject
           [(''description'', JString ''there is no policy instance with this policy_instance_id or there is no policy type with this policy_type_id\<newline>'')]),
          (''503'', JObject
           [(''description'', JString ''Potentially transient backend database error. Client should attempt to retry later.'')])])]),
      (''parameters'', JArray [JObject
         [(''maximum'', JNumber ''2147483647''),
          (''minimum'', JNumber ''1''),
          (''type'', JString ''integer''),
          (''description'', JString ''represents a policy type identifier. Currently this is restricted to an integer range.\<newline>''),
          (''name'', JString ''policy_type_id''),
          (''in'', JString ''path''),
          (''required'', JBool True)], JObject
         [(''type'', JString ''string''),
          (''description'', JString ''represents a policy instance identifier. UUIDs are advisable but can be any string\<newline>''),
          (''name'', JString ''policy_instance_id''),
          (''in'', JString ''path''),
          (''required'', JBool True)]])]"

definition spec_policy_status :: json where
  "spec_policy_status = JObject
     [(''get'', JObject
       [(''description'', JString ''Retrieve the policy instance status across all handlers of the policy If this endpoint returns successfully (200), it is either IN EFFECT or NOT IN EFFECT. IN EFFECT is returned if at least one policy handler in the RIC is implementing the policy NOT IN EFFECT is returned otherwise If a policy instance is successfully deleted, this endpoint will return a 404 (not a 200)\<newline>''),
        (''produces'', JArray [JString ''application/json'']),
        (''tags'', JArray [JString ''A1 Mediator'']),
        (''operationId'', JString ''a1.controller.get_policy_instance_status''),
        (''responses'', JObject
         [(''200'', JObject
           [(''description'', JString ''successfully retrieved the status\<newline>''),
            (''schema'', JObject
             [(''type'', JString ''object''),
              (''properties'', JObject
               [(''created_at'', JObject
                 [(''type'', JString ''string''),
                  (''format'', JString ''date-time'')]),
                (''has_been_deleted'', JObject
                 [(''type'', JString ''boolean'')]),
                (''instance_status'', JObject
                 [(''type'', JString ''string''),
                  (''enum'', JArray [JString ''IN EFFECT'', JString ''NOT IN EFFECT''])])])])]),
          (''404'', JObject
           [(''description'', JString ''there is no policy instance with this policy_instance_id or there is no policy type with this policy_type_id\<newline>'')]),
          (''503'', JObject
           [(''description'', JString ''Potentially transient backend database error. Client should attempt to retry later.'')])])]),
      (''parameters'', JArray [JObject
         [(''maximum'', JNumber ''2147483647''),
          (''minimum'', JNumber ''1''),
          (''type'', JString ''integer''),
          (''description'', JString ''represents a policy type identifier. Currently this is restricted to an integer range.\<newline>''),
          (''name'', JString ''policy_type_id''),
          (''in'', JString ''path''),
          (''required'', JBool True)], JObject
         [(''type'', JString ''string''),
          (''description'', JString ''represents a policy instance identifier. UUIDs are advisable but can be any string\<newline>''),
          (''name'', JString ''policy_instance_id''),
          (''in'', JString ''path''),
          (''required'', JBool True)]])]"

definition spec_data_delivery :: json where
  "spec_data_delivery = JObject
     [(''post'', JObject
       [(''description'', JString ''Deliver data produced by data producer.\<newline>''),
        (''consumes'', JArray [JString ''application/json'']),
        (''tags'', JArray [JString ''A1 EI Data Delivery'']),
        (''operationId'', JString ''a1.controller.data_delivery''),
        (''parameters'', JArray [JObject
           [(''name'', JString ''body''),
            (''in'', JString ''body''),
            (''schema'', JObject
             [(''description'', JString ''object to represent data object\<newline>''),
              (''type'', JString ''object'')])]]),
        (''responses'', JObject
         [(''200'', JObject
           [(''description'', JString ''successfully delivered data from data producer\<newline>'')]),
          (''404'', JObject
           [(''description'', JString ''no job id defined for this data delivery\<newline>'')])])])]"

definition spec_definitions :: json where
  "spec_definitions = JObject
     [(''policy_instance_id'', JObject
       [(''description'', JString ''represents a policy instance identifier. UUIDs are advisable but can be any string\<newline>''),
        (''type'', JString ''string''),
        (''example'', JString ''3d2157af-6a8f-4a7c-810f-38c2f824bf12'')]),
      (''policy_type_id'', JObject
       [(''description'', JString ''represents a policy type identifier. Currently this is restricted to an integer range.\<newline>''),
        (''type'', JString ''integer''),
        (''maximum'', JNumber ''2147483647''),
        (''minimum'', JNumber ''1'')]),
      (''policy_type_schema'', JObject
       [(''type'', JString ''object''),
        (''required'', JArray [JString ''name'', JString ''description'', JString ''policy_type_id'', JString ''create_schema'']),
        (''properties'', JObject
         [(''create_schema'', JObject
           [(''description'', JString ''jsonschema (following http://json-schema.org/draft-07/schema) of the CREATE payload to be sent to handlers of this policy\<newline>''),
            (''type'', JString ''object'')]),
          (''description'', JObject
           [(''description'', JString ''description of the policy type''),
            (''type'', JString ''string'')]),
          (''name'', JObject
           [(''description'', JString ''name of the policy type''),
            (''type'', JString ''string'')]),
          (''policy_type_id'', JObject
           [(''description'', JString ''the integer of the policy type''),
            (''type'', JString ''integer'')])]),
        (''additionalProperties'', JBool False)])]"

definition SwaggerJSON :: json where
  "SwaggerJSON = JObject
     [(''swagger'', JString ''2.0''),
      (''info'', JObject
       [(''title'', JString ''RIC A1''),
        (''version'', JString ''2.1.0'')]),
      (''paths'', JObject
       [(''/a1-p/healthcheck'', spec_healthcheck),
        (''/a1-p/policytypes'', spec_policytypes),
        (''/a1-p/policytypes/{policy_type_id}'', spec_policytype),
        (''/a1-p/policytypes/{policy_type_id}/policies'', spec_policies),
        (''/a1-p/policytypes/{policy_type_id}/policies/{policy_instance_id}'', spec_policy),
        (''/a1-p/policytypes/{policy_type_id}/policies/{policy_instance_id}/status'', spec_policy_status),
        (''/data-delivery'', spec_data_delivery)]),
      (''definitions'', spec_definitions),
      (''x-components'', JObject [])]"

end
