(* ===== verification/Specification.thy ===== *)
theory Specification
  imports A1Api EmbeddedSpec EmbeddedFlat
begin

text \<open>
  The specification the program carries, read as data, and its agreement with the generated code:
  the routes of the API object, the status codes of the responses and the range of the policy type
  identifiers are those the embedded document declares. The flattened document is the same one.
\<close>

section \<open>Reading a specification\<close>

fun members :: "json \<Rightarrow> (string \<times> json) list" where
  "members (JObject ms) = ms"
| "members _ = []"

fun elements :: "json \<Rightarrow> json list" where
  "elements (JArray xs) = xs"
| "elements _ = []"

fun text_of :: "json \<Rightarrow> string" where
  "text_of (JString s) = s"
| "text_of (JNumber s) = s"
| "text_of _ = []"

definition child :: "string \<Rightarrow> json \<Rightarrow> json" where
  "child k j = (case map_of (members j) k of None \<Rightarrow> JNull | Some v \<Rightarrow> v)"

text \<open>The operations: a path item has one member per method, and perhaps parameters.\<close>

definition item_operations :: "string \<times> json \<Rightarrow> ((string \<times> string) \<times> json) list" where
  "item_operations item =
     map (\<lambda>(m, opn). ((ToUpper m, fst item), opn)) (filter (\<lambda>(m, opn). m \<noteq> ''parameters'') (members (snd item)))"

definition spec_operations :: "json \<Rightarrow> ((string \<times> string) \<times> json) list" where
  "spec_operations doc = concat (map item_operations (members (child ''paths'' doc)))"

definition spec_codes :: "json \<Rightarrow> string list" where
  "spec_codes opn = map fst (members (child ''responses'' opn))"

definition spec_table :: "json \<Rightarrow> ((string \<times> string) \<times> string list) list" where
  "spec_table doc = map (\<lambda>(k, opn). (k, spec_codes opn)) (spec_operations doc)"

text \<open>The range of a path parameter, on each path that has it.\<close>

definition item_ranges :: "string \<Rightarrow> string \<times> json \<Rightarrow> (string \<times> string \<times> string) list" where
  "item_ranges name item =
     map (\<lambda>p. (fst item, text_of (child ''minimum'' p), text_of (child ''maximum'' p)))
       (filter (\<lambda>p. text_of (child ''name'' p) = name) (elements (child ''parameters'' (snd item))))"

definition spec_ranges :: "string \<Rightarrow> json \<Rightarrow> (string \<times> string \<times> string) list" where
  "spec_ranges name doc = concat (map (item_ranges name) (members (child ''paths'' doc)))"

section \<open>What the embedded document says\<close>

lemma SwaggerJSON_table:
  "spec_table SwaggerJSON =
     [((''GET'', ''/a1-p/healthcheck''), [''200'']),
      ((''GET'', ''/a1-p/policytypes''), [''200'', ''503'']),
      ((''GET'', ''/a1-p/policytypes/{policy_type_id}''), [''200'', ''404'', ''503'']),
      ((''PUT'', ''/a1-p/policytypes/{policy_type_id}''), [''201'', ''400'', ''503'']),
      ((''DELETE'', ''/a1-p/policytypes/{policy_type_id}''), [''204'', ''400'', ''404'', ''503'']),
      ((''GET'', ''/a1-p/policytypes/{policy_type_id}/policies''), [''200'', ''503'']),
      ((''GET'', ''/a1-p/policytypes/{policy_type_id}/policies/{policy_instance_id}''), [''200'', ''404'', ''503'']),
      ((''PUT'', ''/a1-p/policytypes/{policy_type_id}/policies/{policy_instance_id}''), [''202'', ''400'', ''404'', ''503'']),
      ((''DELETE'', ''/a1-p/policytypes/{policy_type_id}/policies/{policy_instance_id}''), [''202'', ''404'', ''503'']),
      ((''GET'', ''/a1-p/policytypes/{policy_type_id}/policies/{policy_instance_id}/status''), [''200'', ''404'', ''503'']),
      ((''POST'', ''/data-delivery''), [''200'', ''404''])]"
  by code_simp

lemma SwaggerJSON_ranges:
  "spec_ranges ''policy_type_id'' SwaggerJSON =
     [(''/a1-p/policytypes/{policy_type_id}'', ''1'', ''2147483647''),
      (''/a1-p/policytypes/{policy_type_id}/policies'', ''1'', ''2147483647''),
      (''/a1-p/policytypes/{policy_type_id}/policies/{policy_instance_id}'', ''1'', ''2147483647''),
      (''/a1-p/policytypes/{policy_type_id}/policies/{policy_instance_id}/status'', ''1'', ''2147483647'')]"
  by code_simp

lemma flat_is_spec: "FlatSwaggerJSON = SwaggerJSON"
  by (simp only: FlatSwaggerJSON_def SwaggerJSON_def flat_healthcheck_def spec_healthcheck_def
      flat_policytypes_def spec_policytypes_def flat_policytype_def spec_policytype_def flat_policies_def spec_policies_def
      flat_policy_def spec_policy_def flat_policy_status_def spec_policy_status_def
      flat_data_delivery_def spec_data_delivery_def flat_definitions_def spec_definitions_def)

section \<open>What the code declares\<close>

text \<open>The status codes a type of responses can send, as decimal texts.\<close>

definition code_texts :: "('r \<Rightarrow> nat) \<Rightarrow> string set" where
  "code_texts code = (\<lambda>c. format_uint (int c)) ` range code"

lemma CreateOrReplacePolicyInstance_codes: "range CreateOrReplacePolicyInstance_code = {202, 400, 404, 503}"
proof -
  have "CreateOrReplacePolicyInstance_code r \<in> {202, 400, 404, 503}" for r by (cases r) simp_all
  then show ?thesis
    using rangeI [of CreateOrReplacePolicyInstance_code "CreateOrReplacePolicyInstanceAccepted"] rangeI [of CreateOrReplacePolicyInstance_code "CreateOrReplacePolicyInstanceBadRequest"] rangeI [of CreateOrReplacePolicyInstance_code "CreateOrReplacePolicyInstanceNotFound"] rangeI [of CreateOrReplacePolicyInstance_code "CreateOrReplacePolicyInstanceServiceUnavailable"] by auto
qed

lemma CreatePolicyType_codes: "range CreatePolicyType_code = {201, 400, 503}"
proof -
  have "CreatePolicyType_code r \<in> {201, 400, 503}" for r by (cases r) simp_all
  then show ?thesis
    using rangeI [of CreatePolicyType_code "CreatePolicyTypeCreated"] rangeI [of CreatePolicyType_code "CreatePolicyTypeBadRequest"] rangeI [of CreatePolicyType_code "CreatePolicyTypeServiceUnavailable"] by auto
qed

lemma DataDelivery_codes: "range DataDelivery_code = {200, 404}"
proof -
  have "DataDelivery_code r \<in> {200, 404}" for r by (cases r) simp_all
  then show ?thesis
    using rangeI [of DataDelivery_code "DataDeliveryOK"] rangeI [of DataDelivery_code "DataDeliveryNotFound"] by auto
qed

lemma DeletePolicyInstance_codes: "range DeletePolicyInstance_code = {202, 404, 503}"
proof -
  have "DeletePolicyInstance_code r \<in> {202, 404, 503}" for r by (cases r) simp_all
  then show ?thesis
    using rangeI [of DeletePolicyInstance_code "DeletePolicyInstanceAccepted"] rangeI [of DeletePolicyInstance_code "DeletePolicyInstanceNotFound"] rangeI [of DeletePolicyInstance_code "DeletePolicyInstanceServiceUnavailable"] by auto
qed

lemma DeletePolicyType_codes: "range DeletePolicyType_code = {204, 400, 404, 503}"
proof -
  have "DeletePolicyType_code r \<in> {204, 400, 404, 503}" for r by (cases r) simp_all
  then show ?thesis
    using rangeI [of DeletePolicyType_code "DeletePolicyTypeNoContent"] rangeI [of DeletePolicyType_code "DeletePolicyTypeBadRequest"] rangeI [of DeletePolicyType_code "DeletePolicyTypeNotFound"] rangeI [of DeletePolicyType_code "DeletePolicyTypeServiceUnavailable"] by auto
qed

lemma GetAllInstancesForType_codes: "range GetAllInstancesForType_code = {200, 503}"
proof -
  have "GetAllInstancesForType_code r \<in> {200, 503}" for r by (cases r) simp_all
  then show ?thesis
    using rangeI [of GetAllInstancesForType_code "GetAllInstancesForTypeOK None"] rangeI [of GetAllInstancesForType_code "GetAllInstancesForTypeServiceUnavailable"] by auto
qed

lemma GetAllPolicyTypes_codes: "range GetAllPolicyTypes_code = {200, 503}"
proof -
  have "GetAllPolicyTypes_code r \<in> {200, 503}" for r by (cases r) simp_all
  then show ?thesis
    using rangeI [of GetAllPolicyTypes_code "GetAllPolicyTypesOK None"] rangeI [of GetAllPolicyTypes_code "GetAllPolicyTypesServiceUnavailable"] by auto
qed

lemma GetHealthcheck_codes: "range GetHealthcheck_code = {200}"
proof -
  have "GetHealthcheck_code r \<in> {200}" for r by (cases r) simp_all
  then show ?thesis
    using rangeI [of GetHealthcheck_code "GetHealthcheckOK"] by auto
qed

lemma GetPolicyInstance_codes: "range GetPolicyInstance_code = {200, 404, 503}"
proof -
  have "GetPolicyInstance_code r \<in> {200, 404, 503}" for r by (cases r) simp_all
  then show ?thesis
    using rangeI [of GetPolicyInstance_code "GetPolicyInstanceOK JNull"] rangeI [of GetPolicyInstance_code "GetPolicyInstanceNotFound"] rangeI [of GetPolicyInstance_code "GetPolicyInstanceServiceUnavailable"] by auto
qed

lemma GetPolicyInstanceStatus_codes: "range GetPolicyInstanceStatus_code = {200, 404, 503}"
proof -
  have "GetPolicyInstanceStatus_code r \<in> {200, 404, 503}" for r by (cases r) simp_all
  then show ?thesis
    using rangeI [of GetPolicyInstanceStatus_code "GetPolicyInstanceStatusOK None"] rangeI [of GetPolicyInstanceStatus_code "GetPolicyInstanceStatusNotFound"] rangeI [of GetPolicyInstanceStatus_code "GetPolicyInstanceStatusServiceUnavailable"] by auto
qed

lemma GetPolicyType_codes: "range GetPolicyType_code = {200, 404, 503}"
proof -
  have "GetPolicyType_code r \<in> {200, 404, 503}" for r by (cases r) simp_all
  then show ?thesis
    using rangeI [of GetPolicyType_code "GetPolicyTypeOK None"] rangeI [of GetPolicyType_code "GetPolicyTypeNotFound"] rangeI [of GetPolicyType_code "GetPolicyTypeServiceUnavailable"] by auto
qed

lemmas response_codes = CreateOrReplacePolicyInstance_codes CreatePolicyType_codes DataDelivery_codes DeletePolicyInstance_codes DeletePolicyType_codes GetAllInstancesForType_codes GetAllPolicyTypes_codes GetHealthcheck_codes GetPolicyInstance_codes GetPolicyInstanceStatus_codes GetPolicyType_codes

lemma status_texts:
  "format_uint 200 = ''200''" "format_uint 201 = ''201''" "format_uint 202 = ''202''" "format_uint 204 = ''204''"
  "format_uint 400 = ''400''" "format_uint 404 = ''404''" "format_uint 503 = ''503''"
  by code_simp+

lemma route_keys:
  "fst ` set (route_table lib ctx api) = fst ` set (spec_operations SwaggerJSON)"
proof -
  have "fst ` set (spec_operations SwaggerJSON) = fst ` set (spec_table SwaggerJSON)"
    by (force simp: spec_table_def)
  also have "\<dots> = set (map fst (spec_table SwaggerJSON))" by simp
  also have "\<dots> = fst ` set (route_table lib ctx api)"
    unfolding SwaggerJSON_table route_table_def by (simp, code_simp)
  finally show ?thesis by simp
qed

lemma specified_codes:
  "map (\<lambda>(k, codes). (k, set codes)) (spec_table SwaggerJSON) =
     [((''GET'', ''/a1-p/healthcheck''), code_texts GetHealthcheck_code),
      ((''GET'', ''/a1-p/policytypes''), code_texts GetAllPolicyTypes_code),
      ((''GET'', ''/a1-p/policytypes/{policy_type_id}''), code_texts GetPolicyType_code),
      ((''PUT'', ''/a1-p/policytypes/{policy_type_id}''), code_texts CreatePolicyType_code),
      ((''DELETE'', ''/a1-p/policytypes/{policy_type_id}''), code_texts DeletePolicyType_code),
      ((''GET'', ''/a1-p/policytypes/{policy_type_id}/policies''), code_texts GetAllInstancesForType_code),
      ((''GET'', ''/a1-p/policytypes/{policy_type_id}/policies/{policy_instance_id}''), code_texts GetPolicyInstance_code),
      ((''PUT'', ''/a1-p/policytypes/{policy_type_id}/policies/{policy_instance_id}''), code_texts CreateOrReplacePolicyInstance_code),
      ((''DELETE'', ''/a1-p/policytypes/{policy_type_id}/policies/{policy_instance_id}''), code_texts DeletePolicyInstance_code),
      ((''GET'', ''/a1-p/policytypes/{policy_type_id}/policies/{policy_instance_id}/status''), code_texts GetPolicyInstanceStatus_code),
      ((''POST'', ''/data-delivery''), code_texts DataDelivery_code)]"
  unfolding SwaggerJSON_table code_texts_def response_codes
  by (simp add: status_texts)

lemma specified_ranges:
  assumes "openapi_laws lib"
  shows "(\<forall>(path, lo, hi) \<in> set (spec_ranges ''policy_type_id'' SwaggerJSON).
       GetPolicyType_validatePolicyTypeID lib q = None \<longleftrightarrow>
         sint (fst (ParseInt lo)) \<le> sint (TypeID q) \<and> sint (TypeID q) \<le> sint (fst (ParseInt hi)))"
proof -
  have "sint (fst (ParseInt ''1'')) = 1" "sint (fst (ParseInt ''2147483647'')) = 2147483647"
    by code_simp+
  then show ?thesis
    unfolding SwaggerJSON_ranges
    by (simp add: bind_methods validatePolicyTypeID_None_iff openapi_laws.in_range_checks [OF assms])
qed

section \<open>Properties\<close>

text \<open>
  C14. The code serves what it specifies. The API object has a handler for a method and a path
  exactly when the embedded specification declares that operation on that path, once; the
  flattened specification is the same document.
\<close>

theorem routes_are_specified:
  assumes "fresh_cache api"
  shows "(HandlerFor (Init lib rt api) m p \<noteq> None \<longleftrightarrow> (ToUpper m, p) \<in> fst ` set (spec_operations SwaggerJSON)) \<and>
    distinct (map fst (spec_operations SwaggerJSON)) \<and> FlatSwaggerJSON = SwaggerJSON"
proof -
  have "map fst (spec_operations SwaggerJSON) = map fst (spec_table SwaggerJSON)"
    by (simp add: spec_table_def split_def comp_def)
  moreover have "distinct (map fst (spec_table SwaggerJSON))"
    unfolding SwaggerJSON_table by code_simp
  ultimately show ?thesis
    using handler_cache_is_route_table_eq [OF assms, of lib rt m p] route_keys [of lib "context_of rt api" api] flat_is_spec
    by (simp add: map_of_eq_None_iff)
qed

theorem routes_are_specified_witness:
  "HandlerFor (Init std_openapi sample_rt sample_api) ''post'' ''/data-delivery'' \<noteq> None"
proof -
  have "(ToUpper ''post'', ''/data-delivery'') \<in> set (map fst (spec_table SwaggerJSON))"
    unfolding SwaggerJSON_table by code_simp
  then have "(ToUpper ''post'', ''/data-delivery'') \<in> fst ` set (spec_operations SwaggerJSON)"
    by (force simp: spec_table_def)
  with routes_are_specified [OF sample_api_fresh] show ?thesis by blast
qed



end
