(* ===== verification/PyData.thy ===== *)
theory PyData
  imports Json
begin

text \<open>
  The older mediator, written in Python: \<open>a1/data.py\<close> and \<open>a1/exceptions.py\<close>. It keeps policy
  types, policy instances, their metadata and the statuses the xApps report in the shared data
  layer. A function of the module is a computation on the outside world that returns a value or
  raises; the storage, the clock and the configuration are the parameter \<open>a1_env\<close>. A string is its
  UTF-8 text. A Python value read from JSON is a \<open>json\<close>, a dictionary an object.
\<close>

section \<open>Computations that may raise\<close>

text \<open>
  The exceptions of \<open>exceptions.py\<close> carry what they are made with. \<open>SdlError\<close> stands for the three
  errors of the storage, \<open>ValidationError\<close> is that of \<open>jsonschema\<close>, \<open>PyError\<close> any other, by the name of
  its class.
\<close>

datatype py_exc =
    PolicyTypeNotFound json
  | PolicyInstanceNotFound json
  | PolicyTypeAlreadyExists json
  | PolicyTypeIdMismatch json json
  | CantDeleteNonEmptyType json
  | ValidationError string
  | SdlError string
  | PyError string

type_synonym ('w, 'a) py = "'w \<Rightarrow> (py_exc + 'a) \<times> 'w"

definition py_return :: "'a \<Rightarrow> ('w, 'a) py" where
  "py_return x w = (Inr x, w)"

definition py_raise :: "py_exc \<Rightarrow> ('w, 'a) py" where
  "py_raise e w = (Inl e, w)"

definition py_bind :: "('w, 'a) py \<Rightarrow> ('a \<Rightarrow> ('w, 'b) py) \<Rightarrow> ('w, 'b) py" where
  "py_bind m f w = (case m w of (Inl e, w') \<Rightarrow> (Inl e, w') | (Inr x, w') \<Rightarrow> f x w')"

definition py_then :: "('w, 'a) py \<Rightarrow> ('w, 'b) py \<Rightarrow> ('w, 'b) py" where
  "py_then m n = py_bind m (\<lambda>_. n)"

text \<open>A \<open>for\<close> loop that does something for each element, and a comprehension.\<close>

fun py_for :: "'a list \<Rightarrow> ('a \<Rightarrow> ('w, unit) py) \<Rightarrow> ('w, unit) py" where
  "py_for [] f = py_return ()"
| "py_for (x # xs) f = py_then (f x) (py_for xs f)"

fun py_map :: "('a \<Rightarrow> py_exc + 'b) \<Rightarrow> 'a list \<Rightarrow> py_exc + 'b list" where
  "py_map f [] = Inr []"
| "py_map f (x # xs) =
     (case f x of Inl e \<Rightarrow> Inl e | Inr y \<Rightarrow> (case py_map f xs of Inl e \<Rightarrow> Inl e | Inr ys \<Rightarrow> Inr (y # ys)))"

definition py_lift :: "py_exc + 'a \<Rightarrow> ('w, 'a) py" where
  "py_lift r w = (r, w)"

section \<open>The environment\<close>

text \<open>
  What the mediator runs on. The operations of \<open>SDLWrapper\<close>: reading a key (\<open>None\<close> if it is
  missing), writing, deleting, reading all keys with a prefix, and its health. The clock. The text
  of a value that is neither a string, an integer, a truth value nor \<open>None\<close>; how the number of a
  floating point literal compares with an integer and converts to one. \<open>jsonschema.validate\<close>, the
  instance first. RMR: sending a message (payload, type, subscription) and returning one to its
  sender, both with the resulting state. HTTP requests to the enrichment information service: the
  body and the status of a \<open>GET\<close>, the status of a \<open>PUT\<close>. The configuration from the environment,
  and the state by which RMR asks for another try.
\<close>

record 'w a1_env =
  sdl_get :: "string \<Rightarrow> string \<Rightarrow> ('w, json) py"
  sdl_set :: "string \<Rightarrow> string \<Rightarrow> json \<Rightarrow> ('w, unit) py"
  sdl_delete :: "string \<Rightarrow> string \<Rightarrow> ('w, unit) py"
  sdl_find_and_get :: "string \<Rightarrow> string \<Rightarrow> ('w, (string \<times> json) list) py"
  sdl_healthcheck :: "'w \<Rightarrow> bool \<times> 'w"
  time_time :: "'w \<Rightarrow> json \<times> 'w"
  format_other :: "json \<Rightarrow> string"
  float_equals :: "string \<Rightarrow> int \<Rightarrow> bool"
  float_int :: "string \<Rightarrow> py_exc + int"
  schema_validate :: "json \<Rightarrow> json \<Rightarrow> py_exc option"
  rmr_send_msg :: "string \<Rightarrow> int \<Rightarrow> int \<Rightarrow> 'w \<Rightarrow> int \<times> 'w"
  rmr_rts_msg :: "string \<Rightarrow> int \<Rightarrow> 'w \<Rightarrow> int \<times> 'w"
  requests_get :: "string \<Rightarrow> ('w, string \<times> int) py"
  requests_put :: "string \<Rightarrow> string \<Rightarrow> ('w, int) py"
  INSTANCE_DELETE_NO_RESP_TTL :: int
  INSTANCE_DELETE_RESP_TTL :: int
  RETRY_TIMES :: int
  RMR_ERR_RETRY :: int
  ECS_SERVICE_HOST :: string

section \<open>Values\<close>

definition int_str :: "int \<Rightarrow> string" where
  "int_str n = (if n < 0 then CHR ''-'' # format_uint (- n) else format_uint n)"

definition int_literal :: "string \<Rightarrow> bool" where
  "int_literal lit \<longleftrightarrow> (\<forall>c \<in> set lit. is_digit c \<or> c = CHR ''-'')"

text \<open>\<open>str\<close>, which \<open>format\<close> applies to its arguments.\<close>

fun py_str :: "'w a1_env \<Rightarrow> json \<Rightarrow> string" where
  "py_str env (JString s) = s"
| "py_str env JNull = ''None''"
| "py_str env (JBool b) = (if b then ''True'' else ''False'')"
| "py_str env (JNumber lit) =
     (if int_literal lit then (if lit = ''-0'' then ''0'' else lit) else format_other env (JNumber lit))"
| "py_str env v = format_other env v"

text \<open>\<open>n == v\<close> for an integer: \<open>True\<close> is 1 and \<open>False\<close> is 0.\<close>

fun py_eq_int :: "'w a1_env \<Rightarrow> int \<Rightarrow> json \<Rightarrow> bool" where
  "py_eq_int env n (JNumber lit) =
     (if int_literal lit then (if lit = ''-0'' then ''0'' else lit) = int_str n else float_equals env lit n)"
| "py_eq_int env n (JBool b) = (n = (if b then 1 else 0))"
| "py_eq_int env n v = False"

text \<open>\<open>d[k]\<close>; of two members with the same key, a decoded dictionary has the last.\<close>

fun py_item :: "json \<Rightarrow> string \<Rightarrow> py_exc + json" where
  "py_item (JObject kvs) k = (case map_of (rev kvs) k of None \<Rightarrow> Inl (PyError ''KeyError'') | Some v \<Rightarrow> Inr v)"
| "py_item v k = Inl (PyError ''TypeError'')"

text \<open>\<open>d[k] = v\<close>\<close>

fun py_set_item :: "json \<Rightarrow> string \<Rightarrow> json \<Rightarrow> py_exc + json" where
  "py_set_item (JObject kvs) k v = Inr (JObject (AList.update k v kvs))"
| "py_set_item d k v = Inl (PyError ''TypeError'')"

text \<open>\<open>s.split(sep)[1]\<close> for a separator that is not empty.\<close>

definition split_second :: "string \<Rightarrow> string \<Rightarrow> py_exc + string" where
  "split_second sep s = (case Split s sep of a # b # rest \<Rightarrow> Inr b | _ \<Rightarrow> Inl (PyError ''IndexError''))"

text \<open>\<open>int(s)\<close> of an ASCII text: spaces around, a sign, digits with single underscores between them.\<close>

definition py_space :: "char \<Rightarrow> bool" where
  "py_space c \<longleftrightarrow> byte c = 32 \<or> (9 \<le> byte c \<and> byte c \<le> 13) \<or> (28 \<le> byte c \<and> byte c \<le> 31)"

definition py_int :: "string \<Rightarrow> py_exc + int" where
  "py_int s =
     (let t = rev (dropWhile py_space (rev (dropWhile py_space s)));
          negative = (t \<noteq> [] \<and> hd t = CHR ''-'');
          ds = (if t \<noteq> [] \<and> (hd t = CHR ''-'' \<or> hd t = CHR ''+'') then tl t else t);
          groups = Split ds ''_''
      in if \<forall>g \<in> set groups. g \<noteq> [] \<and> (\<forall>c \<in> set g. is_digit c)
         then Inr (if negative then - digits_value (concat groups) else digits_value (concat groups))
         else Inl (PyError ''ValueError''))"

section \<open>Keys\<close>

definition A1NS :: string where "A1NS = ''A1m_ns''"
definition TYPE_PREFIX :: string where "TYPE_PREFIX = ''a1.policy_type.''"
definition INSTANCE_PREFIX :: string where "INSTANCE_PREFIX = ''a1.policy_instance.''"
definition METADATA_PREFIX :: string where "METADATA_PREFIX = ''a1.policy_inst_metadata.''"
definition HANDLER_PREFIX :: string where "HANDLER_PREFIX = ''a1.policy_handler.''"

definition generate_type_key :: "'w a1_env \<Rightarrow> json \<Rightarrow> string" where
  "generate_type_key env policy_type_id = TYPE_PREFIX @ py_str env policy_type_id"

definition generate_instance_key :: "'w a1_env \<Rightarrow> json \<Rightarrow> json \<Rightarrow> string" where
  "generate_instance_key env policy_type_id policy_instance_id =
     INSTANCE_PREFIX @ py_str env policy_type_id @ ''.'' @ py_str env policy_instance_id"

definition generate_instance_metadata_key :: "'w a1_env \<Rightarrow> json \<Rightarrow> json \<Rightarrow> string" where
  "generate_instance_metadata_key env policy_type_id policy_instance_id =
     METADATA_PREFIX @ py_str env policy_type_id @ ''.'' @ py_str env policy_instance_id"

definition generate_handler_prefix :: "'w a1_env \<Rightarrow> json \<Rightarrow> json \<Rightarrow> string" where
  "generate_handler_prefix env policy_type_id policy_instance_id =
     HANDLER_PREFIX @ py_str env policy_type_id @ ''.'' @ py_str env policy_instance_id @ ''.''"

definition generate_handler_key :: "'w a1_env \<Rightarrow> json \<Rightarrow> json \<Rightarrow> json \<Rightarrow> string" where
  "generate_handler_key env policy_type_id policy_instance_id handler_id =
     generate_handler_prefix env policy_type_id policy_instance_id @ py_str env handler_id"

section \<open>Internal helpers\<close>

definition type_is_valid :: "'w a1_env \<Rightarrow> json \<Rightarrow> ('w, unit) py" where
  "type_is_valid env policy_type_id =
     py_bind (sdl_get env A1NS (generate_type_key env policy_type_id))
       (\<lambda>v. if v = JNull then py_raise (PolicyTypeNotFound policy_type_id) else py_return ())"

definition instance_is_valid :: "'w a1_env \<Rightarrow> json \<Rightarrow> json \<Rightarrow> ('w, unit) py" where
  "instance_is_valid env policy_type_id policy_instance_id =
     py_then (type_is_valid env policy_type_id)
       (py_bind (sdl_get env A1NS (generate_instance_key env policy_type_id policy_instance_id))
         (\<lambda>v. if v = JNull then py_raise (PolicyInstanceNotFound policy_type_id) else py_return ()))"

definition get_statuses :: "'w a1_env \<Rightarrow> json \<Rightarrow> json \<Rightarrow> ('w, json list) py" where
  "get_statuses env policy_type_id policy_instance_id =
     py_then (instance_is_valid env policy_type_id policy_instance_id)
       (let prefixes_for_handler = HANDLER_PREFIX @ py_str env policy_type_id @ ''.'' @ py_str env policy_instance_id @ ''.''
        in py_bind (sdl_find_and_get env A1NS prefixes_for_handler) (\<lambda>found. py_return (map snd found)))"

definition get_instance_list :: "'w a1_env \<Rightarrow> json \<Rightarrow> ('w, string list) py" where
  "get_instance_list env policy_type_id =
     py_then (type_is_valid env policy_type_id)
       (let prefixes_for_type = INSTANCE_PREFIX @ py_str env policy_type_id @ ''.''
        in py_bind (sdl_find_and_get env A1NS prefixes_for_type)
             (\<lambda>found. py_lift (py_map (split_second prefixes_for_type) (map fst found))))"

definition clear_handlers :: "'w a1_env \<Rightarrow> json \<Rightarrow> json \<Rightarrow> ('w, unit) py" where
  "clear_handlers env policy_type_id policy_instance_id =
     py_bind (sdl_find_and_get env A1NS (generate_handler_prefix env policy_type_id policy_instance_id))
       (\<lambda>found. py_for (map fst found) (sdl_delete env A1NS))"

definition get_metadata :: "'w a1_env \<Rightarrow> json \<Rightarrow> json \<Rightarrow> ('w, json) py" where
  "get_metadata env policy_type_id policy_instance_id =
     py_then (instance_is_valid env policy_type_id policy_instance_id)
       (sdl_get env A1NS (generate_instance_metadata_key env policy_type_id policy_instance_id))"

text \<open>The part of \<open>_delete_after\<close> behind its sleep; before the sleep it checks the instance.\<close>

definition delete_expired :: "'w a1_env \<Rightarrow> json \<Rightarrow> json \<Rightarrow> ('w, unit) py" where
  "delete_expired env policy_type_id policy_instance_id =
     py_then (clear_handlers env policy_type_id policy_instance_id)
       (py_then (sdl_delete env A1NS (generate_instance_key env policy_type_id policy_instance_id))
         (sdl_delete env A1NS (generate_instance_metadata_key env policy_type_id policy_instance_id)))"

section \<open>Policy types\<close>

definition get_type_list :: "'w a1_env \<Rightarrow> ('w, int list) py" where
  "get_type_list env =
     py_bind (sdl_find_and_get env A1NS TYPE_PREFIX)
       (\<lambda>found. py_lift (py_map
          (\<lambda>k. case split_second TYPE_PREFIX k of Inl e \<Rightarrow> Inl e | Inr t \<Rightarrow> py_int t) (map fst found)))"

text \<open>The identifier comes from the path of a request, where it is an integer.\<close>

abbreviation path_id :: "int \<Rightarrow> json" where
  "path_id n \<equiv> JNumber (int_str n)"

definition store_policy_type :: "'w a1_env \<Rightarrow> int \<Rightarrow> json \<Rightarrow> ('w, unit) py" where
  "store_policy_type env policy_type_id body =
     py_bind (py_lift (py_item body ''policy_type_id''))
       (\<lambda>body_id.
         if \<not> py_eq_int env policy_type_id body_id
         then py_raise (PolicyTypeIdMismatch (path_id policy_type_id) body_id)
         else
           let key = generate_type_key env (path_id policy_type_id)
           in py_bind (sdl_get env A1NS key)
                (\<lambda>v. if v \<noteq> JNull then py_raise (PolicyTypeAlreadyExists (path_id policy_type_id))
                     else sdl_set env A1NS key body))"

definition delete_policy_type :: "'w a1_env \<Rightarrow> int \<Rightarrow> ('w, unit) py" where
  "delete_policy_type env policy_type_id =
     py_bind (get_instance_list env (path_id policy_type_id))
       (\<lambda>pil. if pil = [] then sdl_delete env A1NS (generate_type_key env (path_id policy_type_id))
              else py_raise (CantDeleteNonEmptyType (path_id policy_type_id)))"

definition get_policy_type :: "'w a1_env \<Rightarrow> int \<Rightarrow> ('w, json) py" where
  "get_policy_type env policy_type_id =
     py_then (type_is_valid env (path_id policy_type_id))
       (sdl_get env A1NS (generate_type_key env (path_id policy_type_id)))"

section \<open>Policy instances\<close>

definition py_time :: "'w a1_env \<Rightarrow> ('w, json) py" where
  "py_time env w = (let (t, w') = time_time env w in (Inr t, w'))"

definition store_policy_instance :: "'w a1_env \<Rightarrow> int \<Rightarrow> string \<Rightarrow> json \<Rightarrow> ('w, string) py" where
  "store_policy_instance env policy_type_id policy_instance_id inst =
     (let tid = path_id policy_type_id; iid = JString policy_instance_id in
      py_then (type_is_valid env tid)
       (py_bind (py_time env)
         (\<lambda>creation_timestamp.
           let key = generate_instance_key env tid iid
           in py_bind (sdl_get env A1NS key)
                (\<lambda>v. py_bind (if v \<noteq> JNull then py_then (clear_handlers env tid iid) (py_return ''UPDATE'')
                              else py_return ''CREATE'')
                  (\<lambda>operation.
                    py_then (sdl_set env A1NS key inst)
                      (py_then (sdl_set env A1NS (generate_instance_metadata_key env tid iid)
                          (JObject [(''created_at'', creation_timestamp), (''has_been_deleted'', JBool False)]))
                        (py_return operation)))))))"

definition get_policy_instance :: "'w a1_env \<Rightarrow> json \<Rightarrow> json \<Rightarrow> ('w, json) py" where
  "get_policy_instance env policy_type_id policy_instance_id =
     py_then (instance_is_valid env policy_type_id policy_instance_id)
       (sdl_get env A1NS (generate_instance_key env policy_type_id policy_instance_id))"

text \<open>The thread \<open>delete_policy_instance\<close> starts: what it deletes and after how many seconds.\<close>

definition delete_policy_instance :: "'w a1_env \<Rightarrow> int \<Rightarrow> string \<Rightarrow> ('w, json \<times> json \<times> int) py" where
  "delete_policy_instance env policy_type_id policy_instance_id =
     (let tid = path_id policy_type_id; iid = JString policy_instance_id in
      py_then (instance_is_valid env tid iid)
       (py_bind (py_time env)
         (\<lambda>deleted_timestamp.
           py_bind (get_metadata env tid iid)
            (\<lambda>existing_metadata.
              py_bind (py_lift (py_item existing_metadata ''created_at''))
               (\<lambda>created_at.
                 py_then (sdl_set env A1NS (generate_instance_metadata_key env tid iid)
                     (JObject [(''created_at'', created_at), (''has_been_deleted'', JBool True),
                               (''deleted_at'', deleted_timestamp)]))
                   (py_bind (get_statuses env tid iid)
                     (\<lambda>vector. py_return
                       (if vector = [] then (tid, iid, INSTANCE_DELETE_NO_RESP_TTL env)
                        else (tid, iid, max (INSTANCE_DELETE_RESP_TTL env) (INSTANCE_DELETE_NO_RESP_TTL env))))))))))"

section \<open>Statuses\<close>

text \<open>The arguments come from the message of an xApp and can be any value.\<close>

definition set_policy_instance_status :: "'w a1_env \<Rightarrow> json \<Rightarrow> json \<Rightarrow> json \<Rightarrow> json \<Rightarrow> ('w, unit) py" where
  "set_policy_instance_status env policy_type_id policy_instance_id handler_id status =
     py_then (type_is_valid env policy_type_id)
       (py_then (instance_is_valid env policy_type_id policy_instance_id)
         (sdl_set env A1NS (generate_handler_key env policy_type_id policy_instance_id handler_id) status))"

definition get_policy_instance_status :: "'w a1_env \<Rightarrow> int \<Rightarrow> string \<Rightarrow> ('w, json) py" where
  "get_policy_instance_status env policy_type_id policy_instance_id =
     (let tid = path_id policy_type_id; iid = JString policy_instance_id in
      py_then (instance_is_valid env tid iid)
       (py_bind (get_metadata env tid iid)
         (\<lambda>metadata.
           py_bind (py_lift (py_set_item metadata ''instance_status'' (JString ''NOT IN EFFECT'')))
            (\<lambda>metadata.
              py_bind (get_statuses env tid iid)
               (\<lambda>statuses.
                 if list_ex (\<lambda>i. i = JString ''OK'') statuses
                 then py_lift (py_set_item metadata ''instance_status'' (JString ''IN EFFECT''))
                 else py_return metadata)))))"

end
