(* ===== verification/PyStore.thy ===== *)
theory PyStore
  imports PyData
begin

text \<open>
  What the Python mediator relies on of its storage, as a locale; a calculus of pre- and
  postconditions for its computations over the contents of the namespace; the facts about the
  keys; and a storage in memory that satisfies the laws.
\<close>

named_theorems py_wp \<open>rules for the triples of computations\<close>

section \<open>Contents and triples\<close>

text \<open>The contents of the namespace \<open>A1NS\<close>. A missing key and a key that holds \<open>None\<close> read the same.\<close>

type_synonym py_db = "string \<rightharpoonup> json"

definition read_key :: "py_db \<Rightarrow> string \<Rightarrow> json" where
  "read_key c k = (case c k of None \<Rightarrow> JNull | Some v \<Rightarrow> v)"

text \<open>
  \<open>holds view c m Q E\<close>: started on contents \<open>c\<close>, the computation \<open>m\<close> returns an \<open>x\<close> and contents with \<open>Q\<close>,
  or raises an exception and leaves contents with \<open>E\<close>. The view is of the contents, or of more than them.
\<close>

definition holds ::
    "('w \<Rightarrow> 'c) \<Rightarrow> 'c \<Rightarrow> ('w, 'a) py \<Rightarrow> ('a \<Rightarrow> 'c \<Rightarrow> bool) \<Rightarrow> (py_exc \<Rightarrow> 'c \<Rightarrow> bool) \<Rightarrow> bool" where
  "holds view c m Q E \<longleftrightarrow>
     (\<forall>w r w'. view w = c \<longrightarrow> m w = (r, w') \<longrightarrow> (case r of Inl e \<Rightarrow> E e (view w') | Inr x \<Rightarrow> Q x (view w')))"

lemma holds_returns: "holds view c m Q E \<Longrightarrow> view w = c \<Longrightarrow> m w = (Inr x, w') \<Longrightarrow> Q x (view w')"
  by (fastforce simp: holds_def)

lemma holds_raises: "holds view c m Q E \<Longrightarrow> view w = c \<Longrightarrow> m w = (Inl e, w') \<Longrightarrow> E e (view w')"
  by (fastforce simp: holds_def)

lemma holds_weaken:
  "holds view c m Q E \<Longrightarrow> (\<And>x c'. Q x c' \<Longrightarrow> Q' x c') \<Longrightarrow> (\<And>e c'. E e c' \<Longrightarrow> E' e c') \<Longrightarrow> holds view c m Q' E'"
  unfolding holds_def by (fastforce split: sum.splits)

lemma holds_conj:
  "holds view c m Q E \<Longrightarrow> holds view c m Q' E' \<Longrightarrow>
   holds view c m (\<lambda>x c'. Q x c' \<and> Q' x c') (\<lambda>e c'. E e c' \<and> E' e c')"
  unfolding holds_def by (fastforce split: sum.splits)

lemma holds_return [py_wp]: "Q x c \<Longrightarrow> holds view c (py_return x) Q E"
  by (auto simp: holds_def py_return_def)

lemma holds_raise [py_wp]: "E e c \<Longrightarrow> holds view c (py_raise e) Q E"
  by (auto simp: holds_def py_raise_def)

lemma holds_lift [py_wp]:
  "(\<And>e. r = Inl e \<Longrightarrow> E e c) \<Longrightarrow> (\<And>x. r = Inr x \<Longrightarrow> Q x c) \<Longrightarrow> holds view c (py_lift r) Q E"
  by (auto simp: holds_def py_lift_def split: sum.split)

lemma holds_bind [py_wp]:
  "holds view c m (\<lambda>x c'. holds view c' (f x) Q E) E \<Longrightarrow> holds view c (py_bind m f) Q E"
  unfolding holds_def py_bind_def by (fastforce split: prod.splits sum.splits)

lemma holds_then [py_wp]:
  "holds view c m (\<lambda>_ c'. holds view c' n Q E) E \<Longrightarrow> holds view c (py_then m n) Q E"
  unfolding py_then_def by (rule holds_bind)

lemma holds_if [py_wp]:
  "(b \<Longrightarrow> holds view c m Q E) \<Longrightarrow> (\<not> b \<Longrightarrow> holds view c n Q E) \<Longrightarrow> holds view c (if b then m else n) Q E"
  by simp

text \<open>A failed deletion of the keys \<open>K\<close> has deleted some of them.\<close>

definition some_deleted :: "string set \<Rightarrow> py_db \<Rightarrow> py_exc \<Rightarrow> py_db \<Rightarrow> bool" where
  "some_deleted K c e c' \<longleftrightarrow> (\<exists>m. e = SdlError m) \<and> (\<exists>S \<subseteq> K. c' = c |` (- S))"

section \<open>The laws\<close>

text \<open>
  Reading gives what is there; an operation that fails raises an error of the storage, and a write
  or a deletion that failed may have taken place or not. Neither the clock nor RMR nor a request
  to another service touches the namespace.
\<close>

locale py_laws =
  fixes env :: "'w a1_env" and view :: "'w \<Rightarrow> py_db"
  assumes get_law: "sdl_get env A1NS k w = (r, w') \<Longrightarrow>
      view w' = view w \<and> (r = Inr (read_key (view w) k) \<or> (\<exists>m. r = Inl (SdlError m)))"
    and set_law: "sdl_set env A1NS k v w = (u, w') \<Longrightarrow>
      u = Inr () \<and> view w' = (view w)(k \<mapsto> v) \<or>
      (\<exists>m. u = Inl (SdlError m)) \<and> (view w' = view w \<or> view w' = (view w)(k \<mapsto> v))"
    and delete_law: "sdl_delete env A1NS k w = (u, w') \<Longrightarrow>
      u = Inr () \<and> view w' = (view w)(k := None) \<or>
      (\<exists>m. u = Inl (SdlError m)) \<and> (view w' = view w \<or> view w' = (view w)(k := None))"
    and find_law: "sdl_find_and_get env A1NS p w = (f, w') \<Longrightarrow>
      view w' = view w \<and>
      ((\<exists>found. f = Inr found \<and> distinct (map fst found) \<and>
          map_of found = (\<lambda>k. if HasPrefix k p then view w k else None)) \<or> (\<exists>m. f = Inl (SdlError m)))"
    and health_law: "sdl_healthcheck env w = (b, w') \<Longrightarrow> view w' = view w"
    and time_law: "time_time env w = (t, w') \<Longrightarrow> view w' = view w"
    and send_law: "rmr_send_msg env pay mtype subid w = (st, w') \<Longrightarrow> view w' = view w"
    and rts_law: "rmr_rts_msg env pay mtype w = (st, w') \<Longrightarrow> view w' = view w"
    and requests_get_law: "requests_get env url w = (rg, w') \<Longrightarrow> view w' = view w"
    and requests_put_law: "requests_put env url body w = (rp, w') \<Longrightarrow> view w' = view w"
begin

lemma get_rule [py_wp]:
  "Q (read_key c k) c \<Longrightarrow> (\<And>m. E (SdlError m) c) \<Longrightarrow> holds view c (sdl_get env A1NS k) Q E"
  unfolding holds_def using get_law by (fastforce split: sum.splits)

lemma set_rule [py_wp]:
  "Q () (c(k \<mapsto> v)) \<Longrightarrow> (\<And>m. E (SdlError m) c) \<Longrightarrow> (\<And>m. E (SdlError m) (c(k \<mapsto> v))) \<Longrightarrow>
   holds view c (sdl_set env A1NS k v) Q E"
  unfolding holds_def using set_law by (fastforce split: sum.splits)

lemma delete_rule [py_wp]:
  "Q () (c(k := None)) \<Longrightarrow> (\<And>m. E (SdlError m) c) \<Longrightarrow> (\<And>m. E (SdlError m) (c(k := None))) \<Longrightarrow>
   holds view c (sdl_delete env A1NS k) Q E"
  unfolding holds_def using delete_law by (fastforce split: sum.splits)

lemma find_rule [py_wp]:
  assumes "\<And>found. distinct (map fst found) \<Longrightarrow> map_of found = (\<lambda>k. if HasPrefix k p then c k else None) \<Longrightarrow> Q found c"
    and "\<And>m. E (SdlError m) c"
  shows "holds view c (sdl_find_and_get env A1NS p) Q E"
proof -
  have "case r of Inl e \<Rightarrow> E e (view w') | Inr x \<Rightarrow> Q x (view w')"
    if "view w = c" and "sdl_find_and_get env A1NS p w = (r, w')" for w r w'
    using find_law [OF that(2)] that(1) assms by auto
  then show ?thesis by (simp add: holds_def)
qed

lemma time_rule [py_wp]: "(\<And>t. Q t c) \<Longrightarrow> holds view c (py_time env) Q E"
  unfolding holds_def py_time_def using time_law by (fastforce split: prod.splits)

text \<open>Deleting keys one after the other; if it fails, some of them are gone.\<close>

lemma delete_all_rule:
  "holds view c (py_for ks (sdl_delete env A1NS)) (\<lambda>_ c'. c' = c |` (- set ks)) (some_deleted (set ks) c)"
proof (induction ks arbitrary: c)
  case Nil
  then show ?case by (auto intro!: py_wp simp: restrict_map_def)
next
  case (Cons k ks)
  have more: "c(k := None) |` (- S) = c |` (- insert k S)" for S
    by (auto simp: restrict_map_def)
  have "holds view (c(k := None)) (py_for ks (sdl_delete env A1NS)) (\<lambda>_ c'. c' = c |` (- set (k # ks)))
     (some_deleted (set (k # ks)) c)"
  proof (rule holds_weaken [OF Cons.IH])
    show "some_deleted (set (k # ks)) c e c'" if "some_deleted (set ks) (c(k := None)) e c'" for e c'
      using that more unfolding some_deleted_def by (metis insert_mono list.simps(15))
  qed (simp only: more list.simps(15))
  moreover have "some_deleted (set (k # ks)) c (SdlError m) c" for m
    unfolding some_deleted_def by (intro conjI exI [of _ m] exI [of _ "{}"]) (simp_all add: restrict_map_def)
  moreover have "some_deleted (set (k # ks)) c (SdlError m) (c(k := None))" for m
    unfolding some_deleted_def by (intro conjI exI [of _ m] exI [of _ "{k}"]) (auto simp: restrict_map_def)
  ultimately show ?case
    by (simp add: holds_then delete_rule)
qed

end

section \<open>Keys\<close>

text \<open>The keys as functions of the texts of the identifiers.\<close>

definition tkey :: "string \<Rightarrow> string" where "tkey t = TYPE_PREFIX @ t"
definition ikey :: "string \<Rightarrow> string \<Rightarrow> string" where "ikey t i = INSTANCE_PREFIX @ t @ ''.'' @ i"
definition mkey :: "string \<Rightarrow> string \<Rightarrow> string" where "mkey t i = METADATA_PREFIX @ t @ ''.'' @ i"
definition hprefix :: "string \<Rightarrow> string \<Rightarrow> string" where "hprefix t i = HANDLER_PREFIX @ t @ ''.'' @ i @ ''.''"

lemma generate_keys [simp]:
  "generate_type_key env tid = tkey (py_str env tid)"
  "generate_instance_key env tid iid = ikey (py_str env tid) (py_str env iid)"
  "generate_instance_metadata_key env tid iid = mkey (py_str env tid) (py_str env iid)"
  "generate_handler_prefix env tid iid = hprefix (py_str env tid) (py_str env iid)"
  "generate_handler_key env tid iid hid = hprefix (py_str env tid) (py_str env iid) @ py_str env hid"
  by (simp_all add: generate_type_key_def generate_instance_key_def generate_instance_metadata_key_def
      generate_handler_prefix_def generate_handler_key_def tkey_def ikey_def mkey_def hprefix_def)

lemma key_kinds [simp]:
  "tkey t \<noteq> ikey t' i'" "tkey t \<noteq> mkey t' i'" "tkey t \<noteq> hprefix t' i' @ h"
  "ikey t' i' \<noteq> tkey t" "ikey t i \<noteq> mkey t' i'" "ikey t i \<noteq> hprefix t' i' @ h"
  "mkey t' i' \<noteq> tkey t" "mkey t i \<noteq> ikey t' i'" "mkey t i \<noteq> hprefix t' i' @ h"
  "hprefix t' i' @ h \<noteq> tkey t" "hprefix t' i' @ h \<noteq> ikey t i" "hprefix t' i' @ h \<noteq> mkey t i"
  by (simp_all add: tkey_def ikey_def mkey_def hprefix_def TYPE_PREFIX_def INSTANCE_PREFIX_def
      METADATA_PREFIX_def HANDLER_PREFIX_def)

lemma key_prefixes [simp]:
  "\<not> HasPrefix (tkey t) (hprefix t' i')" "\<not> HasPrefix (ikey t i) (hprefix t' i')"
  "\<not> HasPrefix (mkey t i) (hprefix t' i')" "HasPrefix (hprefix t i @ h) (hprefix t i)"
  by (auto simp: HasPrefix_iff)

lemma tkey_inject [simp]: "tkey t = tkey t' \<longleftrightarrow> t = t'"
  by (simp add: tkey_def)

lemma dot_split: "CHR ''.'' \<notin> set t \<Longrightarrow> CHR ''.'' \<notin> set t' \<Longrightarrow> t @ CHR ''.'' # i = t' @ CHR ''.'' # i' \<longleftrightarrow> t = t' \<and> i = i'"
proof (induction t arbitrary: t')
  case Nil
  then show ?case by (cases t') auto
next
  case (Cons a t)
  then show ?case by (cases t') auto
qed

lemma ikey_inject [simp]:
  "CHR ''.'' \<notin> set t \<Longrightarrow> CHR ''.'' \<notin> set t' \<Longrightarrow> ikey t i = ikey t' i' \<longleftrightarrow> t = t' \<and> i = i'"
  "ikey t i = ikey t i' \<longleftrightarrow> i = i'"
  by (simp_all add: ikey_def dot_split)

lemma mkey_inject [simp]:
  "CHR ''.'' \<notin> set t \<Longrightarrow> CHR ''.'' \<notin> set t' \<Longrightarrow> mkey t i = mkey t' i' \<longleftrightarrow> t = t' \<and> i = i'"
  "mkey t i = mkey t i' \<longleftrightarrow> i = i'"
  by (simp_all add: mkey_def dot_split)

text \<open>The prefix of the instances of a type; a key with it is an instance of that type.\<close>

lemma instance_prefix_iff:
  "HasPrefix k (INSTANCE_PREFIX @ t @ ''.'') \<longleftrightarrow> (\<exists>i. k = ikey t i)"
  by (auto simp: HasPrefix_iff ikey_def)

lemma handler_prefix_iff: "HasPrefix k (hprefix t i) \<longleftrightarrow> (\<exists>h. k = hprefix t i @ h)"
  by (auto simp: HasPrefix_iff)

lemma int_str_digits: "c \<in> set (int_str n) \<Longrightarrow> is_digit c \<or> c = CHR ''-''"
proof -
  assume "c \<in> set (int_str n)"
  then have "c = CHR ''-'' \<or> (\<exists>m. 0 \<le> m \<and> c \<in> set (format_uint m))"
    by (auto simp: int_str_def split: if_splits intro: exI [of _ "- n"] exI [of _ n])
  then show ?thesis using format_uint_digits by (auto simp: is_digit_def)
qed

lemma int_str_no_dot [simp]: "CHR ''.'' \<notin> set (int_str n)"
  using int_str_digits [of "CHR ''.''" n] by (auto simp: is_digit_def digit_val_def)

lemma int_literal_int_str [simp]: "int_literal (int_str n)"
  using int_str_digits by (auto simp: int_literal_def)

section \<open>A storage in memory\<close>

text \<open>
  An instance that runs examples: keys and values in a list, the messages handed to RMR, and a set of
  keys whose writes fail; while it is \<open>down\<close> every access fails. The clock stands still, a schema accepts
  everything, and sending succeeds at once.
\<close>

record py_world =
  py_cells :: "(string \<times> json) list"
  py_sent :: "(string \<times> int \<times> int) list"
  py_broken :: "string list"
  py_down :: bool

definition mem_contents :: "py_world \<Rightarrow> py_db" where
  "mem_contents w = map_of (py_cells w)"

definition down_error :: py_exc where
  "down_error = SdlError ''NotConnected''"

definition py_mem :: "py_world a1_env" where
  "py_mem =
     \<lparr>sdl_get = (\<lambda>ns k w. (if py_down w then Inl down_error else Inr (read_key (map_of (py_cells w)) k), w)),
      sdl_set = (\<lambda>ns k v w.
        if py_down w \<or> k \<in> set (py_broken w) then (Inl down_error, w)
        else (Inr (), w\<lparr>py_cells := AList.update k v (py_cells w)\<rparr>)),
      sdl_delete = (\<lambda>ns k w.
        if py_down w then (Inl down_error, w) else (Inr (), w\<lparr>py_cells := AList.delete k (py_cells w)\<rparr>)),
      sdl_find_and_get = (\<lambda>ns p w.
        (if py_down w then Inl down_error
         else Inr (map (\<lambda>k. (k, read_key (map_of (py_cells w)) k))
           (remdups (filter (\<lambda>k. HasPrefix k p) (map fst (py_cells w))))), w)),
      sdl_healthcheck = (\<lambda>w. (\<not> py_down w, w)),
      time_time = (\<lambda>w. (JNumber ''0.0'', w)),
      format_other = (\<lambda>v. ''?''),
      float_equals = (\<lambda>lit n. False),
      float_int = (\<lambda>lit. Inr 0),
      schema_validate = (\<lambda>inst schema. None),
      rmr_send_msg = (\<lambda>pay mtype subid w. (0, w\<lparr>py_sent := py_sent w @ [(pay, mtype, subid)]\<rparr>)),
      rmr_rts_msg = (\<lambda>pay mtype w. (0, w\<lparr>py_sent := py_sent w @ [(pay, mtype, -1)]\<rparr>)),
      requests_get = (\<lambda>url w. (Inr (''[]'', 200), w)),
      requests_put = (\<lambda>url body w. (Inr 201, w)),
      INSTANCE_DELETE_NO_RESP_TTL = 5, INSTANCE_DELETE_RESP_TTL = 5, RETRY_TIMES = 4, RMR_ERR_RETRY = 10,
      ECS_SERVICE_HOST = ''http://ecs-service:8083''\<rparr>"

lemma map_of_found:
  "map_of (map (\<lambda>k. (k, read_key m k)) ks) = (\<lambda>k. if k \<in> set ks then Some (read_key m k) else None)"
  by (induction ks) (auto simp: fun_eq_iff)

interpretation py_mem: py_laws py_mem mem_contents
proof unfold_locales
  show "mem_contents w' = mem_contents w \<and>
      ((\<exists>found. f = Inr found \<and> distinct (map fst found) \<and>
          map_of found = (\<lambda>k. if HasPrefix k p then mem_contents w k else None)) \<or> (\<exists>m. f = Inl (SdlError m)))"
    if "sdl_find_and_get py_mem A1NS p w = (f, w')" for p w f w'
  proof (cases "py_down w")
    case False
    let ?ks = "remdups (filter (\<lambda>k. HasPrefix k p) (map fst (py_cells w)))"
    let ?m = "map_of (py_cells w)"
    have found: "k \<in> set ?ks \<longleftrightarrow> HasPrefix k p \<and> ?m k \<noteq> None" for k
      by (simp add: map_of_eq_None_iff conj_commute)
    have "map_of (map (\<lambda>k. (k, read_key ?m k)) ?ks) = (\<lambda>k. if HasPrefix k p then ?m k else None)"
      by (simp only: map_of_found found) (auto simp: fun_eq_iff read_key_def)
    moreover have "distinct (map fst (map (\<lambda>k. (k, read_key ?m k)) ?ks))" by (simp add: comp_def)
    ultimately show ?thesis
      using that False unfolding py_mem_def mem_contents_def by (simp del: map_map) blast
  qed (use that in \<open>auto simp: py_mem_def mem_contents_def down_error_def\<close>)
qed (auto simp: py_mem_def mem_contents_def down_error_def update_conv' delete_conv' split: if_splits)

lemmas py_mem_laws = py_mem.py_laws_axioms

end
