(* ===== verification/PyService.thy ===== *)
theory PyService
  imports PyData JsonRoundtrip Machines
begin

text \<open>
  The service around \<open>a1/data.py\<close>: the HTTP handlers of \<open>a1/controller.py\<close>, the messages of
  \<open>a1/messages.py\<close>, and the work of the RMR thread of \<open>a1/a1rmr.py\<close>. The counters and the logging are
  left out.
\<close>

section \<open>JSON text\<close>

text \<open>
  \<open>json.dumps\<close> with its defaults: a space after each separator, and every character beyond ASCII as
  an escape, of two surrogates if need be. \<open>json.loads\<close> of bytes decodes them as UTF-8 and reads what
  \<open>parse_json\<close> reads. What it accepts beyond that is left out: UTF-16 and UTF-32, a byte order mark,
  lone surrogates, \<open>NaN\<close> and the infinities. The method \<open>json\<close> of a response does not insist on UTF-8.
\<close>

definition py_hex4 :: "int \<Rightarrow> string" where
  "py_hex4 n = CHR 0x5C # CHR ''u'' # map hex_digit [n div 4096 mod 16, n div 256 mod 16, n div 16 mod 16, n mod 16]"

definition py_escape_ascii :: "char \<Rightarrow> string" where
  "py_escape_ascii c =
     (if c = CHR 0x22 \<or> c = CHR 0x5C then [CHR 0x5C, c]
      else if c = CHR 0x0A then [CHR 0x5C, CHR ''n'']
      else if c = CHR 0x0D then [CHR 0x5C, CHR ''r'']
      else if c = CHR 0x09 then [CHR 0x5C, CHR ''t'']
      else if c = CHR 0x0C then [CHR 0x5C, CHR ''f'']
      else if c = CHR 0x08 then [CHR 0x5C, CHR ''b'']
      else if 32 \<le> byte c \<and> byte c < 127 then [c]
      else py_hex4 (byte c))"

text \<open>The code point of a well-formed UTF-8 sequence of two, three or four bytes.\<close>

fun code_point :: "string \<Rightarrow> int" where
  "code_point [a, b] = (byte a mod 32) * 64 + byte b mod 64"
| "code_point [a, b, c] = (byte a mod 16) * 4096 + (byte b mod 64) * 64 + byte c mod 64"
| "code_point [a, b, c, d] = (byte a mod 8) * 262144 + (byte b mod 64) * 4096 + (byte c mod 64) * 64 + byte d mod 64"
| "code_point s = 65533"

definition py_escape_rune :: "int \<Rightarrow> string" where
  "py_escape_rune n =
     (if n < 65536 then py_hex4 n
      else py_hex4 (55296 + (n - 65536) div 1024) @ py_hex4 (56320 + (n - 65536) mod 1024))"

function py_escape :: "string \<Rightarrow> string" where
  "py_escape s =
     (if s = [] then []
      else if byte (hd s) < 128 then py_escape_ascii (hd s) @ py_escape (tl s)
      else case utf8_len s of
        None \<Rightarrow> py_escape_rune 65533 @ py_escape (tl s)
      | Some n \<Rightarrow> py_escape_rune (code_point (take n s)) @ py_escape (drop (max 1 n) s))"
  by pat_completeness auto
termination
  by (relation "measure length") (auto simp: neq_Nil_conv)

declare py_escape.simps [simp del]

definition py_quote :: "string \<Rightarrow> string" where
  "py_quote s = CHR 0x22 # py_escape s @ [CHR 0x22]"

fun py_dumps :: "json \<Rightarrow> string" where
  "py_dumps JNull = ''null''"
| "py_dumps (JBool b) = (if b then ''true'' else ''false'')"
| "py_dumps (JNumber lit) = lit"
| "py_dumps (JString s) = py_quote s"
| "py_dumps (JArray vs) = ''['' @ Join (map py_dumps vs) '', '' @ '']''"
| "py_dumps (JObject kvs) = ''{'' @ Join (map (\<lambda>(k, v). py_quote k @ '': '' @ py_dumps v) kvs) '', '' @ ''}''"

definition response_json :: "string \<Rightarrow> py_exc + json" where
  "response_json text = (case parse_json text of None \<Rightarrow> Inl (PyError ''JSONDecodeError'') | Some v \<Rightarrow> Inr v)"

definition py_loads :: "string \<Rightarrow> py_exc + json" where
  "py_loads text = (if valid_utf8 text then response_json text else Inl (PyError ''UnicodeDecodeError''))"

section \<open>The state of the service\<close>

text \<open>
  The threads that delete an instance: started, asleep for a number of seconds, and then between
  the accesses to the storage that delete its handlers, the instance and its metadata; or ended.
\<close>

datatype deleter =
    Started json json int
  | Asleep json json int
  | Clearing json json
  | ClearingKeys json json "string list"
  | DeletingInstance json json
  | DeletingMetadata json json
  | Ended

text \<open>
  The outside world; the queues \<open>instance_send_queue\<close> (operation, type, instance, payload) and
  \<open>ei_job_result_queue\<close> (job, payload); the deleting threads; and whether the RMR thread still runs.
\<close>

record 'w a1_system =
  world :: 'w
  instance_send_queue :: "(string \<times> int \<times> string \<times> json) list"
  ei_job_result_queue :: "(json \<times> json) list"
  deleters :: "deleter list"
  rmr_alive :: bool

definition on_world :: "('w, 'a) py \<Rightarrow> ('w a1_system, 'a) py" where
  "on_world m s = (let (r, w) = m (world s) in (r, s\<lparr>world := w\<rparr>))"

definition queue_instance_send :: "string \<times> int \<times> string \<times> json \<Rightarrow> ('w a1_system, unit) py" where
  "queue_instance_send item s = (Inr (), s\<lparr>instance_send_queue := instance_send_queue s @ [item]\<rparr>)"

definition queue_ei_job_result :: "json \<times> json \<Rightarrow> ('w a1_system, unit) py" where
  "queue_ei_job_result item s = (Inr (), s\<lparr>ei_job_result_queue := ei_job_result_queue s @ [item]\<rparr>)"

definition start_thread :: "json \<times> json \<times> int \<Rightarrow> ('w a1_system, unit) py" where
  "start_thread t s = (let (tid, iid, ttl) = t in (Inr (), s\<lparr>deleters := deleters s @ [Started tid iid ttl]\<rparr>))"

section \<open>The HTTP handlers\<close>

text \<open>
  A handler returns a body and a code, or only a body, which goes with code 200. The body of an
  error is the representation of the exception. Before a handler, \<open>connexion\<close> refuses requests that
  do not fit \<open>a1/openapi.yaml\<close>; the model lets them pass, so what it shows of a request holds of more
  requests than reach the handlers.
\<close>

datatype http_body =
    EmptyBody
  | JsonBody json
  | TypeIds "int list"
  | InstanceIds "string list"
  | Repr py_exc
  | Text string

type_synonym http_result = "http_body \<times> nat"

definition log_build_http_resp :: "py_exc \<Rightarrow> nat \<Rightarrow> http_result" where
  "log_build_http_resp e code = (Repr e, code)"

text \<open>\<open>_try_func_return\<close>: other exceptions go on.\<close>

fun error_code :: "py_exc \<Rightarrow> nat option" where
  "error_code (ValidationError m) = Some 400"
| "error_code (PolicyTypeAlreadyExists t) = Some 400"
| "error_code (PolicyTypeIdMismatch t b) = Some 400"
| "error_code (CantDeleteNonEmptyType t) = Some 400"
| "error_code (PolicyTypeNotFound t) = Some 404"
| "error_code (PolicyInstanceNotFound t) = Some 404"
| "error_code (SdlError m) = Some 503"
| "error_code (PyError m) = None"

definition try_func_return :: "('s, http_result) py \<Rightarrow> ('s, http_result) py" where
  "try_func_return func s =
     (case func s of
        (Inr r, s') \<Rightarrow> (Inr r, s')
      | (Inl e, s') \<Rightarrow>
          (case error_code e of
             None \<Rightarrow> (Inl e, s')
           | Some code \<Rightarrow> (Inr (log_build_http_resp e code), s')))"

definition http_get_all_policy_types :: "'w a1_env \<Rightarrow> ('w a1_system, http_result) py" where
  "http_get_all_policy_types env =
     try_func_return (py_bind (on_world (get_type_list env)) (\<lambda>ids. py_return (TypeIds ids, 200)))"

definition http_create_policy_type :: "'w a1_env \<Rightarrow> int \<Rightarrow> json \<Rightarrow> ('w a1_system, http_result) py" where
  "http_create_policy_type env policy_type_id body =
     try_func_return (py_then (on_world (store_policy_type env policy_type_id body)) (py_return (EmptyBody, 201)))"

definition http_get_policy_type :: "'w a1_env \<Rightarrow> int \<Rightarrow> ('w a1_system, http_result) py" where
  "http_get_policy_type env policy_type_id =
     try_func_return (py_bind (on_world (get_policy_type env policy_type_id)) (\<lambda>v. py_return (JsonBody v, 200)))"

definition http_delete_policy_type :: "'w a1_env \<Rightarrow> int \<Rightarrow> ('w a1_system, http_result) py" where
  "http_delete_policy_type env policy_type_id =
     try_func_return (py_then (on_world (delete_policy_type env policy_type_id)) (py_return (EmptyBody, 204)))"

definition http_get_all_instances_for_type :: "'w a1_env \<Rightarrow> int \<Rightarrow> ('w a1_system, http_result) py" where
  "http_get_all_instances_for_type env policy_type_id =
     try_func_return (py_bind (on_world (get_instance_list env (path_id policy_type_id)))
       (\<lambda>ids. py_return (InstanceIds ids, 200)))"

definition http_get_policy_instance :: "'w a1_env \<Rightarrow> int \<Rightarrow> string \<Rightarrow> ('w a1_system, http_result) py" where
  "http_get_policy_instance env policy_type_id policy_instance_id =
     try_func_return (py_bind (on_world (get_policy_instance env (path_id policy_type_id) (JString policy_instance_id)))
       (\<lambda>v. py_return (JsonBody v, 200)))"

definition http_get_policy_instance_status :: "'w a1_env \<Rightarrow> int \<Rightarrow> string \<Rightarrow> ('w a1_system, http_result) py" where
  "http_get_policy_instance_status env policy_type_id policy_instance_id =
     try_func_return (py_bind (on_world (get_policy_instance_status env policy_type_id policy_instance_id))
       (\<lambda>v. py_return (JsonBody v, 200)))"

definition http_create_or_replace_policy_instance ::
    "'w a1_env \<Rightarrow> int \<Rightarrow> string \<Rightarrow> json \<Rightarrow> ('w a1_system, http_result) py" where
  "http_create_or_replace_policy_instance env policy_type_id policy_instance_id inst =
     try_func_return
       (py_bind (on_world (get_policy_type env policy_type_id))
         (\<lambda>v. py_bind (py_lift (py_item v ''create_schema''))
           (\<lambda>schema.
             case schema_validate env inst schema of
               Some e \<Rightarrow> py_raise e
             | None \<Rightarrow>
                 py_bind (on_world (store_policy_instance env policy_type_id policy_instance_id inst))
                  (\<lambda>operation.
                    py_then (queue_instance_send (operation, policy_type_id, policy_instance_id, inst))
                      (py_return (EmptyBody, 202))))))"

definition http_delete_policy_instance :: "'w a1_env \<Rightarrow> int \<Rightarrow> string \<Rightarrow> ('w a1_system, http_result) py" where
  "http_delete_policy_instance env policy_type_id policy_instance_id =
     try_func_return
       (py_then (py_bind (on_world (delete_policy_instance env policy_type_id policy_instance_id)) start_thread)
         (py_then (queue_instance_send (''DELETE'', policy_type_id, policy_instance_id, JString []))
           (py_return (EmptyBody, 202))))"

text \<open>\<open>dict.get\<close>\<close>

fun py_get_item :: "json \<Rightarrow> string \<Rightarrow> py_exc + json" where
  "py_get_item (JObject kvs) k = Inr (case map_of (rev kvs) k of None \<Rightarrow> JNull | Some v \<Rightarrow> v)"
| "py_get_item v k = Inl (PyError ''AttributeError'')"

definition http_data_delivery :: "json \<Rightarrow> ('w a1_system, http_result) py" where
  "http_data_delivery ei_job_result_json =
     try_func_return
       (py_bind (py_lift (py_get_item ei_job_result_json ''job''))
         (\<lambda>job. py_then (queue_ei_job_result (job, ei_job_result_json)) (py_return (EmptyBody, 200))))"

text \<open>
  \<open>since_last_run\<close> is the time in seconds since the RMR thread last completed a round.
\<close>

definition http_get_healthcheck :: "'w a1_env \<Rightarrow> int \<Rightarrow> ('w a1_system, http_result) py" where
  "http_get_healthcheck env since_last_run s =
     (if \<not> (rmr_alive s \<and> since_last_run < 30) then (Inr (Text ''rmr thread is unhealthy'', 500), s)
      else
        let (healthy, w) = sdl_healthcheck env (world s); s' = s\<lparr>world := w\<rparr> in
        if \<not> healthy then (Inr (Text ''sdl connection is unhealthy'', 500), s')
        else (Inr (EmptyBody, 200), s'))"

section \<open>Sending\<close>

definition A1_POLICY_REQUEST :: int where "A1_POLICY_REQUEST = 20010"
definition A1_POLICY_RESPONSE :: int where "A1_POLICY_RESPONSE = 20011"
definition A1_POLICY_QUERY :: int where "A1_POLICY_QUERY = 20012"
definition A1_EI_QUERY_ALL :: int where "A1_EI_QUERY_ALL = 20013"
definition AI_EI_QUERY_ALL_RESP :: int where "AI_EI_QUERY_ALL_RESP = 20014"
definition A1_EI_CREATE_JOB :: int where "A1_EI_CREATE_JOB = 20015"
definition A1_EI_CREATE_JOB_RESP :: int where "A1_EI_CREATE_JOB_RESP = 20016"
definition A1_EI_DATA_DELIVERY :: int where "A1_EI_DATA_DELIVERY = 20017"

text \<open>\<open>messages.py\<close>\<close>

definition a1_to_handler :: "string \<Rightarrow> json \<Rightarrow> json \<Rightarrow> json \<Rightarrow> json" where
  "a1_to_handler operation policy_type_id policy_instance_id payload =
     JObject [(''operation'', JString operation), (''policy_type_id'', policy_type_id),
       (''policy_instance_id'', policy_instance_id), (''payload'', payload)]"

definition ei_to_handler :: "json \<Rightarrow> json \<Rightarrow> json" where
  "ei_to_handler ei_job_id payload = JObject [(''ei_job_id'', ei_job_id), (''payload'', payload)]"

text \<open>
  The loop of \<open>_send_msg\<close> and \<open>_rts_msg\<close> over \<open>range(0, RETRY_TIMES)\<close>: it tries again while RMR says so.
  The last state is unbound when there was no try.
\<close>

fun send_tries :: "'w a1_env \<Rightarrow> nat \<Rightarrow> ('w \<Rightarrow> int \<times> 'w) \<Rightarrow> int option \<Rightarrow> 'w \<Rightarrow> int option \<times> 'w" where
  "send_tries env 0 send msg_state w = (msg_state, w)"
| "send_tries env (Suc n) send msg_state w =
     (let (state, w') = send w in
      if state \<noteq> RMR_ERR_RETRY env then (Some state, w') else send_tries env n send (Some state) w')"

definition send_with_retries :: "'w a1_env \<Rightarrow> ('w \<Rightarrow> int \<times> 'w) \<Rightarrow> ('w, unit) py" where
  "send_with_retries env send w =
     (case send_tries env (nat (RETRY_TIMES env)) send None w of
        (None, w') \<Rightarrow> (Inl (PyError ''UnboundLocalError''), w')
      | (Some state, w') \<Rightarrow> (Inr (), w'))"

definition send_msg :: "'w a1_env \<Rightarrow> string \<Rightarrow> int \<Rightarrow> int \<Rightarrow> ('w, unit) py" where
  "send_msg env pay mtype subid = send_with_retries env (rmr_send_msg env pay mtype subid)"

definition rts_msg :: "'w a1_env \<Rightarrow> string \<Rightarrow> int \<Rightarrow> ('w, unit) py" where
  "rts_msg env pay mtype = send_with_retries env (rmr_rts_msg env pay mtype)"

text \<open>\<open>int(v)\<close>\<close>

fun py_to_int :: "'w a1_env \<Rightarrow> json \<Rightarrow> py_exc + int" where
  "py_to_int env (JString s) = py_int s"
| "py_to_int env (JNumber lit) = (if int_literal lit then py_int lit else float_int env lit)"
| "py_to_int env (JBool b) = Inr (if b then 1 else 0)"
| "py_to_int env v = Inl (PyError ''TypeError'')"

text \<open>
  \<open>_handle_sends\<close>: the two loops, each over the items in its queue. An exception ends the thread; the
  item being sent is already taken from the queue.
\<close>

fun send_instances :: "'w a1_env \<Rightarrow> (string \<times> int \<times> string \<times> json) list \<Rightarrow> ('w a1_system, unit) py" where
  "send_instances env [] s = (Inr (), s)"
| "send_instances env ((operation, tid, iid, inst) # items) s =
     (let s1 = s\<lparr>instance_send_queue := items\<rparr>;
          payload = py_dumps (a1_to_handler operation (path_id tid) (JString iid) inst)
      in py_then (on_world (send_msg env payload A1_POLICY_REQUEST tid)) (send_instances env items) s1)"

fun send_ei_results :: "'w a1_env \<Rightarrow> (json \<times> json) list \<Rightarrow> ('w a1_system, unit) py" where
  "send_ei_results env [] s = (Inr (), s)"
| "send_ei_results env ((job, result) # items) s =
     (let s1 = s\<lparr>ei_job_result_queue := items\<rparr>;
          payload = py_dumps (ei_to_handler job result)
      in py_bind (py_lift (py_to_int env job))
           (\<lambda>ei_job_id. py_then (on_world (send_msg env payload A1_EI_DATA_DELIVERY ei_job_id))
              (send_ei_results env items)) s1)"

definition handle_sends :: "'w a1_env \<Rightarrow> ('w a1_system, unit) py" where
  "handle_sends env s =
     py_then (\<lambda>s. send_instances env (instance_send_queue s) s) (\<lambda>s. send_ei_results env (ei_job_result_queue s) s) s"

section \<open>Receiving\<close>

text \<open>The exceptions the branches of the loop catch, and their dropping of a malformed message.\<close>

definition is_malformed :: "py_exc \<Rightarrow> bool" where
  "is_malformed e \<longleftrightarrow> e \<in> {PyError ''KeyError'', PyError ''TypeError'', PyError ''JSONDecodeError''}"

definition is_type_not_found :: "py_exc \<Rightarrow> bool" where
  "is_type_not_found e = (case e of PolicyTypeNotFound t \<Rightarrow> True | _ \<Rightarrow> False)"

definition is_instance_not_found :: "py_exc \<Rightarrow> bool" where
  "is_instance_not_found e = (case e of PolicyInstanceNotFound t \<Rightarrow> True | _ \<Rightarrow> False)"

definition py_except :: "(py_exc \<Rightarrow> bool) \<Rightarrow> ('w, unit) py \<Rightarrow> ('w, unit) py" where
  "py_except caught m w = (case m w of (Inl e, w') \<Rightarrow> (if caught e then (Inr (), w') else (Inl e, w')) | r \<Rightarrow> r)"

definition handle_policy_response :: "'w a1_env \<Rightarrow> string \<Rightarrow> ('w, unit) py" where
  "handle_policy_response env payload =
     py_except (\<lambda>e. is_type_not_found e \<or> is_instance_not_found e \<or> is_malformed e)
       (py_bind (py_lift (py_loads payload))
         (\<lambda>pay. py_bind (py_lift (py_item pay ''policy_type_id''))
           (\<lambda>tid. py_bind (py_lift (py_item pay ''policy_instance_id''))
             (\<lambda>iid. py_bind (py_lift (py_item pay ''handler_id''))
               (\<lambda>hid. py_bind (py_lift (py_item pay ''status''))
                 (\<lambda>status. set_policy_instance_status env tid iid hid status))))))"

definition handle_policy_query :: "'w a1_env \<Rightarrow> string \<Rightarrow> ('w, unit) py" where
  "handle_policy_query env payload =
     py_except (\<lambda>e. is_type_not_found e \<or> is_malformed e)
       (py_bind (py_lift (py_loads payload))
         (\<lambda>pay. py_bind (py_lift (py_item pay ''policy_type_id''))
           (\<lambda>pti. py_bind (get_instance_list env pti)
             (\<lambda>instance_list.
               py_for instance_list
                 (\<lambda>pii. py_bind (get_policy_instance env pti (JString pii))
                   (\<lambda>inst. rts_msg env (py_dumps (a1_to_handler ''CREATE'' pti (JString pii) inst)) A1_POLICY_REQUEST))))))"

definition handle_ei_query_all :: "'w a1_env \<Rightarrow> ('w, unit) py" where
  "handle_ei_query_all env =
     py_bind (requests_get env (ECS_SERVICE_HOST env @ ''/A1-EI/v1/eitypes''))
       (\<lambda>(content, code). py_bind (py_lift (response_json content)) (\<lambda>_. rts_msg env content AI_EI_QUERY_ALL_RESP))"

text \<open>\<open>payload["job-id"]\<close>, \<open>del payload["job-id"]\<close>, and the message with the job's identifier.\<close>

fun py_del_item :: "json \<Rightarrow> string \<Rightarrow> json" where
  "py_del_item (JObject kvs) k = JObject (filter (\<lambda>kv. fst kv \<noteq> k) kvs)"
| "py_del_item v k = v"

definition ei_job_message :: "string \<Rightarrow> string" where
  "ei_job_message uuid =
     (let indent = replicate 32 (CHR '' '')
      in ''{'' @ [CHR 0x0A] @ indent @ [CHR 0x22] @ ''ei_job_id'' @ [CHR 0x22] @ '': '' @ [CHR 0x22] @ uuid @ [CHR 0x22] @
         [CHR 0x0A] @ indent @ ''}'')"

definition handle_ei_create_job :: "'w a1_env \<Rightarrow> string \<Rightarrow> ('w, unit) py" where
  "handle_ei_create_job env text =
     py_bind (py_lift (py_loads text))
       (\<lambda>payload. py_bind (py_lift (py_item payload ''job-id''))
         (\<lambda>uuid. case uuid of
             JString uuidStr \<Rightarrow>
               py_bind (requests_put env (ECS_SERVICE_HOST env @ ''/A1-EI/v1/eijobs/'' @ uuidStr)
                   (py_dumps (py_del_item payload ''job-id'')))
                 (\<lambda>code. if code \<noteq> 201 \<and> code \<noteq> 200 then py_return ()
                         else rts_msg env (ei_job_message uuidStr) A1_EI_CREATE_JOB_RESP)
           | _ \<Rightarrow> py_raise (PyError ''TypeError'')))"

text \<open>One message of the mailbox: its type and its payload.\<close>

definition handle_message :: "'w a1_env \<Rightarrow> int \<times> string \<Rightarrow> ('w, unit) py" where
  "handle_message env msg =
     (let (mtype, payload) = msg in
      if mtype = A1_POLICY_RESPONSE then handle_policy_response env payload
      else if mtype = A1_POLICY_QUERY then handle_policy_query env payload
      else if mtype = A1_EI_QUERY_ALL then handle_ei_query_all env
      else if mtype = A1_EI_CREATE_JOB then handle_ei_create_job env payload
      else py_return ())"

text \<open>
  The mailbox part of one round of \<open>loop\<close>: the messages \<open>rcv_func\<close> gives. An exception ends the thread.
\<close>

definition loop_round :: "'w a1_env \<Rightarrow> (int \<times> string) list \<Rightarrow> 'w a1_system \<Rightarrow> 'w a1_system" where
  "loop_round env msgs s =
     (if \<not> rmr_alive s then s
      else case on_world (py_for msgs (handle_message env)) s of
        (Inr (), s') \<Rightarrow> s'
      | (Inl e, s') \<Rightarrow> s'\<lparr>rmr_alive := False\<rparr>)"

end
