(* ===== verification/PyPolicies.thy ===== *)
theory PyPolicies
  imports PyStore PyService
begin

text \<open>
  What the operations of the Python mediator do to the contents of the storage: a rule for each
  function of \<open>a1/data.py\<close>, and the properties of the HTTP handlers that follow.
\<close>

section \<open>Rules for the operations on the storage\<close>

text \<open>A type, and an instance, that the checks find.\<close>

definition type_there :: "py_db \<Rightarrow> string \<Rightarrow> bool" where
  "type_there c t \<longleftrightarrow> read_key c (tkey t) \<noteq> JNull"

definition instance_there :: "py_db \<Rightarrow> string \<Rightarrow> string \<Rightarrow> bool" where
  "instance_there c t i \<longleftrightarrow> type_there c t \<and> read_key c (ikey t i) \<noteq> JNull"

text \<open>The contents without the statuses found for an instance.\<close>

definition without_statuses :: "py_db \<Rightarrow> string \<Rightarrow> string \<Rightarrow> py_db" where
  "without_statuses c t i = c |` {k. \<not> HasPrefix k (hprefix t i)}"

definition reported :: "py_db \<Rightarrow> string \<Rightarrow> string \<Rightarrow> json set" where
  "reported c t i = {v. \<exists>h. c (hprefix t i @ h) = Some v}"

lemma without_statuses_simps [simp]:
  "without_statuses c t i (tkey t') = c (tkey t')"
  "without_statuses c t i (ikey t' i') = c (ikey t' i')"
  "without_statuses c t i (mkey t' i') = c (mkey t' i')"
  by (simp_all add: without_statuses_def)

lemma read_key_simps [simp]:
  "read_key (c(k \<mapsto> v)) k = v" "k' \<noteq> k \<Longrightarrow> read_key (c(k \<mapsto> v)) k' = read_key c k'"
  "read_key (c(k := None)) k = JNull" "k' \<noteq> k \<Longrightarrow> read_key (c(k := None)) k' = read_key c k'"
  by (simp_all add: read_key_def)

context py_laws
begin

lemma type_is_valid_rule [py_wp]:
  "(type_there c (py_str env tid) \<Longrightarrow> Q () c) \<Longrightarrow>
   (\<not> type_there c (py_str env tid) \<Longrightarrow> E (PolicyTypeNotFound tid) c) \<Longrightarrow> (\<And>m. E (SdlError m) c) \<Longrightarrow>
   holds view c (type_is_valid env tid) Q E"
  unfolding type_is_valid_def type_there_def by (intro py_wp) auto

lemma instance_is_valid_rule [py_wp]:
  "(instance_there c (py_str env tid) (py_str env iid) \<Longrightarrow> Q () c) \<Longrightarrow>
   (\<not> type_there c (py_str env tid) \<Longrightarrow> E (PolicyTypeNotFound tid) c) \<Longrightarrow>
   (type_there c (py_str env tid) \<Longrightarrow> \<not> instance_there c (py_str env tid) (py_str env iid) \<Longrightarrow>
      E (PolicyInstanceNotFound tid) c) \<Longrightarrow>
   (\<And>m. E (SdlError m) c) \<Longrightarrow>
   holds view c (instance_is_valid env tid iid) Q E"
  unfolding instance_is_valid_def instance_there_def by (intro py_wp) auto

lemma get_statuses_rule [py_wp]:
  assumes "\<And>vs. instance_there c (py_str env tid) (py_str env iid) \<Longrightarrow>
      set vs = reported c (py_str env tid) (py_str env iid) \<Longrightarrow> Q vs c"
    and "\<not> type_there c (py_str env tid) \<Longrightarrow> E (PolicyTypeNotFound tid) c"
    and "type_there c (py_str env tid) \<Longrightarrow> \<not> instance_there c (py_str env tid) (py_str env iid) \<Longrightarrow>
      E (PolicyInstanceNotFound tid) c"
    and "\<And>m. E (SdlError m) c"
  shows "holds view c (get_statuses env tid iid) Q E"
proof -
  have vals: "set (map snd found) = reported c t i"
    if "distinct (map fst found)" and "map_of found = (\<lambda>k. if HasPrefix k (hprefix t i) then c k else None)" for found t i
  proof -
    have "reported c t i = ran (map_of found)"
      unfolding that(2) by (auto simp: ran_def reported_def handler_prefix_iff split: if_splits)
    then show ?thesis using ran_distinct [OF that(1)] by simp
  qed
  show ?thesis
    unfolding get_statuses_def Let_def
    by (intro py_wp) (use assms vals in \<open>simp_all add: hprefix_def\<close>)
qed

lemma get_metadata_rule [py_wp]:
  "(instance_there c (py_str env tid) (py_str env iid) \<Longrightarrow> Q (read_key c (mkey (py_str env tid) (py_str env iid))) c) \<Longrightarrow>
   (\<not> type_there c (py_str env tid) \<Longrightarrow> E (PolicyTypeNotFound tid) c) \<Longrightarrow>
   (type_there c (py_str env tid) \<Longrightarrow> \<not> instance_there c (py_str env tid) (py_str env iid) \<Longrightarrow>
      E (PolicyInstanceNotFound tid) c) \<Longrightarrow>
   (\<And>m. E (SdlError m) c) \<Longrightarrow>
   holds view c (get_metadata env tid iid) Q E"
  unfolding get_metadata_def by (intro py_wp) simp_all

lemma get_policy_instance_rule [py_wp]:
  "(instance_there c (py_str env tid) (py_str env iid) \<Longrightarrow> Q (read_key c (ikey (py_str env tid) (py_str env iid))) c) \<Longrightarrow>
   (\<not> type_there c (py_str env tid) \<Longrightarrow> E (PolicyTypeNotFound tid) c) \<Longrightarrow>
   (type_there c (py_str env tid) \<Longrightarrow> \<not> instance_there c (py_str env tid) (py_str env iid) \<Longrightarrow>
      E (PolicyInstanceNotFound tid) c) \<Longrightarrow>
   (\<And>m. E (SdlError m) c) \<Longrightarrow>
   holds view c (get_policy_instance env tid iid) Q E"
  unfolding get_policy_instance_def by (intro py_wp) simp_all

lemma clear_handlers_rule [py_wp]:
  assumes "Q () (without_statuses c (py_str env tid) (py_str env iid))"
    and "\<And>e c'. some_deleted {k. HasPrefix k (hprefix (py_str env tid) (py_str env iid))} c e c' \<Longrightarrow> E e c'"
  shows "holds view c (clear_handlers env tid iid) Q E"
proof -
  let ?p = "hprefix (py_str env tid) (py_str env iid)"
  have "holds view c (py_for (map fst found) (sdl_delete env A1NS)) Q E"
    if found: "map_of found = (\<lambda>k. if HasPrefix k ?p then c k else None)" for found
  proof (rule holds_weaken [OF delete_all_rule])
    have keys: "set (map fst found) = {k. HasPrefix k ?p} \<inter> dom c"
      using dom_map_of_conv_image_fst [of found] by (auto simp: found dom_def split: if_splits)
    have "c |` (- set (map fst found)) = without_statuses c (py_str env tid) (py_str env iid)"
      unfolding keys without_statuses_def by (auto simp: restrict_map_def fun_eq_iff)
    then show "Q u c'" if "c' = c |` (- set (map fst found))" for u c' using that assms(1) by simp
    show "E e c'" if "some_deleted (set (map fst found)) c e c'" for e c'
      using that assms(2) keys unfolding some_deleted_def by (metis Int_lower1 subset_trans)
  qed
  moreover have "E (SdlError m) c" for m
    by (rule assms(2)) (auto simp: some_deleted_def restrict_map_def intro: exI [of _ "{}"])
  ultimately show ?thesis
    unfolding clear_handlers_def by (intro py_wp) simp_all
qed

end

section \<open>Rules for the handlers\<close>

lemma int_str_not_minus_zero [simp]: "int_str n \<noteq> ''-0''"
proof
  assume n: "int_str n = ''-0''"
  show False
  proof (cases "n < 0")
    case True
    with n have "hd (format_uint (- n)) = CHR ''0''" by (simp add: int_str_def)
    with format_uint_hd_zero [of "- n"] True show False by simp
  next
    case False
    then have "hd (int_str n) \<noteq> CHR ''-''" using hd_format_uint [of n] by (simp add: int_str_def)
    with n show False by simp
  qed
qed

lemma py_str_path_id [simp]: "py_str env (path_id n) = int_str n"
  by simp

text \<open>The contents behind the state of the service.\<close>

definition contents :: "('w \<Rightarrow> py_db) \<Rightarrow> 'w a1_system \<Rightarrow> py_db" where
  "contents view s = view (world s)"

lemma on_world_rule [py_wp]: "holds view c m Q E \<Longrightarrow> holds (contents view) c (on_world m) Q E"
  unfolding holds_def on_world_def contents_def by (auto split: prod.splits)

lemma queue_instance_send_rule [py_wp]: "Q () c \<Longrightarrow> holds (contents view) c (queue_instance_send item) Q E"
  by (auto simp: holds_def queue_instance_send_def contents_def)

lemma queue_ei_job_result_rule [py_wp]: "Q () c \<Longrightarrow> holds (contents view) c (queue_ei_job_result item) Q E"
  by (auto simp: holds_def queue_ei_job_result_def contents_def)

lemma start_thread_rule [py_wp]: "Q () c \<Longrightarrow> holds (contents view) c (start_thread t) Q E"
  by (auto simp: holds_def start_thread_def contents_def split: prod.splits)

lemma try_func_return_rule [py_wp]:
  "holds view c m Q (\<lambda>e c'. case error_code e of None \<Rightarrow> E e c' | Some code \<Rightarrow> Q (Repr e, code) c') \<Longrightarrow>
   holds view c (try_func_return m) Q E"
  unfolding holds_def try_func_return_def log_build_http_resp_def
  by (fastforce split: prod.splits sum.splits option.splits)

text \<open>The contents together with the messages that wait to be sent.\<close>

definition full :: "('w \<Rightarrow> py_db) \<Rightarrow> 'w a1_system \<Rightarrow> py_db \<times> (string \<times> int \<times> string \<times> json) list" where
  "full view s = (view (world s), instance_send_queue s)"

lemma on_world_full_rule [py_wp]:
  "holds view c m (\<lambda>x c'. Q x (c', q)) (\<lambda>e c'. E e (c', q)) \<Longrightarrow> holds (full view) (c, q) (on_world m) Q E"
  unfolding holds_def on_world_def full_def by (fastforce split: prod.splits sum.splits)

lemma queue_instance_send_full_rule [py_wp]:
  "Q () (c, q @ [item]) \<Longrightarrow> holds (full view) (c, q) (queue_instance_send item) Q E"
  by (auto simp: holds_def queue_instance_send_def full_def)

text \<open>The answers that refuse a request, and the one when the storage fails.\<close>

definition refused :: "py_db \<Rightarrow> json \<Rightarrow> string \<Rightarrow> string \<Rightarrow> http_result \<Rightarrow> bool" where
  "refused c tid t i r \<longleftrightarrow>
     (if type_there c t then \<not> instance_there c t i \<and> r = (Repr (PolicyInstanceNotFound tid), 404)
      else r = (Repr (PolicyTypeNotFound tid), 404))"

definition unavailable :: "http_result \<Rightarrow> bool" where
  "unavailable r \<longleftrightarrow> (\<exists>m. r = (Repr (SdlError m), 503))"

definition initial_metadata :: "json \<Rightarrow> json" where
  "initial_metadata now = JObject [(''created_at'', now), (''has_been_deleted'', JBool False)]"

text \<open>Contents after storing an instance: of an instance that was there, the statuses are gone.\<close>

definition stored_instance :: "py_db \<Rightarrow> string \<Rightarrow> string \<Rightarrow> json \<Rightarrow> json \<Rightarrow> py_db" where
  "stored_instance c t i inst now =
     (if read_key c (ikey t i) \<noteq> JNull then without_statuses c t i else c)
       (ikey t i \<mapsto> inst, mkey t i \<mapsto> initial_metadata now)"

text \<open>Contents after a failed attempt to store an instance: some statuses may be gone, some writes done.\<close>

definition half_stored :: "py_db \<Rightarrow> string \<Rightarrow> string \<Rightarrow> json \<Rightarrow> py_db \<Rightarrow> bool" where
  "half_stored c t i inst c' \<longleftrightarrow> c' = c \<or> type_there c t \<and>
     (\<exists>S \<subseteq> {k. HasPrefix k (hprefix t i)}. \<exists>now.
        c' \<in> {c |` (- S), (c |` (- S))(ikey t i \<mapsto> inst), (c |` (- S))(ikey t i \<mapsto> inst, mkey t i \<mapsto> initial_metadata now)})"

lemma half_stored_same [simp]: "half_stored c t i inst c"
  by (simp add: half_stored_def)

lemma half_storedI:
  "type_there c t \<Longrightarrow> S \<subseteq> {k. HasPrefix k (hprefix t i)} \<Longrightarrow> d = c |` (- S) \<Longrightarrow>
   c' \<in> {d, d(ikey t i \<mapsto> inst), d(ikey t i \<mapsto> inst, mkey t i \<mapsto> initial_metadata now)} \<Longrightarrow> half_stored c t i inst c'"
  unfolding half_stored_def by blast

lemma half_stored_steps [simp]:
  assumes "type_there c t"
  shows "half_stored c t i inst (c(ikey t i \<mapsto> inst))" and "half_stored c t i inst (c(ikey t i \<mapsto> inst, mkey t i \<mapsto> initial_metadata now))"
  by (rule half_storedI [OF assms, of "{}" i c _ _ now], simp_all add: restrict_map_def)+

lemma half_stored_cleared [simp]:
  assumes "type_there c t"
  shows "half_stored c t i inst (without_statuses c t i)"
    and "half_stored c t i inst ((without_statuses c t i)(ikey t i \<mapsto> inst))"
    and "half_stored c t i inst ((without_statuses c t i)(ikey t i \<mapsto> inst, mkey t i \<mapsto> initial_metadata now))"
  by (rule half_storedI [OF assms, of "{k. HasPrefix k (hprefix t i)}" i "without_statuses c t i" _ _ now],
      simp_all add: without_statuses_def Compl_eq)+

lemma half_stored_some:
  "type_there c t \<Longrightarrow> S \<subseteq> {k. HasPrefix k (hprefix t i)} \<Longrightarrow> half_stored c t i inst (c |` (- S))"
  unfolding half_stored_def by blast

lemma error_code_cases:
  "error_code e = Some code \<Longrightarrow> code = 400 \<or> code = 404 \<or> code = 503 \<and> (\<exists>m. e = SdlError m)"
  by (cases e) auto

context py_laws
begin

lemma get_policy_type_rule [py_wp]:
  "(type_there c (int_str n) \<Longrightarrow> Q (read_key c (tkey (int_str n))) c) \<Longrightarrow>
   (\<not> type_there c (int_str n) \<Longrightarrow> E (PolicyTypeNotFound (path_id n)) c) \<Longrightarrow> (\<And>m. E (SdlError m) c) \<Longrightarrow>
   holds view c (get_policy_type env n) Q E"
  unfolding get_policy_type_def by (intro py_wp) simp_all

lemma http_get_policy_instance_rule:
  "holds (contents view) c (http_get_policy_instance env n i)
     (\<lambda>r c'. c' = c \<and> (unavailable r \<or> refused c (path_id n) (int_str n) i r \<or>
        instance_there c (int_str n) i \<and> r = (JsonBody (read_key c (ikey (int_str n) i)), 200)))
     (\<lambda>e c'. False)"
  unfolding http_get_policy_instance_def
  by (intro py_wp) (auto simp: unavailable_def refused_def instance_there_def)

lemma store_policy_instance_rule [py_wp]:
  assumes "\<And>now. type_there c (int_str n) \<Longrightarrow>
      Q (if read_key c (ikey (int_str n) i) \<noteq> JNull then ''UPDATE'' else ''CREATE'')
        (stored_instance c (int_str n) i inst now)"
    and "\<not> type_there c (int_str n) \<Longrightarrow> E (PolicyTypeNotFound (path_id n)) c"
    and "\<And>m c'. half_stored c (int_str n) i inst c' \<Longrightarrow> E (SdlError m) c'"
  shows "holds view c (store_policy_instance env n i inst) Q E"
  unfolding store_policy_instance_def Let_def
  by (intro py_wp) (use assms half_stored_some in \<open>auto simp: stored_instance_def initial_metadata_def [symmetric] some_deleted_def\<close>)

text \<open>The check against the schema.\<close>

lemma schema_rule [py_wp]:
  "(\<And>e. v = Some e \<Longrightarrow> E e c) \<Longrightarrow> (v = None \<Longrightarrow> holds view' c m Q E) \<Longrightarrow>
   holds view' c (case v of Some e \<Rightarrow> py_raise e | None \<Rightarrow> m) Q E"
  by (cases v) (auto intro: holds_raise)

lemma http_put_instance_rule:
  "holds (contents view) c (http_create_or_replace_policy_instance env n i inst)
     (\<lambda>r c'. r = (EmptyBody, 202) \<and> type_there c (int_str n) \<and> (\<exists>now. c' = stored_instance c (int_str n) i inst now) \<or>
        snd r \<in> {400, 404} \<and> c' = c \<or> snd r = 503 \<and> half_stored c (int_str n) i inst c')
     (\<lambda>e c'. c' = c)"
  unfolding http_create_or_replace_policy_instance_def
  by (intro py_wp) (auto split: option.split dest!: error_code_cases)

text \<open>The same with the messages that wait to be sent.\<close>

lemma http_put_full_rule:
  "holds (full view) (c, q) (http_create_or_replace_policy_instance env n i inst)
     (\<lambda>r s'. r = (EmptyBody, 202) \<and> type_there c (int_str n) \<and> (\<exists>now. fst s' = stored_instance c (int_str n) i inst now) \<and>
          snd s' = q @ [(if read_key c (ikey (int_str n) i) = JNull then ''CREATE'' else ''UPDATE'', n, i, inst)] \<or>
        snd r \<in> {400, 404} \<and> s' = (c, q) \<or> snd r = 503 \<and> half_stored c (int_str n) i inst (fst s') \<and> snd s' = q)
     (\<lambda>e s'. s' = (c, q))"
  unfolding http_create_or_replace_policy_instance_def
  by (intro py_wp) (auto split: option.split dest!: error_code_cases)

end

section \<open>Statuses, deletions and types\<close>

lemma update_twice [simp]: "AList.update k v (AList.update k u kvs) = AList.update k v kvs"
  by (induction kvs) auto

lemma py_item_error: "py_item v k = Inl e \<Longrightarrow> \<exists>m. e = PyError m"
  by (cases v) (auto split: option.splits)

lemma py_map_all: "(\<And>x. x \<in> set xs \<Longrightarrow> f x = Inr (g x)) \<Longrightarrow> py_map f xs = Inr (map g xs)"
  by (induction xs) auto

definition instance_prefix :: "string \<Rightarrow> string" where
  "instance_prefix t = INSTANCE_PREFIX @ t @ ''.''"

text \<open>What the listing shows of an instance: its identifier up to an occurrence of the prefix in it.\<close>

definition shown_id :: "string \<Rightarrow> string \<Rightarrow> string" where
  "shown_id t i = hd (Split i (instance_prefix t))"

lemma split_second_instance: "split_second (instance_prefix t) (ikey t i) = Inr (shown_id t i)"
proof -
  have "ikey t i = instance_prefix t @ i" by (simp add: ikey_def instance_prefix_def)
  moreover have "instance_prefix t \<noteq> []" by (simp add: instance_prefix_def)
  ultimately have "Split (ikey t i) (instance_prefix t) = [] # Split i (instance_prefix t)"
    by (simp add: Split_def split_from_prefix)
  moreover obtain x xs where "Split i (instance_prefix t) = x # xs"
    using split_from_not_Nil [of "instance_prefix t" "[]" i] by (metis Split_def neq_Nil_conv)
  ultimately show ?thesis by (simp add: split_second_def shown_id_def)
qed

definition instances_of :: "py_db \<Rightarrow> string \<Rightarrow> string set" where
  "instances_of c t = {i. c (ikey t i) \<noteq> None}"

definition effect_of :: "json set \<Rightarrow> json" where
  "effect_of vs = JString (if JString ''OK'' \<in> vs then ''IN EFFECT'' else ''NOT IN EFFECT'')"

definition deleted_metadata :: "json \<Rightarrow> json \<Rightarrow> json" where
  "deleted_metadata created now =
     JObject [(''created_at'', created), (''has_been_deleted'', JBool True), (''deleted_at'', now)]"

context py_laws
begin

lemma get_instance_list_rule [py_wp]:
  assumes "\<And>xs. type_there c (py_str env tid) \<Longrightarrow> distinct xs \<Longrightarrow> set xs = instances_of c (py_str env tid) \<Longrightarrow>
      Q (map (shown_id (py_str env tid)) xs) c"
    and "\<not> type_there c (py_str env tid) \<Longrightarrow> E (PolicyTypeNotFound tid) c" and "\<And>m. E (SdlError m) c"
  shows "holds view c (get_instance_list env tid) Q E"
proof -
  let ?t = "py_str env tid"
  have ids: "\<exists>xs. distinct xs \<and> set xs = instances_of c ?t \<and>
      py_map (split_second (instance_prefix ?t)) (map fst found) = Inr (map (shown_id ?t) xs)"
    if found: "distinct (map fst found)" "map_of found = (\<lambda>k. if HasPrefix k (instance_prefix ?t) then c k else None)" for found
  proof -
    let ?P = "length (instance_prefix ?t)"
    define ks where "ks = map fst found"
    define xs where "xs = map (drop ?P) ks"
    have drop: "drop ?P (ikey ?t i) = i" for i
      by (simp add: ikey_def instance_prefix_def)
    have "set ks = dom (map_of found)" by (simp add: ks_def dom_map_of_conv_image_fst)
    then have keys: "set ks = ikey ?t ` instances_of c ?t"
      unfolding found(2) by (auto simp: dom_def instance_prefix_iff instance_prefix_def instances_of_def split: if_splits)
    then have ks: "ks = map (ikey ?t) xs"
      using drop by (auto simp: xs_def intro!: map_idI [symmetric])
    have "set xs = instances_of c ?t"
      unfolding xs_def set_map keys image_image drop by simp
    moreover have "distinct xs"
      using found(1) ks by (metis distinct_map ks_def)
    moreover have "py_map (split_second (instance_prefix ?t)) ks = Inr (map (shown_id ?t) xs)"
      unfolding ks by (induction "xs") (simp_all add: split_second_instance)
    ultimately show ?thesis unfolding ks_def by blast
  qed
  show ?thesis
    unfolding get_instance_list_def Let_def instance_prefix_def [symmetric]
    by (intro py_wp) (use assms ids in \<open>force+\<close>)
qed

lemma http_status_rule:
  "holds (contents view) c (http_get_policy_instance_status env n i)
     (\<lambda>r c'. c' = c \<and> (unavailable r \<or> refused c (path_id n) (int_str n) i r \<or>
        instance_there c (int_str n) i \<and> (\<exists>kvs. read_key c (mkey (int_str n) i) = JObject kvs \<and>
          r = (JsonBody (JObject (AList.update ''instance_status'' (effect_of (reported c (int_str n) i)) kvs)), 200))))
     (\<lambda>e c'. c' = c \<and> e = PyError ''TypeError'' \<and> instance_there c (int_str n) i \<and>
        (\<forall>kvs. read_key c (mkey (int_str n) i) \<noteq> JObject kvs))"
proof (cases "\<exists>kvs. read_key c (mkey (int_str n) i) = JObject kvs")
  case True
  then obtain kvs where "read_key c (mkey (int_str n) i) = JObject kvs" by blast
  then show ?thesis
    unfolding http_get_policy_instance_status_def get_policy_instance_status_def Let_def
    by (intro py_wp) (auto simp: unavailable_def refused_def instance_there_def effect_of_def list_ex_iff)
next
  case False
  then have "py_set_item (read_key c (mkey (int_str n) i)) k v = Inl (PyError ''TypeError'')" for k v
    by (cases "read_key c (mkey (int_str n) i)") auto
  with False show ?thesis
    unfolding http_get_policy_instance_status_def get_policy_instance_status_def Let_def
    by (intro py_wp) (auto simp: unavailable_def refused_def instance_there_def)
qed

lemma http_delete_instance_rule:
  "holds (contents view) c (http_delete_policy_instance env n i)
     (\<lambda>r c'. r = (EmptyBody, 202) \<and> instance_there c (int_str n) i \<and>
          (\<exists>created now. c' = c(mkey (int_str n) i \<mapsto> deleted_metadata created now)) \<or>
        c' = c \<and> refused c (path_id n) (int_str n) i r \<or>
        snd r = 503 \<and> (c' = c \<or> (\<exists>created now. c' = c(mkey (int_str n) i \<mapsto> deleted_metadata created now))))
     (\<lambda>e c'. c' = c)"
proof -
  have [simp]: "type_there (c(mkey t i \<mapsto> v)) t' = type_there c t'" "instance_there (c(mkey t i \<mapsto> v)) t' i' = instance_there c t' i'" for t v t' i'
    by (simp_all add: type_there_def instance_there_def)
  show ?thesis
    unfolding http_delete_policy_instance_def delete_policy_instance_def Let_def
    by (intro py_wp) (auto simp: refused_def deleted_metadata_def instance_there_def dest!: py_item_error)
qed

lemma http_delete_type_rule:
  "holds (contents view) c (http_delete_policy_type env n)
     (\<lambda>r c'. r = (EmptyBody, 204) \<and> type_there c (int_str n) \<and> instances_of c (int_str n) = {} \<and> c' = c(tkey (int_str n) := None) \<or>
        snd r \<in> {400, 404} \<and> c' = c \<or>
        snd r = 503 \<and> (c' = c \<or> instances_of c (int_str n) = {} \<and> c' = c(tkey (int_str n) := None)))
     (\<lambda>e c'. False)"
  unfolding http_delete_policy_type_def delete_policy_type_def
  by (intro py_wp) (auto simp: instances_of_def)

lemma http_create_type_rule:
  "holds (contents view) c (http_create_policy_type env n body)
     (\<lambda>r c'. r = (EmptyBody, 201) \<and> \<not> type_there c (int_str n) \<and> body \<noteq> JNull \<and> c' = c(tkey (int_str n) \<mapsto> body) \<or>
        snd r \<in> {400, 404} \<and> c' = c \<or>
        snd r = 503 \<and> (c' = c \<or> body \<noteq> JNull \<and> c' = c(tkey (int_str n) \<mapsto> body)))
     (\<lambda>e c'. c' = c)"
proof -
  have "body \<noteq> JNull" if "py_item body k = Inr v" for k v
    using that by (cases body) auto
  then show ?thesis
    unfolding http_create_policy_type_def store_policy_type_def Let_def
    by (intro py_wp) (auto simp: type_there_def dest!: py_item_error)
qed

end

section \<open>Messages\<close>

lemma py_item_error_kinds: "py_item v k = Inl e \<Longrightarrow> e = PyError ''KeyError'' \<or> e = PyError ''TypeError''"
  by (cases v) (auto split: option.splits)

lemma py_loads_error: "py_loads text = Inl e \<Longrightarrow> e = PyError ''UnicodeDecodeError'' \<or> e = PyError ''JSONDecodeError''"
  by (auto simp: py_loads_def response_json_def split: if_splits option.splits)

lemma holds_except [py_wp]:
  "holds view c m Q (\<lambda>e c'. if caught e then Q () c' else E e c') \<Longrightarrow> holds view c (py_except caught m) Q E"
  unfolding holds_def py_except_def by (fastforce split: prod.splits sum.splits if_splits)

lemma py_for_same:
  assumes "\<And>x. x \<in> set xs \<Longrightarrow> holds view c (f x) (\<lambda>_ c'. c' = c) E"
  shows "holds view c (py_for xs f) (\<lambda>_ c'. c' = c) E"
  using assms
proof (induction xs)
  case (Cons x xs)
  have "holds view c (py_then (f x) (py_for xs f)) (\<lambda>_ c'. c' = c) E"
    by (rule holds_then, rule holds_weaken [OF Cons.prems [of x]]) (use Cons in auto)
  then show ?case by simp
qed (auto intro: py_wp)

text \<open>A loop with an element on which the body always raises, and otherwise changes nothing.\<close>

lemma py_for_raises:
  assumes "\<And>x. x \<in> set xs \<Longrightarrow> holds view c (f x) (\<lambda>_ c'. c' = c) E"
    and "x \<in> set xs" and "holds view c (f x) (\<lambda>_ c'. False) E"
  shows "holds view c (py_for xs f) (\<lambda>_ c'. False) E"
  using assms(1,2)
proof (induction xs)
  case (Cons y xs)
  have "holds view c (py_then (f y) (py_for xs f)) (\<lambda>_ c'. False) E"
  proof (cases "x = y")
    case True
    then show ?thesis using assms(3) by (intro holds_then) (auto elim: holds_weaken)
  next
    case False
    then have "holds view c (py_for xs f) (\<lambda>_ c'. False) E" using Cons by simp
    then show ?thesis using Cons.prems(1) [of y] by (intro holds_then) (auto elim: holds_weaken)
  qed
  then show ?case by simp
qed simp

text \<open>The key of a status, and contents with one more status.\<close>

definition status_written :: "py_db \<Rightarrow> py_db \<Rightarrow> bool" where
  "status_written c c' \<longleftrightarrow> (\<exists>t i h v. instance_there c t i \<and> c' = c(hprefix t i @ h \<mapsto> v))"

definition storage_or_encoding :: "py_exc \<Rightarrow> bool" where
  "storage_or_encoding e \<longleftrightarrow> (\<exists>m. e = SdlError m) \<or> e = PyError ''UnicodeDecodeError''"

context py_laws
begin

lemma sends_keep:
  assumes "\<And>w st w'. send w = (st, w') \<Longrightarrow> view w' = view w"
  shows "view (snd (send_tries env n send st w)) = view w"
  using assms
proof (induction n arbitrary: st w)
  case (Suc n)
  then show ?case by (auto split: prod.split)
qed simp

lemma send_with_retries_rule:
  assumes "\<And>w st w'. send w = (st, w') \<Longrightarrow> view w' = view w" and "Q () c" and "E (PyError ''UnboundLocalError'') c"
  shows "holds view c (send_with_retries env send) Q E"
proof -
  have keep: "view w' = view w" if "send_tries env n send st w = (r, w')" for n st w r w'
    using sends_keep [of send n st w, OF assms(1)] that by simp
  have "case r of Inl e \<Rightarrow> E e (view w') | Inr x \<Rightarrow> Q x (view w')"
    if "view w = c" and "send_with_retries env send w = (r, w')" for w r w'
    using that assms(2,3)
    by (cases "send_tries env (nat (RETRY_TIMES env)) send None w")
       (auto simp: send_with_retries_def keep split: option.splits)
  then show ?thesis by (simp add: holds_def)
qed

lemma send_msg_rule [py_wp]:
  "Q () c \<Longrightarrow> E (PyError ''UnboundLocalError'') c \<Longrightarrow> holds view c (send_msg env pay mtype subid) Q E"
  unfolding send_msg_def by (rule send_with_retries_rule) (auto dest: send_law)

lemma rts_msg_rule [py_wp]:
  "Q () c \<Longrightarrow> E (PyError ''UnboundLocalError'') c \<Longrightarrow> holds view c (rts_msg env pay mtype) Q E"
  unfolding rts_msg_def by (rule send_with_retries_rule) (auto dest: rts_law)

lemma handle_policy_response_rule:
  "holds view c (handle_policy_response env payload)
     (\<lambda>_ c'. c' = c \<or> status_written c c')
     (\<lambda>e c'. storage_or_encoding e \<and> (c' = c \<or> status_written c c'))"
proof -
  have sw: "status_written c (c(hprefix t i @ h \<mapsto> v))" if "instance_there c t i" for t i h v
    using that by (auto simp: status_written_def)
  show ?thesis
    unfolding handle_policy_response_def set_policy_instance_status_def
    by (intro py_wp)
       (auto simp: is_type_not_found_def is_instance_not_found_def is_malformed_def storage_or_encoding_def sw
         dest!: py_item_error_kinds py_loads_error)
qed

lemma handle_policy_query_rule:
  "holds view c (handle_policy_query env payload) (\<lambda>_ c'. c' = c) (\<lambda>e c'. c' = c)"
  unfolding handle_policy_query_def
  by (intro py_wp py_for_same) (auto simp: is_type_not_found_def is_malformed_def split: if_splits)

end

end
