(* ===== verification/PyRuns.thy ===== *)
theory PyRuns
  imports PyPolicies
begin

text \<open>
  The Python mediator as a machine. A request is answered in one step, as the requests of the web
  server, whose workers do not preempt each other, follow one another. The RMR thread handles a batch
  of messages in one step, and a sender empties the queues in one step; that these run in between the
  accesses of a request is left out. The threads that delete an instance move from one access to the
  storage to the next, in between whatever else happens.
\<close>

section \<open>Requests\<close>

datatype a1_http_request =
    GetTypes
  | PutType int json
  | GetType int
  | DeleteType int
  | GetInstances int
  | GetInstance int string
  | GetStatus int string
  | PutInstance int string json
  | DeleteInstance int string
  | DataDelivery json
  | GetHealth int

fun serve_http :: "'w a1_env \<Rightarrow> a1_http_request \<Rightarrow> ('w a1_system, http_result) py" where
  "serve_http env GetTypes = http_get_all_policy_types env"
| "serve_http env (PutType n body) = http_create_policy_type env n body"
| "serve_http env (GetType n) = http_get_policy_type env n"
| "serve_http env (DeleteType n) = http_delete_policy_type env n"
| "serve_http env (GetInstances n) = http_get_all_instances_for_type env n"
| "serve_http env (GetInstance n i) = http_get_policy_instance env n i"
| "serve_http env (GetStatus n i) = http_get_policy_instance_status env n i"
| "serve_http env (PutInstance n i inst) = http_create_or_replace_policy_instance env n i inst"
| "serve_http env (DeleteInstance n i) = http_delete_policy_instance env n i"
| "serve_http env (DataDelivery v) = http_data_delivery v"
| "serve_http env (GetHealth t) = http_get_healthcheck env t"

section \<open>The deleting threads\<close>

text \<open>
  \<open>_delete_after\<close>, one access to the storage at a time; the first step checks the instance, the second
  is the end of the sleep. An exception ends the thread.
\<close>

fun next_phase :: "(py_exc + deleter) \<times> 'w \<Rightarrow> deleter \<times> 'w" where
  "next_phase (Inr d', w) = (d', w)"
| "next_phase (Inl e, w) = (Ended, w)"

fun deleter_step :: "'w a1_env \<Rightarrow> deleter \<Rightarrow> 'w \<Rightarrow> (deleter \<times> 'w) option" where
  "deleter_step env (Started tid iid ttl) w =
     Some (next_phase (py_then (instance_is_valid env tid iid) (py_return (Asleep tid iid ttl)) w))"
| "deleter_step env (Asleep tid iid ttl) w = Some (Clearing tid iid, w)"
| "deleter_step env (Clearing tid iid) w =
     Some (next_phase (py_bind (sdl_find_and_get env A1NS (generate_handler_prefix env tid iid))
       (\<lambda>found. py_return (ClearingKeys tid iid (map fst found))) w))"
| "deleter_step env (ClearingKeys tid iid (k # ks)) w =
     Some (next_phase (py_then (sdl_delete env A1NS k) (py_return (ClearingKeys tid iid ks)) w))"
| "deleter_step env (ClearingKeys tid iid []) w = Some (DeletingInstance tid iid, w)"
| "deleter_step env (DeletingInstance tid iid) w =
     Some (next_phase (py_then (sdl_delete env A1NS (generate_instance_key env tid iid)) (py_return (DeletingMetadata tid iid)) w))"
| "deleter_step env (DeletingMetadata tid iid) w =
     Some (next_phase (py_then (sdl_delete env A1NS (generate_instance_metadata_key env tid iid)) (py_return Ended) w))"
| "deleter_step env Ended w = None"

section \<open>The machine\<close>

datatype a1_event =
    Request a1_http_request
  | Sends
  | Mailbox "(int \<times> string) list"
  | DeleterMoves nat

fun a1_move :: "'w a1_env \<Rightarrow> a1_event \<Rightarrow> 'w a1_system \<Rightarrow> 'w a1_system option" where
  "a1_move env (Request r) s = Some (snd (serve_http env r s))"
| "a1_move env Sends s = Some (snd (handle_sends env s))"
| "a1_move env (Mailbox msgs) s = (if rmr_alive s then Some (loop_round env msgs s) else None)"
| "a1_move env (DeleterMoves j) s =
     (if j < length (deleters s)
      then (case deleter_step env (deleters s ! j) (world s) of
              None \<Rightarrow> None
            | Some (d, w) \<Rightarrow> Some (s\<lparr>world := w, deleters := (deleters s)[j := d]\<rparr>))
      else None)"

definition new_system :: "'w \<Rightarrow> 'w a1_system" where
  "new_system w =
     \<lparr>world = w, instance_send_queue = [], ei_job_result_queue = [], deleters = [], rmr_alive = True\<rparr>"

section \<open>Computations over a state\<close>

lemma py_for_inv:
  assumes "\<And>x c. P c \<Longrightarrow> holds view' c (f x) (\<lambda>_. P) (\<lambda>_. P)" and "P c"
  shows "holds view' c (py_for xs f) (\<lambda>_. P) (\<lambda>_. P)"
  using assms(2)
proof (induction xs arbitrary: c)
  case (Cons x xs)
  have "holds view' c (py_then (f x) (py_for xs f)) (\<lambda>_. P) (\<lambda>_. P)"
    by (rule holds_then, rule holds_weaken [OF assms(1) [OF Cons.prems]]) (use Cons.IH in auto)
  then show ?case by simp
qed (auto intro: py_wp)

lemma holds_end: "holds view c m (\<lambda>_. P) (\<lambda>_. P) \<Longrightarrow> view w = c \<Longrightarrow> P (view (snd (m w)))"
  unfolding holds_def by (cases "m w") (fastforce split: sum.splits)

lemma holds_same: "(\<And>c. holds view c m (\<lambda>_ c'. c' = c) (\<lambda>_ c'. c' = c)) \<Longrightarrow> view w = c \<Longrightarrow> view (snd (m w)) = c"
  using holds_end [where P = "\<lambda>c'. c' = c"] by metis

lemma next_phase_rule:
  assumes "holds view c m (\<lambda>d c'. P d c') (\<lambda>_ c'. P Ended c')" and "view w = c" and "next_phase (m w) = (d, w')"
  shows "P d (view w')"
  using assms unfolding holds_def by (cases "m w") (fastforce split: sum.splits elim: next_phase.elims)

context py_laws
begin

lemma reading_rules:
  "holds (contents view) c (http_get_all_policy_types env) (\<lambda>_ c'. c' = c) (\<lambda>_ c'. c' = c)"
  "holds (contents view) c (http_get_policy_type env n) (\<lambda>_ c'. c' = c) (\<lambda>_ c'. c' = c)"
  "holds (contents view) c (http_get_all_instances_for_type env n) (\<lambda>_ c'. c' = c) (\<lambda>_ c'. c' = c)"
  "holds (contents view) c (http_data_delivery v) (\<lambda>_ c'. c' = c) (\<lambda>_ c'. c' = c)"
  unfolding http_get_all_policy_types_def get_type_list_def http_get_policy_type_def
    http_get_all_instances_for_type_def http_data_delivery_def
  by (intro py_wp; simp split: option.split)+

lemma health_rule:
  "holds (contents view) c (http_get_healthcheck env t) (\<lambda>_ c'. c' = c) (\<lambda>_ c'. c' = c)"
  using health_law by (auto simp: holds_def http_get_healthcheck_def contents_def Let_def split: prod.splits if_splits)

lemma requests_get_rule [py_wp]: "(\<And>x. Q x c) \<Longrightarrow> (\<And>e. E e c) \<Longrightarrow> holds view c (requests_get env url) Q E"
  using requests_get_law by (fastforce simp: holds_def split: sum.splits)

lemma requests_put_rule [py_wp]: "(\<And>x. Q x c) \<Longrightarrow> (\<And>e. E e c) \<Longrightarrow> holds view c (requests_put env url body) Q E"
  using requests_put_law by (fastforce simp: holds_def split: sum.splits)

lemma handle_ei_rules:
  "holds view c (handle_ei_query_all env) (\<lambda>_ c'. c' = c) (\<lambda>_ c'. c' = c)"
  "holds view c (handle_ei_create_job env payload) (\<lambda>_ c'. c' = c) (\<lambda>_ c'. c' = c)"
proof -
  have job: "holds view c (case uuid of JString s \<Rightarrow> f s | _ \<Rightarrow> py_raise (PyError ''TypeError'')) (\<lambda>_ c'. c' = c) (\<lambda>_ c'. c' = c)"
    if "\<And>s. holds view c (f s) (\<lambda>_ c'. c' = c) (\<lambda>_ c'. c' = c)" for uuid :: json and f :: "string \<Rightarrow> ('w, unit) py"
    using that by (cases uuid) (simp_all add: holds_raise)
  have pair: "holds view c (case x of (content, code) \<Rightarrow> f content code) Q E"
    if "\<And>content code. holds view c (f content code) Q E" for x :: "string \<times> int" and f :: "string \<Rightarrow> int \<Rightarrow> ('w, unit) py" and Q E
    using that by (cases x) simp
  show "holds view c (handle_ei_query_all env) (\<lambda>_ c'. c' = c) (\<lambda>_ c'. c' = c)"
    unfolding handle_ei_query_all_def by (intro py_wp pair refl)
  show "holds view c (handle_ei_create_job env payload) (\<lambda>_ c'. c' = c) (\<lambda>_ c'. c' = c)"
    unfolding handle_ei_create_job_def by (intro py_wp job refl)
qed

lemma holds_queues:
  assumes "holds (contents view) c m Q E"
  shows "holds (contents view) c (\<lambda>s. m (s\<lparr>instance_send_queue := q\<rparr>)) Q E"
    and "holds (contents view) c (\<lambda>s. m (s\<lparr>ei_job_result_queue := q'\<rparr>)) Q E"
proof -
  have m: "contents view w = c \<Longrightarrow> m w = (r, w') \<Longrightarrow>
      (case r of Inl e \<Rightarrow> E e (contents view w') | Inr x \<Rightarrow> Q x (contents view w'))" for w r w'
    using assms by (simp add: holds_def)
  show "holds (contents view) c (\<lambda>s. m (s\<lparr>instance_send_queue := q\<rparr>)) Q E"
    unfolding holds_def using m [of "w\<lparr>instance_send_queue := q\<rparr>" for w] by (simp add: contents_def)
  show "holds (contents view) c (\<lambda>s. m (s\<lparr>ei_job_result_queue := q'\<rparr>)) Q E"
    unfolding holds_def using m [of "w\<lparr>ei_job_result_queue := q'\<rparr>" for w] by (simp add: contents_def)
qed

lemma send_instances_rule:
  "holds (contents view) c (send_instances env items) (\<lambda>_ c'. c' = c) (\<lambda>_ c'. c' = c)"
proof (induction items)
  case Nil
  show ?case by (simp add: holds_def)
next
  case (Cons item items)
  obtain operation tid iid inst where "item = (operation, tid, iid, inst)" by (cases item)
  let ?body = "py_then
      (on_world (send_msg env (py_dumps (a1_to_handler operation (path_id tid) (JString iid) inst)) A1_POLICY_REQUEST tid))
      (send_instances env items)"
  from \<open>item = _\<close> have "send_instances env (item # items) = (\<lambda>s. ?body (s\<lparr>instance_send_queue := items\<rparr>))"
    by (simp add: Let_def fun_eq_iff)
  moreover have "holds (contents view) c (\<lambda>s. ?body (s\<lparr>instance_send_queue := items\<rparr>)) (\<lambda>_ c'. c' = c) (\<lambda>_ c'. c' = c)"
    by (rule holds_queues) (intro py_wp Cons.IH refl)
  ultimately show ?case by simp
qed

lemma send_ei_results_rule:
  "holds (contents view) c (send_ei_results env items) (\<lambda>_ c'. c' = c) (\<lambda>_ c'. c' = c)"
proof (induction items)
  case Nil
  show ?case by (simp add: holds_def)
next
  case (Cons item items)
  obtain job result where "item = (job, result)" by (cases item)
  let ?body = "py_bind (py_lift (py_to_int env job)) (\<lambda>ei_job_id.
      py_then (on_world (send_msg env (py_dumps (ei_to_handler job result)) A1_EI_DATA_DELIVERY ei_job_id))
        (send_ei_results env items))"
  from \<open>item = _\<close> have "send_ei_results env (item # items) = (\<lambda>s. ?body (s\<lparr>ei_job_result_queue := items\<rparr>))"
    by (simp add: Let_def fun_eq_iff)
  moreover have "holds (contents view) c (\<lambda>s. ?body (s\<lparr>ei_job_result_queue := items\<rparr>)) (\<lambda>_ c'. c' = c) (\<lambda>_ c'. c' = c)"
    by (rule holds_queues) (intro py_wp Cons.IH refl)
  ultimately show ?case by simp
qed

lemma holds_self: "holds view' c (\<lambda>s. m (f s) s) Q E" if "\<And>x. holds view' c (m x) Q E"
  using that unfolding holds_def by blast

lemma handle_sends_rule:
  "holds (contents view) c (handle_sends env) (\<lambda>_ c'. c' = c) (\<lambda>_ c'. c' = c)"
proof -
  have 1: "holds (contents view) c (\<lambda>s. send_instances env (instance_send_queue s) s) (\<lambda>_ c'. c' = c) (\<lambda>_ c'. c' = c)"
    by (rule holds_self, rule send_instances_rule)
  have 2: "holds (contents view) c (\<lambda>s. send_ei_results env (ei_job_result_queue s) s) (\<lambda>_ c'. c' = c) (\<lambda>_ c'. c' = c)"
    by (rule holds_self, rule send_ei_results_rule)
  have "handle_sends env = py_then (\<lambda>s. send_instances env (instance_send_queue s) s)
      (\<lambda>s. send_ei_results env (ei_job_result_queue s) s)"
    by (rule ext) (simp add: handle_sends_def)
  with 2 show ?thesis
    by (simp only:) (rule holds_then, rule holds_weaken [OF 1], simp_all)
qed

lemma handle_sends_keeps: "contents view (snd (handle_sends env s)) = contents view s"
  by (rule holds_same [OF handle_sends_rule]) simp

end

section \<open>The threads of a request\<close>

text \<open>A request starts at most a thread; it moves none.\<close>

definition only_starts :: "('w a1_system, 'a) py \<Rightarrow> bool" where
  "only_starts m \<longleftrightarrow>
     (\<forall>s. \<forall>d \<in> set (deleters (snd (m s))). d \<in> set (deleters s) \<or> (\<exists>tid iid ttl. d = Started tid iid ttl))"

lemma only_starts_bind:
  assumes "only_starts m" and "\<And>x. only_starts (f x)"
  shows "only_starts (py_bind m f)"
  unfolding only_starts_def
proof (intro allI ballI)
  fix s d assume d: "d \<in> set (deleters (snd (py_bind m f s)))"
  show "d \<in> set (deleters s) \<or> (\<exists>tid iid ttl. d = Started tid iid ttl)"
  proof (cases "m s")
    case (Pair r s')
    have m: "d \<in> set (deleters s') \<Longrightarrow> ?thesis" using assms(1) Pair unfolding only_starts_def by (metis snd_conv)
    show ?thesis
    proof (cases r)
      case (Inl e)
      with d Pair m show ?thesis by (simp add: py_bind_def)
    next
      case (Inr x)
      with d Pair have "d \<in> set (deleters (snd (f x s')))" by (simp add: py_bind_def)
      with assms(2) m show ?thesis unfolding only_starts_def by blast
    qed
  qed
qed

lemma only_starts_then: "only_starts m \<Longrightarrow> only_starts n \<Longrightarrow> only_starts (py_then m n)"
  unfolding py_then_def by (rule only_starts_bind)

lemma only_starts_basic:
  "only_starts (py_return x)" "only_starts (py_raise e)" "only_starts (py_lift r)" "only_starts (on_world m)"
  "only_starts (queue_instance_send item)" "only_starts (queue_ei_job_result item')" "only_starts (start_thread t)"
  by (auto simp: only_starts_def py_return_def py_raise_def py_lift_def on_world_def queue_instance_send_def
      queue_ei_job_result_def start_thread_def Let_def split: prod.split)

lemma only_starts_try: "only_starts m \<Longrightarrow> only_starts (try_func_return m)"
  unfolding only_starts_def try_func_return_def by (fastforce split: prod.splits sum.splits option.splits)

lemma only_starts_schema: "only_starts m \<Longrightarrow> only_starts (case v of Some e \<Rightarrow> py_raise e | None \<Rightarrow> m)"
  by (cases v) (simp_all add: only_starts_basic)

lemmas only_starts_rules = only_starts_bind only_starts_then only_starts_basic only_starts_try only_starts_schema

lemma requests_only_start: "only_starts (serve_http env r)"
proof (cases r)
  case (GetHealth t)
  then show ?thesis
    by (simp add: only_starts_def http_get_healthcheck_def Let_def split: prod.split)
qed (simp_all only: serve_http.simps http_get_all_policy_types_def http_create_policy_type_def http_get_policy_type_def
    http_delete_policy_type_def http_get_all_instances_for_type_def http_get_policy_instance_def
    http_get_policy_instance_status_def http_create_or_replace_policy_instance_def
    http_delete_policy_instance_def http_data_delivery_def only_starts_rules)

lemma deleters_sends [simp]:
  "deleters (snd (send_instances env items s)) = deleters s"
  "deleters (snd (send_ei_results env items' s)) = deleters s"
proof -
  show "deleters (snd (send_instances env items s)) = deleters s"
    by (induction env items s rule: send_instances.induct)
       (auto simp: py_then_def py_bind_def on_world_def Let_def split: prod.splits sum.splits)
  show "deleters (snd (send_ei_results env items' s)) = deleters s"
    by (induction env items' s rule: send_ei_results.induct)
       (auto simp: py_then_def py_bind_def on_world_def py_lift_def Let_def split: prod.splits sum.splits)
qed

lemma deleters_handle_sends: "deleters (snd (handle_sends env s)) = deleters s"
proof -
  obtain r s1 where 1: "send_instances env (instance_send_queue s) s = (r, s1)" by (cases "send_instances env (instance_send_queue s) s")
  with deleters_sends(1) [of env "instance_send_queue s" s] have "deleters s1 = deleters s" by simp
  with 1 show ?thesis by (cases r) (simp_all add: handle_sends_def py_then_def py_bind_def)
qed

lemma deleters_loop_round: "deleters (loop_round env msgs s) = deleters s"
  by (auto simp: loop_round_def on_world_def Let_def split: prod.splits sum.splits unit.splits)

section \<open>What keeps an invariant of the storage\<close>

definition deleter_ok :: "'w a1_env \<Rightarrow> deleter \<Rightarrow> bool" where
  "deleter_ok env d \<longleftrightarrow>
     (\<forall>tid iid ks. d = ClearingKeys tid iid ks \<longrightarrow> (\<forall>k \<in> set ks. HasPrefix k (generate_handler_prefix env tid iid)))"

definition run_inv :: "'w a1_env \<Rightarrow> ('w \<Rightarrow> py_db) \<Rightarrow> (py_db \<Rightarrow> bool) \<Rightarrow> 'w a1_system \<Rightarrow> bool" where
  "run_inv env view P s \<longleftrightarrow> P (contents view s) \<and> (\<forall>d \<in> set (deleters s). deleter_ok env d)"

lemma type_there_other: "k \<noteq> tkey t \<Longrightarrow> type_there (c(k := v)) t = type_there c t"
  by (simp add: type_there_def read_key_def)

lemma type_there_without [simp]: "type_there (without_statuses c t i) t' = type_there c t'"
  by (simp add: type_there_def read_key_def)

text \<open>
  The changes the service makes to the storage: each keeps \<open>P\<close>. Statuses go and come, an instance
  comes when its type is there, metadata comes in its two forms, instances and metadata go, a type
  comes, and goes when it has no instances.
\<close>

locale store_invariant =
  fixes P :: "py_db \<Rightarrow> bool"
  assumes statuses_gone: "P c \<Longrightarrow> S \<subseteq> {k. HasPrefix k (hprefix t i)} \<Longrightarrow> P (c |` (- S))"
    and status_comes: "P c \<Longrightarrow> P (c(hprefix t i @ h \<mapsto> v))"
    and instance_comes: "P c \<Longrightarrow> type_there c (int_str n) \<Longrightarrow> P (c(ikey (int_str n) i \<mapsto> v))"
    and initial_comes: "P c \<Longrightarrow> P (c(mkey t i \<mapsto> initial_metadata now))"
    and deleted_comes: "P c \<Longrightarrow> P (c(mkey t i \<mapsto> deleted_metadata created now))"
    and instance_goes: "P c \<Longrightarrow> P (c(ikey t i := None))"
    and metadata_goes: "P c \<Longrightarrow> P (c(mkey t i := None))"
    and type_comes: "P c \<Longrightarrow> body \<noteq> JNull \<Longrightarrow> P (c(tkey t \<mapsto> body))"
    and type_goes: "P c \<Longrightarrow> instances_of c t = {} \<Longrightarrow> P (c(tkey t := None))"
begin

lemma without_keeps: "P c \<Longrightarrow> P (without_statuses c t i)"
  using statuses_gone [of c "{k. HasPrefix k (hprefix t i)}" t i] by (simp add: without_statuses_def Compl_eq)

lemma key_goes: "P c \<Longrightarrow> HasPrefix k (hprefix t i) \<Longrightarrow> P (c(k := None))"
proof -
  assume P: "P c" and k: "HasPrefix k (hprefix t i)"
  have "c |` (- {k}) = c(k := None)" by (auto simp: restrict_map_def)
  with statuses_gone [OF P, of "{k}" t i] k show ?thesis by simp
qed

lemma stored_keeps: "P c \<Longrightarrow> type_there c (int_str n) \<Longrightarrow> P (stored_instance c (int_str n) i inst now)"
  by (simp add: stored_instance_def initial_comes instance_comes without_keeps)

lemma half_stored_keeps:
  assumes "P c" and "half_stored c (int_str n) i inst c'"
  shows "P c'"
proof (cases "c' = c")
  case False
  with assms(2) obtain S now where S: "S \<subseteq> {k. HasPrefix k (hprefix (int_str n) i)}" "type_there c (int_str n)"
    and c': "c' \<in> {c |` (- S), (c |` (- S))(ikey (int_str n) i \<mapsto> inst),
      (c |` (- S))(ikey (int_str n) i \<mapsto> inst, mkey (int_str n) i \<mapsto> initial_metadata now)}"
    by (auto simp: half_stored_def)
  have "type_there (c |` (- S)) (int_str n)"
    using S by (auto simp: type_there_def read_key_def restrict_map_def)
  with statuses_gone [OF assms(1) S(1)] c' show ?thesis
    by (auto simp: initial_comes instance_comes)
qed (use assms in simp)

lemma status_written_keeps: "status_written c c' \<Longrightarrow> P c \<Longrightarrow> P c'"
  by (auto simp: status_written_def status_comes)

end

text \<open>Then every run keeps \<open>P\<close>.\<close>

locale kept = py_laws env view + store_invariant P for env :: "'w a1_env" and view :: "'w \<Rightarrow> py_db" and P :: "py_db \<Rightarrow> bool"
begin

lemma reading_keeps:
  assumes "holds view' c m (\<lambda>_ c'. c' = c) (\<lambda>_ c'. c' = c)" and "P c"
  shows "holds view' c m (\<lambda>_. P) (\<lambda>_. P)"
  by (rule holds_weaken [OF assms(1)]) (use assms(2) in auto)

lemma request_keeps:
  assumes "P c"
  shows "holds (contents view) c (serve_http env r) (\<lambda>_. P) (\<lambda>_. P)"
proof (cases r)
  case (PutType n body)
  show ?thesis unfolding PutType serve_http.simps
    by (rule holds_weaken [OF http_create_type_rule]) (use assms type_comes in auto)
next
  case (DeleteType n)
  show ?thesis unfolding DeleteType serve_http.simps
    by (rule holds_weaken [OF http_delete_type_rule]) (use assms type_goes in auto)
next
  case (GetInstance n i)
  show ?thesis unfolding GetInstance serve_http.simps
    by (rule holds_weaken [OF http_get_policy_instance_rule]) (use assms in auto)
next
  case (GetStatus n i)
  show ?thesis unfolding GetStatus serve_http.simps
    by (rule holds_weaken [OF http_status_rule]) (use assms in auto)
next
  case (PutInstance n i inst)
  show ?thesis unfolding PutInstance serve_http.simps
    by (rule holds_weaken [OF http_put_instance_rule]) (use assms stored_keeps half_stored_keeps in auto)
next
  case (DeleteInstance n i)
  show ?thesis unfolding DeleteInstance serve_http.simps
    by (rule holds_weaken [OF http_delete_instance_rule]) (use assms deleted_comes in auto)
qed (simp_all only: serve_http.simps reading_keeps [OF _ assms] reading_rules health_rule)

lemma message_keeps:
  assumes "P c"
  shows "holds view c (handle_message env msg) (\<lambda>_. P) (\<lambda>_. P)"
proof -
  have "holds view c (handle_policy_response env payload) (\<lambda>_. P) (\<lambda>_. P)" for payload
    by (rule holds_weaken [OF handle_policy_response_rule]) (use assms status_written_keeps in blast)+
  with reading_keeps [OF handle_policy_query_rule assms] reading_keeps [OF handle_ei_rules(1) assms]
    reading_keeps [OF handle_ei_rules(2) assms]
  show ?thesis
    by (auto simp: handle_message_def assms intro: py_wp split: prod.split)
qed

lemma loop_round_keeps:
  assumes "P (contents view s)"
  shows "P (contents view (loop_round env msgs s))"
proof -
  have h: "holds (contents view) (contents view s) (on_world (py_for msgs (handle_message env))) (\<lambda>_. P) (\<lambda>_. P)"
    by (rule on_world_rule, rule py_for_inv [where P = P, OF message_keeps assms])
  obtain r :: "py_exc + unit" and s' where r: "on_world (py_for msgs (handle_message env)) s = (r, s')"
    by fastforce
  have "P (contents view s')"
    using h r by (cases r) (auto simp: holds_def)
  moreover have "contents view (s'\<lparr>rmr_alive := b\<rparr>) = contents view s'" for b by (simp add: contents_def)
  ultimately show ?thesis
    using assms r by (cases r) (simp_all add: loop_round_def split: unit.split)
qed

lemma deleter_step_keeps:
  assumes "P (view w)" and "deleter_ok env d" and "deleter_step env d w = Some (d', w')"
  shows "P (view w') \<and> deleter_ok env d'"
proof -
  let ?Q = "\<lambda>d c. P c \<and> deleter_ok env d"
  have by_rule: ?thesis
    if "holds view (view w) m ?Q (\<lambda>_ c'. ?Q Ended c')" and "next_phase (m w) = (d', w')" for m
    using next_phase_rule [where P = ?Q, OF that(1) refl that(2)] .
  have other [simp]: "deleter_ok env Ended" "deleter_ok env (Asleep tid iid ttl)" "deleter_ok env (DeletingMetadata tid iid)" for tid iid ttl
    by (simp_all add: deleter_ok_def)
  show ?thesis
  proof (cases d)
    case (Started tid iid ttl)
    show ?thesis
      by (rule by_rule [of "py_then (instance_is_valid env tid iid) (py_return (Asleep tid iid ttl))"])
         (use assms Started in \<open>auto intro!: py_wp\<close>)
  next
    case (Clearing tid iid)
    have keys: "HasPrefix k p"
      if "map_of found = (\<lambda>k. if HasPrefix k p then view w k else None)" and "(k, v) \<in> set found" for found p k v
      using that weak_map_of_SomeI [of k v found] by (auto split: if_splits)
    show ?thesis
      by (rule by_rule [of "py_bind (sdl_find_and_get env A1NS (generate_handler_prefix env tid iid))
            (\<lambda>found. py_return (ClearingKeys tid iid (map fst found)))"])
         (use assms Clearing keys in \<open>auto intro!: py_wp simp: deleter_ok_def\<close>)
  next
    case (ClearingKeys tid iid ks)
    show ?thesis
    proof (cases ks)
      case Nil
      with assms ClearingKeys show ?thesis by (auto simp: deleter_ok_def)
    next
      case (Cons k ks')
      show ?thesis
        by (rule by_rule [of "py_then (sdl_delete env A1NS k) (py_return (ClearingKeys tid iid ks'))"])
           (use assms ClearingKeys Cons in \<open>auto intro!: py_wp simp: deleter_ok_def key_goes\<close>)
    qed
  next
    case (DeletingInstance tid iid)
    show ?thesis
      by (rule by_rule [of "py_then (sdl_delete env A1NS (generate_instance_key env tid iid)) (py_return (DeletingMetadata tid iid))"])
         (use assms DeletingInstance in \<open>auto intro!: py_wp simp: instance_goes\<close>)
  next
    case (DeletingMetadata tid iid)
    show ?thesis
      by (rule by_rule [of "py_then (sdl_delete env A1NS (generate_instance_metadata_key env tid iid)) (py_return Ended)"])
         (use assms DeletingMetadata in \<open>auto intro!: py_wp simp: metadata_goes\<close>)
  qed (use assms in \<open>auto simp: deleter_ok_def\<close>)
qed

lemma run_inv_move:
  assumes inv: "run_inv env view P s" and move: "a1_move env ev s = Some s'"
  shows "run_inv env view P s'"
proof (cases ev)
  case (Request r)
  with move have s': "s' = snd (serve_http env r s)" by simp
  have "P (contents view s')"
    using holds_end [OF request_keeps [of "contents view s"]] inv s' by (simp add: run_inv_def)
  moreover have "deleter_ok env d" if "d \<in> set (deleters s')" for d
    using requests_only_start [of env r] inv that s' unfolding only_starts_def run_inv_def by (fastforce simp: deleter_ok_def)
  ultimately show ?thesis by (simp add: run_inv_def)
next
  case Sends
  with move inv show ?thesis by (auto simp: run_inv_def handle_sends_keeps deleters_handle_sends)
next
  case (Mailbox msgs)
  with move inv show ?thesis
    by (auto simp: run_inv_def loop_round_keeps deleters_loop_round split: if_splits)
next
  case (DeleterMoves j)
  with move obtain d w where step: "j < length (deleters s)" "deleter_step env (deleters s ! j) (world s) = Some (d, w)"
    and s': "s' = s\<lparr>world := w, deleters := (deleters s)[j := d]\<rparr>"
    by (auto split: if_splits option.splits)
  have "deleter_ok env (deleters s ! j)" using inv step(1) by (simp add: run_inv_def)
  with deleter_step_keeps [OF _ _ step(2)] inv have "P (view w) \<and> deleter_ok env d"
    by (simp add: run_inv_def contents_def)
  then show ?thesis
    using inv set_update_subset_insert [of "deleters s" j d] by (auto simp: run_inv_def s' contents_def)
qed

end

sublocale kept \<subseteq> machine_invariant "a1_move env" "run_inv env view P"
  by unfold_locales (rule run_inv_move)

context kept
begin

lemma reached:
  assumes "steps (a1_move env) (new_system w) es s" and "P (view w)"
  shows "P (view (world s))"
proof -
  have "run_inv env view P (new_system w)" using assms(2) by (simp add: run_inv_def new_system_def contents_def)
  then have "run_inv env view P s" by (rule invariant [OF assms(1)])
  then show ?thesis by (simp add: run_inv_def contents_def)
qed

end

section \<open>Two invariants\<close>

text \<open>
  A type whose text has no dot, which is every integer, is there as long as one of its instances is.
\<close>

definition instances_have_types :: "py_db \<Rightarrow> bool" where
  "instances_have_types c \<longleftrightarrow> (\<forall>t i. CHR ''.'' \<notin> set t \<longrightarrow> c (ikey t i) \<noteq> None \<longrightarrow> type_there c t)"

text \<open>Metadata is an object of one of two forms.\<close>

definition metadata_well_formed :: "py_db \<Rightarrow> bool" where
  "metadata_well_formed c \<longleftrightarrow>
     (\<forall>t i v. c (mkey t i) = Some v \<longrightarrow> (\<exists>now. v = initial_metadata now) \<or> (\<exists>created now. v = deleted_metadata created now))"

lemma types_frame:
  assumes "instances_have_types c" and "\<And>t i. c' (ikey t i) \<noteq> None \<Longrightarrow> c (ikey t i) \<noteq> None" and "\<And>t. c' (tkey t) = c (tkey t)"
  shows "instances_have_types c'"
  using assms unfolding instances_have_types_def type_there_def read_key_def by metis

lemma metadata_frame:
  assumes "metadata_well_formed c" and "\<And>t i v. c' (mkey t i) = Some v \<Longrightarrow> c (mkey t i) = Some v"
  shows "metadata_well_formed c'"
  using assms unfolding metadata_well_formed_def by blast

interpretation typed: store_invariant instances_have_types
proof unfold_locales
  show "instances_have_types (c |` (- S))" if "instances_have_types c" "S \<subseteq> {k. HasPrefix k (hprefix t i)}" for c S t i
    using that(1) by (rule types_frame) (use that(2) in \<open>auto simp: restrict_map_def split: if_splits\<close>)
  show "instances_have_types (c(ikey (int_str n) i \<mapsto> v))" if "instances_have_types c" "type_there c (int_str n)" for c n i v
    using that by (auto simp: instances_have_types_def type_there_other)
  show "instances_have_types (c(tkey t \<mapsto> body))" if "instances_have_types c" "body \<noteq> JNull" for c t body
    using that by (auto simp: instances_have_types_def type_there_def read_key_def)
  show "instances_have_types (c(tkey t := None))" if "instances_have_types c" "instances_of c t = {}" for c t
    using that by (auto simp: instances_have_types_def type_there_def read_key_def instances_of_def)
qed (erule types_frame, auto split: if_splits)+

interpretation formed: store_invariant metadata_well_formed
proof unfold_locales
  show "metadata_well_formed (c |` (- S))" if "metadata_well_formed c" for c S
    using that by (rule metadata_frame) (auto simp: restrict_map_def split: if_splits)
  show "metadata_well_formed (c(mkey t i \<mapsto> initial_metadata now))" if "metadata_well_formed c" for c t i now
    using that by (auto simp: metadata_well_formed_def)
  show "metadata_well_formed (c(mkey t i \<mapsto> deleted_metadata created now))" if "metadata_well_formed c" for c t i created now
    using that by (auto simp: metadata_well_formed_def)
qed (erule metadata_frame, auto split: if_splits)+

text \<open>On a storage with the laws, every run keeps them.\<close>

lemma types_kept: "py_laws env view \<Longrightarrow> kept env view instances_have_types"
  by (simp add: kept_def typed.store_invariant_axioms)

lemma metadata_kept: "py_laws env view \<Longrightarrow> kept env view metadata_well_formed"
  by (simp add: kept_def formed.store_invariant_axioms)

interpretation py_mem_typed: kept py_mem mem_contents instances_have_types
  by (rule types_kept [OF py_mem_laws])

interpretation py_mem_formed: kept py_mem mem_contents metadata_well_formed
  by (rule metadata_kept [OF py_mem_laws])

end
