(* ===== verification/PyProperties.thy ===== *)
theory PyProperties
  imports PyRuns "HOL-Library.While_Combinator"
begin

text \<open>
  The properties of the Python mediator: what a request does to the storage and to the messages that
  wait to be sent, what every run keeps, and what the delayed deletion of an instance does. They hold
  on every storage that satisfies the laws of \<open>py_laws\<close>; the examples run on the one in memory.
\<close>

section \<open>Lemmas\<close>

text \<open>The value of the digits of a number is the number, so different identifiers have different texts.\<close>

lemma digits_value_format: "0 \<le> n \<Longrightarrow> digits_value (format_uint n) = n"
proof (induction n rule: format_uint.induct)
  case (1 n)
  have digit: "byte (digit_char d) = 48 + d" if "0 \<le> d" "d < 10" for d
    using that by (simp add: digit_char_def)
  show ?case
  proof (cases "n < 10")
    case True
    with 1 digit [of n] show ?thesis by (simp add: format_uint.simps [of n] digits_value_def)
  next
    case False
    with 1 have "digits_value (format_uint (n div 10)) = n div 10" by simp
    with False 1 digit [of "n mod 10"] show ?thesis
      by (simp add: format_uint.simps [of n] digits_value_def)
  qed
qed

lemma format_uint_inject: "0 \<le> m \<Longrightarrow> 0 \<le> n \<Longrightarrow> format_uint m = format_uint n \<longleftrightarrow> m = n"
  using digits_value_format by metis

lemma int_str_inject [simp]: "int_str m = int_str n \<longleftrightarrow> m = n"
proof
  assume eq: "int_str m = int_str n"
  have nonneg: "hd (int_str k) \<noteq> CHR ''-''" if "\<not> k < 0" for k
    using hd_format_uint [of k] that by (simp add: int_str_def)
  have neg: "hd (int_str k) = CHR ''-''" if "k < 0" for k
    using that by (simp add: int_str_def)
  show "m = n"
  proof (cases "m < 0")
    case True
    then have "n < 0" using eq neg nonneg by metis
    with True eq show ?thesis by (simp add: int_str_def format_uint_inject)
  next
    case False
    then have "\<not> n < 0" using eq neg nonneg by metis
    with False eq show ?thesis by (simp add: int_str_def format_uint_inject)
  qed
qed simp

text \<open>The messages that wait to be sent, over each step.\<close>

lemma on_world_queue [py_wp]:
  "(\<And>x. Q x c) \<Longrightarrow> (\<And>e. E e c) \<Longrightarrow> holds instance_send_queue c (on_world m) Q E"
  by (auto simp: holds_def on_world_def Let_def split: prod.splits sum.split)

lemma start_thread_queue [py_wp]: "Q () c \<Longrightarrow> holds instance_send_queue c (start_thread t) Q E"
  by (auto simp: holds_def start_thread_def split: prod.splits)

lemma ei_queue [py_wp]: "Q () c \<Longrightarrow> holds instance_send_queue c (queue_ei_job_result item) Q E"
  by (auto simp: holds_def queue_ei_job_result_def)

lemma instance_queue [py_wp]: "Q () (c @ [item]) \<Longrightarrow> holds instance_send_queue c (queue_instance_send item) Q E"
  by (auto simp: holds_def queue_instance_send_def)

lemma error_code_not_accepted: "error_code e \<noteq> Some 202"
  by (cases e) auto

lemma quiet_request:
  assumes "\<And>x. snd (f x) \<noteq> 202"
  shows "holds instance_send_queue q (try_func_return (py_bind (on_world m) (\<lambda>x. py_return (f x))))
     (\<lambda>res q'. if snd res = 202 then \<exists>item. q' = q @ [item] else q' = q) (\<lambda>_ q'. q' = q)"
  by (intro py_wp) (use assms error_code_not_accepted in \<open>auto split: option.split\<close>)

lemma request_queue_rule:
  "holds instance_send_queue q (serve_http env r)
     (\<lambda>res q'. if snd res = 202 then \<exists>item. q' = q @ [item] else q' = q) (\<lambda>_ q'. q' = q)"
proof (cases r)
  case (GetHealth t)
  show ?thesis unfolding GetHealth serve_http.simps
    by (auto simp: holds_def http_get_healthcheck_def Let_def split: prod.splits if_splits)
next
  case (PutInstance n i inst)
  show ?thesis unfolding PutInstance serve_http.simps http_create_or_replace_policy_instance_def
    by (intro py_wp) (use error_code_not_accepted in \<open>auto split: option.split\<close>)
next
  case (DeleteInstance n i)
  show ?thesis unfolding DeleteInstance serve_http.simps http_delete_policy_instance_def
    by (intro py_wp) (use error_code_not_accepted in \<open>auto split: option.split\<close>)
next
  case (DataDelivery v)
  show ?thesis unfolding DataDelivery serve_http.simps http_data_delivery_def
    by (intro py_wp) (use error_code_not_accepted in \<open>auto split: option.split\<close>)
qed (simp_all only: serve_http.simps py_then_def http_get_all_policy_types_def http_create_policy_type_def
    http_get_policy_type_def http_delete_policy_type_def http_get_all_instances_for_type_def
    http_get_policy_instance_def http_get_policy_instance_status_def quiet_request snd_conv numeral_eq_iff
    num.simps not_False_eq_True)

lemma same_if:
  "holds view' c m (\<lambda>_ c'. c' = c) (\<lambda>_ c'. c' = c) \<Longrightarrow> holds view' c m (\<lambda>r c'. snd r \<in> A \<longrightarrow> c' = c) (\<lambda>_ c'. c' = c)"
  by (erule holds_weaken) simp_all

context py_laws
begin

lemma request_refused_rule:
  "holds (contents view) c (serve_http env r) (\<lambda>res c'. snd res \<in> {400, 404} \<longrightarrow> c' = c) (\<lambda>_ c'. c' = c)"
proof (cases r)
  case (PutType n body)
  show ?thesis unfolding PutType serve_http.simps by (rule holds_weaken [OF http_create_type_rule]) auto
next
  case (DeleteType n)
  show ?thesis unfolding DeleteType serve_http.simps by (rule holds_weaken [OF http_delete_type_rule]) auto
next
  case (GetInstance n i)
  show ?thesis unfolding GetInstance serve_http.simps by (rule holds_weaken [OF http_get_policy_instance_rule]) auto
next
  case (GetStatus n i)
  show ?thesis unfolding GetStatus serve_http.simps by (rule holds_weaken [OF http_status_rule]) auto
next
  case (PutInstance n i inst)
  show ?thesis unfolding PutInstance serve_http.simps by (rule holds_weaken [OF http_put_instance_rule]) auto
next
  case (DeleteInstance n i)
  show ?thesis unfolding DeleteInstance serve_http.simps by (rule holds_weaken [OF http_delete_instance_rule]) auto
qed (simp_all only: serve_http.simps same_if [OF reading_rules(1)] same_if [OF reading_rules(2)]
    same_if [OF reading_rules(3)] same_if [OF reading_rules(4)] same_if [OF health_rule])

end

section \<open>Requests\<close>

text \<open>A storage with the policy type 20000, whose schema accepts everything.\<close>

definition py_sample_type :: json where
  "py_sample_type = JObject [(''name'', JString ''admission''), (''description'', JString []),
     (''policy_type_id'', JNumber ''20000''), (''create_schema'', JObject [])]"

definition py_sample_world :: py_world where
  "py_sample_world = \<lparr>py_cells = [(''a1.policy_type.20000'', py_sample_type)], py_sent = [], py_broken = [], py_down = False\<rparr>"

definition py_sample_system :: "py_world a1_system" where
  "py_sample_system = new_system py_sample_world"

definition py_sample_put :: "string \<Rightarrow> a1_http_request" where
  "py_sample_put i = PutInstance 20000 i (JObject [(''threshold'', JNumber ''5'')])"

definition py_after :: "a1_http_request list \<Rightarrow> py_world a1_system" where
  "py_after rs = fold (\<lambda>r s. snd (serve_http py_mem r s)) rs py_sample_system"

fun json_answer :: "py_exc + http_result \<Rightarrow> json option" where
  "json_answer (Inr (JsonBody v, code)) = (if code = 200 then Some v else None)"
| "json_answer r = None"

lemma json_answer_Some: "json_answer r = Some v \<longleftrightarrow> r = Inr (JsonBody v, 200)"
  by (cases r rule: json_answer.cases) auto

text \<open>
  C7. Putting an instance has one of four outcomes. It is accepted with 202: its type is there, the
  storage has the instance and fresh metadata, the statuses of an instance it replaces are gone, and
  one message waits to be sent, a \<open>CREATE\<close> if there was no such instance and an \<open>UPDATE\<close> otherwise. It is
  refused with 400 or 404, or ends in an exception, and nothing has changed. Or the storage failed:
  then some of the writes are done, and no message is sent for them.
\<close>

theorem put_instance_outcomes:
  assumes "py_laws env view"
    and "http_create_or_replace_policy_instance env n i inst s = (r, s')"
  shows "r = Inr (EmptyBody, 202) \<and> type_there (view (world s)) (int_str n) \<and>
        (\<exists>now. view (world s') = stored_instance (view (world s)) (int_str n) i inst now) \<and>
        instance_send_queue s' = instance_send_queue s @
          [(if read_key (view (world s)) (ikey (int_str n) i) = JNull then ''CREATE'' else ''UPDATE'', n, i, inst)] \<or>
      ((\<exists>e. r = Inl e) \<or> (\<exists>body code. r = Inr (body, code) \<and> code \<in> {400, 404})) \<and>
        view (world s') = view (world s) \<and> instance_send_queue s' = instance_send_queue s \<or>
      (\<exists>body. r = Inr (body, 503)) \<and> half_stored (view (world s)) (int_str n) i inst (view (world s')) \<and>
        instance_send_queue s' = instance_send_queue s"
proof -
  note rule = py_laws.http_put_full_rule [OF assms(1), of "view (world s)" "instance_send_queue s" n i inst]
  show ?thesis
  proof (cases r)
    case (Inl e)
    with holds_raises [OF rule _ assms(2) [unfolded Inl]] show ?thesis by (simp add: full_def)
  next
    case (Inr x)
    with holds_returns [OF rule _ assms(2) [unfolded Inr]] show ?thesis by (cases x) (auto simp: full_def)
  qed
qed

theorem put_instance_outcomes_witness:
  "instance_send_queue (py_after [py_sample_put ''ac1'']) = [(''CREATE'', 20000, ''ac1'', JObject [(''threshold'', JNumber ''5'')])]"
proof -
  have run: "http_create_or_replace_policy_instance py_mem 20000 ''ac1'' (JObject [(''threshold'', JNumber ''5'')]) py_sample_system
      = (Inr (EmptyBody, 202), py_after [py_sample_put ''ac1''])"
    by code_simp
  have "read_key (mem_contents (world py_sample_system)) (ikey (int_str 20000) ''ac1'') = JNull"
    "instance_send_queue py_sample_system = []"
    by code_simp+
  with put_instance_outcomes [OF py_mem_laws run] show ?thesis by simp
qed

text \<open>
  C17. After an instance that is not \<open>null\<close> was accepted, getting it gives it back, unless the storage
  fails; every other instance of every type is what it was.
\<close>

theorem put_then_get_instance:
  assumes "py_laws env view"
    and "http_create_or_replace_policy_instance env n i inst s = (Inr (EmptyBody, 202), s1)"
    and "inst \<noteq> JNull"
    and "http_get_policy_instance env n i s1 = (r, s2)"
  shows "(r = Inr (JsonBody inst, 200) \<or> (\<exists>m. r = Inr (Repr (SdlError m), 503))) \<and>
    (\<forall>n' i'. (n', i') \<noteq> (n, i) \<longrightarrow>
       read_key (view (world s2)) (ikey (int_str n') i') = read_key (view (world s)) (ikey (int_str n') i'))"
proof -
  obtain now where type: "type_there (view (world s)) (int_str n)"
    and c1: "view (world s1) = stored_instance (view (world s)) (int_str n) i inst now"
    using holds_returns [OF py_laws.http_put_instance_rule [OF assms(1)] refl assms(2)] by (auto simp: contents_def)
  have there: "instance_there (view (world s1)) (int_str n) i"
    and stored: "read_key (view (world s1)) (ikey (int_str n) i) = inst"
    using type assms(3) by (simp_all add: c1 stored_instance_def instance_there_def type_there_def read_key_def)
  note get = py_laws.http_get_policy_instance_rule [OF assms(1)]
  have "view (world s2) = view (world s1) \<and> (\<exists>x. r = Inr x \<and> (unavailable x \<or> x = (JsonBody inst, 200)))"
  proof (cases r)
    case (Inl e)
    with holds_raises [OF get refl assms(4) [unfolded Inl]] show ?thesis by simp
  next
    case (Inr x)
    with holds_returns [OF get refl assms(4) [unfolded Inr]] there stored show ?thesis
      by (auto simp: contents_def refused_def instance_there_def)
  qed
  moreover have "read_key (view (world s1)) (ikey (int_str n') i') = read_key (view (world s)) (ikey (int_str n') i')"
    if "(n', i') \<noteq> (n, i)" for n' i'
    using that by (auto simp: c1 stored_instance_def read_key_def)
  ultimately show ?thesis by (auto simp: unavailable_def)
qed

theorem put_then_get_instance_witness:
  "fst (http_get_policy_instance py_mem 20000 ''ac1'' (py_after [py_sample_put ''ac1''])) =
     Inr (JsonBody (JObject [(''threshold'', JNumber ''5'')]), 200)"
proof -
  have run: "http_create_or_replace_policy_instance py_mem 20000 ''ac1'' (JObject [(''threshold'', JNumber ''5'')]) py_sample_system
      = (Inr (EmptyBody, 202), py_after [py_sample_put ''ac1''])"
    by code_simp
  obtain r s2 where get: "http_get_policy_instance py_mem 20000 ''ac1'' (py_after [py_sample_put ''ac1'']) = (r, s2)"
    by (cases "http_get_policy_instance py_mem 20000 ''ac1'' (py_after [py_sample_put ''ac1''])")
  have "(case fst (http_get_policy_instance py_mem 20000 ''ac1'' (py_after [py_sample_put ''ac1''])) of
      Inl e \<Rightarrow> 0 | Inr x \<Rightarrow> snd x) = 200"
    by code_simp
  with put_then_get_instance [OF py_mem_laws run _ get] get show ?thesis by auto
qed

text \<open>
  C8. The status of an instance: with the metadata of the instance comes \<open>IN EFFECT\<close> if a status
  stored under the prefix of the instance is \<open>OK\<close>, and \<open>NOT IN EFFECT\<close> otherwise, also when all xApps
  reported \<open>DELETED\<close>. A missing type or instance is a 404, a failing storage a 503. An instance without
  metadata, as a failed or a racing write leaves it, ends in a \<open>TypeError\<close> nothing catches.
\<close>

theorem status_of_instance:
  assumes "py_laws env view" and "http_get_policy_instance_status env n i s = (r, s')"
  shows "view (world s') = view (world s) \<and>
    (r = Inr (JsonBody (case read_key (view (world s)) (mkey (int_str n) i) of
          JObject kvs \<Rightarrow> JObject (AList.update ''instance_status''
            (JString (if JString ''OK'' \<in> reported (view (world s)) (int_str n) i then ''IN EFFECT'' else ''NOT IN EFFECT'')) kvs)), 200)
        \<and> instance_there (view (world s)) (int_str n) i \<or>
     r = Inr (Repr (PolicyTypeNotFound (path_id n)), 404) \<and> \<not> type_there (view (world s)) (int_str n) \<or>
     r = Inr (Repr (PolicyInstanceNotFound (path_id n)), 404) \<and> type_there (view (world s)) (int_str n) \<and>
       \<not> instance_there (view (world s)) (int_str n) i \<or>
     (\<exists>m. r = Inr (Repr (SdlError m), 503)) \<or>
     r = Inl (PyError ''TypeError'') \<and> instance_there (view (world s)) (int_str n) i \<and>
       (\<nexists>kvs. read_key (view (world s)) (mkey (int_str n) i) = JObject kvs))"
proof (cases r)
  case (Inl e)
  with holds_raises [OF py_laws.http_status_rule [OF assms(1)] refl assms(2) [unfolded Inl]]
  show ?thesis by (simp add: contents_def)
next
  case (Inr x)
  with holds_returns [OF py_laws.http_status_rule [OF assms(1)] refl assms(2) [unfolded Inr]]
  show ?thesis by (auto simp: contents_def unavailable_def refused_def effect_of_def split: if_splits)
qed

text \<open>Metadata whose writing fails: the instance is there, its status is not.\<close>

definition py_half_stored :: "py_world a1_system" where
  "py_half_stored = snd (serve_http py_mem (py_sample_put ''ac1'')
     (new_system (py_sample_world\<lparr>py_broken := [''a1.policy_inst_metadata.20000.ac1'']\<rparr>)))"

theorem status_of_instance_witness:
  "fst (http_get_policy_instance_status py_mem 20000 ''ac1'' py_half_stored) = Inl (PyError ''TypeError'')"
proof -
  obtain r s' where run: "http_get_policy_instance_status py_mem 20000 ''ac1'' py_half_stored = (r, s')"
    by (cases "http_get_policy_instance_status py_mem 20000 ''ac1'' py_half_stored")
  have "(case fst (http_get_policy_instance_status py_mem 20000 ''ac1'' py_half_stored) of Inl e \<Rightarrow> True | Inr x \<Rightarrow> False)"
    by code_simp
  with status_of_instance [OF py_mem_laws run] run show ?thesis by auto
qed

text \<open>
  C25. The statuses of an instance \<open>i.j\<close>, whose identifier starts with the identifier of another instance
  and a dot, are kept under the prefix of \<open>i\<close>: they count as statuses of \<open>i\<close>, and replacing \<open>i\<close> deletes
  them, so that \<open>i.j\<close> is not in effect any more, although nothing was done to it.
\<close>

theorem dotted_ids_share_statuses:
  assumes "py_laws env view"
    and "http_create_or_replace_policy_instance env n i inst s = (Inr (EmptyBody, 202), s1)"
    and "read_key (view (world s)) (ikey (int_str n) i) \<noteq> JNull"
    and "http_get_policy_instance_status env n (i @ ''.'' @ j) s1 = (Inr (JsonBody v, 200), s2)"
  shows "reported (view (world s)) (int_str n) (i @ ''.'' @ j) \<subseteq> reported (view (world s)) (int_str n) i \<and>
    reported (view (world s1)) (int_str n) (i @ ''.'' @ j) = {} \<and>
    (\<exists>kvs. v = JObject (AList.update ''instance_status'' (JString ''NOT IN EFFECT'') kvs))"
proof -
  let ?t = "int_str n" and ?ij = "i @ ''.'' @ j"
  have prefix: "hprefix ?t ?ij @ h = hprefix ?t i @ (j @ ''.'' @ h)" for h
    by (simp add: hprefix_def)
  obtain now where c1: "view (world s1) = stored_instance (view (world s)) ?t i inst now"
    using holds_returns [OF py_laws.http_put_instance_rule [OF assms(1)] refl assms(2)] by (auto simp: contents_def)
  have "view (world s1) (hprefix ?t i @ h) = None" for h
    using assms(3) by (simp add: c1 stored_instance_def without_statuses_def)
  then have none: "reported (view (world s1)) ?t ?ij = {}"
    unfolding reported_def prefix by simp
  have "\<exists>kvs. v = JObject (AList.update ''instance_status'' (JString ''NOT IN EFFECT'') kvs)"
    using holds_returns [OF py_laws.http_status_rule [OF assms(1)] refl assms(4)] none
    by (auto simp: contents_def unavailable_def refused_def effect_of_def split: if_splits)
  with none show ?thesis unfolding reported_def prefix by blast
qed

text \<open>The instances \<open>a\<close> and \<open>a.b\<close>; the second is acknowledged, and then the first is replaced.\<close>

definition py_dotted :: "py_world a1_system" where
  "py_dotted =
     (let s = py_after [py_sample_put ''a'', py_sample_put ''a.b'']
      in s\<lparr>world := (world s)\<lparr>py_cells := (''a1.policy_handler.20000.a.b.xapp'', JString ''OK'') # py_cells (world s)\<rparr>\<rparr>)"

theorem dotted_ids_share_statuses_witness:
  "reported (mem_contents (world py_dotted)) (int_str 20000) (''a'' @ ''.'' @ ''b'') \<noteq> {} \<and>
   reported (mem_contents (world (snd (serve_http py_mem (py_sample_put ''a'') py_dotted)))) (int_str 20000) (''a'' @ ''.'' @ ''b'') = {}"
proof -
  let ?s1 = "snd (serve_http py_mem (py_sample_put ''a'') py_dotted)"
  have put: "http_create_or_replace_policy_instance py_mem 20000 ''a'' (JObject [(''threshold'', JNumber ''5'')]) py_dotted
      = (Inr (EmptyBody, 202), ?s1)"
    by code_simp
  have there: "read_key (mem_contents (world py_dotted)) (ikey (int_str 20000) ''a'') \<noteq> JNull"
    by code_simp
  have "json_answer (fst (http_get_policy_instance_status py_mem 20000 (''a'' @ ''.'' @ ''b'') ?s1)) \<noteq> None"
    by code_simp
  then obtain v s2 where status: "http_get_policy_instance_status py_mem 20000 (''a'' @ ''.'' @ ''b'') ?s1 = (Inr (JsonBody v, 200), s2)"
    by (cases "http_get_policy_instance_status py_mem 20000 (''a'' @ ''.'' @ ''b'') ?s1") (auto simp: json_answer_Some)
  have "mem_contents (world py_dotted) (hprefix (int_str 20000) (''a'' @ ''.'' @ ''b'') @ ''xapp'') = Some (JString ''OK'')"
    by code_simp
  then have "JString ''OK'' \<in> reported (mem_contents (world py_dotted)) (int_str 20000) (''a'' @ ''.'' @ ''b'')"
    unfolding reported_def by blast
  with dotted_ids_share_statuses [OF py_mem_laws put there status] show ?thesis by blast
qed

text \<open>
  C28. A request that is refused with 400 or 404, or that ends in an exception, changes nothing in the
  storage, and no message is sent for it.
\<close>

theorem refused_requests_change_nothing:
  assumes "py_laws env view" and "serve_http env req s = (res, s')"
    and "case res of Inl e \<Rightarrow> True | Inr r \<Rightarrow> snd r \<in> {400, 404}"
  shows "view (world s') = view (world s) \<and> instance_send_queue s' = instance_send_queue s"
proof (cases res)
  case (Inl e)
  with holds_raises [OF py_laws.request_refused_rule [OF assms(1)] refl assms(2) [unfolded Inl]]
    holds_raises [OF request_queue_rule refl assms(2) [unfolded Inl]]
  show ?thesis by (simp add: contents_def)
next
  case (Inr r)
  with holds_returns [OF py_laws.request_refused_rule [OF assms(1)] refl assms(2) [unfolded Inr]]
    holds_returns [OF request_queue_rule refl assms(2) [unfolded Inr]] assms(3)
  show ?thesis by (auto simp: contents_def split: if_splits)
qed

theorem refused_requests_change_nothing_witness:
  "mem_contents (world (snd (serve_http py_mem (DeleteType 20000) (py_after [py_sample_put ''ac1''])))) =
     mem_contents (world (py_after [py_sample_put ''ac1'']))"
proof -
  obtain res s' where run: "serve_http py_mem (DeleteType 20000) (py_after [py_sample_put ''ac1'']) = (res, s')"
    by (cases "serve_http py_mem (DeleteType 20000) (py_after [py_sample_put ''ac1''])")
  have "case fst (serve_http py_mem (DeleteType 20000) (py_after [py_sample_put ''ac1''])) of
      Inl e \<Rightarrow> True | Inr r \<Rightarrow> snd r \<in> {400, 404}"
    by code_simp
  with refused_requests_change_nothing [OF py_mem_laws run] run show ?thesis by simp
qed

section \<open>Runs\<close>

text \<open>
  C16. In every state the service reaches, whatever the order of its requests, messages and deleting
  threads and whichever accesses fail, an instance in the storage has its policy type.
\<close>

theorem instances_always_have_types:
  assumes "py_laws env view" and "steps (a1_move env) (new_system w) es s"
    and "instances_have_types (view w)"
  shows "view (world s) (ikey (int_str n) i) \<noteq> None \<longrightarrow> type_there (view (world s)) (int_str n)"
  using kept.reached [OF types_kept [OF assms(1)] assms(2,3)] int_str_no_dot
  unfolding instances_have_types_def by blast

text \<open>An instance is put, and its type cannot be deleted.\<close>

definition py_sample_events :: "a1_event list" where
  "py_sample_events =
     [Request (py_sample_put ''ac1''), Sends, Request (DeleteInstance 20000 ''ac1''), DeleterMoves 0, Request (DeleteType 20000)]"

definition py_sample_end :: "py_world a1_system" where
  "py_sample_end = the (run (a1_move py_mem) py_sample_events py_sample_system)"

lemma py_sample_steps: "steps (a1_move py_mem) (new_system py_sample_world) py_sample_events py_sample_end"
proof -
  have "run (a1_move py_mem) py_sample_events py_sample_system \<noteq> None" by code_simp
  then show ?thesis by (auto simp: steps_run py_sample_end_def py_sample_system_def)
qed

lemma py_sample_types: "instances_have_types (mem_contents py_sample_world)"
  by (auto simp: instances_have_types_def mem_contents_def py_sample_world_def ikey_def INSTANCE_PREFIX_def split: if_splits)

theorem instances_always_have_types_witness: "type_there (mem_contents (world py_sample_end)) (int_str 20000)"
proof -
  have "mem_contents (world py_sample_end) (ikey (int_str 20000) ''ac1'') \<noteq> None" by code_simp
  with instances_always_have_types [OF py_mem_laws py_sample_steps py_sample_types] show ?thesis by blast
qed

text \<open>
  C15. The stored metadata is well-formed in every state the service reaches: an object with the time
  of creation and a truth value, and with the time of deletion exactly if that is true. No write that
  fails or is cut off, and no order of events, leaves anything else under a key of metadata.
\<close>

theorem metadata_is_well_formed:
  assumes "py_laws env view" and "steps (a1_move env) (new_system w) es s"
    and "metadata_well_formed (view w)" and "view (world s) (mkey t i) = Some v"
  shows "\<exists>created deleted. v \<in> {JObject [(''created_at'', created), (''has_been_deleted'', JBool False)],
    JObject [(''created_at'', created), (''has_been_deleted'', JBool True), (''deleted_at'', deleted)]}"
  using kept.reached [OF metadata_kept [OF assms(1)] assms(2,3)] assms(4)
  unfolding metadata_well_formed_def initial_metadata_def deleted_metadata_def by blast

lemma py_sample_metadata: "metadata_well_formed (mem_contents py_sample_world)"
  by (auto simp: metadata_well_formed_def mem_contents_def py_sample_world_def mkey_def METADATA_PREFIX_def split: if_splits)

theorem metadata_is_well_formed_witness:
  "\<exists>created deleted v. mem_contents (world py_sample_end) (mkey (int_str 20000) ''ac1'') = Some v \<and>
     v \<in> {JObject [(''created_at'', created), (''has_been_deleted'', JBool False)],
       JObject [(''created_at'', created), (''has_been_deleted'', JBool True), (''deleted_at'', deleted)]}"
proof -
  have "mem_contents (world py_sample_end) (mkey (int_str 20000) ''ac1'') \<noteq> None" by code_simp
  then obtain v where "mem_contents (world py_sample_end) (mkey (int_str 20000) ''ac1'') = Some v" by blast
  with metadata_is_well_formed [OF py_mem_laws py_sample_steps py_sample_metadata this] show ?thesis by blast
qed

section \<open>The deletion of an instance\<close>

text \<open>The thread on its own, until it ends.\<close>

definition thread_alone :: "'w a1_env \<Rightarrow> deleter \<times> 'w \<Rightarrow> (deleter \<times> 'w) option" where
  "thread_alone env = while_option (\<lambda>(d, w). d \<noteq> Ended) (\<lambda>(d, w). the (deleter_step env d w))"

lemma thread_alone_step:
  "d \<noteq> Ended \<Longrightarrow> deleter_step env d w = Some p \<Longrightarrow> thread_alone env (d, w) = thread_alone env p"
  unfolding thread_alone_def by (subst while_option_unfold) simp

lemma thread_alone_end [simp]: "thread_alone env (Ended, w) = Some (Ended, w)"
  unfolding thread_alone_def by (subst while_option_unfold) simp

text \<open>A phase that is a computation followed by the next phase.\<close>

lemma thread_alone_phase:
  assumes "d \<noteq> Ended" and "deleter_step env d w = Some (next_phase (py_bind m (\<lambda>x. py_return (f x)) w))"
    and "\<And>x w'. m w = (Inr x, w') \<Longrightarrow> thread_alone env (f x, w') = Some (Ended, snd (g x w'))"
  shows "thread_alone env (d, w) = Some (Ended, snd (py_bind m g w))"
proof (cases "m w")
  case (Pair r w')
  then show ?thesis
    using assms(3) thread_alone_step [OF assms(1,2)] by (cases r) (simp_all add: py_bind_def py_return_def)
qed

lemma thread_alone_last:
  "thread_alone env (DeletingMetadata tid iid, w) =
     Some (Ended, snd (sdl_delete env A1NS (generate_instance_metadata_key env tid iid) w))"
proof -
  let ?m = "sdl_delete env A1NS (generate_instance_metadata_key env tid iid)"
  have "thread_alone env (DeletingMetadata tid iid, w) = Some (Ended, snd (py_bind ?m (\<lambda>_. py_return ()) w))"
    by (rule thread_alone_phase [where f = "\<lambda>_. Ended"]) (simp_all add: py_then_def py_return_def)
  also have "snd (py_bind ?m (\<lambda>_. py_return ()) w) = snd (?m w)"
    by (cases "?m w") (simp add: py_bind_def py_return_def split: sum.split)
  finally show ?thesis .
qed

lemma thread_alone_instance:
  "thread_alone env (DeletingInstance tid iid, w) =
     Some (Ended, snd (py_then (sdl_delete env A1NS (generate_instance_key env tid iid))
       (sdl_delete env A1NS (generate_instance_metadata_key env tid iid)) w))"
  unfolding py_then_def
  by (rule thread_alone_phase [where f = "\<lambda>_. DeletingMetadata tid iid"]) (simp_all add: py_then_def thread_alone_last)

lemma py_bind_assoc: "py_bind (py_bind m f) g = py_bind m (\<lambda>x. py_bind (f x) g)"
  by (rule ext) (simp add: py_bind_def split: prod.split sum.split)

lemma py_bind_return [simp]: "py_bind (py_return x) f = f x"
  by (rule ext) (simp add: py_bind_def py_return_def)

lemma thread_alone_keys:
  "thread_alone env (ClearingKeys tid iid ks, w) =
     Some (Ended, snd (py_then (py_for ks (sdl_delete env A1NS))
       (py_then (sdl_delete env A1NS (generate_instance_key env tid iid))
         (sdl_delete env A1NS (generate_instance_metadata_key env tid iid))) w))"
proof (induction ks arbitrary: w)
  case Nil
  have "thread_alone env (ClearingKeys tid iid [], w) = thread_alone env (DeletingInstance tid iid, w)"
    by (rule thread_alone_step) simp_all
  then show ?case by (simp add: thread_alone_instance py_then_def)
next
  case (Cons k ks)
  show ?case
    unfolding py_for.simps py_then_def py_bind_assoc
    by (rule thread_alone_phase [where f = "\<lambda>_. ClearingKeys tid iid ks"]) (simp_all add: py_then_def Cons.IH [unfolded py_then_def])
qed

text \<open>What a thread still has to do.\<close>

fun rest_of_thread :: "'w a1_env \<Rightarrow> deleter \<Rightarrow> ('w, unit) py" where
  "rest_of_thread env (Started tid iid ttl) = py_then (instance_is_valid env tid iid) (delete_expired env tid iid)"
| "rest_of_thread env (Asleep tid iid ttl) = delete_expired env tid iid"
| "rest_of_thread env (Clearing tid iid) = delete_expired env tid iid"
| "rest_of_thread env (ClearingKeys tid iid ks) =
     py_then (py_for ks (sdl_delete env A1NS))
       (py_then (sdl_delete env A1NS (generate_instance_key env tid iid))
         (sdl_delete env A1NS (generate_instance_metadata_key env tid iid)))"
| "rest_of_thread env (DeletingInstance tid iid) =
     py_then (sdl_delete env A1NS (generate_instance_key env tid iid))
       (sdl_delete env A1NS (generate_instance_metadata_key env tid iid))"
| "rest_of_thread env (DeletingMetadata tid iid) = sdl_delete env A1NS (generate_instance_metadata_key env tid iid)"
| "rest_of_thread env Ended = py_return ()"

lemma thread_alone_rest: "thread_alone env (d, w) = Some (Ended, snd (rest_of_thread env d w))"
proof -
  have clearing: "thread_alone env (Clearing tid iid, w') = Some (Ended, snd (delete_expired env tid iid w'))" for tid iid w'
    unfolding delete_expired_def clear_handlers_def py_then_def py_bind_assoc
    by (rule thread_alone_phase [where f = "\<lambda>found. ClearingKeys tid iid (map fst found)"])
       (simp_all add: py_then_def thread_alone_keys [unfolded py_then_def])
  have asleep: "thread_alone env (Asleep tid iid ttl, w') = thread_alone env (Clearing tid iid, w')" for tid iid ttl w'
    by (rule thread_alone_step) simp_all
  show ?thesis
  proof (cases d)
    case (Started tid iid ttl)
    show ?thesis unfolding Started rest_of_thread.simps py_then_def
      by (rule thread_alone_phase [where f = "\<lambda>_. Asleep tid iid ttl"]) (simp_all add: py_then_def asleep clearing)
  qed (simp_all add: asleep clearing thread_alone_keys thread_alone_instance thread_alone_last py_return_def)
qed


text \<open>The instance a thread is about to delete, by its type and its identifier.\<close>

fun deletes :: "deleter \<Rightarrow> (json \<times> json) option" where
  "deletes (Started tid iid ttl) = Some (tid, iid)"
| "deletes (Asleep tid iid ttl) = Some (tid, iid)"
| "deletes (Clearing tid iid) = Some (tid, iid)"
| "deletes (ClearingKeys tid iid ks) = Some (tid, iid)"
| "deletes (DeletingInstance tid iid) = Some (tid, iid)"
| "deletes (DeletingMetadata tid iid) = Some (tid, iid)"
| "deletes Ended = None"

text \<open>
  What a computation that ends with the deletion of the instance and of its metadata leaves: as long
  as the metadata is there, an access failed before; when it is gone, so is the instance.
\<close>

definition instance_gone :: "string \<Rightarrow> string \<Rightarrow> py_db \<Rightarrow> bool" where
  "instance_gone t i c \<longleftrightarrow> type_there c t \<and> (c (mkey t i) = None \<longrightarrow> read_key c (ikey t i) = JNull)"

text \<open>Contents with the type and some metadata, before the two deletions.\<close>

definition deletable :: "string \<Rightarrow> string \<Rightarrow> py_db \<Rightarrow> bool" where
  "deletable t i c \<longleftrightarrow> type_there c t \<and> c (mkey t i) \<noteq> None"

lemma deletable_restrict: "deletable t i c \<Longrightarrow> K \<subseteq> {k. HasPrefix k (hprefix t' i')} \<Longrightarrow> deletable t i (c |` (- K))"
  by (auto simp: deletable_def type_there_def read_key_def restrict_map_def subset_iff)

lemma deletable_gone: "deletable t i c \<Longrightarrow> instance_gone t i c"
  by (auto simp: deletable_def instance_gone_def)

lemma some_deleted_gone:
  assumes "deletable t i c" and "some_deleted K c e c'" and "K \<subseteq> {k. HasPrefix k (hprefix t i)}"
  shows "instance_gone t i c'"
proof -
  obtain S where "S \<subseteq> K" "c' = c |` (- S)" using assms(2) by (auto simp: some_deleted_def)
  with assms(3) deletable_gone [OF deletable_restrict [OF assms(1)]] show ?thesis by (metis subset_trans)
qed

context py_laws
begin

lemma two_deletions_rule:
  assumes "deletable t i c" and "t = py_str env tid" and "i = py_str env iid"
  shows "holds view c (py_then (sdl_delete env A1NS (generate_instance_key env tid iid))
      (sdl_delete env A1NS (generate_instance_metadata_key env tid iid))) (\<lambda>_. instance_gone t i) (\<lambda>_. instance_gone t i)"
  by (intro py_wp) (use assms in \<open>auto simp: deletable_def instance_gone_def type_there_other\<close>)

lemma keys_deletion_rule:
  assumes "deletable t i c" and "t = py_str env tid" and "i = py_str env iid"
    and "\<forall>k \<in> set ks. HasPrefix k (hprefix t i)"
  shows "holds view c (py_then (py_for ks (sdl_delete env A1NS))
      (py_then (sdl_delete env A1NS (generate_instance_key env tid iid))
        (sdl_delete env A1NS (generate_instance_metadata_key env tid iid)))) (\<lambda>_. instance_gone t i) (\<lambda>_. instance_gone t i)"
proof (rule holds_then, rule holds_weaken [OF delete_all_rule])
  have keys: "set ks \<subseteq> {k. HasPrefix k (hprefix t i)}" using assms(4) by blast
  show "holds view c' (py_then (sdl_delete env A1NS (generate_instance_key env tid iid))
      (sdl_delete env A1NS (generate_instance_metadata_key env tid iid))) (\<lambda>_. instance_gone t i) (\<lambda>_. instance_gone t i)"
    if "c' = c |` (- set ks)" for c'
    using two_deletions_rule [OF _ assms(2,3)] deletable_restrict [OF assms(1) keys] that by simp
  show "instance_gone t i c'" if "some_deleted (set ks) c e c'" for e c'
    by (rule some_deleted_gone [OF assms(1) that keys])
qed

lemma delete_expired_rule:
  assumes "deletable t i c" and "t = py_str env tid" and "i = py_str env iid"
  shows "holds view c (delete_expired env tid iid) (\<lambda>_. instance_gone t i) (\<lambda>_. instance_gone t i)"
  unfolding delete_expired_def
proof (rule holds_then, rule clear_handlers_rule)
  let ?K = "{k. HasPrefix k (hprefix t i)}"
  have without: "without_statuses c t i = c |` (- ?K)"
    by (simp add: without_statuses_def Compl_eq)
  then show "holds view (without_statuses c (py_str env tid) (py_str env iid))
      (py_then (sdl_delete env A1NS (generate_instance_key env tid iid))
        (sdl_delete env A1NS (generate_instance_metadata_key env tid iid))) (\<lambda>_. instance_gone t i) (\<lambda>_. instance_gone t i)"
    using two_deletions_rule [OF _ assms(2,3)] deletable_restrict [OF assms(1), of ?K t i] assms(2,3) by simp
  show "instance_gone t i c'" if "some_deleted {k. HasPrefix k (hprefix (py_str env tid) (py_str env iid))} c e c'" for e c'
    by (rule some_deleted_gone [OF assms(1) that]) (simp add: assms(2,3))
qed

end

context py_laws
begin

lemma rest_of_thread_rule:
  assumes "deletes d = Some (tid, iid)" and "d \<noteq> DeletingMetadata tid iid" and "deleter_ok env d"
    and "deletable t i c" and "t = py_str env tid" and "i = py_str env iid"
  shows "holds view c (rest_of_thread env d) (\<lambda>_. instance_gone t i) (\<lambda>_. instance_gone t i)"
proof (cases d)
  case (Started tid' iid' ttl)
  have "holds view c (py_then (instance_is_valid env tid iid) (delete_expired env tid iid))
      (\<lambda>_. instance_gone t i) (\<lambda>_. instance_gone t i)"
    by (rule holds_then, rule instance_is_valid_rule) (use delete_expired_rule [OF assms(4-6)] deletable_gone [OF assms(4)] in simp_all)
  with Started assms(1) show ?thesis by simp
next
  case (ClearingKeys tid' iid' ks)
  with assms keys_deletion_rule [OF assms(4-6), of ks] show ?thesis by (simp add: deleter_ok_def)
qed (use assms delete_expired_rule [OF assms(4-6)] two_deletions_rule [OF assms(4-6)] in simp_all)

end

text \<open>
  C5. Putting an instance does not stop a deletion that was asked for before. Whatever the thread of
  that deletion has still to do when the instance is put anew and accepted: when it is through, the
  new instance is gone, and asking for its status gives 404; or, when only the deletion of the
  metadata was left, the new instance stays without metadata, and asking for its status ends in a
  \<open>TypeError\<close>.
\<close>

theorem deletion_outlives_put:
  assumes "py_laws env view"
    and "http_create_or_replace_policy_instance env n i inst s = (Inr (EmptyBody, 202), s1)" and "inst \<noteq> JNull"
    and "deletes d = Some (path_id n, JString i)" and "deleter_ok env d"
    and "thread_alone env (d, world s1) = Some (Ended, w)"
    and "view w (mkey (int_str n) i) = None"
    and "http_get_policy_instance_status env n i (s1\<lparr>world := w\<rparr>) = (r, s2)"
  shows "(if d = DeletingMetadata (path_id n) (JString i) then r = Inl (PyError ''TypeError'')
          else r = Inr (Repr (PolicyInstanceNotFound (path_id n)), 404)) \<or>
    (\<exists>m. r = Inr (Repr (SdlError m), 503))"
proof -
  obtain now where type: "type_there (view (world s)) (int_str n)"
    and c1: "view (world s1) = stored_instance (view (world s)) (int_str n) i inst now"
    using holds_returns [OF py_laws.http_put_instance_rule [OF assms(1)] refl assms(2)] by (auto simp: contents_def)
  let ?t = "int_str n"
  have texts: "?t = py_str env (path_id n)" "i = py_str env (JString i)" by simp_all
  have able: "deletable ?t i (view (world s1))"
    using type by (simp add: c1 stored_instance_def deletable_def type_there_def read_key_def)
  have there: "instance_there (view (world s1)) ?t i"
    using type assms(3) by (simp add: c1 stored_instance_def instance_there_def type_there_def read_key_def)
  have w: "w = snd (rest_of_thread env d (world s1))"
    using assms(6) by (simp add: thread_alone_rest)
  note status = py_laws.http_status_rule [OF assms(1), of "view w" n i]
  have same: "contents view (s1\<lparr>world := w\<rparr>) = view w" by (simp add: contents_def)
  show ?thesis
  proof (cases "d = DeletingMetadata (path_id n) (JString i)")
    case True
    have "holds view (view (world s1)) (sdl_delete env A1NS (mkey ?t i))
        (\<lambda>_ c. c (ikey ?t i) = view (world s1) (ikey ?t i) \<and> c (tkey ?t) = view (world s1) (tkey ?t))
        (\<lambda>_ c. c (ikey ?t i) = view (world s1) (ikey ?t i) \<and> c (tkey ?t) = view (world s1) (tkey ?t))"
      by (rule py_laws.delete_rule [OF assms(1)]) simp_all
    from holds_end [OF this refl] True w there have "instance_there (view w) ?t i"
      by (simp add: instance_there_def type_there_def read_key_def)
    moreover have "read_key (view w) (mkey ?t i) = JNull" using assms(7) by (simp add: read_key_def)
    ultimately show ?thesis
      using True holds_raises [OF status same] holds_returns [OF status same] assms(8)
      by (cases r) (auto simp: refused_def unavailable_def instance_there_def)
  next
    case False
    have "holds view (view (world s1)) (rest_of_thread env d) (\<lambda>_. instance_gone ?t i) (\<lambda>_. instance_gone ?t i)"
      by (rule py_laws.rest_of_thread_rule [OF assms(1,4) _ assms(5) able texts]) (use False in simp)
    from holds_end [OF this refl] w assms(7) have "type_there (view w) ?t" "\<not> instance_there (view w) ?t i"
      by (simp_all add: instance_gone_def instance_there_def)
    then show ?thesis
      using False holds_raises [OF status same] holds_returns [OF status same] assms(8)
      by (cases r) (auto simp: refused_def unavailable_def instance_there_def)
  qed
qed

text \<open>An instance is put, deleted and put again while the deleting thread sleeps.\<close>

definition py_sample_again :: "py_world a1_system" where
  "py_sample_again = the (run (a1_move py_mem)
     [Request (py_sample_put ''ac1''), Request (DeleteInstance 20000 ''ac1''), DeleterMoves 0] py_sample_system)"

definition py_sample_put_again :: "py_world a1_system" where
  "py_sample_put_again = snd (serve_http py_mem (py_sample_put ''ac1'') py_sample_again)"

theorem deletion_outlives_put_witness:
  "\<exists>w. thread_alone py_mem (deleters py_sample_put_again ! 0, world py_sample_put_again) = Some (Ended, w) \<and>
     fst (http_get_policy_instance_status py_mem 20000 ''ac1'' (py_sample_put_again\<lparr>world := w\<rparr>)) =
       Inr (Repr (PolicyInstanceNotFound (path_id 20000)), 404)"
proof -
  let ?d = "deleters py_sample_put_again ! 0"
  have put: "http_create_or_replace_policy_instance py_mem 20000 ''ac1'' (JObject [(''threshold'', JNumber ''5'')]) py_sample_again
      = (Inr (EmptyBody, 202), py_sample_put_again)"
    by code_simp
  have d: "?d = Asleep (path_id 20000) (JString ''ac1'') 5"
    by code_simp
  obtain w where alone: "thread_alone py_mem (?d, world py_sample_put_again) = Some (Ended, w)"
    and w: "w = snd (delete_expired py_mem (path_id 20000) (JString ''ac1'') (world py_sample_put_again))"
    by (simp add: thread_alone_rest d)
  have gone: "mem_contents w (mkey (int_str 20000) ''ac1'') = None"
    unfolding w by code_simp
  obtain r s2 where status: "http_get_policy_instance_status py_mem 20000 ''ac1'' (py_sample_put_again\<lparr>world := w\<rparr>) = (r, s2)"
    by (cases "http_get_policy_instance_status py_mem 20000 ''ac1'' (py_sample_put_again\<lparr>world := w\<rparr>)")
  have "(case fst (http_get_policy_instance_status py_mem 20000 ''ac1'' (py_sample_put_again\<lparr>world := w\<rparr>)) of
      Inl e \<Rightarrow> 0 | Inr x \<Rightarrow> snd x) \<noteq> 503"
    unfolding w by code_simp
  with deletion_outlives_put [OF py_mem_laws put _ _ _ alone gone status] d status alone show ?thesis
    by (auto simp: deleter_ok_def)
qed

end
