(* ===== verification/PyJson.thy ===== *)
theory PyJson
  imports PyService
begin

text \<open>
  The text \<open>json.dumps\<close> writes reads back as the value it was written for, in Go and in Python: the
  messages of the Python mediator mean the same to whoever receives them.
\<close>

section \<open>Strings\<close>

lemma hex_nibbles:
  fixes n :: int
  assumes "0 \<le> n" and "n < 65536"
  shows "((n div 4096 mod 16 * 16 + n div 256 mod 16) * 16 + n div 16 mod 16) * 16 + n mod 16 = n"
proof -
  have "n div 4096 mod 16 = n div 4096" using assms by simp
  moreover have "n div 4096 = n div 256 div 16" "n div 256 = n div 16 div 16"
    by (simp_all add: zdiv_zmult2_eq [symmetric])
  ultimately show ?thesis by (metis add.commute mod_mult_div_eq mult.commute)
qed

lemma getu4_digits:
  assumes "0 \<le> a" "a < 16" "0 \<le> b" "b < 16" "0 \<le> c" "c < 16" "0 \<le> d" "d < 16"
  shows "getu4 (CHR 0x5C # CHR ''u'' # map hex_digit [a, b, c, d] @ r) = Some (((a * 16 + b) * 16 + c) * 16 + d)"
  using assms by (simp add: getu4_def numeral_nat)

lemma getu4_py_hex4:
  assumes "0 \<le> n" and "n < 65536"
  shows "getu4 (py_hex4 n @ r) = Some n"
proof -
  have "getu4 (CHR 0x5C # CHR ''u'' # map hex_digit [n div 4096 mod 16, n div 256 mod 16, n div 16 mod 16, n mod 16] @ r) =
      Some (((n div 4096 mod 16 * 16 + n div 256 mod 16) * 16 + n div 16 mod 16) * 16 + n mod 16)"
    by (rule getu4_digits) simp_all
  then show ?thesis by (simp only: hex_nibbles [OF assms] py_hex4_def append_Cons)
qed

lemma py_hex4_simps [simp]:
  "hd (py_hex4 n @ r) = CHR 0x5C" "hd (py_hex4 n) = CHR 0x5C" "py_hex4 n \<noteq> []" "length (py_hex4 n) = 6"
  by (simp_all add: py_hex4_def)

lemma decode_py_rune:
  assumes "0 \<le> u" and "u \<le> 1114111" and "\<not> is_surrogate u"
  shows "decode_string (py_escape_rune u @ r) = map_option (apfst ((@) (encode_rune u))) (decode_string r)"
proof (cases "u < 65536")
  case True
  then show ?thesis
    using assms getu4_py_hex4 [of u r]
    by (simp add: py_escape_rune_def decode_string.simps [of "py_hex4 u @ r"])
next
  case False
  let ?h = "55296 + (u - 65536) div 1024" and ?l = "56320 + (u - 65536) mod 1024"
  have "(u - 65536) div 1024 \<le> 1048575 div 1024"
    by (rule zdiv_mono1) (use assms in simp_all)
  moreover have "0 \<le> (u - 65536) div 1024" using False by simp
  ultimately have "(u - 65536) div 1024 < 1024" "0 \<le> (u - 65536) div 1024" by simp_all
  then have h: "0 \<le> ?h" "?h < 65536" "is_surrogate ?h" "55296 \<le> ?h \<and> ?h < 56320"
    by (simp_all add: is_surrogate_def)
  have l: "0 \<le> ?l" "?l < 65536" "56320 \<le> ?l \<and> ?l < 57344" by simp_all
  have "(?h - 55296) * 1024 + (?l - 56320) + 65536 = u" by simp
  with h l have "decode_pair ?h ?l = Some u" by (simp add: decode_pair_def)
  then show ?thesis
    using False h l getu4_py_hex4 [of ?h "py_hex4 ?l @ r"] getu4_py_hex4 [of ?l r]
    by (simp add: py_escape_rune_def decode_string.simps [of "py_hex4 ?h @ py_hex4 ?l @ r"])
qed

text \<open>The code point of a sequence, encoded again, is the sequence.\<close>

lemma char_of_byte: "byte c = n \<Longrightarrow> char_of n = c"
  by auto

lemma cont_byte_mod: "cont_byte c \<Longrightarrow> byte c = 128 + byte c mod 64"
  unfolding cont_byte_def by presburger

lemma code_point_2:
  assumes "utf8_len2 a b"
  shows "encode_rune (code_point [a, b]) = [a, b] \<and> 0 \<le> code_point [a, b] \<and> code_point [a, b] < 2048"
proof -
  let ?x = "byte a mod 32" and ?y = "byte b mod 64"
  have "194 \<le> byte a" "byte a \<le> 223" using assms by (simp_all add: utf8_len2_def)
  then have a: "byte a = 192 + ?x" "2 \<le> ?x" "?x < 32"
    by presburger+
  have b: "byte b = 128 + ?y" using assms cont_byte_mod by (simp add: utf8_len2_def)
  have "code_point [a, b] div 64 = ?x" "code_point [a, b] mod 64 = ?y" "128 \<le> code_point [a, b]" "code_point [a, b] < 2048"
    using a by auto
  then show ?thesis using a(1) b by (auto simp: encode_rune_def intro: char_of_byte)
qed

lemma surrogate_bytes:
  fixes x y z :: int
  assumes "0 \<le> y" "y < 64" "0 \<le> z" "z < 64" "55296 \<le> (x * 64 + y) * 64 + z" "(x * 64 + y) * 64 + z < 57344"
  shows "x = 13 \<and> 32 \<le> y"
proof -
  have "x \<le> 13" using assms by (simp add: algebra_simps)
  moreover have "13 \<le> x" using assms by (simp add: algebra_simps)
  ultimately show ?thesis using assms by simp
qed

lemma code_point_3:
  assumes "utf8_len3 a b c"
  shows "encode_rune (code_point [a, b, c]) = [a, b, c] \<and> 0 \<le> code_point [a, b, c] \<and>
    code_point [a, b, c] < 65536 \<and> \<not> is_surrogate (code_point [a, b, c])"
proof -
  let ?x = "byte a mod 16" and ?y = "byte b mod 64" and ?z = "byte c mod 64" and ?p = "code_point [a, b, c]"
  have a0: "224 \<le> byte a" "byte a \<le> 239" "byte a = 224 \<longrightarrow> 160 \<le> byte b" "byte a = 237 \<longrightarrow> byte b \<le> 159"
    and bc: "byte b = 128 + ?y" "byte c = 128 + ?z"
    using assms cont_byte_mod by (simp_all add: utf8_len3_def)
  have a: "byte a = 224 + ?x" using a0 by presburger
  have x: "0 \<le> ?x" "?x < 16" "?x = 0 \<longrightarrow> 32 \<le> ?y" "?x = 13 \<longrightarrow> ?y \<le> 31"
    using a a0 bc by auto
  have p: "?p = (?x * 64 + ?y) * 64 + ?z" by simp
  have d1: "?p div 64 = ?x * 64 + ?y" unfolding p by simp
  have "?p div 4096 = (?p div 64) div 64" by (simp add: zdiv_zmult2_eq [symmetric])
  then have d2: "?p div 4096 = ?x" unfolding d1 by simp
  have d3: "?p div 64 mod 64 = ?y" "?p mod 64 = ?z"
    unfolding d1 unfolding p by (simp_all only: mod_mult_self3 mod_mod_trivial)
  have low: "2048 \<le> ?p"
  proof (cases "?x = 0")
    case True
    then show ?thesis using x by simp
  next
    case False
    then have "1 \<le> ?x" using x(1) by linarith
    then show ?thesis by simp
  qed
  have high: "?p < 65536" using x(2) by simp
  have surr: "\<not> (55296 \<le> ?p \<and> ?p < 57344)"
  proof
    assume "55296 \<le> ?p \<and> ?p < 57344"
    then have "55296 \<le> (?x * 64 + ?y) * 64 + ?z" "(?x * 64 + ?y) * 64 + ?z < 57344"
      unfolding p by simp_all
    then have "?x = 13 \<and> 32 \<le> ?y" by (intro surrogate_bytes [of ?y ?z]) simp_all
    with x(4) show False by simp
  qed
  have "encode_rune ?p = [char_of (224 + ?p div 4096), char_of (128 + ?p div 64 mod 64), char_of (128 + ?p mod 64)]"
    using low high by (simp add: encode_rune_def surr del: code_point.simps)
  also have "\<dots> = [a, b, c]"
    unfolding d2 d3 using a bc by (auto intro: char_of_byte)
  finally show ?thesis using low high surr by (simp add: is_surrogate_def del: code_point.simps)
qed

lemma code_point_4:
  assumes "utf8_len4 a b c d"
  shows "encode_rune (code_point [a, b, c, d]) = [a, b, c, d] \<and> 65536 \<le> code_point [a, b, c, d] \<and>
    code_point [a, b, c, d] \<le> 1114111"
proof -
  let ?x = "byte a mod 8" and ?y = "byte b mod 64" and ?z = "byte c mod 64" and ?u = "byte d mod 64"
  let ?p = "code_point [a, b, c, d]"
  have a0: "240 \<le> byte a" "byte a \<le> 244" "byte a = 240 \<longrightarrow> 144 \<le> byte b" "byte a = 244 \<longrightarrow> byte b \<le> 143"
    and bcd: "byte b = 128 + ?y" "byte c = 128 + ?z" "byte d = 128 + ?u"
    using assms cont_byte_mod by (simp_all add: utf8_len4_def)
  have a: "byte a = 240 + ?x" "?x \<le> 4" using a0 by presburger+
  have x: "0 \<le> ?x" "?x = 0 \<longrightarrow> 16 \<le> ?y" "?x = 4 \<longrightarrow> ?y \<le> 15"
    using a a0 bcd by auto
  have p: "?p = ((?x * 64 + ?y) * 64 + ?z) * 64 + ?u" by simp
  have d1: "?p div 64 = (?x * 64 + ?y) * 64 + ?z" unfolding p by simp
  have "?p div 4096 = (?p div 64) div 64" "?p div 262144 = (?p div 64) div 64 div 64"
    by (simp_all add: zdiv_zmult2_eq [symmetric] del: code_point.simps)
  moreover have d2: "(?p div 64) div 64 = ?x * 64 + ?y" unfolding d1 by simp
  ultimately have d3: "?p div 262144 = ?x" "?p div 4096 mod 64 = ?y"
    unfolding d2 by (simp_all del: code_point.simps)
  have d4: "?p div 64 mod 64 = ?z" "?p mod 64 = ?u"
    unfolding d1 unfolding p by (simp_all only: mod_mult_self3 mod_mod_trivial)
  have nonneg: "0 \<le> ?y" "?y < 64" "0 \<le> ?z" "?z < 64" "0 \<le> ?u" "?u < 64" by simp_all
  have low: "65536 \<le> ?p"
  proof (cases "?x = 0")
    case True
    then have "16 \<le> ?y" by (rule mp [OF x(2)])
    then show ?thesis using True nonneg by simp
  next
    case False
    then have "1 \<le> ?x" using x(1) by linarith
    then show ?thesis using nonneg by simp
  qed
  have high: "?p \<le> 1114111"
  proof (cases "?x = 4")
    case True
    then have "?y \<le> 15" by (rule mp [OF x(3)])
    then show ?thesis using True nonneg by simp
  next
    case False
    then have "?x \<le> 3" using a(2) by linarith
    then show ?thesis using nonneg by simp
  qed
  have "encode_rune ?p = [char_of (240 + ?p div 262144), char_of (128 + ?p div 4096 mod 64),
      char_of (128 + ?p div 64 mod 64), char_of (128 + ?p mod 64)]"
    using low high by (simp add: encode_rune_def del: code_point.simps)
  also have "\<dots> = [a, b, c, d]"
    unfolding d3 d4 using a bcd by (auto intro: char_of_byte)
  finally show ?thesis using low high by blast
qed

lemma encode_code_point:
  assumes "utf8_len s = Some n" and "\<not> byte (hd s) < 128"
  shows "encode_rune (code_point (take n s)) = take n s \<and> 0 \<le> code_point (take n s) \<and>
    code_point (take n s) \<le> 1114111 \<and> \<not> is_surrogate (code_point (take n s))"
proof -
  have "n \<le> length s" "s \<noteq> []" using utf8_len_le [OF assms(1)] by auto
  have take: "take (Suc k) s = take k s @ [s ! k]" if "k < n" for k
    using that \<open>n \<le> length s\<close> by (simp add: take_Suc_conv_app_nth)
  have hd: "hd s = s ! 0" using \<open>s \<noteq> []\<close> by (simp add: hd_conv_nth)
  consider "n = 2" "utf8_len2 (s ! 0) (s ! 1)" | "n = 3" "utf8_len3 (s ! 0) (s ! 1) (s ! 2)"
    | "n = 4" "utf8_len4 (s ! 0) (s ! 1) (s ! 2) (s ! 3)"
    using assms hd by (auto simp: utf8_len_def split: if_splits)
  then show ?thesis
  proof cases
    case 1
    then have "take n s = [s ! 0, s ! 1]" using take [of 0] take [of 1] by (simp add: numeral_2_eq_2)
    with code_point_2 [OF 1(2)] show ?thesis by (simp add: is_surrogate_def del: code_point.simps)
  next
    case 2
    then have "take n s = [s ! 0, s ! 1, s ! 2]" using take [of 0] take [of 1] take [of 2] by (simp add: eval_nat_numeral)
    with code_point_3 [OF 2(2)] show ?thesis by (simp del: code_point.simps)
  next
    case 3
    then have "take n s = [s ! 0, s ! 1, s ! 2, s ! 3]"
      using take [of 0] take [of 1] take [of 2] take [of 3] by (simp add: eval_nat_numeral)
    with code_point_4 [OF 3(2)] show ?thesis by (simp add: is_surrogate_def del: code_point.simps)
  qed
qed

text \<open>One byte of ASCII, and a whole string.\<close>

lemma decode_plain_byte:
  assumes "32 \<le> byte c" and "byte c < 128" and "c \<noteq> CHR 0x22" and "c \<noteq> CHR 0x5C"
  shows "decode_string (c # r) = map_option (apfst ((#) c)) (decode_string r)"
  using assms utf8_len_ascii [OF assms(2)] by (simp add: decode_string.simps [of "c # r"] append_single)

lemma decode_py_escape_ascii:
  assumes "byte c < 128"
  shows "decode_string (py_escape_ascii c @ r) = map_option (apfst ((#) c)) (decode_string r)"
proof -
  have hex: "decode_string (py_hex4 (byte c) @ r) = map_option (apfst ((#) c)) (decode_string r)"
    using decode_py_rune [of "byte c" r] assms byte_bounds [of c]
    by (simp add: py_escape_rune_def is_surrogate_def encode_rune_ascii append_single)
  show ?thesis
    using assms hex
    by (auto simp: py_escape_ascii_def decode_simple_escape simple_escape_def decode_plain_byte)
qed

lemma decode_py_escape:
  "valid_utf8 s \<Longrightarrow> decode_string (py_escape s @ CHR 0x22 # r) = Some (s, r)"
proof (induction s rule: py_escape.induct)
  case (1 s)
  consider (nil) "s = []" | (ascii) c t where "s = c # t" "byte c < 128"
    | (multi) n where "s \<noteq> []" "\<not> byte (hd s) < 128" "utf8_len s = Some n" "valid_utf8 (drop (max 1 n) s)"
    using "1.prems" that
    by (cases s; cases "byte (hd s) < 128") (simp_all add: valid_utf8.simps [of "_ # _"] split: option.splits)
  then show ?case
  proof cases
    case nil
    then show ?thesis by (simp add: py_escape.simps decode_string.simps [of "CHR 0x22 # r"])
  next
    case (ascii c t)
    then have "valid_utf8 t"
      using "1.prems" by (simp add: valid_utf8.simps [of "c # t"] utf8_len_ascii)
    with ascii "1.IH"(1) have "decode_string (py_escape t @ CHR 0x22 # r) = Some (t, r)"
      by simp
    with ascii show ?thesis
      by (simp add: py_escape.simps [of "c # t"] decode_py_escape_ascii)
  next
    case (multi n)
    then have IH: "decode_string (py_escape (drop (max 1 n) s) @ CHR 0x22 # r) = Some (drop (max 1 n) s, r)"
      using "1.IH"(3) by simp
    have "max 1 n = n"
      using utf8_len_le [OF multi(3)] by simp
    then show ?thesis
      using IH multi encode_code_point [OF multi(3,2)]
      by (simp add: py_escape.simps [of s] decode_py_rune del: code_point.simps)
  qed
qed

section \<open>Values\<close>

text \<open>The values that can be written: numbers are numbers, and strings are UTF-8.\<close>

fun writable :: "json \<Rightarrow> bool" where
  "writable (JNumber lit) = valid_number lit"
| "writable (JString s) = valid_utf8 s"
| "writable (JArray vs) = list_all writable vs"
| "writable (JObject kvs) = list_all (\<lambda>(k, v). valid_utf8 k \<and> writable v) kvs"
| "writable v = True"

definition dumps_member :: "string \<times> json \<Rightarrow> string" where
  "dumps_member kv = py_quote (fst kv) @ '': '' @ py_dumps (snd kv)"

lemma py_dumps_object: "py_dumps (JObject kvs) = ''{'' @ Join (map dumps_member kvs) '', '' @ ''}''"
proof -
  have "(\<lambda>(k, v). py_quote k @ '': '' @ py_dumps v) = dumps_member"
    by (simp add: dumps_member_def fun_eq_iff)
  then show ?thesis by (simp only: py_dumps.simps)
qed

definition reads_back :: "json \<Rightarrow> bool" where
  "reads_back v \<longleftrightarrow> (\<forall>f d r. delim r \<longrightarrow> jfuel v \<le> f \<longrightarrow> d + depth v \<le> max_depth \<longrightarrow>
     parse_value f d (py_dumps v @ r) = Some (v, r))"

lemma blank_ws [simp]: "is_ws (CHR '' '')"
  by (simp add: is_ws_def)

lemma parse_value_blank [simp]: "parse_value f d (CHR '' '' # s) = parse_value f d s"
  by (cases f) (simp_all add: skip_ws_def)

lemma expect_blank [simp]: "expect c (CHR '' '' # s) = expect c s"
  by (simp add: expect_def skip_ws_def)

lemma parse_elems_blank [simp]: "parse_elems f d (CHR '' '' # s) = parse_elems f d s"
  by (cases f) simp_all

lemma parse_members_blank [simp]: "parse_members f d (CHR '' '' # s) = parse_members f d s"
  by (cases f) simp_all

lemma py_dumps_start: "writable v \<Longrightarrow> \<exists>c cs. py_dumps v = c # cs \<and> value_start c"
proof (cases v)
  case (JNumber lit)
  moreover assume "writable v"
  ultimately show ?thesis
    using valid_number_hd [of lit] by (cases lit) (auto simp: value_start_def)
qed (auto simp: value_start_def py_quote_def)

lemma elems_read_back:
  assumes "vs \<noteq> []" and "\<forall>v \<in> set vs. reads_back v"
    and "sum_list (map (\<lambda>v. Suc (jfuel v)) vs) \<le> f" and "\<forall>v \<in> set vs. d + depth v \<le> max_depth"
  shows "parse_elems f d (Join (map py_dumps vs) '', '' @ CHR '']'' # r) = Some (vs, r)"
  using assms
proof (induction vs arbitrary: f rule: induct_list012)
  case (2 v)
  then obtain g where "f = Suc g" "jfuel v \<le> g" by (cases f) auto
  with 2 show ?case by (simp add: reads_back_def expect_hd)
next
  case (3 v w vs)
  then obtain g where g: "f = Suc g" "jfuel v \<le> g" "sum_list (map (\<lambda>v. Suc (jfuel v)) (w # vs)) \<le> g"
    by (cases f) auto
  with 3 have "parse_elems g d (Join (map py_dumps (w # vs)) '', '' @ CHR '']'' # r) = Some (w # vs, r)"
    by simp
  with 3 g show ?case by (simp add: reads_back_def expect_hd)
qed simp

lemma members_read_back:
  assumes "kvs \<noteq> []" and "\<forall>(k, v) \<in> set kvs. valid_utf8 k \<and> reads_back v"
    and "sum_list (map (\<lambda>(k, v). Suc (jfuel v)) kvs) \<le> f" and "\<forall>(k, v) \<in> set kvs. d + depth v \<le> max_depth"
  shows "parse_members f d (Join (map dumps_member kvs) '', '' @ CHR ''}'' # r) = Some (kvs, r)"
  using assms
proof (induction kvs arbitrary: f rule: induct_list012)
  case (2 kv)
  obtain k v where kv: "kv = (k, v)" by (cases kv)
  with 2 obtain g where "f = Suc g" "jfuel v \<le> g" by (cases f) auto
  with 2 kv show ?case
    by (simp add: reads_back_def expect_hd dumps_member_def py_quote_def decode_py_escape)
next
  case (3 kv lw kvs)
  obtain k v where kv: "kv = (k, v)" by (cases kv)
  with 3 obtain g where g: "f = Suc g" "jfuel v \<le> g"
      "sum_list (map (\<lambda>(k, v). Suc (jfuel v)) (lw # kvs)) \<le> g"
    by (cases f) auto
  with 3 have "parse_members g d (Join (map dumps_member (lw # kvs)) '', '' @ CHR ''}'' # r) = Some (lw # kvs, r)"
    by simp
  with 3 g kv show ?case
    by (simp add: reads_back_def expect_hd dumps_member_def py_quote_def decode_py_escape)
qed simp

lemma parse_value_dumps: "writable v \<Longrightarrow> reads_back v"
proof (induction v)
  case JNull
  then show ?case
    by (auto simp: reads_back_def skip_ws_def HasPrefix_def Suc_le_eq gr0_conv_Suc)
next
  case (JBool b)
  then show ?case
    by (auto simp: reads_back_def skip_ws_def HasPrefix_def Suc_le_eq gr0_conv_Suc)
next
  case (JNumber lit)
  then show ?case using parse_number_text [of lit] by (simp add: reads_back_def)
next
  case (JString s)
  then show ?case
    by (auto simp: reads_back_def skip_ws_def py_quote_def decode_py_escape Suc_le_eq gr0_conv_Suc)
next
  case (JArray vs)
  have ok: "\<forall>v \<in> set vs. reads_back v \<and> writable v"
    using JArray by (auto simp: list_all_iff)
  let ?body = "Join (map py_dumps vs) '', ''"
  have "expect (CHR '']'') (?body @ CHR '']'' # r) = None" if some: "vs \<noteq> []" for r
  proof -
    obtain v ws where vs: "vs = v # ws" using some by (cases vs) auto
    then obtain c cs where "py_dumps v = c # cs" "value_start c"
      using ok py_dumps_start [of v] by auto
    with vs value_start_not [of c] show ?thesis by (cases ws) (simp_all add: expect_hd)
  qed
  moreover have "parse_elems g (Suc d) (?body @ CHR '']'' # r) = Some (vs, r)"
    if "vs \<noteq> []" "sum_list (map (\<lambda>v. Suc (jfuel v)) vs) \<le> g" "\<forall>v \<in> set vs. Suc d + depth v \<le> max_depth" for g d r
    using ok that by (intro elems_read_back) auto
  ultimately have "parse_value f d (CHR ''['' # ?body @ CHR '']'' # r) = Some (JArray vs, r)"
    if "jfuel (JArray vs) \<le> f" "d + depth (JArray vs) \<le> max_depth" for f d r
    using that by (intro parse_array_text) auto
  then show ?case by (simp add: reads_back_def)
next
  case (JObject kvs)
  have ok: "\<forall>(k, v) \<in> set kvs. valid_utf8 k \<and> reads_back v"
    using JObject by (fastforce simp: list_all_iff)
  let ?body = "Join (map dumps_member kvs) '', ''"
  have "expect (CHR ''}'') (?body @ CHR ''}'' # r) = None" if some: "kvs \<noteq> []" for r
  proof -
    obtain kv kws where "kvs = kv # kws" using some by (cases kvs) auto
    then show ?thesis by (cases kws) (simp_all add: expect_hd dumps_member_def py_quote_def)
  qed
  moreover have "parse_members g (Suc d) (?body @ CHR ''}'' # r) = Some (kvs, r)"
    if "kvs \<noteq> []" "sum_list (map (\<lambda>(k, v). Suc (jfuel v)) kvs) \<le> g" "\<forall>(k, v) \<in> set kvs. Suc d + depth v \<le> max_depth" for g d r
    using ok that by (intro members_read_back) auto
  ultimately have "parse_value f d (CHR ''{'' # ?body @ CHR ''}'' # r) = Some (JObject kvs, r)"
    if "jfuel (JObject kvs) \<le> f" "d + depth (JObject kvs) \<le> max_depth" for f d r
    using that by (intro parse_object_text) auto
  then show ?case by (simp add: reads_back_def py_dumps_object del: py_dumps.simps)
qed

lemma jfuel_le_dumps: "writable v \<Longrightarrow> jfuel v \<le> 2 * length (py_dumps v) + 1"
proof (induction v)
  case (JNumber lit)
  then show ?case using valid_number_hd(1) [of lit] by (cases lit) auto
next
  case (JArray vs)
  show ?case
  proof (cases "vs = []")
    case False
    have "sum_list (map (\<lambda>v. Suc (jfuel v)) vs) \<le> sum_list (map (\<lambda>v. 2 * (length (py_dumps v) + 2)) vs)"
      using JArray by (intro sum_list_le) (fastforce simp: list_all_iff)
    also have "\<dots> = 2 * sum_list (map (\<lambda>x. length x + length '', '') (map py_dumps vs))"
      by (simp only: sum_list_const_mult map_map comp_def) (simp add: numeral_2_eq_2)
    also have "\<dots> = 2 * (length (Join (map py_dumps vs) '', '') + length '', '')"
      using length_Join [of "map py_dumps vs" "'', ''"] False by (simp only: map_is_Nil_conv simp_thms)
    finally show ?thesis by simp
  qed simp
next
  case (JObject kvs)
  show ?case
  proof (cases "kvs = []")
    case False
    have "sum_list (map (\<lambda>(k, v). Suc (jfuel v)) kvs) \<le> sum_list (map (\<lambda>kv. 2 * (length (dumps_member kv) + 2)) kvs)"
    proof (rule sum_list_le, clarify)
      fix k v assume "(k, v) \<in> set kvs"
      then have "jfuel v \<le> 2 * length (py_dumps v) + 1"
        using JObject by (fastforce simp: list_all_iff)
      then show "Suc (jfuel v) \<le> 2 * (length (dumps_member (k, v)) + 2)" by (simp add: dumps_member_def)
    qed
    also have "\<dots> = 2 * sum_list (map (\<lambda>x. length x + length '', '') (map dumps_member kvs))"
      by (simp only: sum_list_const_mult map_map comp_def) (simp add: numeral_2_eq_2)
    also have "\<dots> = 2 * (length (Join (map dumps_member kvs) '', '') + length '', '')"
      using length_Join [of "map dumps_member kvs" "'', ''"] False by (simp only: map_is_Nil_conv simp_thms)
    finally show ?thesis
      unfolding py_dumps_object by simp
  qed simp
qed (auto simp: py_quote_def)

lemma parse_json_dumps:
  assumes "writable v" and "depth v \<le> max_depth"
  shows "parse_json (py_dumps v) = Some v"
proof -
  have "jfuel v \<le> 2 * length (py_dumps v) + 2" "0 + depth v \<le> max_depth" "delim []"
    using jfuel_le_dumps [OF assms(1)] assms(2) by (simp_all add: delim_def)
  then have "parse_value (2 * length (py_dumps v) + 2) 0 (py_dumps v @ []) = Some (v, [])"
    using parse_value_dumps [OF assms(1)] unfolding reads_back_def by blast
  then show ?thesis by (simp add: parse_json_def skip_ws_def)
qed

section \<open>The text is ASCII\<close>

lemma ascii_utf8: "\<forall>c \<in> set s. byte c < 128 \<Longrightarrow> valid_utf8 s"
  by (induction s) (simp_all add: valid_utf8_ascii)

lemma digits_ascii: "0 \<le> d \<Longrightarrow> d < 16 \<Longrightarrow> byte (hex_digit d) < 128"
  using byte_hex_digit [of d] by auto

lemma py_hex4_ascii: "c \<in> set (py_hex4 n) \<Longrightarrow> byte c < 128"
  by (auto simp: py_hex4_def digits_ascii)

lemma py_escape_ascii_bytes: "byte x < 128 \<Longrightarrow> c \<in> set (py_escape_ascii x) \<Longrightarrow> byte c < 128"
  by (auto simp: py_escape_ascii_def py_hex4_ascii split: if_splits)

lemma py_escape_bytes: "c \<in> set (py_escape s) \<Longrightarrow> byte c < 128"
proof (induction s rule: py_escape.induct)
  case (1 s)
  have rune: "byte c < 128" if "c \<in> set (py_escape_rune n)" for n
    using that py_hex4_ascii by (auto simp: py_escape_rune_def split: if_splits)
  from 1 show ?case
    by (subst (asm) (2) py_escape.simps)
       (auto simp: py_escape_ascii_bytes rune split: if_splits option.splits)
qed

lemma py_quote_bytes: "c \<in> set (py_quote s) \<Longrightarrow> byte c < 128"
  using py_escape_bytes by (auto simp: py_quote_def)

lemma Join_bytes: "c \<in> set (Join xs sep) \<Longrightarrow> (\<exists>x \<in> set xs. c \<in> set x) \<or> c \<in> set sep"
  by (induction xs rule: induct_list012) auto

lemma py_dumps_bytes: "writable v \<Longrightarrow> c \<in> set (py_dumps v) \<Longrightarrow> byte c < 128"
proof (induction v)
  case (JNumber lit)
  then have "is_digit c \<or> c \<in> set ''-+.eE''" using scan_number_bytes [of lit] by (auto simp: valid_number_eq)
  then show ?case by (auto simp: is_digit_iff)
next
  case (JArray vs)
  then show ?case by (fastforce simp: list_all_iff dest!: Join_bytes)
next
  case (JObject kvs)
  have member: "byte c < 128" if kv: "kv \<in> set kvs" and c: "c \<in> set (dumps_member kv)" for kv
  proof (cases "c \<in> set (py_dumps (snd kv))")
    case True
    have "writable (snd kv)" using JObject.prems(1) kv by (auto simp: list_all_iff)
    with JObject.IH [OF kv, of "snd kv"] True show ?thesis by (cases kv) simp
  next
    case False
    with c have "c \<in> set (py_quote (fst kv)) \<or> c \<in> set '': ''" by (auto simp: dumps_member_def)
    then show ?thesis using py_quote_bytes by auto
  qed
  from JObject.prems(2) member show ?case
    unfolding py_dumps_object by (auto dest!: Join_bytes)
qed (auto dest: py_quote_bytes split: if_splits)

text \<open>Python reads it as well as Go.\<close>

lemma dumps_reads_back:
  assumes "writable v" and "depth v \<le> max_depth"
  shows "parse_json (py_dumps v) = Some v \<and> py_loads (py_dumps v) = Inr v"
  using parse_json_dumps [OF assms] ascii_utf8 py_dumps_bytes [OF assms(1)]
  by (simp add: py_loads_def response_json_def)

lemma valid_number_int_str: "valid_number (int_str n)"
proof -
  have *: "scan_int (format_uint m) = Some (format_uint m, []) \<and> hd (format_uint m) \<noteq> CHR ''-''" if "0 \<le> m" for m
    using scan_int_format [OF that] hd_format_uint [OF that] by simp
  show ?thesis
    using * [of n] * [of "- n"]
    by (simp add: valid_number_def scan_number_def int_str_def scan_frac_def scan_exp_def Let_def)
qed

lemma message_writable:
  assumes "writable inst" and "depth inst < max_depth" and "valid_utf8 i" and "valid_utf8 operation"
  shows "writable (a1_to_handler operation (path_id n) (JString i) inst) \<and>
    depth (a1_to_handler operation (path_id n) (JString i) inst) \<le> max_depth"
  using assms valid_number_int_str by (simp add: a1_to_handler_def valid_utf8_ascii)


text \<open>A payload with a quote, a line break, a DEL, an e with an accent and a smiley.\<close>

definition py_sample_text :: json where
  "py_sample_text = JObject [(''b'', JString [CHR 0x22, CHR 0x0A, CHR 0x7F, CHR 0xC3, CHR 0xA9, CHR 0xF0, CHR 0x9F, CHR 0x98, CHR 0x80]),
     (''a'', JArray [JNumber ''-1.5e3'', JNull])]"


end
