(* ===== verification/Receiver.thy ===== *)
theory Receiver
  imports Machines JsonRoundtrip
begin

text \<open>
  The xApp the integration tests run against the mediator:
  \<open>integration_tests/testxappcode/receiver.go\<close>. It takes the policy requests the mediator
  sends over RMR, answers each, and may ask for the policies of a type over and over. First the
  functions between two points where a goroutine can wait; then the program as a machine, whose
  events are what the xApp framework and RMR do to it.
\<close>

section \<open>Data\<close>

text \<open>
  The variables of the package; the message of the framework, of which the xApp uses the type,
  the payload and the buffer; the receiver, whose channel has no buffer and is the meeting of
  \<open>Consume\<close> and \<open>messageLoop\<close> in the machine below.
\<close>

record globals =
  delay :: int64
  handlerID :: string
  doQuery :: bool

record RMRParams =
  Mtype :: int
  Payload :: string
  Mbuf :: "nat option"

record a1Receiver =
  appReady :: bool
  rmrReady :: bool

record policyRequest =
  reqOperation :: string
  reqPolicyTypeID :: int64
  reqPolicyInstanceID :: string
  reqPay :: json

record policyRequestResponse =
  resPolicyTypeID :: int64
  resPolicyInstanceID :: string
  resHandlerID :: string
  resStatus :: string

record policyQuery =
  queryPolicyTypeID :: int64

section \<open>JSON\<close>

text \<open>
  \<open>json.Unmarshal\<close> into a \<open>policyRequest\<close>: \<open>null\<close> leaves a field as it is, a value of the wrong type
  too, and saves an error.
\<close>

definition zero_policyRequest :: policyRequest where
  "zero_policyRequest = \<lparr>reqOperation = [], reqPolicyTypeID = 0, reqPolicyInstanceID = [], reqPay = JNull\<rparr>"

fun put_string :: "json \<Rightarrow> string \<Rightarrow> string \<times> bool" where
  "put_string JNull old = (old, False)"
| "put_string (JString s) old = (s, False)"
| "put_string v old = (old, True)"

fun put_int :: "json \<Rightarrow> int64 \<Rightarrow> int64 \<times> bool" where
  "put_int JNull old = (old, False)"
| "put_int (JNumber lit) old = (case ParseInt lit of (n, None) \<Rightarrow> (n, False) | (n, Some e) \<Rightarrow> (old, True))"
| "put_int v old = (old, True)"

definition put_member :: "string \<times> json \<Rightarrow> policyRequest \<times> bool \<Rightarrow> policyRequest \<times> bool" where
  "put_member kv st =
     (let k = fold_key (fst kv); v = snd kv; (r, saved) = st in
      if k = ''operation'' then
        (let (s, e) = put_string v (reqOperation r) in (r\<lparr>reqOperation := s\<rparr>, saved \<or> e))
      else if k = ''policy_type_id'' then
        (let (n, e) = put_int v (reqPolicyTypeID r) in (r\<lparr>reqPolicyTypeID := n\<rparr>, saved \<or> e))
      else if k = ''policy_instance_id'' then
        (let (s, e) = put_string v (reqPolicyInstanceID r) in (r\<lparr>reqPolicyInstanceID := s\<rparr>, saved \<or> e))
      else if k = ''payload'' then (r\<lparr>reqPay := iface_of v\<rparr>, saved \<or> has_overflow v)
      else (r, saved))"

text \<open>The boolean says that \<open>Unmarshal\<close> returns an error.\<close>

definition Unmarshal_request :: "string \<Rightarrow> policyRequest \<times> bool" where
  "Unmarshal_request text =
     (case parse_json text of
        None \<Rightarrow> (zero_policyRequest, True)
      | Some JNull \<Rightarrow> (zero_policyRequest, False)
      | Some (JObject kvs) \<Rightarrow> fold put_member kvs (zero_policyRequest, False)
      | Some v \<Rightarrow> (zero_policyRequest, True))"

text \<open>\<open>json.Marshal\<close> of the two structs the xApp sends; numbers and strings never fail.\<close>

definition response_members :: "policyRequestResponse \<Rightarrow> (string \<times> json) list" where
  "response_members r =
     [(''policy_type_id'', JNumber (FormatInt (resPolicyTypeID r))),
      (''policy_instance_id'', JString (resPolicyInstanceID r)),
      (''handler_id'', JString (resHandlerID r)),
      (''status'', JString (resStatus r))]"

definition query_members :: "policyQuery \<Rightarrow> (string \<times> json) list" where
  "query_members q = [(''policy_type_id'', JNumber (FormatInt (queryPolicyTypeID q)))]"

section \<open>Handling a message\<close>

text \<open>
  \<open>handlePolicyReq\<close> up to the answer it is going to send. The panic carries the error of the
  JSON package, whose text is left out.
\<close>

definition status_of :: "string \<Rightarrow> string" where
  "status_of operation =
     (if operation = ''CREATE'' then ''OK''
      else if operation = ''DELETE'' then ''DELETED''
      else [])"

definition unmarshal_error :: string where
  "unmarshal_error = ''json''"

definition handlePolicyReq :: "RMRParams \<Rightarrow> RMRParams outcome" where
  "handlePolicyReq msg =
     (case Unmarshal_request (Payload msg) of
        (dat, True) \<Rightarrow> Panic unmarshal_error
      | (dat, False) \<Rightarrow>
          (let status = status_of (reqOperation dat);
               res = \<lparr>resPolicyTypeID = reqPolicyTypeID dat, resPolicyInstanceID = reqPolicyInstanceID dat,
                      resHandlerID = ''test_receiver'', resStatus = status\<rparr>
           in Return \<lparr>Mtype = 20011, Payload = encode_struct (response_members res), Mbuf = None\<rparr>))"

text \<open>The message \<open>sendQuery\<close> sends again and again.\<close>

definition sendQuery_params :: RMRParams where
  "sendQuery_params =
     (let res = \<lparr>queryPolicyTypeID = 1006001\<rparr>
      in \<lparr>Mtype = 20012, Payload = encode_struct (query_members res), Mbuf = None\<rparr>)"

text \<open>
  One round of the loop of \<open>sendMsgRetry\<close>: \<open>ok\<close> is what \<open>SendMsg\<close> returns. \<open>None\<close> ends the loop;
  otherwise the number of retries so far.
\<close>

definition sendMsgRetry_round :: "a1Receiver \<Rightarrow> bool \<Rightarrow> nat \<Rightarrow> nat option" where
  "sendMsgRetry_round e ok retries =
     (if rmrReady e then (if ok then None else Some (retries + 1)) else Some retries)"

section \<open>Starting\<close>

definition newA1Receiver :: "bool \<Rightarrow> bool \<Rightarrow> a1Receiver" where
  "newA1Receiver ready rmr = \<lparr>appReady = ready, rmrReady = rmr\<rparr>"

text \<open>
  \<open>main\<close> sets the globals from the environment; the error of \<open>Atoi\<close> is dropped.
\<close>

definition main_globals :: "(string \<Rightarrow> string option) \<Rightarrow> globals" where
  "main_globals LookupEnv =
     \<lparr>delay = (case LookupEnv ''TEST_RCV_SEC_DELAY'' of Some d \<Rightarrow> fst (ParseInt d) | None \<Rightarrow> 0),
      handlerID = (case LookupEnv ''HANDLER_ID'' of Some hid \<Rightarrow> hid | None \<Rightarrow> ''test_receiver''),
      doQuery = (case LookupEnv ''DO_QUERY'' of Some _ \<Rightarrow> True | None \<Rightarrow> False)\<rparr>"

section \<open>The program as a machine\<close>

text \<open>
  Where the goroutine of \<open>messageLoop\<close> is: waiting on the channel, sleeping before it answers,
  in the loop of \<open>sendMsgRetry\<close>, or panicked, which ends the process. Where that of \<open>sendQuery\<close> is:
  in \<open>sendMsgRetry\<close> or in its pause.
\<close>

datatype loop_state = Waiting | Delaying RMRParams | Sending RMRParams nat | Crashed string

datatype query_state = QuerySending nat | QueryPausing

text \<open>
  \<open>deferred\<close> is the stack of buffers whose \<open>Free\<close> is deferred, \<open>freed\<close> those freed, \<open>outbox\<close> the messages
  sent; \<open>received\<close> the messages taken from the channel.
\<close>

record xapp_state =
  receiver :: a1Receiver
  msg_loop :: loop_state
  query_loop :: "query_state option"
  deferred :: "nat option list"
  freed :: "nat option list"
  outbox :: "RMRParams list"
  received :: "RMRParams list"

text \<open>
  Events: RMR gets ready and calls the callback; the framework hands a message to \<open>Consume\<close>; a
  sleep ends; a round of \<open>sendMsgRetry\<close> of either goroutine, with the result of \<open>SendMsg\<close>.
\<close>

datatype xapp_event =
    RmrReady
  | Consume RMRParams
  | DelayOver
  | Round bool
  | QueryRound bool
  | QueryPauseOver

definition Run_state :: "globals \<Rightarrow> a1Receiver \<Rightarrow> xapp_state" where
  "Run_state g e =
     \<lparr>receiver = e, msg_loop = Waiting, query_loop = (if doQuery g then Some (QuerySending 0) else None),
      deferred = [], freed = [], outbox = [], received = []\<rparr>"

definition xapp_main :: "(string \<Rightarrow> string option) \<Rightarrow> xapp_state" where
  "xapp_main LookupEnv = Run_state (main_globals LookupEnv) (newA1Receiver True False)"

text \<open>A panic of the loop runs the deferred calls, the last one first.\<close>

definition loop_panic :: "string \<Rightarrow> xapp_state \<Rightarrow> xapp_state" where
  "loop_panic m s = s\<lparr>msg_loop := Crashed m, freed := freed s @ deferred s, deferred := []\<rparr>"

text \<open>One round of \<open>messageLoop\<close>, up to the point where it sleeps or sends.\<close>

definition messageLoop_take :: "globals \<Rightarrow> RMRParams \<Rightarrow> xapp_state \<Rightarrow> xapp_state" where
  "messageLoop_take g msg s =
     (let s1 = s\<lparr>received := received s @ [msg], deferred := Mbuf msg # deferred s\<rparr> in
      if Mtype msg = 20010 then
        (case handlePolicyReq msg of
           Panic m \<Rightarrow> loop_panic m s1
         | Return params \<Rightarrow> s1\<lparr>msg_loop := (if 0 < sint (delay g) then Delaying params else Sending params 0)\<rparr>)
      else loop_panic ''Unexpected message type!'' s1)"

fun xapp_move :: "globals \<Rightarrow> xapp_event \<Rightarrow> xapp_state \<Rightarrow> xapp_state option" where
  "xapp_move g ev s =
     (case msg_loop s of
        Crashed m \<Rightarrow> None
      | l \<Rightarrow>
        (case ev of
           RmrReady \<Rightarrow> Some (s\<lparr>receiver := (receiver s)\<lparr>rmrReady := True\<rparr>\<rparr>)
         | Consume msg \<Rightarrow> (case l of Waiting \<Rightarrow> Some (messageLoop_take g msg s) | _ \<Rightarrow> None)
         | DelayOver \<Rightarrow> (case l of Delaying params \<Rightarrow> Some (s\<lparr>msg_loop := Sending params 0\<rparr>) | _ \<Rightarrow> None)
         | Round ok \<Rightarrow>
             (case l of
                Sending params n \<Rightarrow>
                  (case sendMsgRetry_round (receiver s) ok n of
                     Some n' \<Rightarrow> Some (s\<lparr>msg_loop := Sending params n'\<rparr>)
                   | None \<Rightarrow> Some (s\<lparr>msg_loop := Waiting, outbox := outbox s @ [params]\<rparr>))
              | _ \<Rightarrow> None)
         | QueryRound ok \<Rightarrow>
             (case query_loop s of
                Some (QuerySending n) \<Rightarrow>
                  (case sendMsgRetry_round (receiver s) ok n of
                     Some n' \<Rightarrow> Some (s\<lparr>query_loop := Some (QuerySending n')\<rparr>)
                   | None \<Rightarrow> Some (s\<lparr>query_loop := Some QueryPausing, outbox := outbox s @ [sendQuery_params]\<rparr>))
              | _ \<Rightarrow> None)
         | QueryPauseOver \<Rightarrow>
             (case query_loop s of
                Some QueryPausing \<Rightarrow> Some (s\<lparr>query_loop := Some (QuerySending 0)\<rparr>)
              | _ \<Rightarrow> None)))"

declare xapp_move.simps [simp del]

section \<open>Answers\<close>

lemma fold_key_request [simp]:
  "fold_key ''operation'' = ''operation''" "fold_key ''policy_instance_id'' = ''policy_instance_id''"
  "fold_key ''payload'' = ''payload''"
  by code_simp+

text \<open>The members of a request, in any order and with others among them, set the fields.\<close>

definition answer_of :: "string \<Rightarrow> int64 \<Rightarrow> string \<Rightarrow> policyRequestResponse" where
  "answer_of operation i iid =
     \<lparr>resPolicyTypeID = i, resPolicyInstanceID = iid, resHandlerID = ''test_receiver'',
      resStatus = status_of operation\<rparr>"

definition a1_request :: "string \<Rightarrow> int64 \<Rightarrow> string \<Rightarrow> json \<Rightarrow> json" where
  "a1_request operation i iid pay =
     JObject [(''operation'', JString operation), (''policy_type_id'', JNumber (FormatInt i)),
       (''policy_instance_id'', JString iid), (''payload'', pay)]"

lemma Unmarshal_a1_request:
  assumes "parse_json text = Some (a1_request operation i iid pay)" and "\<not> has_overflow pay"
  shows "Unmarshal_request text =
    (\<lparr>reqOperation = operation, reqPolicyTypeID = i, reqPolicyInstanceID = iid, reqPay = iface_of pay\<rparr>, False)"
  using assms by (simp add: Unmarshal_request_def a1_request_def put_member_def zero_policyRequest_def Let_def)

lemma response_members_parse:
  assumes "valid_utf8 (resPolicyInstanceID r)" and "valid_utf8 (resHandlerID r)" and "valid_utf8 (resStatus r)"
  shows "parse_json (encode_struct (response_members r)) = Some (JObject (response_members r))"
  using assms
  by (intro parse_json_struct)
     (auto simp: response_members_def valid_utf8_ascii valid_number_FormatInt max_depth_def)

lemma handlePolicyReq_kind: "handlePolicyReq msg = Return p \<Longrightarrow> Mtype p = 20011"
  by (auto simp: handlePolicyReq_def Let_def split: prod.splits bool.splits)

lemma handlePolicyReq_answer:
  assumes "Unmarshal_request (Payload msg) = (dat, False)"
  shows "handlePolicyReq msg = Return \<lparr>Mtype = 20011, Payload = encode_struct (response_members
    (answer_of (reqOperation dat) (reqPolicyTypeID dat) (reqPolicyInstanceID dat))), Mbuf = None\<rparr>"
  using assms by (simp add: handlePolicyReq_def answer_of_def)

lemma status_of_utf8 [simp]: "valid_utf8 (status_of operation)"
  by (simp add: status_of_def valid_utf8_ascii)

section \<open>What every run keeps\<close>

text \<open>
  The answers the messages taken so far ask for, and the one that is not sent yet. As long as the
  process lives, every buffer taken is still waiting to be freed.
\<close>

definition answer_to :: "RMRParams \<Rightarrow> RMRParams option" where
  "answer_to msg =
     (if Mtype msg = 20010 then (case handlePolicyReq msg of Return p \<Rightarrow> Some p | Panic m \<Rightarrow> None) else None)"

fun unsent :: "loop_state \<Rightarrow> RMRParams list" where
  "unsent (Delaying p) = [p]"
| "unsent (Sending p n) = [p]"
| "unsent l = []"

fun alive :: "loop_state \<Rightarrow> bool" where
  "alive (Crashed m) = False"
| "alive l = True"

definition policy_answers :: "RMRParams list \<Rightarrow> RMRParams list" where
  "policy_answers = filter (\<lambda>p. Mtype p = 20011)"

definition xapp_inv :: "xapp_state \<Rightarrow> bool" where
  "xapp_inv s \<longleftrightarrow>
     policy_answers (outbox s) @ unsent (msg_loop s) = List.map_filter answer_to (received s) \<and>
     (\<forall>p \<in> set (unsent (msg_loop s)). Mtype p = 20011) \<and>
     (if alive (msg_loop s) then freed s = [] \<and> deferred s = rev (map Mbuf (received s))
      else deferred s = [] \<and> freed s = rev (map Mbuf (received s)))"

lemma map_filter_snoc:
  "List.map_filter f (xs @ [x]) = List.map_filter f xs @ (case f x of None \<Rightarrow> [] | Some y \<Rightarrow> [y])"
  by (simp add: List.map_filter_def split: option.split)

lemma policy_answers_simps [simp]:
  "policy_answers (xs @ [p]) = policy_answers xs @ (if Mtype p = 20011 then [p] else [])"
  "policy_answers [] = []"
  by (simp_all add: policy_answers_def)

lemma sendQuery_kind [simp]: "Mtype sendQuery_params = 20012"
  by (simp add: sendQuery_params_def)

lemma take_keeps:
  assumes "xapp_inv s" and "msg_loop s = Waiting"
  shows "xapp_inv (messageLoop_take g msg s)"
  using assms handlePolicyReq_kind
  by (auto simp: xapp_inv_def messageLoop_take_def loop_panic_def answer_to_def map_filter_snoc Let_def
      split: outcome.split)

lemma move_keeps:
  assumes inv: "xapp_inv s" and move: "xapp_move g ev s = Some t"
  shows "xapp_inv t"
proof (cases ev)
  case (Consume msg)
  with move take_keeps [OF inv] show ?thesis
    by (auto simp: xapp_move.simps split: loop_state.splits)
next
  case (Round ok)
  with move inv show ?thesis
    by (auto simp: xapp_move.simps xapp_inv_def split: loop_state.splits option.splits)
next
  case (QueryRound ok)
  with move inv show ?thesis
    by (auto simp: xapp_move.simps xapp_inv_def split: loop_state.splits option.splits query_state.splits)
qed (use assms in \<open>auto simp: xapp_move.simps xapp_inv_def split: loop_state.splits option.splits query_state.splits\<close>)

interpretation xapp: machine_invariant "xapp_move g" xapp_inv for g
  by unfold_locales (rule move_keeps)

lemma start_inv: "xapp_inv (xapp_main env)"
  by (simp add: xapp_inv_def xapp_main_def Run_state_def List.map_filter_def)

section \<open>Properties\<close>

text \<open>
  C30. A policy request is answered by one policy response with the identifiers of the request:
  \<open>OK\<close> to a \<open>CREATE\<close>, \<open>DELETED\<close> to a \<open>DELETE\<close>, and an empty status to everything else, an \<open>UPDATE\<close>
  included. Whatever \<open>HANDLER_ID\<close> says, the handler of the response is \<open>test_receiver\<close>.
\<close>

theorem policy_request_is_answered:
  assumes "parse_json (Payload msg) = Some (a1_request operation i iid pay)"
    and "\<not> has_overflow pay" and "valid_utf8 iid"
  shows "\<exists>p. handlePolicyReq msg = Return p \<and> Mtype p = 20011 \<and>
    parse_json (Payload p) = Some (JObject
      [(''policy_type_id'', JNumber (FormatInt i)), (''policy_instance_id'', JString iid),
       (''handler_id'', JString ''test_receiver''),
       (''status'', JString (if operation = ''CREATE'' then ''OK''
                             else if operation = ''DELETE'' then ''DELETED'' else []))])"
proof -
  let ?r = "answer_of operation i iid"
  have "parse_json (encode_struct (response_members ?r)) = Some (JObject (response_members ?r))"
    by (rule response_members_parse) (simp_all add: answer_of_def assms valid_utf8_ascii)
  with handlePolicyReq_answer [OF Unmarshal_a1_request [OF assms(1,2)]] show ?thesis
    by (simp add: response_members_def answer_of_def status_of_def)
qed

definition xapp_sample_request :: "string \<Rightarrow> RMRParams" where
  "xapp_sample_request operation =
     \<lparr>Mtype = 20010, Payload = encode_struct [(''operation'', JString operation), (''policy_type_id'', JNumber ''20000''),
        (''policy_instance_id'', JString ''ac1''), (''payload'', JObject [])], Mbuf = Some 1\<rparr>"

lemma xapp_sample_request_parses:
  "parse_json (Payload (xapp_sample_request ''CREATE'')) = Some (a1_request ''CREATE'' 20000 ''ac1'' (JObject []))"
  by code_simp

theorem policy_request_is_answered_witness:
  "\<exists>p. handlePolicyReq (xapp_sample_request ''CREATE'') = Return p \<and> Mtype p = 20011"
  using policy_request_is_answered [OF xapp_sample_request_parses] by (auto simp: valid_utf8_ascii)

text \<open>
  C31. However the events come, the xApp sends the answers to the requests it has taken in the
  order in which it took them, each once, and at most the last one is still to be sent.
\<close>

theorem xapp_answers_in_order:
  assumes "steps (xapp_move g) (xapp_main env) es s"
  shows "policy_answers (outbox s) @ unsent (msg_loop s) = List.map_filter answer_to (received s) \<and>
    length (unsent (msg_loop s)) \<le> 1"
  using xapp.invariant [OF assms start_inv] by (cases "msg_loop s") (simp_all add: xapp_inv_def)

text \<open>A run that takes a request, is not ready, gets ready, fails once and sends.\<close>

definition xapp_sample_events :: "xapp_event list" where
  "xapp_sample_events = [Consume (xapp_sample_request ''CREATE''), Round True, RmrReady, Round False, Round True]"

definition no_env :: "string \<Rightarrow> string option" where
  "no_env = (\<lambda>name. None)"

definition xapp_sample_end :: xapp_state where
  "xapp_sample_end = the (run (xapp_move (main_globals no_env)) xapp_sample_events (xapp_main no_env))"

lemma xapp_sample_steps: "steps (xapp_move (main_globals no_env)) (xapp_main no_env) xapp_sample_events xapp_sample_end"
proof -
  have "run (xapp_move (main_globals no_env)) xapp_sample_events (xapp_main no_env) \<noteq> None" by code_simp
  then show ?thesis by (auto simp: steps_run xapp_sample_end_def)
qed

theorem xapp_answers_in_order_witness:
  "policy_answers (outbox xapp_sample_end) = List.map_filter answer_to (received xapp_sample_end) \<and> length (outbox xapp_sample_end) = 1"
proof -
  have "unsent (msg_loop xapp_sample_end) = []" "length (outbox xapp_sample_end) = 1" by code_simp+
  with xapp_answers_in_order [OF xapp_sample_steps] show ?thesis by simp
qed

text \<open>
  C32. The buffer of a message is never freed while the xApp runs: the call of \<open>Free\<close> is deferred to
  the end of \<open>messageLoop\<close>, which never returns. Only a panic, which ends the process, frees them.
\<close>

theorem buffers_are_never_freed:
  assumes "steps (xapp_move g) (xapp_main env) es s"
  shows "(if alive (msg_loop s) then freed s = [] \<and> length (deferred s) = length (received s)
          else freed s = rev (map Mbuf (received s)))"
  using xapp.invariant [OF assms start_inv] by (auto simp: xapp_inv_def)

theorem buffers_are_never_freed_witness:
  "freed xapp_sample_end = [] \<and> length (deferred xapp_sample_end) = 1"
proof -
  have "alive (msg_loop xapp_sample_end)" "length (received xapp_sample_end) = 1" by code_simp+
  with buffers_are_never_freed [OF xapp_sample_steps] show ?thesis by simp
qed

end
