(* ===== verification/PyMessages.thy ===== *)
theory PyMessages
  imports PyProperties PyJson Receiver
begin

text \<open>
  The messages of the Python mediator: what the responses and the queries of the xApps do to it, and
  how it works together with the xApp of the integration tests.
\<close>

section \<open>The texts of the xApp are UTF-8\<close>

lemma valid_utf8_append: "valid_utf8 a \<Longrightarrow> valid_utf8 b \<Longrightarrow> valid_utf8 (a @ b)"
proof (induction a rule: valid_utf8.induct)
  case (1 a)
  show ?case
  proof (cases "a = []")
    case False
    with 1(2) obtain n where n: "utf8_len a = Some n" and rest: "valid_utf8 (drop (max 1 n) a)"
      by (auto simp: valid_utf8.simps [of a] split: option.splits)
    have le: "1 \<le> n" "n \<le> length a" using utf8_len_le [OF n] by auto
    have len: "utf8_len (a @ b) = Some n"
      using utf8_len_append [OF n, of "drop n a @ b"] by (simp add: append_assoc [symmetric] del: append_assoc)
    have "valid_utf8 (drop n a @ b)"
      using 1(1) [OF False n rest 1(3)] le by (simp add: max_def)
    then show ?thesis
      using False len le by (simp add: valid_utf8.simps [of "a @ b"] max_def)
  qed (use 1(3) in simp)
qed

lemma valid_utf8_byte [simp]: "byte c < 128 \<Longrightarrow> valid_utf8 (c # s) = valid_utf8 s"
  by (rule valid_utf8_ascii)

lemma escape_ascii_utf8:
  assumes "byte c < 128"
  shows "valid_utf8 (escape_ascii c @ s) = valid_utf8 s"
proof -
  have "0 \<le> byte c div 16" "byte c div 16 < 16" "0 \<le> byte c mod 16" "byte c mod 16 < 16"
    using assms byte_bounds [of c] by auto
  then have "byte (hex_digit (byte c div 16)) < 128" "byte (hex_digit (byte c mod 16)) < 128"
    by (simp_all add: digits_ascii)
  with assms show ?thesis by (simp add: escape_ascii_def)
qed

lemma escape_body_utf8: "valid_utf8 s \<Longrightarrow> valid_utf8 (escape_body s)"
proof (induction s rule: escape_body.induct)
  case (1 s)
  consider (nil) "s = []" | (ascii) c t where "s = c # t" "byte c < 128"
    | (multi) n where "s \<noteq> []" "\<not> byte (hd s) < 128" "utf8_len s = Some n" "valid_utf8 (drop n s)" "max 1 n = n"
    using "1.prems" that utf8_len_le [of s]
    by (cases s; cases "byte (hd s) < 128")
       (auto simp: valid_utf8.simps [of "_ # _"] max_def split: option.splits if_splits)
  then show ?case
  proof cases
    case nil
    then show ?thesis by (simp add: escape_body.simps)
  next
    case (ascii c t)
    with 1 show ?thesis by (simp add: escape_body.simps [of "c # t"] escape_ascii_utf8)
  next
    case (multi n)
    have rest: "valid_utf8 (escape_body (drop n s))" using 1(3) multi by simp
    have "0 \<le> byte (s ! 2) mod 16" "byte (s ! 2) mod 16 < 16" by simp_all
    then have sep: "valid_utf8 ((CHR 0x5C # ''u202'' @ [hex_digit (byte (s ! 2) mod 16)]) @ escape_body (drop n s))"
      using rest digits_ascii by simp
    have "n \<le> length s" using utf8_len_le [OF multi(3)] by simp
    then have "utf8_len (take n s) = Some n" "take n s \<noteq> []"
      using utf8_len_append [OF multi(3), of "[]"] utf8_len_le [OF multi(3)] multi(1) by auto
    then have "valid_utf8 (take n s)" by (simp add: valid_utf8.simps [of "take n s"] max_def)
    from valid_utf8_append [OF this rest] sep multi show ?thesis
      by (simp add: escape_body.simps [of s])
  qed
qed

lemma encode_string_utf8: "valid_utf8 s \<Longrightarrow> valid_utf8 (encode_string s)"
  using valid_utf8_append [OF escape_body_utf8, of s "[CHR 0x22]"] by (simp add: encode_string_def)

lemma FormatInt_ascii: "c \<in> set (FormatInt i) \<Longrightarrow> byte c < 128"
proof -
  assume "c \<in> set (FormatInt i)"
  then have "c = CHR ''-'' \<or> is_digit c" using FormatInt_chars [of c i] by (auto simp: is_digit_def)
  then show ?thesis by (auto simp: is_digit_iff)
qed

lemma response_text_utf8:
  assumes "valid_utf8 (resPolicyInstanceID r)" and "valid_utf8 (resHandlerID r)" and "valid_utf8 (resStatus r)"
  shows "valid_utf8 (encode_struct (response_members r))"
proof -
  have num: "valid_utf8 (FormatInt i)" for i
    by (rule ascii_utf8) (simp add: FormatInt_ascii)
  have key: "valid_utf8 (encode_string k)" if "\<forall>c \<in> set k. byte c < 128" for k
    by (rule encode_string_utf8, rule ascii_utf8 [OF that])
  show ?thesis
    using assms num
    by (simp add: encode_struct_def response_members_def encode_member_def valid_utf8_append key encode_string_utf8)
qed

section \<open>Responses\<close>

context py_laws
begin

lemma utf8_response_rule:
  assumes "valid_utf8 payload"
  shows "holds view c (handle_policy_response env payload) (\<lambda>_ c'. True) (\<lambda>e c'. \<exists>m. e = SdlError m)"
proof -
  have "e = PyError ''JSONDecodeError''" if "py_loads payload = Inl e" for e
    using that assms by (auto simp: py_loads_def response_json_def split: option.splits)
  then show ?thesis
    unfolding handle_policy_response_def set_policy_instance_status_def
    by (intro py_wp)
       (auto simp: is_type_not_found_def is_instance_not_found_def is_malformed_def dest!: py_item_error_kinds)
qed

text \<open>A response for an instance that is there stores its status.\<close>

lemma good_response_rule:
  assumes "py_loads payload = Inr (JObject [(''policy_type_id'', path_id n), (''policy_instance_id'', JString i),
      (''handler_id'', JString h), (''status'', st)])" and "instance_there c (int_str n) i"
  shows "holds view c (handle_policy_response env payload)
      (\<lambda>_ c'. c' = c(hprefix (int_str n) i @ h \<mapsto> st)) (\<lambda>e c'. True)"
proof -
  have "type_there c (int_str n)" using assms(2) by (simp add: instance_there_def)
  with assms show ?thesis
    unfolding handle_policy_response_def set_policy_instance_status_def
    by (intro py_wp) (auto simp: is_type_not_found_def is_instance_not_found_def is_malformed_def)
qed

end



section \<open>The mediator and the xApp\<close>

lemma FormatInt_of_int:
  assumes "- (2 ^ 63) \<le> n" and "n < 2 ^ 63"
  shows "FormatInt (word_of_int n) = int_str n"
proof -
  have "sint (word_of_int n :: int64) = n" using assms by (simp add: sint_sbintrunc' signed_take_bit_int_eq_self)
  then show ?thesis by (simp add: FormatInt_def int_str_def)
qed

definition mediator_request :: "string \<Rightarrow> int \<Rightarrow> string \<Rightarrow> json \<Rightarrow> string" where
  "mediator_request operation n i inst = py_dumps (a1_to_handler operation (path_id n) (JString i) inst)"

text \<open>What the xApp answers to the message of the mediator, as the mediator reads it.\<close>

lemma xapp_reads_request:
  assumes "- (2 ^ 63) \<le> n" and "n < 2 ^ 63" and "writable inst" and "depth inst < max_depth" and "\<not> has_overflow inst"
    and "valid_utf8 i" and "valid_utf8 operation" and "Payload msg = mediator_request operation n i inst"
    and "handlePolicyReq msg = Return p"
  shows "Mtype p = 20011 \<and> py_loads (Payload p) = Inr (JObject [(''policy_type_id'', path_id n), (''policy_instance_id'', JString i),
      (''handler_id'', JString ''test_receiver''), (''status'', JString (status_of operation))])"
proof -
  let ?v = "a1_to_handler operation (path_id n) (JString i) inst"
  note num = FormatInt_of_int [OF assms(1,2)]
  have "writable ?v" "depth ?v \<le> max_depth"
    using message_writable [OF assms(3,4,6,7)] by simp_all
  moreover have "?v = a1_request operation (word_of_int n) i inst"
    by (simp add: a1_to_handler_def a1_request_def num)
  ultimately have "parse_json (Payload msg) = Some (a1_request operation (word_of_int n) i inst)"
    using parse_json_dumps [of ?v] assms(8) by (simp add: mediator_request_def)
  note req = Unmarshal_a1_request [OF this assms(5)]
  let ?r = "answer_of operation (word_of_int n) i"
  have p: "Mtype p = 20011" "Payload p = encode_struct (response_members ?r)"
    using handlePolicyReq_answer [OF req] assms(9) by auto
  have utf8: "valid_utf8 (resPolicyInstanceID ?r)" "valid_utf8 (resHandlerID ?r)" "valid_utf8 (resStatus ?r)"
    by (simp_all add: answer_of_def assms(6) valid_utf8_ascii)
  have "py_loads (Payload p) = Inr (JObject (response_members ?r))"
    using response_members_parse [OF utf8] response_text_utf8 [OF utf8] p(2)
    by (simp add: py_loads_def response_json_def)
  with p(1) show ?thesis by (simp add: response_members_def answer_of_def num)
qed

text \<open>
  C6. The mediator and the xApp together. An instance that is not \<open>null\<close> is put and accepted; the xApp
  gets the message for it, which it understands, and answers; the mediator handles the answer without
  a failure of the storage. Then a new instance is \<open>IN EFFECT\<close>; an instance that replaces another is
  \<open>NOT IN EFFECT\<close>, since this xApp answers an \<open>UPDATE\<close> with an empty status.
\<close>

theorem xapp_acknowledges_instance:
  assumes "py_laws env view" and "- (2 ^ 63) \<le> n" and "n < 2 ^ 63"
    and "writable inst" and "depth inst < max_depth" and "\<not> has_overflow inst" and "inst \<noteq> JNull" and "valid_utf8 i"
    and "http_create_or_replace_policy_instance env n i inst s = (Inr (EmptyBody, 202), s1)"
    and "operation = (if read_key (view (world s)) (ikey (int_str n) i) = JNull then ''CREATE'' else ''UPDATE'')"
    and "Payload msg = mediator_request operation n i inst"
    and "handlePolicyReq msg = Return p"
    and "handle_message env (Mtype p, Payload p) (world s1) = (Inr (), w)"
    and "http_get_policy_instance_status env n i (s1\<lparr>world := w\<rparr>) = (Inr (JsonBody v, 200), s2)"
  shows "\<exists>created. v = JObject
     [(''created_at'', created), (''has_been_deleted'', JBool False),
      (''instance_status'', JString (if operation = ''CREATE'' then ''IN EFFECT'' else ''NOT IN EFFECT''))]"
proof -
  let ?t = "int_str n"
  obtain now where type: "type_there (view (world s)) ?t"
    and c1: "view (world s1) = stored_instance (view (world s)) ?t i inst now"
    using holds_returns [OF py_laws.http_put_instance_rule [OF assms(1)] refl assms(9)] by (auto simp: contents_def)
  have there: "instance_there (view (world s1)) ?t i"
    using type assms(7) by (simp add: c1 stored_instance_def instance_there_def type_there_def read_key_def)
  have utf8: "valid_utf8 operation" using assms(10) by (simp add: valid_utf8_ascii)
  note reads = xapp_reads_request [OF assms(2-6,8) utf8 assms(11,12)]
  have "handle_policy_response env (Payload p) (world s1) = (Inr (), w)"
    using assms(13) reads by (simp add: handle_message_def A1_POLICY_RESPONSE_def)
  from holds_returns [OF py_laws.good_response_rule [OF assms(1) conjunct2 [OF reads] there] refl this]
  have w: "view w = (view (world s1))(hprefix ?t i @ ''test_receiver'' \<mapsto> JString (status_of operation))" .
  have meta: "read_key (view w) (mkey ?t i) = initial_metadata now"
    by (simp add: w c1 stored_instance_def read_key_def)
  have "JString ''OK'' \<in> reported (view w) ?t i \<longleftrightarrow> operation = ''CREATE''"
  proof (cases "operation = ''CREATE''")
    case True
    then show ?thesis by (auto simp: reported_def w status_of_def)
  next
    case False
    with assms(10) have update: "operation = ''UPDATE''" "read_key (view (world s)) (ikey ?t i) \<noteq> JNull"
      by (auto split: if_splits)
    then have "view (world s1) (hprefix ?t i @ h) = None" for h
      by (simp add: c1 stored_instance_def without_statuses_def)
    with update show ?thesis by (auto simp: reported_def w status_of_def)
  qed
  with holds_returns [OF py_laws.http_status_rule [OF assms(1)] refl assms(14)] meta
  show ?thesis
    by (auto simp: contents_def unavailable_def refused_def effect_of_def initial_metadata_def split: if_splits)
qed

text \<open>A new instance: its message, the answer, and what the mediator then has.\<close>

definition py_sample_inst :: json where
  "py_sample_inst = JObject [(''threshold'', JNumber ''5'')]"

definition py_sample_message :: RMRParams where
  "py_sample_message = \<lparr>Mtype = 20010, Payload = mediator_request ''CREATE'' 20000 ''ac1'' py_sample_inst, Mbuf = Some 1\<rparr>"

definition py_sample_answer :: RMRParams where
  "py_sample_answer = (case handlePolicyReq py_sample_message of Return p \<Rightarrow> p | Panic m \<Rightarrow> py_sample_message)"

definition py_acknowledged :: "py_world a1_system" where
  "py_acknowledged =
     (let s1 = py_after [py_sample_put ''ac1''] in
      s1\<lparr>world := snd (handle_message py_mem (Mtype py_sample_answer, Payload py_sample_answer) (world s1))\<rparr>)"

theorem xapp_acknowledges_instance_witness:
  "\<exists>created s2. http_get_policy_instance_status py_mem 20000 ''ac1'' py_acknowledged =
     (Inr (JsonBody (JObject [(''created_at'', created), (''has_been_deleted'', JBool False),
        (''instance_status'', JString ''IN EFFECT'')]), 200), s2)"
proof -
  let ?s1 = "py_after [py_sample_put ''ac1'']"
  have put: "http_create_or_replace_policy_instance py_mem 20000 ''ac1'' py_sample_inst py_sample_system = (Inr (EmptyBody, 202), ?s1)"
    by code_simp
  have inst: "writable py_sample_inst" "depth py_sample_inst < max_depth" "\<not> has_overflow py_sample_inst" "py_sample_inst \<noteq> JNull"
    by code_simp+
  have op: "''CREATE'' = (if read_key (mem_contents (world py_sample_system)) (ikey (int_str 20000) ''ac1'') = JNull
      then ''CREATE'' else ''UPDATE'')"
    by code_simp
  have msg: "Payload py_sample_message = mediator_request ''CREATE'' 20000 ''ac1'' py_sample_inst"
    by (simp add: py_sample_message_def)
  have "(case handlePolicyReq py_sample_message of Return p \<Rightarrow> True | Panic m \<Rightarrow> False)" by code_simp
  then have answer: "handlePolicyReq py_sample_message = Return py_sample_answer"
    by (simp add: py_sample_answer_def split: outcome.splits)
  have "fst (handle_message py_mem (Mtype py_sample_answer, Payload py_sample_answer) (world ?s1)) = Inr ()"
    by code_simp
  then obtain w where handled: "handle_message py_mem (Mtype py_sample_answer, Payload py_sample_answer) (world ?s1) = (Inr (), w)"
    by (cases "handle_message py_mem (Mtype py_sample_answer, Payload py_sample_answer) (world ?s1)") simp
  then have after: "py_acknowledged = ?s1\<lparr>world := w\<rparr>" by (simp add: py_acknowledged_def Let_def)
  have "json_answer (fst (http_get_policy_instance_status py_mem 20000 ''ac1'' py_acknowledged)) \<noteq> None"
    by code_simp
  then obtain v s2 where status: "http_get_policy_instance_status py_mem 20000 ''ac1'' py_acknowledged = (Inr (JsonBody v, 200), s2)"
    by (cases "http_get_policy_instance_status py_mem 20000 ''ac1'' py_acknowledged") (auto simp: json_answer_Some)
  have "valid_utf8 ''ac1''" by (simp add: valid_utf8_ascii)
  from xapp_acknowledges_instance [OF py_mem_laws _ _ inst this put op msg answer handled status [unfolded after]] status
  show ?thesis by auto
qed

section \<open>Queries\<close>

lemma py_bind_lift: "py_bind (py_lift (Inr x)) f = f x"
  by (rule ext) (simp add: py_bind_def py_lift_def)

context py_laws
begin

text \<open>
  A query for a type whose listing shows an identifier that is then not found: the loop over the
  instances raises, and none of the exceptions is caught.
\<close>

lemma fatal_query_rule:
  assumes "py_loads payload = Inr pay" and "py_item pay ''policy_type_id'' = Inr pti" and "py_str env pti = t"
    and "type_there c t" and "j \<in> instances_of c t" and "shown_id t j = i" and "\<not> instance_there c t i"
  shows "holds view c (handle_policy_query env payload) (\<lambda>_ c'. False) (\<lambda>e c'. c' = c)"
proof -
  let ?E = "\<lambda>e c'. c' = c \<and> \<not> (is_type_not_found e \<or> is_malformed e)"
  let ?body = "\<lambda>pii. py_bind (get_policy_instance env pti (JString pii))
      (\<lambda>inst. rts_msg env (py_dumps (a1_to_handler ''CREATE'' pti (JString pii) inst)) A1_POLICY_REQUEST)"
  have each: "holds view c (?body x) (\<lambda>_ c'. c' = c) ?E" for x
    by (intro py_wp) (use assms(3,4) in \<open>auto simp: is_type_not_found_def is_malformed_def\<close>)
  have bad: "holds view c (?body i) (\<lambda>_ c'. False) ?E"
    by (intro py_wp) (use assms(3,4,7) in \<open>auto simp: is_type_not_found_def is_malformed_def\<close>)
  have loop: "holds view c (py_for (map (shown_id t) xs) ?body) (\<lambda>_ c'. False) ?E" if "set xs = instances_of c t" for xs
  proof (rule py_for_raises [where x = i and f = ?body and E = ?E and view = view])
    show "i \<in> set (map (shown_id t) xs)" using that assms(5,6) by auto
    show "holds view c (?body x) (\<lambda>_ c'. c' = c) ?E" for x by (rule each)
    show "holds view c (?body i) (\<lambda>_ c'. False) ?E" by (rule bad)
  qed
  have list: "holds view c (py_bind (get_instance_list env pti) (\<lambda>instance_list. py_for instance_list ?body)) (\<lambda>_ c'. False) ?E"
    by (rule holds_bind, rule get_instance_list_rule)
       (use assms(3,4) loop in \<open>simp_all add: is_type_not_found_def is_malformed_def\<close>)
  then show ?thesis
    unfolding handle_policy_query_def assms(1) py_bind_lift assms(2)
    by (intro holds_except holds_weaken [OF list]) simp_all
qed

end

text \<open>
  C18. The instance identifier of a request can be any text. If an instance is put whose identifier has
  the prefix of the keys of its type in it, the listing of the type shows the part before it, \<open>i\<close>,
  instead. A policy query for the type, which an xApp sends when it starts, then ends the RMR thread:
  \<open>i\<close> is not found, and \<open>PolicyInstanceNotFound\<close> is not among the exceptions caught there.
\<close>

theorem query_with_missing_instance_ends_thread:
  assumes "py_laws env view"
    and "http_create_or_replace_policy_instance env n j inst s = (Inr (EmptyBody, 202), s1)"
    and "shown_id (int_str n) j = i" and "\<not> instance_there (view (world s1)) (int_str n) i"
    and "py_loads payload = Inr pay" and "py_item pay ''policy_type_id'' = Inr (path_id n)"
  shows "\<not> rmr_alive (loop_round env ((A1_POLICY_QUERY, payload) # msgs) s1)"
proof -
  let ?t = "int_str n"
  obtain now where "type_there (view (world s)) ?t"
    and c1: "view (world s1) = stored_instance (view (world s)) ?t j inst now"
    using holds_returns [OF py_laws.http_put_instance_rule [OF assms(1)] refl assms(2)] by (auto simp: contents_def)
  then have type: "type_there (view (world s1)) ?t" and listed: "j \<in> instances_of (view (world s1)) ?t"
    by (simp_all add: stored_instance_def type_there_def read_key_def instances_of_def)
  note query = py_laws.fatal_query_rule [OF assms(1,5,6) py_str_path_id type listed assms(3,4)]
  obtain e w where "handle_policy_query env payload (world s1) = (Inl e, w)"
    using holds_returns [OF query refl] by (cases "handle_policy_query env payload (world s1)"; cases "fst (handle_policy_query env payload (world s1))") auto
  then show "\<not> rmr_alive (loop_round env ((A1_POLICY_QUERY, payload) # msgs) s1)"
    by (simp add: loop_round_def on_world_def py_then_def py_bind_def handle_message_def
        A1_POLICY_QUERY_def A1_POLICY_RESPONSE_def)
qed

definition py_strange_id :: string where
  "py_strange_id = ''x'' @ ''a1.policy_instance.20000.'' @ ''y''"

theorem query_with_missing_instance_ends_thread_witness:
  "\<not> rmr_alive (loop_round py_mem [(A1_POLICY_QUERY, encode_struct [(''policy_type_id'', JNumber ''20000'')])]
     (py_after [py_sample_put py_strange_id]))"
proof -
  let ?s1 = "py_after [py_sample_put py_strange_id]"
  have put: "http_create_or_replace_policy_instance py_mem 20000 py_strange_id (JObject [(''threshold'', JNumber ''5'')]) py_sample_system
      = (Inr (EmptyBody, 202), ?s1)"
    by code_simp
  have shown: "shown_id (int_str 20000) py_strange_id = ''x''" by code_simp
  have missing: "\<not> instance_there (mem_contents (world ?s1)) (int_str 20000) ''x''" by code_simp
  have "py_loads (encode_struct [(''policy_type_id'', JNumber ''20000'')]) = Inr (JObject [(''policy_type_id'', path_id 20000)])"
    "py_item (JObject [(''policy_type_id'', path_id 20000)]) ''policy_type_id'' = Inr (path_id 20000)"
    by code_simp+
  from query_with_missing_instance_ends_thread [OF py_mem_laws put shown missing this] show ?thesis .
qed

end
