(* ===== verification/Spec2Isabelle.thy ===== *)
theory Spec2Isabelle
  imports UrlBuilders CreateRace Run Specification PyMessages
begin

text \<open>
  The A1 mediator of the near-RT RIC: a REST service that keeps A1 policy types in the shared data
  layer (SDL). The repository holds it twice, in Go (\<open>src/a1-go\<close>) and, older and with policy instances
  as well, in Python (\<open>src/a1\<close>), and an xApp that the integration tests run against it
  (\<open>src/integration_tests/testxappcode/receiver.go\<close>). The development models the Go program under
  \<open>src/a1-go/pkg\<close>, hand-written and generated, the Python program and the xApp, and proves what makes
  them correct.

  The Go program. A request enters the HTTP server (\<open>restapi/server.go\<close>), is routed by go-openapi's
  middleware to one of eleven operations (\<open>restapi/operations\<close>), bound and validated
  (\<open>*_parameters.go\<close>, \<open>models\<close>), handled (\<open>restful/restful.go\<close>) and answered (\<open>*_responses.go\<close>).
  Three operations are implemented, on top of the hooks of \<open>resthooks/resthooks.go\<close>: create a
  policy type, read one, list all. A policy type is stored as its JSON text under the key
  \<open>a1.policy_type.<id>\<close> of the namespace \<open>A1m_ns\<close>.

  The Python program. A request is handled in \<open>controller.py\<close> by the functions of \<open>data.py\<close>, which keep
  types, instances, their metadata and the statuses the xApps report under keys with dots in the same
  namespace. What the xApps have to be told is queued; the thread of \<open>a1rmr.py\<close> sends it over RMR,
  reads the messages of the xApps and answers them. An instance that is deleted goes later, in a
  thread of its own.

  The theories, and what they model:
  \<^item> \<open>A1_Prelude\<close>: Go errors, panics, 64-bit integers; collections of facts.
  \<^item> \<open>GoStrings\<close>, \<open>GoPath\<close>: what the code uses of \<open>strings\<close>, \<open>strconv\<close>, \<open>path\<close> and \<open>net/url\<close>.
  \<^item> \<open>Json\<close>, \<open>JsonRoundtrip\<close>: \<open>encoding/json\<close>, encoder and decoder on bytes; decoding an encoded
    value gives it back. The decoder runs with fuel \<open>2 * length s + 2\<close>: each call of
    the grammar consumes a byte or is followed by one that does; \<open>parse_json_encode\<close> shows it is
    enough for every text the encoder makes of a value within Go's limit of 10000 levels.
  \<^item> \<open>Models\<close>: \<open>pkg/models\<close> and the body of the status response; go-openapi's \<open>validate\<close>, \<open>errors\<close>
    and \<open>swag\<close> as the record \<open>openapi\<close> with the laws \<open>openapi_laws\<close>.
  \<^item> \<open>Sdl\<close>: the interface \<open>iSdl\<close> of \<open>resthooks/types.go\<close>, its laws \<open>sdl_laws\<close>, and a storage in
    memory that satisfies them.
  \<^item> \<open>Resthooks\<close>: the hooks; the registry the storage represents (\<open>registry\<close>), its invariant
    (\<open>store_ok\<close>), the contract \<open>type_registry\<close> and its proof for the hooks.
  \<^item> \<open>Parameters\<close>, \<open>Responses\<close>, \<open>UrlBuilders\<close>: the generated code of the operations, each with
    its contract as a locale (\<open>type_id_binder\<close>, \<open>responder\<close>, \<open>url_builder\<close>), interpreted for
    every operation.
  \<^item> \<open>Operations\<close>: \<open>ServeHTTP\<close> of the operations over a middleware context that is a parameter;
    contract \<open>operation\<close>.
  \<^item> \<open>A1Api\<close>: \<open>a1_api.go\<close> and \<open>configure_a1.go\<close>: registrations, codecs, the cache of handlers.
  \<^item> \<open>Restful\<close>: \<open>restful.go\<close>: the handlers and the properties of the service from request to
    response; \<open>Mediator\<close>: the API object with these handlers, brought into service.
  \<^item> \<open>Machines\<close>: transition systems and their contracts (invariant, work) for the parts where
    goroutines interleave; \<open>CreateRace\<close>: concurrent PUT requests, which share the closure variable
    \<open>err\<close> of \<open>setupHandler\<close>.
  \<^item> \<open>Server\<close>, \<open>Serving\<close>: \<open>restapi/server.go\<close>, its data, \<open>Listen\<close> (contract \<open>listen_part\<close> of its three
    parts over the sockets, \<open>socket_laws\<close>) and \<open>Serve\<close> up to the goroutines it starts; \<open>Shutdown\<close>:
    what those goroutines do until \<open>Serve\<close> returns, as a machine with its invariants and its
    measure of work; \<open>Run\<close>: \<open>Run\<close> and \<open>main\<close>, the service as a whole.
  \<^item> \<open>EmbeddedSpec\<close>, \<open>EmbeddedFlat\<close>: the documents of \<open>restapi/embedded_spec.go\<close>; \<open>Specification\<close>: the
    generated code agrees with them.
  \<^item> \<open>Receiver\<close>: \<open>receiver.go\<close>, its handlers and the program as a machine, with the invariant of its
    buffers and answers.
  \<^item> \<open>PyData\<close>: \<open>a1/data.py\<close> and \<open>a1/exceptions.py\<close>; \<open>PyService\<close>: \<open>a1/controller.py\<close>, \<open>a1/messages.py\<close> and the
    work of the thread of \<open>a1/a1rmr.py\<close>; \<open>PyJson\<close>: Python's \<open>json.dumps\<close> reads back.
  \<^item> \<open>PyStore\<close>: the laws \<open>py_laws\<close> of the storage under the Python program, triples over its contents,
    and the storage in memory \<open>py_mem\<close>; \<open>PyPolicies\<close>: a rule for each function of \<open>data.py\<close> and for
    each handler.
  \<^item> \<open>PyRuns\<close>: the Python program as a machine, the contract \<open>store_invariant\<close> of what all its writes
    keep, and \<open>kept\<close>, by which every run keeps it, for two invariants; \<open>PyProperties\<close>, \<open>PyMessages\<close>: the
    properties of requests, runs and messages.

  How to read it. A Go function is a definition of (nearly) the same name; a method takes its
  receiver as an argument and returns it updated; a function that touches the storage takes its
  state and returns the new one. A pointer is an option, a panic a value of \<open>outcome\<close>, an error an
  option of \<open>go_error\<close>. A Python function is a computation \<open>('s, 'a) py\<close>: from a state to a value or an
  exception, and the next state. Code outside the repository (SDL, go-openapi, RMR) is a record of
  functions, an argument of the definitions that use it; what the proofs need of it are the laws of a
  locale, each shown to be satisfiable by an instance (\<open>std_openapi\<close>, \<open>mem_sdl\<close>, \<open>sample_ctx\<close>,
  \<open>sample_os\<close>, \<open>py_mem\<close>).

  What the lemmas show. \<open>Resthooks\<close>, \<open>Restful\<close> and \<open>Mediator\<close>: the service refines a registry of
  policy types, whatever requests arrive; \<open>CreateRace\<close>: what remains of that when requests
  interleave. \<open>Parameters\<close>, \<open>Operations\<close> and \<open>Responses\<close>: only valid identifiers reach a handler and
  every response sends its status once. \<open>A1Api\<close> and \<open>Specification\<close>: the routes, status codes and
  ranges are those of the specification. \<open>Server\<close>, \<open>Serving\<close>, \<open>Shutdown\<close>, \<open>Run\<close>: what is listened on
  and served, and that the service stops when told to. A run of the machine of \<open>Shutdown\<close> with \<open>n\<close>
  servers and \<open>k\<close> callers has at most \<open>2 k + 7 n + 7\<close> steps and 6 more per signal; one of \<open>CreateRace\<close>
  at most five per request.
  \<open>PyPolicies\<close> gives each function of \<open>data.py\<close> its postcondition over the contents of the namespace,
  exceptions included; \<open>PyProperties\<close> what a request does, what every run of the mediator keeps, and
  what comes of a request that arrives before a deletion is done; \<open>PyMessages\<close> that the mediator
  survives what the xApps report, and that the mediator and the xApp of the tests understand each
  other. A sender's loop has at most \<open>RETRY_TIMES\<close> rounds and the threads are lists of accesses, so
  nothing there needs fuel but the decoder of JSON.

  What is not modelled. Of \<open>a1/a1.go\<close> only \<open>a1_Init\<close>, the level it sets; the calls that log change
  nothing the program reads and are left out, and so are the counters of the Python program. The
  JSON text of the embedded specification (it is given as JSON values); routing
  inside go-openapi's middleware and content negotiation, sockets, files, certificates and the
  inside of \<open>net/http\<close>, which are parameters. Time does not pass in the machines: that shutting a
  server down returns, because its context has a timeout, is what \<open>net/http\<close> documents. One logging
  call of \<open>GetPolicyType\<close> names a variable that does not exist, so the file as it stands does not
  compile; the model reads it without that call. Of the Python program: what \<open>connexion\<close> checks
  against \<open>a1/openapi.yaml\<close> before a handler runs, so the model admits more requests than arrive; what
  \<open>json.loads\<close> reads beyond JSON in UTF-8; and \<open>run.py\<close> and \<open>__init__.py\<close>, which start the threads. A
  request, a batch of messages and the emptying of the queues are one step each of the machine of
  \<open>PyRuns\<close>: the workers of the web server do not preempt each other, but the RMR thread and a sender
  may run in between the accesses of a request, which is left out. The threads that delete an
  instance are split into their accesses to the storage.
\<close>

end
